(* ===== verification/Rust_Prelude.thy ===== *)
theory Rust_Prelude
  imports Main "HOL-Library.Word"
begin

unbundle bit_operations_syntax

text \<open>
  Prelude of the development: the parts of Rust and of its standard library the components
  share. Results (\<open>Result\<close>, the \<open>?\<close> operator, panics), bytes and fixed-width integers,
  big-endian byte strings, \<open>std::io::Cursor\<close>, and the loops over vectors that stop at the
  first error. The named collections below carry the proofs of the components.

  Integers are words of their width, so \<open>+\<close>, \<open>-\<close> and \<open>*\<close> wrap around, which is what
  the release profile of the workspace does (Cargo.toml sets no overflow checks); division and
  remainder by zero panic in every profile and are a \<open>Panic\<close> branch of the model. Lengths,
  indices and shard numbers (\<open>usize\<close>) are natural numbers.
\<close>

named_theorems result_simps \<open>rewriting of results and of the question-mark operator\<close>
named_theorems wire_bytes \<open>what each encoder appends\<close>
named_theorems wire_iff \<open>decoders as inverses of encoders\<close>

type_synonym byte = "8 word"
type_synonym bytes = "8 word list"
type_synonym u8 = "8 word"
type_synonym u16 = "16 word"
type_synonym u32 = "32 word"
type_synonym u64 = "64 word"
type_synonym u128 = "128 word"
type_synonym usize = nat

section \<open>Results\<close>

text \<open>
  \<open>Ok\<close> and \<open>Err\<close> are the constructors of \<open>Result\<close>; \<open>Panic\<close> is a call that unwinds
  instead of returning (a failed \<open>unwrap\<close>, a slice out of range, a division by zero).
\<close>

datatype ('a, 'e) result = Ok 'a | Err 'e | Panic

fun and_then :: "('a, 'e) result \<Rightarrow> ('a \<Rightarrow> ('b, 'e) result) \<Rightarrow> ('b, 'e) result" where
  "and_then (Ok x) f = f x"
| "and_then (Err e) f = Err e"
| "and_then Panic f = Panic"

fun map_err :: "('e \<Rightarrow> 'd) \<Rightarrow> ('a, 'e) result \<Rightarrow> ('a, 'd) result" where
  "map_err g (Ok x) = Ok x"
| "map_err g (Err e) = Err (g e)"
| "map_err g Panic = Panic"

fun ok_or :: "'a option \<Rightarrow> 'e \<Rightarrow> ('a, 'e) result" where
  "ok_or (Some x) e = Ok x"
| "ok_or None e = Err e"

fun is_ok :: "('a, 'e) result \<Rightarrow> bool" where
  "is_ok (Ok x) = True"
| "is_ok _ = False"

text \<open>A loop over a vector whose body may leave with an error.\<close>

fun try_fold :: "('s \<Rightarrow> 'a \<Rightarrow> ('s, 'e) result) \<Rightarrow> 's \<Rightarrow> 'a list \<Rightarrow> ('s, 'e) result" where
  "try_fold f s [] = Ok s"
| "try_fold f s (x # xs) = and_then (f s x) (\<lambda>s'. try_fold f s' xs)"

text \<open>Collecting an iterator of results into a result of a vector.\<close>

fun try_map :: "('a \<Rightarrow> ('b, 'e) result) \<Rightarrow> 'a list \<Rightarrow> ('b list, 'e) result" where
  "try_map f [] = Ok []"
| "try_map f (x # xs) = and_then (f x) (\<lambda>y. and_then (try_map f xs) (\<lambda>ys. Ok (y # ys)))"

section \<open>Cursors\<close>

text \<open>
  \<open>std::io::Cursor<&[u8]>\<close>: the whole buffer and the read position. \<open>read_exact\<close> with a
  buffer of \<open>n\<close> bytes either returns the next \<open>n\<close> bytes or fails with an I/O error.
\<close>

record cursor =
  get_ref :: bytes
  position :: nat

definition cursor_new :: "bytes \<Rightarrow> cursor" where
  "cursor_new bs = \<lparr>get_ref = bs, position = 0\<rparr>"

definition read_exact :: "'e \<Rightarrow> nat \<Rightarrow> cursor \<Rightarrow> (bytes \<times> cursor, 'e) result" where
  "read_exact io n c =
     (if position c + n \<le> length (get_ref c)
      then Ok (take n (drop (position c) (get_ref c)), c\<lparr>position := position c + n\<rparr>)
      else Err io)"

text \<open>\<open>reads c w c'\<close>: the bytes \<open>w\<close> stand at the cursor, and \<open>c'\<close> is just behind them.\<close>

definition reads :: "cursor \<Rightarrow> bytes \<Rightarrow> cursor \<Rightarrow> bool" where
  "reads c w c' \<longleftrightarrow>
     position c + length w \<le> length (get_ref c) \<and>
     take (length w) (drop (position c) (get_ref c)) = w \<and>
     c' = c\<lparr>position := position c + length w\<rparr>"

section \<open>Big-endian byte strings\<close>

text \<open>\<open>to_be_bytes\<close> of the unsigned integer types, for a width of \<open>n\<close> bytes.\<close>

fun be_bytes :: "nat \<Rightarrow> nat \<Rightarrow> bytes" where
  "be_bytes 0 v = []"
| "be_bytes (Suc n) v = be_bytes n (v div 256) @ [of_nat v]"

fun be_value :: "nat \<Rightarrow> bytes \<Rightarrow> nat" where
  "be_value acc [] = acc"
| "be_value acc (b # bs) = be_value (acc * 256 + unat b) bs"

definition u16_to_be_bytes :: "u16 \<Rightarrow> bytes" where
  "u16_to_be_bytes w = be_bytes 2 (unat w)"

definition u32_to_be_bytes :: "u32 \<Rightarrow> bytes" where
  "u32_to_be_bytes w = be_bytes 4 (unat w)"

definition u64_to_be_bytes :: "u64 \<Rightarrow> bytes" where
  "u64_to_be_bytes w = be_bytes 8 (unat w)"

section \<open>Facts about results\<close>

lemma and_then_Ok_iff [result_simps, simp]:
  "and_then r f = Ok y \<longleftrightarrow> (\<exists>x. r = Ok x \<and> f x = Ok y)"
  by (cases r) auto

lemma and_then_Err_iff [result_simps]:
  "and_then r f = Err e \<longleftrightarrow> r = Err e \<or> (\<exists>x. r = Ok x \<and> f x = Err e)"
  by (cases r) auto

lemma and_then_Panic_iff [result_simps]:
  "and_then r f = Panic \<longleftrightarrow> r = Panic \<or> (\<exists>x. r = Ok x \<and> f x = Panic)"
  by (cases r) auto

lemma if_Ok_iff [result_simps]:
  "(if b then r else s) = Ok x \<longleftrightarrow> b \<and> r = Ok x \<or> \<not> b \<and> s = Ok x"
  by simp

lemma and_then_assoc:
  "and_then (and_then r f) g = and_then r (\<lambda>x. and_then (f x) g)"
  by (cases r) auto

lemma and_then_cong [fundef_cong]:
  "r = r' \<Longrightarrow> (\<And>x. r' = Ok x \<Longrightarrow> f x = g x) \<Longrightarrow> and_then r f = and_then r' g"
  by (cases r') auto

lemma map_err_Ok_iff [result_simps, simp]: "map_err g r = Ok x \<longleftrightarrow> r = Ok x"
  by (cases r) auto

lemma map_err_Panic_iff [result_simps, simp]: "map_err g r = Panic \<longleftrightarrow> r = Panic"
  by (cases r) auto

lemma map_err_Err_iff [result_simps, simp]:
  "map_err g r = Err e \<longleftrightarrow> (\<exists>d. r = Err d \<and> e = g d)"
  by (cases r) auto

lemma ok_or_Ok_iff [result_simps, simp]: "ok_or x e = Ok y \<longleftrightarrow> x = Some y"
  by (cases x) auto

lemma ok_or_Err_iff [result_simps, simp]: "ok_or x e = Err d \<longleftrightarrow> x = None \<and> d = e"
  by (cases x) auto

lemma ok_or_not_Panic [result_simps, simp]: "ok_or x e \<noteq> Panic"
  by (cases x) auto

lemma is_ok_iff: "is_ok r \<longleftrightarrow> (\<exists>x. r = Ok x)"
  by (cases r) auto

lemma try_fold_append:
  "try_fold f s (xs @ ys) = and_then (try_fold f s xs) (\<lambda>s'. try_fold f s' ys)"
  by (induction xs arbitrary: s) (auto simp: and_then_assoc)

lemma try_fold_invariant:
  assumes "try_fold f s xs = Ok s'" and "I s"
    and "\<And>t x t'. x \<in> set xs \<Longrightarrow> I t \<Longrightarrow> f t x = Ok t' \<Longrightarrow> I t'"
  shows "I s'"
  using assms
proof (induction xs arbitrary: s)
  case Nil
  then show ?case by simp
next
  case (Cons x xs)
  from Cons.prems(1) obtain t where t: "f s x = Ok t" "try_fold f t xs = Ok s'"
    by auto
  have "I t"
    using Cons.prems(2,3) t(1) by auto
  with t(2) show ?case
    using Cons.IH Cons.prems(3) by auto
qed

lemma try_map_Ok_iff:
  "try_map f xs = Ok ys \<longleftrightarrow> list_all2 (\<lambda>x y. f x = Ok y) xs ys"
  by (induction xs arbitrary: ys) (auto simp: list_all2_Cons1)

lemma try_map_append:
  "try_map f (xs @ ys) = Ok zs \<longleftrightarrow> (\<exists>us vs. try_map f xs = Ok us \<and> try_map f ys = Ok vs \<and> zs = us @ vs)"
  by (induction xs arbitrary: zs) fastforce+

lemma try_map_length: "try_map f xs = Ok ys \<Longrightarrow> length ys = length xs"
  by (auto simp: try_map_Ok_iff dest: list_all2_lengthD)

section \<open>Facts about cursors\<close>

lemma reads_Nil [simp]: "reads c [] c' \<longleftrightarrow> c' = c \<and> position c \<le> length (get_ref c)"
  by (auto simp: reads_def)

lemma reads_det: "reads c w c1 \<Longrightarrow> reads c w c2 \<Longrightarrow> c1 = c2"
  by (simp add: reads_def)

lemma reads_same_length: "reads c w c1 \<Longrightarrow> reads c v c2 \<Longrightarrow> length w = length v \<Longrightarrow> w = v"
  by (auto simp: reads_def)

lemma reads_append:
  "reads c (u @ v) c'' \<longleftrightarrow> (\<exists>c'. reads c u c' \<and> reads c' v c'')"
proof
  assume r: "reads c (u @ v) c''"
  let ?rest = "drop (position c) (get_ref c)"
  from r have "take (length u + length v) ?rest = u @ v"
    by (simp add: reads_def)
  then have "take (length u) (take (length u + length v) ?rest) = u"
    and "drop (length u) (take (length u + length v) ?rest) = v"
    by auto
  then have "take (length u) ?rest = u"
    and "take (length v) (drop (length u) ?rest) = v"
    by (auto simp: drop_take)
  with r show "\<exists>c'. reads c u c' \<and> reads c' v c''"
    by (intro exI [of _ "c\<lparr>position := position c + length u\<rparr>"])
       (auto simp: reads_def add.commute)
next
  assume "\<exists>c'. reads c u c' \<and> reads c' v c''"
  then obtain c' where "reads c u c'" "reads c' v c''" by blast
  then show "reads c (u @ v) c''"
    by (auto simp: reads_def take_add add.commute add.left_commute)
qed

lemma reads_new_whole: "reads (cursor_new w) w c \<longleftrightarrow> c = \<lparr>get_ref = w, position = length w\<rparr>"
  by (auto simp: reads_def cursor_new_def)

lemma reads_from_new_to_end:
  "reads (cursor_new w) v ((cursor_new w)\<lparr>position := length (get_ref (cursor_new w))\<rparr>) \<longleftrightarrow> v = w"
proof
  assume r: "reads (cursor_new w) v ((cursor_new w)\<lparr>position := length (get_ref (cursor_new w))\<rparr>)"
  then have "length v = length w" and "take (length v) w = v"
    by (simp_all add: reads_def cursor_new_def)
  then show "v = w"
    by (metis take_all order_refl)
qed (simp add: reads_def cursor_new_def)

lemma read_exact_Ok_iff [wire_iff]:
  "read_exact io n c = Ok (w, c') \<longleftrightarrow> length w = n \<and> reads c w c'"
  by (auto simp: read_exact_def reads_def)

lemma read_exact_not_Panic [simp]: "read_exact io n c \<noteq> Panic"
  by (simp add: read_exact_def)

section \<open>Facts about big-endian byte strings\<close>

lemma length_be_bytes [simp]: "length (be_bytes n v) = n"
  by (induction n arbitrary: v) auto

lemma be_value_append: "be_value acc (xs @ ys) = be_value (be_value acc xs) ys"
  by (induction xs arbitrary: acc) auto

lemma be_value_acc: "be_value acc bs = acc * 256 ^ length bs + be_value 0 bs"
proof (induction bs arbitrary: acc)
  case Nil
  then show ?case by simp
next
  case (Cons b bs)
  have "be_value acc (b # bs) = (acc * 256 + unat b) * 256 ^ length bs + be_value 0 bs"
    using Cons.IH [of "acc * 256 + unat b"] by simp
  moreover have "be_value 0 (b # bs) = unat b * 256 ^ length bs + be_value 0 bs"
    using Cons.IH [of "unat b"] by simp
  ultimately show ?case
    by (simp add: algebra_simps)
qed

lemma be_value_be_bytes: "be_value 0 (be_bytes n v) = v mod 256 ^ n"
proof (induction n arbitrary: v)
  case 0
  then show ?case by simp
next
  case (Suc n)
  have "be_value 0 (be_bytes (Suc n) v) = (v div 256 mod 256 ^ n) * 256 + v mod 256"
    by (simp add: be_value_append Suc.IH unat_of_nat)
  also have "\<dots> = v mod (256 * 256 ^ n)"
    by (simp add: mod_mult2_eq)
  finally show ?case by simp
qed

lemma be_value_less: "be_value 0 bs < 256 ^ length bs"
proof (induction bs)
  case Nil
  then show ?case by simp
next
  case (Cons b bs)
  have "unat b < 256"
    using unsigned_less [of b, where ?'a = nat] by simp
  then have le: "Suc (unat b) * 256 ^ length bs \<le> 256 * 256 ^ length bs"
    by (intro mult_right_mono) auto
  have "be_value 0 (b # bs) = unat b * 256 ^ length bs + be_value 0 bs"
    using be_value_acc [of "unat b" bs] by simp
  also have "\<dots> < Suc (unat b) * 256 ^ length bs"
    using Cons.IH by simp
  also note le
  finally show ?case by simp
qed

lemma be_bytes_be_value: "length bs = n \<Longrightarrow> be_bytes n (be_value 0 bs) = bs"
proof (induction n arbitrary: bs)
  case 0
  then show ?case by simp
next
  case (Suc n)
  then obtain as b where bs: "bs = as @ [b]" "length as = n"
    by (metis length_append_singleton nat.inject rev_exhaust length_0_conv nat.distinct(1))
  have b: "unat b < 256"
    using unsigned_less [of b, where ?'a = nat] by simp
  have v: "be_value 0 bs = be_value 0 as * 256 + unat b"
    by (simp add: bs be_value_append)
  then have "be_value 0 bs div 256 = be_value 0 as"
    using b by simp
  moreover have "unat (of_nat (be_value 0 bs) :: byte) = unat b"
    using b unfolding v unat_of_nat by simp
  then have "(of_nat (be_value 0 bs) :: byte) = b"
    by (simp add: word_unat_eq_iff)
  ultimately show ?case
    using Suc.IH [of as] bs by simp
qed

lemma length_u16_to_be_bytes [simp]: "length (u16_to_be_bytes w) = 2"
  by (simp add: u16_to_be_bytes_def)

lemma length_u32_to_be_bytes [simp]: "length (u32_to_be_bytes w) = 4"
  by (simp add: u32_to_be_bytes_def)

lemma length_u64_to_be_bytes [simp]: "length (u64_to_be_bytes w) = 8"
  by (simp add: u64_to_be_bytes_def)

lemma to_be_bytes_not_Nil [simp]:
  "u16_to_be_bytes a \<noteq> []" "u32_to_be_bytes b \<noteq> []" "u64_to_be_bytes d \<noteq> []"
  using length_u16_to_be_bytes [of a] length_u32_to_be_bytes [of b] length_u64_to_be_bytes [of d]
  by (metis list.size(3) zero_neq_numeral)+

lemmas Nil_not_to_be_bytes [simp] = to_be_bytes_not_Nil [symmetric]

lemma be_value_u16 [simp]: "be_value 0 (u16_to_be_bytes w) = unat w"
  using unsigned_less [of w, where ?'a = nat] by (simp add: u16_to_be_bytes_def be_value_be_bytes)

lemma be_value_u32 [simp]: "be_value 0 (u32_to_be_bytes w) = unat w"
  using unsigned_less [of w, where ?'a = nat] by (simp add: u32_to_be_bytes_def be_value_be_bytes)

lemma be_value_u64 [simp]: "be_value 0 (u64_to_be_bytes w) = unat w"
  using unsigned_less [of w, where ?'a = nat] by (simp add: u64_to_be_bytes_def be_value_be_bytes)

lemma u16_to_be_bytes_inject [simp]: "u16_to_be_bytes a = u16_to_be_bytes b \<longleftrightarrow> a = b"
  by (metis be_value_u16 word_unat_eq_iff)

lemma u32_to_be_bytes_inject [simp]: "u32_to_be_bytes a = u32_to_be_bytes b \<longleftrightarrow> a = b"
  by (metis be_value_u32 word_unat_eq_iff)

lemma u64_to_be_bytes_inject [simp]: "u64_to_be_bytes a = u64_to_be_bytes b \<longleftrightarrow> a = b"
  by (metis be_value_u64 word_unat_eq_iff)

lemma u16_to_be_bytes_of_value:
  "length bs = 2 \<Longrightarrow> u16_to_be_bytes (of_nat (be_value 0 bs)) = bs"
  using be_value_less [of bs] by (simp add: u16_to_be_bytes_def be_bytes_be_value unat_of_nat)

lemma u32_to_be_bytes_of_value:
  "length bs = 4 \<Longrightarrow> u32_to_be_bytes (of_nat (be_value 0 bs)) = bs"
  using be_value_less [of bs] by (simp add: u32_to_be_bytes_def be_bytes_be_value unat_of_nat)

lemma u64_to_be_bytes_of_value:
  "length bs = 8 \<Longrightarrow> u64_to_be_bytes (of_nat (be_value 0 bs)) = bs"
  using be_value_less [of bs] by (simp add: u64_to_be_bytes_def be_bytes_be_value unat_of_nat)

end
