(* ===== verification/Codec.thy ===== *)
theory Codec
  imports Rust_Prelude
begin

text \<open>
  Byte-level codec layer of crates/daphne/src/messages/mod.rs: the length-prefixed byte strings
  (\<open>encode_u16_bytes\<close> and its kin), the length-prefixed sections written by the macro
  \<open>make_encode_len_prefixed\<close> and read by \<open>decode_u16_prefixed\<close>, and \<open>constant_time_eq\<close>.

  The integer codecs, the item vectors and \<open>get_encoded\<close> come from the external crate
  \<open>prio\<close> (\<open>prio::codec\<close>). They are parameters of the model, the fields of the record
  \<open>prio_codec\<close>, and what the code relies on is stated by the locale \<open>prio_codec_laws\<close>:
  integers are in network byte order, an item vector is the length of its body followed by the
  encoded items. The contract between a message's encoder and decoder is the locale
  \<open>wire_codec\<close>; its lemmas (round trip, injectivity, prefix freedom) are proved once there.
\<close>

section \<open>The protocol version\<close>

datatype DapVersion = Draft09 | Latest

section \<open>Parameters: the external crate prio::codec\<close>

datatype codec_error =
    Io
  | BytesLeftOver usize
  | LengthPrefixTooBig usize
  | UnexpectedValue
  | Other string

type_synonym encoder = "bytes \<Rightarrow> (bytes, codec_error) result"
type_synonym 'a decoder = "cursor \<Rightarrow> ('a \<times> cursor, codec_error) result"

text \<open>
  An encoder gets the output vector and returns it extended. An item encoder of
  \<open>encode_u16_items\<close> is the item's \<open>encode\<close> method applied to the item.
\<close>

record prio_codec =
  u8_encode :: "u8 \<Rightarrow> encoder"
  u16_encode :: "u16 \<Rightarrow> encoder"
  u32_encode :: "u32 \<Rightarrow> encoder"
  u64_encode :: "u64 \<Rightarrow> encoder"
  u8_decode :: "u8 decoder"
  u16_decode :: "u16 decoder"
  u32_decode :: "u32 decoder"
  u64_decode :: "u64 decoder"
  encode_u8_items :: "encoder list \<Rightarrow> encoder"
  encode_u16_items :: "encoder list \<Rightarrow> encoder"
  encode_u32_items :: "encoder list \<Rightarrow> encoder"
  get_encoded :: "encoder \<Rightarrow> (bytes, codec_error) result"

section \<open>Length-prefixed byte strings\<close>

definition encode_u16_bytes :: "'z prio_codec_scheme \<Rightarrow> bytes \<Rightarrow> bytes \<Rightarrow> (bytes, codec_error) result" where
  "encode_u16_bytes P bytes input =
     (if length input < 2 ^ 16
      then and_then (u16_encode P (of_nat (length input)) bytes) (\<lambda>bytes'. Ok (bytes' @ input))
      else Err (LengthPrefixTooBig (length input)))"

definition decode_u16_bytes :: "'z prio_codec_scheme \<Rightarrow> bytes decoder" where
  "decode_u16_bytes P c =
     and_then (u16_decode P c) (\<lambda>(len, c'). read_exact Io (unat len) c')"

definition encode_u32_bytes :: "'z prio_codec_scheme \<Rightarrow> bytes \<Rightarrow> bytes \<Rightarrow> (bytes, codec_error) result" where
  "encode_u32_bytes P bytes input =
     (if length input < 2 ^ 32
      then and_then (u32_encode P (of_nat (length input)) bytes) (\<lambda>bytes'. Ok (bytes' @ input))
      else Err (LengthPrefixTooBig (length input)))"

definition decode_u32_bytes :: "'z prio_codec_scheme \<Rightarrow> bytes decoder" where
  "decode_u32_bytes P c =
     and_then (u32_decode P c) (\<lambda>(len, c'). read_exact Io (unat len) c')"

section \<open>Length-prefixed sections\<close>

text \<open>
  The macro reserves the prefix, runs the closure, and patches the prefix with the number of
  bytes the closure wrote. A section too long for the prefix fails the \<open>unwrap\<close>.
\<close>

definition encode_u16_prefixed ::
  "'z prio_codec_scheme \<Rightarrow> DapVersion \<Rightarrow> bytes \<Rightarrow> (DapVersion \<Rightarrow> encoder) \<Rightarrow> (bytes, codec_error) result" where
  "encode_u16_prefixed P version bytes e =
     (let len_offset = length bytes in
      and_then (u16_encode P 0 bytes) (\<lambda>bytes1.
      and_then (e version bytes1) (\<lambda>bytes2.
        if len_offset + 2 \<le> length bytes2 \<and> length bytes2 - len_offset - 2 < 2 ^ 16
        then Ok (take len_offset bytes2
                 @ u16_to_be_bytes (of_nat (length bytes2 - len_offset - 2))
                 @ drop (len_offset + 2) bytes2)
        else Panic)))"

definition encode_u32_prefixed ::
  "'z prio_codec_scheme \<Rightarrow> DapVersion \<Rightarrow> bytes \<Rightarrow> (DapVersion \<Rightarrow> encoder) \<Rightarrow> (bytes, codec_error) result" where
  "encode_u32_prefixed P version bytes e =
     (let len_offset = length bytes in
      and_then (u32_encode P 0 bytes) (\<lambda>bytes1.
      and_then (e version bytes1) (\<lambda>bytes2.
        if len_offset + 4 \<le> length bytes2 \<and> length bytes2 - len_offset - 4 < 2 ^ 32
        then Ok (take len_offset bytes2
                 @ u32_to_be_bytes (of_nat (length bytes2 - len_offset - 4))
                 @ drop (len_offset + 4) bytes2)
        else Panic)))"

text \<open>
  The slice \<open>get_ref()[item_start..item_end]\<close> panics when the prefix points behind the end of
  the buffer: nothing before it compares \<open>item_end\<close> with the length of the buffer. The
  \<open>checked_add\<close> cannot fail, because a position and a 16-bit length always fit \<open>usize\<close>.
\<close>

definition decode_u16_prefixed ::
  "'z prio_codec_scheme \<Rightarrow> DapVersion \<Rightarrow> cursor \<Rightarrow>
   (DapVersion \<Rightarrow> cursor \<Rightarrow> usize option \<Rightarrow> ('o \<times> cursor, codec_error) result) \<Rightarrow>
   ('o \<times> cursor, codec_error) result" where
  "decode_u16_prefixed P version bytes d =
     and_then (u16_decode P bytes) (\<lambda>(prefix, c1).
       let len = unat prefix;
           item_start = position c1;
           item_end = item_start + len
       in if item_end \<le> length (get_ref c1)
          then and_then (d version (cursor_new (take len (drop item_start (get_ref c1)))) (Some len))
                 (\<lambda>(decoded, inner).
                    let num_bytes_left_over = item_end - item_start - position inner
                    in if num_bytes_left_over > 0 then Err (BytesLeftOver num_bytes_left_over)
                       else Ok (decoded, c1\<lparr>position := item_end\<rparr>))
          else Panic)"

section \<open>Comparison in constant time\<close>

definition constant_time_eq :: "bytes \<Rightarrow> bytes \<Rightarrow> bool" where
  "constant_time_eq left right =
     (if length left \<noteq> length right then False
      else fold (\<lambda>(x, y) r. r OR (x XOR y)) (zip left right) (0 :: u8) = 0)"

section \<open>Vocabulary of the contracts\<close>

text \<open>
  \<open>appends e w\<close>: the encoder writes exactly \<open>w\<close>, whatever the vector holds already.
  \<open>append_only e\<close>: wherever the encoder succeeds at all, it appends the same bytes everywhere.
\<close>

definition appends :: "encoder \<Rightarrow> bytes \<Rightarrow> bool" where
  "appends e w \<longleftrightarrow> (\<forall>bs. e bs = Ok (bs @ w))"

definition append_only :: "encoder \<Rightarrow> bool" where
  "append_only e \<longleftrightarrow> (\<forall>bs out. e bs = Ok out \<longrightarrow> (\<exists>w. out = bs @ w \<and> appends e w))"

text \<open>\<open>matches e c c'\<close>: what lies between the cursors is what the encoder writes.\<close>

definition matches :: "encoder \<Rightarrow> cursor \<Rightarrow> cursor \<Rightarrow> bool" where
  "matches e c c' \<longleftrightarrow> (\<exists>w. appends e w \<and> reads c w c')"

text \<open>
  What a vector decoder does with the bytes of the body: it runs the item decoder until the
  cursor is at the end.
\<close>

fun decodes_all :: "'a decoder \<Rightarrow> cursor \<Rightarrow> 'a list \<Rightarrow> bool" where
  "decodes_all dec c [] \<longleftrightarrow> length (get_ref c) \<le> position c"
| "decodes_all dec c (x # xs) \<longleftrightarrow>
     position c < length (get_ref c) \<and> (\<exists>c'. dec c = Ok (x, c') \<and> decodes_all dec c' xs)"

definition decodes_u8_items :: "('a decoder \<Rightarrow> 'a list decoder) \<Rightarrow> bool" where
  "decodes_u8_items items \<longleftrightarrow>
     (\<forall>dec c xs c'. items dec c = Ok (xs, c') \<longleftrightarrow>
        (\<exists>body. length body < 2 ^ 8 \<and> reads c (of_nat (length body) # body) c' \<and>
                decodes_all dec (cursor_new body) xs)) \<and>
     (\<forall>dec c. (\<forall>c'. dec c' \<noteq> Panic) \<longrightarrow> items dec c \<noteq> Panic)"

definition decodes_u16_items :: "('a decoder \<Rightarrow> 'a list decoder) \<Rightarrow> bool" where
  "decodes_u16_items items \<longleftrightarrow>
     (\<forall>dec c xs c'. items dec c = Ok (xs, c') \<longleftrightarrow>
        (\<exists>body. length body < 2 ^ 16 \<and>
                reads c (u16_to_be_bytes (of_nat (length body)) @ body) c' \<and>
                decodes_all dec (cursor_new body) xs)) \<and>
     (\<forall>dec c. (\<forall>c'. dec c' \<noteq> Panic) \<longrightarrow> items dec c \<noteq> Panic)"

definition decodes_u32_items :: "('a decoder \<Rightarrow> 'a list decoder) \<Rightarrow> bool" where
  "decodes_u32_items items \<longleftrightarrow>
     (\<forall>dec c xs c'. items dec c = Ok (xs, c') \<longleftrightarrow>
        (\<exists>body. length body < 2 ^ 32 \<and>
                reads c (u32_to_be_bytes (of_nat (length body)) @ body) c' \<and>
                decodes_all dec (cursor_new body) xs)) \<and>
     (\<forall>dec c. (\<forall>c'. dec c' \<noteq> Panic) \<longrightarrow> items dec c \<noteq> Panic)"

text \<open>
  \<open>get_decoded\<close> of \<open>prio::codec::Decode\<close>: decode a whole buffer, and refuse what is left over.
\<close>

definition decodes_whole :: "('a decoder \<Rightarrow> bytes \<Rightarrow> ('a, codec_error) result) \<Rightarrow> bool" where
  "decodes_whole whole \<longleftrightarrow>
     (\<forall>dec bs x. whole dec bs = Ok x \<longleftrightarrow>
        (\<exists>c'. dec (cursor_new bs) = Ok (x, c') \<and> length bs \<le> position c')) \<and>
     (\<forall>dec bs. whole dec bs = Panic \<longleftrightarrow> dec (cursor_new bs) = Panic)"

section \<open>Facts about encoders\<close>

lemma appendsI: "(\<And>bs. e bs = Ok (bs @ w)) \<Longrightarrow> appends e w"
  by (simp add: appends_def)

lemma appendsD: "appends e w \<Longrightarrow> e bs = Ok (bs @ w)"
  by (simp add: appends_def)

lemma appends_unique: "appends e w \<Longrightarrow> appends e v \<Longrightarrow> w = v"
  by (force simp: appends_def)

lemma appends_append_only: "appends e w \<Longrightarrow> append_only e"
  by (auto simp: appends_def append_only_def)

lemma append_onlyE:
  assumes "append_only e" and "e bs = Ok out"
  obtains w where "out = bs @ w" and "appends e w"
  using assms by (auto simp: append_only_def)

lemma append_only_Err [simp]: "append_only (\<lambda>bs. Err e)"
  by (simp add: append_only_def)

lemma append_only_Panic [simp]: "append_only (\<lambda>bs. Panic)"
  by (simp add: append_only_def)

lemma append_only_const [simp]: "append_only (\<lambda>bs. Ok (bs @ w))"
  by (rule appends_append_only [of _ w]) (simp add: appends_def)

lemma append_only_Ok [simp]: "append_only Ok"
  by (rule appends_append_only [of _ "[]"]) (simp add: appends_def)

lemma not_appends_Err [simp]: "\<not> appends (\<lambda>bs. Err e) w"
  by (simp add: appends_def)

lemma not_appends_Panic [simp]: "\<not> appends (\<lambda>bs. Panic) w"
  by (simp add: appends_def)

lemma appends_const [simp]: "appends (\<lambda>bs. Ok (bs @ v)) w \<longleftrightarrow> w = v"
  by (auto simp: appends_def)

lemma appends_Ok [simp]: "appends Ok w \<longleftrightarrow> w = []"
  by (auto simp: appends_def)

lemma append_only_seq [simp]:
  assumes e: "append_only e" and f: "append_only f"
  shows "append_only (\<lambda>bs. and_then (e bs) f)"
  unfolding append_only_def
proof (intro allI impI)
  fix bs out
  assume "and_then (e bs) f = Ok out"
  then obtain mid where mid: "e bs = Ok mid" "f mid = Ok out"
    by auto
  obtain u where u: "mid = bs @ u" "appends e u"
    using e mid(1) by (rule append_onlyE)
  obtain v where v: "out = mid @ v" "appends f v"
    using f mid(2) by (rule append_onlyE)
  have "appends (\<lambda>bs. and_then (e bs) f) (u @ v)"
    using u(2) v(2) by (simp add: appends_def)
  with u(1) v(1) show "\<exists>w. out = bs @ w \<and> appends (\<lambda>bs. and_then (e bs) f) w"
    by auto
qed

lemma appends_seq:
  assumes e: "append_only e" and f: "append_only f"
  shows "appends (\<lambda>bs. and_then (e bs) f) w \<longleftrightarrow> (\<exists>u v. w = u @ v \<and> appends e u \<and> appends f v)"
proof
  assume a: "appends (\<lambda>bs. and_then (e bs) f) w"
  then have "and_then (e []) f = Ok ([] @ w)"
    by (rule appendsD)
  then obtain mid where mid: "e [] = Ok mid" "f mid = Ok w"
    by auto
  obtain u where u: "mid = [] @ u" "appends e u"
    using e mid(1) by (rule append_onlyE)
  obtain v where v: "w = mid @ v" "appends f v"
    using f mid(2) by (rule append_onlyE)
  from u v show "\<exists>u v. w = u @ v \<and> appends e u \<and> appends f v"
    by auto
next
  assume "\<exists>u v. w = u @ v \<and> appends e u \<and> appends f v"
  then show "appends (\<lambda>bs. and_then (e bs) f) w"
    by (auto simp: appends_def)
qed

lemma matches_seq [wire_iff]:
  assumes e: "append_only e" and f: "append_only f"
  shows "matches (\<lambda>bs. and_then (e bs) f) c c'' \<longleftrightarrow> (\<exists>c'. matches e c c' \<and> matches f c' c'')"
proof
  assume "matches (\<lambda>bs. and_then (e bs) f) c c''"
  then obtain u v where "appends e u" "appends f v" "reads c (u @ v) c''"
    by (auto simp: matches_def appends_seq [OF e f])
  then show "\<exists>c'. matches e c c' \<and> matches f c' c''"
    by (auto simp: matches_def reads_append)
next
  assume "\<exists>c'. matches e c c' \<and> matches f c' c''"
  then obtain c' u v where "appends e u" "reads c u c'" "appends f v" "reads c' v c''"
    by (auto simp: matches_def)
  then show "matches (\<lambda>bs. and_then (e bs) f) c c''"
    unfolding matches_def appends_seq [OF e f]
    by (intro exI [of _ "u @ v"]) (auto simp: reads_append)
qed

lemma matches_const [wire_iff]: "matches (\<lambda>bs. Ok (bs @ v)) c c' \<longleftrightarrow> reads c v c'"
  by (simp add: matches_def)

lemma matches_Ok [wire_iff]: "matches Ok c c' \<longleftrightarrow> c' = c \<and> position c \<le> length (get_ref c)"
  by (simp add: matches_def)

lemma not_matches_Err [simp]: "\<not> matches (\<lambda>bs. Err e) c c'"
  by (simp add: matches_def)

lemma matches_reads_start: "matches e c c' \<Longrightarrow> position c \<le> length (get_ref c)"
  by (auto simp: matches_def reads_def)

lemma matches_reads_end: "matches e c c' \<Longrightarrow> position c' \<le> length (get_ref c')"
  by (auto simp: matches_def reads_def)

lemma decodes_wholeD:
  "decodes_whole whole \<Longrightarrow> whole dec bs = Ok x \<longleftrightarrow>
     (\<exists>c'. dec (cursor_new bs) = Ok (x, c') \<and> length bs \<le> position c')"
  by (simp add: decodes_whole_def)

lemma decodes_whole_Panic:
  "decodes_whole whole \<Longrightarrow> whole dec bs = Panic \<longleftrightarrow> dec (cursor_new bs) = Panic"
  by (simp add: decodes_whole_def)

lemma decodes_u8_itemsD:
  "decodes_u8_items items \<Longrightarrow> items dec c = Ok (xs, c') \<longleftrightarrow>
     (\<exists>body. length body < 2 ^ 8 \<and> reads c (of_nat (length body) # body) c' \<and>
             decodes_all dec (cursor_new body) xs)"
  by (simp add: decodes_u8_items_def)

lemma decodes_u8_items_return:
  "decodes_u8_items items \<Longrightarrow> (\<And>c'. dec c' \<noteq> Panic) \<Longrightarrow> items dec c \<noteq> Panic"
  by (simp add: decodes_u8_items_def)

lemma decodes_u16_itemsD:
  "decodes_u16_items items \<Longrightarrow> items dec c = Ok (xs, c') \<longleftrightarrow>
     (\<exists>body. length body < 2 ^ 16 \<and> reads c (u16_to_be_bytes (of_nat (length body)) @ body) c' \<and>
             decodes_all dec (cursor_new body) xs)"
  by (simp add: decodes_u16_items_def)

lemma decodes_u16_items_return:
  "decodes_u16_items items \<Longrightarrow> (\<And>c'. dec c' \<noteq> Panic) \<Longrightarrow> items dec c \<noteq> Panic"
  by (simp add: decodes_u16_items_def)

lemma decodes_u32_itemsD:
  "decodes_u32_items items \<Longrightarrow> items dec c = Ok (xs, c') \<longleftrightarrow>
     (\<exists>body. length body < 2 ^ 32 \<and> reads c (u32_to_be_bytes (of_nat (length body)) @ body) c' \<and>
             decodes_all dec (cursor_new body) xs)"
  by (simp add: decodes_u32_items_def)

lemma decodes_u32_items_return:
  "decodes_u32_items items \<Longrightarrow> (\<And>c'. dec c' \<noteq> Panic) \<Longrightarrow> items dec c \<noteq> Panic"
  by (simp add: decodes_u32_items_def)

section \<open>The contract of a message codec\<close>

text \<open>
  \<open>good\<close> holds the invariants the Rust types carry and the HOL types do not (the length of a
  byte array, the range of an enum's raw value). The decoder accepts exactly the byte strings
  the encoder writes, and consumes exactly them.
\<close>

locale wire_codec =
  fixes enc :: "'a \<Rightarrow> encoder"
    and dec :: "'a decoder"
    and good :: "'a \<Rightarrow> bool"
  assumes enc_append_only: "append_only (enc x)"
    and dec_matches: "dec c = Ok (x, c') \<longleftrightarrow> good x \<and> matches (enc x) c c'"
begin

lemma dec_iff: "dec c = Ok (x, c') \<longleftrightarrow> good x \<and> (\<exists>w. appends (enc x) w \<and> reads c w c')"
  by (simp add: dec_matches matches_def)

lemma dec_wf: "dec c = Ok (x, c') \<Longrightarrow> good x"
  by (simp add: dec_iff)

lemma dec_enc:
  assumes "good x" and "enc x [] = Ok w"
  shows "dec \<lparr>get_ref = pre @ w @ post, position = length pre\<rparr> =
         Ok (x, \<lparr>get_ref = pre @ w @ post, position = length pre + length w\<rparr>)"
proof -
  obtain v where "w = [] @ v" "appends (enc x) v"
    using enc_append_only assms(2) by (rule append_onlyE)
  then have "appends (enc x) w" by simp
  moreover have "reads \<lparr>get_ref = pre @ w @ post, position = length pre\<rparr> w
      \<lparr>get_ref = pre @ w @ post, position = length pre + length w\<rparr>"
    by (simp add: reads_def)
  ultimately show ?thesis
    using assms(1) by (auto simp: dec_iff)
qed

lemma prefix_free:
  assumes "good x" "good y" "appends (enc x) u" "appends (enc y) (u @ v)"
  shows "x = y \<and> v = []"
proof -
  let ?c = "cursor_new (u @ v)"
  have "reads ?c u \<lparr>get_ref = u @ v, position = length u\<rparr>"
    by (simp add: reads_def cursor_new_def)
  then have 1: "dec ?c = Ok (x, \<lparr>get_ref = u @ v, position = length u\<rparr>)"
    using assms by (auto simp: dec_iff)
  have "reads ?c (u @ v) \<lparr>get_ref = u @ v, position = length (u @ v)\<rparr>"
    by (simp add: reads_new_whole)
  then have 2: "dec ?c = Ok (y, \<lparr>get_ref = u @ v, position = length (u @ v)\<rparr>)"
    using assms by (auto simp: dec_iff)
  from 1 2 show ?thesis by simp
qed

lemma enc_inject:
  "good x \<Longrightarrow> good y \<Longrightarrow> appends (enc x) w \<Longrightarrow> appends (enc y) w \<Longrightarrow> x = y"
  using prefix_free [of x y w "[]"] by simp

lemma whole_dec_iff:
  assumes "decodes_whole whole"
  shows "whole dec bs = Ok x \<longleftrightarrow> good x \<and> enc x [] = Ok bs"
proof
  assume "whole dec bs = Ok x"
  then obtain c' where c': "dec (cursor_new bs) = Ok (x, c')" "length bs \<le> position c'"
    by (auto simp only: decodes_wholeD [OF assms])
  from c'(1) obtain w where w: "good x" "appends (enc x) w" "reads (cursor_new bs) w c'"
    by (auto simp: dec_iff)
  have "position c' = length w" and "take (length w) bs = w"
    using w(3) by (simp_all only: reads_def cursor_new_def) simp_all
  with c'(2) have "w = bs"
    by (metis take_all)
  with w show "good x \<and> enc x [] = Ok bs"
    by (simp add: appends_def)
next
  assume a: "good x \<and> enc x [] = Ok bs"
  then have "dec (cursor_new bs) = Ok (x, \<lparr>get_ref = bs, position = length bs\<rparr>)"
    using dec_enc [of x bs "[]" "[]"] by (simp add: cursor_new_def)
  then have "\<exists>c'. dec (cursor_new bs) = Ok (x, c') \<and> length bs \<le> position c'"
    by simp
  then show "whole dec bs = Ok x"
    by (simp only: decodes_wholeD [OF assms])
qed

lemma decodes_all_iff:
  assumes "\<And>x. \<not> appends (enc x) []"
  shows "position c \<le> length (get_ref c) \<Longrightarrow>
         decodes_all dec c xs \<longleftrightarrow>
         list_all good xs \<and>
         (\<exists>ws. list_all2 (\<lambda>x w. appends (enc x) w) xs ws \<and>
               reads c (concat ws) (c\<lparr>position := length (get_ref c)\<rparr>))"
proof (induction xs arbitrary: c)
  case Nil
  show ?case
    using Nil by (cases c) auto
next
  case (Cons x xs)
  let ?fin = "\<lambda>c. c\<lparr>position := length (get_ref c)\<rparr>"
  have mid: "decodes_all dec c' xs \<longleftrightarrow> list_all good xs \<and>
      (\<exists>ws. list_all2 (\<lambda>x w. appends (enc x) w) xs ws \<and> reads c' (concat ws) (?fin c))"
    if "reads c w c'" for w c'
    using that Cons.IH [of c'] by (auto simp: reads_def)
  show ?case
  proof
    assume d: "decodes_all dec c (x # xs)"
    then obtain c' where c': "dec c = Ok (x, c')" "decodes_all dec c' xs"
      by auto
    from c'(1) obtain w where w: "good x" "appends (enc x) w" "reads c w c'"
      by (auto simp: dec_iff)
    with c'(2) mid obtain ws where "list_all good xs"
      "list_all2 (\<lambda>x w. appends (enc x) w) xs ws" "reads c' (concat ws) (?fin c)"
      by blast
    with w show "list_all good (x # xs) \<and>
      (\<exists>ws. list_all2 (\<lambda>x w. appends (enc x) w) (x # xs) ws \<and> reads c (concat ws) (?fin c))"
      by (intro conjI exI [of _ "w # ws"]) (auto simp: reads_append)
  next
    assume "list_all good (x # xs) \<and>
      (\<exists>ws. list_all2 (\<lambda>x w. appends (enc x) w) (x # xs) ws \<and> reads c (concat ws) (?fin c))"
    then obtain w ws where w: "good x" "list_all good xs" "appends (enc x) w"
      "list_all2 (\<lambda>x w. appends (enc x) w) xs ws" "reads c (w @ concat ws) (?fin c)"
      by (auto simp: list_all2_Cons1)
    then obtain c' where c': "reads c w c'" "reads c' (concat ws) (?fin c)"
      by (auto simp: reads_append)
    have "position c + length w \<le> length (get_ref c)"
      using c'(1) by (simp add: reads_def)
    moreover have "0 < length w"
      using assms [of x] w(3) by (cases w) auto
    ultimately have "position c < length (get_ref c)"
      by linarith
    moreover have "dec c = Ok (x, c')"
      using w c' by (auto simp: dec_iff)
    moreover have "decodes_all dec c' xs"
      using w c' mid by blast
    ultimately show "decodes_all dec c (x # xs)"
      by auto
  qed
qed

lemma decodes_all_new_iff:
  assumes "\<And>x. \<not> appends (enc x) []"
  shows "decodes_all dec (cursor_new body) xs \<longleftrightarrow>
    list_all good xs \<and> (\<exists>ws. list_all2 (\<lambda>x w. appends (enc x) w) xs ws \<and> concat ws = body)"
  using decodes_all_iff [OF assms, of "cursor_new body" xs]
  by (simp add: reads_from_new_to_end) (simp add: cursor_new_def)

end

section \<open>What the code relies on of prio::codec\<close>

locale prio_codec_laws =
  fixes P :: "'z prio_codec_scheme"
  assumes u8_encode: "u8_encode P a bs = Ok (bs @ [a])"
    and u16_encode: "u16_encode P b bs = Ok (bs @ u16_to_be_bytes b)"
    and u32_encode: "u32_encode P d bs = Ok (bs @ u32_to_be_bytes d)"
    and u64_encode: "u64_encode P e bs = Ok (bs @ u64_to_be_bytes e)"
    and u8_decode: "u8_decode P c = Ok (a, c') \<longleftrightarrow> reads c [a] c'"
    and u16_decode: "u16_decode P c = Ok (b, c') \<longleftrightarrow> reads c (u16_to_be_bytes b) c'"
    and u32_decode: "u32_decode P c = Ok (d, c') \<longleftrightarrow> reads c (u32_to_be_bytes d) c'"
    and u64_decode: "u64_decode P c = Ok (e, c') \<longleftrightarrow> reads c (u64_to_be_bytes e) c'"
    and u8_decode_returns: "u8_decode P c \<noteq> Panic"
    and u16_decode_returns: "u16_decode P c \<noteq> Panic"
    and u32_decode_returns: "u32_decode P c \<noteq> Panic"
    and u64_decode_returns: "u64_decode P c \<noteq> Panic"
    and encode_u8_items: "list_all append_only es \<Longrightarrow>
      encode_u8_items P es bs = Ok out \<longleftrightarrow>
      (\<exists>ws. list_all2 appends es ws \<and> length (concat ws) < 2 ^ 8 \<and>
            out = bs @ of_nat (length (concat ws)) # concat ws)"
    and encode_u16_items: "list_all append_only es \<Longrightarrow>
      encode_u16_items P es bs = Ok out \<longleftrightarrow>
      (\<exists>ws. list_all2 appends es ws \<and> length (concat ws) < 2 ^ 16 \<and>
            out = bs @ u16_to_be_bytes (of_nat (length (concat ws))) @ concat ws)"
    and encode_u32_items: "list_all append_only es \<Longrightarrow>
      encode_u32_items P es bs = Ok out \<longleftrightarrow>
      (\<exists>ws. list_all2 appends es ws \<and> length (concat ws) < 2 ^ 32 \<and>
            out = bs @ u32_to_be_bytes (of_nat (length (concat ws))) @ concat ws)"
    and get_encoded: "get_encoded P e' = e' []"
begin

lemmas decode_returns [simp] =
  u8_decode_returns u16_decode_returns u32_decode_returns u64_decode_returns

lemma appends_u8 [wire_bytes]: "appends (u8_encode P a) w \<longleftrightarrow> w = [a]"
  by (auto simp: appends_def u8_encode)

lemma appends_u16 [wire_bytes]: "appends (u16_encode P b) w \<longleftrightarrow> w = u16_to_be_bytes b"
  by (auto simp: appends_def u16_encode)

lemma appends_u32 [wire_bytes]: "appends (u32_encode P d) w \<longleftrightarrow> w = u32_to_be_bytes d"
  by (auto simp: appends_def u32_encode)

lemma appends_u64 [wire_bytes]: "appends (u64_encode P e) w \<longleftrightarrow> w = u64_to_be_bytes e"
  by (auto simp: appends_def u64_encode)

lemma append_only_ints [simp]:
  "append_only (u8_encode P a)" "append_only (u16_encode P b)"
  "append_only (u32_encode P d)" "append_only (u64_encode P e)"
  by (simp_all add: append_only_def appends_def u8_encode u16_encode u32_encode u64_encode)

lemma int_decode_matches [wire_iff]:
  "u8_decode P c = Ok (a, c') \<longleftrightarrow> matches (u8_encode P a) c c'"
  "u16_decode P c = Ok (b, c') \<longleftrightarrow> matches (u16_encode P b) c c'"
  "u32_decode P c = Ok (d, c') \<longleftrightarrow> matches (u32_encode P d) c c'"
  "u64_decode P c = Ok (e, c') \<longleftrightarrow> matches (u64_encode P e) c c'"
  by (simp_all add: u8_decode u16_decode u32_decode u64_decode matches_def appends_u8 appends_u16
    appends_u32 appends_u64)

lemma appends_u16_bytes [wire_bytes]:
  "appends (\<lambda>bs. encode_u16_bytes P bs input) w \<longleftrightarrow>
     length input < 2 ^ 16 \<and> w = u16_to_be_bytes (of_nat (length input)) @ input"
  by (auto simp: appends_def encode_u16_bytes_def u16_encode)

lemma append_only_u16_bytes [simp]: "append_only (\<lambda>bs. encode_u16_bytes P bs input)"
  by (auto simp: append_only_def appends_def encode_u16_bytes_def u16_encode split: if_splits)

lemma appends_u32_bytes [wire_bytes]:
  "appends (\<lambda>bs. encode_u32_bytes P bs input) w \<longleftrightarrow>
     length input < 2 ^ 32 \<and> w = u32_to_be_bytes (of_nat (length input)) @ input"
  by (auto simp: appends_def encode_u32_bytes_def u32_encode)

lemma append_only_u32_bytes [simp]: "append_only (\<lambda>bs. encode_u32_bytes P bs input)"
  by (auto simp: append_only_def appends_def encode_u32_bytes_def u32_encode split: if_splits)

lemma decode_u16_bytes_iff:
  "decode_u16_bytes P c = Ok (x, c') \<longleftrightarrow>
     (\<exists>w. appends (\<lambda>bs. encode_u16_bytes P bs x) w \<and> reads c w c')"
proof
  assume "decode_u16_bytes P c = Ok (x, c')"
  then obtain n c1 where n: "reads c (u16_to_be_bytes n) c1" "length x = unat n" "reads c1 x c'"
    by (auto simp: decode_u16_bytes_def u16_decode read_exact_Ok_iff)
  have "of_nat (length x) = n" "length x < 2 ^ 16"
    using n(2) unsigned_less [of n, where ?'a = nat] by simp_all
  with n show "\<exists>w. appends (\<lambda>bs. encode_u16_bytes P bs x) w \<and> reads c w c'"
    by (auto simp: appends_u16_bytes reads_append)
next
  assume "\<exists>w. appends (\<lambda>bs. encode_u16_bytes P bs x) w \<and> reads c w c'"
  then obtain c1 where c1: "length x < 2 ^ 16"
      "reads c (u16_to_be_bytes (of_nat (length x))) c1" "reads c1 x c'"
    by (auto simp: appends_u16_bytes reads_append)
  then have "unat (of_nat (length x) :: u16) = length x"
    by (simp add: unat_of_nat)
  with c1 show "decode_u16_bytes P c = Ok (x, c')"
    by (fastforce simp: decode_u16_bytes_def u16_decode read_exact_Ok_iff)
qed

lemma decode_u32_bytes_iff:
  "decode_u32_bytes P c = Ok (x, c') \<longleftrightarrow>
     (\<exists>w. appends (\<lambda>bs. encode_u32_bytes P bs x) w \<and> reads c w c')"
proof
  assume "decode_u32_bytes P c = Ok (x, c')"
  then obtain n c1 where n: "reads c (u32_to_be_bytes n) c1" "length x = unat n" "reads c1 x c'"
    by (auto simp: decode_u32_bytes_def u32_decode read_exact_Ok_iff)
  have "of_nat (length x) = n" "length x < 2 ^ 32"
    using n(2) unsigned_less [of n, where ?'a = nat] by simp_all
  with n show "\<exists>w. appends (\<lambda>bs. encode_u32_bytes P bs x) w \<and> reads c w c'"
    by (auto simp: appends_u32_bytes reads_append)
next
  assume "\<exists>w. appends (\<lambda>bs. encode_u32_bytes P bs x) w \<and> reads c w c'"
  then obtain c1 where c1: "length x < 2 ^ 32"
      "reads c (u32_to_be_bytes (of_nat (length x))) c1" "reads c1 x c'"
    by (auto simp: appends_u32_bytes reads_append)
  then have "unat (of_nat (length x) :: u32) = length x"
    by (simp add: unat_of_nat)
  with c1 show "decode_u32_bytes P c = Ok (x, c')"
    by (fastforce simp: decode_u32_bytes_def u32_decode read_exact_Ok_iff)
qed

lemma decode_bytes_matches [wire_iff]:
  "decode_u16_bytes P c = Ok (x, c') \<longleftrightarrow> matches (\<lambda>bs. encode_u16_bytes P bs x) c c'"
  "decode_u32_bytes P c = Ok (x, c') \<longleftrightarrow> matches (\<lambda>bs. encode_u32_bytes P bs x) c c'"
  by (simp_all add: decode_u16_bytes_iff decode_u32_bytes_iff matches_def)

lemma decode_bytes_return [simp]:
  "decode_u16_bytes P c \<noteq> Panic" "decode_u32_bytes P c \<noteq> Panic"
  by (auto simp: decode_u16_bytes_def decode_u32_bytes_def and_then_Panic_iff read_exact_not_Panic)

lemma appends_u16_items:
  assumes "list_all append_only es"
  shows "appends (encode_u16_items P es) w \<longleftrightarrow>
    (\<exists>ws. list_all2 appends es ws \<and> length (concat ws) < 2 ^ 16 \<and>
          w = u16_to_be_bytes (of_nat (length (concat ws))) @ concat ws)"
  unfolding appends_def encode_u16_items [OF assms] same_append_eq by simp

lemma append_only_u16_items [simp]:
  assumes "list_all append_only es"
  shows "append_only (encode_u16_items P es)"
  unfolding append_only_def appends_u16_items [OF assms] encode_u16_items [OF assms] by auto

lemma appends_u32_items:
  assumes "list_all append_only es"
  shows "appends (encode_u32_items P es) w \<longleftrightarrow>
    (\<exists>ws. list_all2 appends es ws \<and> length (concat ws) < 2 ^ 32 \<and>
          w = u32_to_be_bytes (of_nat (length (concat ws))) @ concat ws)"
  unfolding appends_def encode_u32_items [OF assms] same_append_eq by simp

lemma append_only_u32_items [simp]:
  assumes "list_all append_only es"
  shows "append_only (encode_u32_items P es)"
  unfolding append_only_def appends_u32_items [OF assms] encode_u32_items [OF assms] by auto

lemma appends_u8_items:
  assumes "list_all append_only es"
  shows "appends (encode_u8_items P es) w \<longleftrightarrow>
    (\<exists>ws. list_all2 appends es ws \<and> length (concat ws) < 2 ^ 8 \<and>
          w = of_nat (length (concat ws)) # concat ws)"
  unfolding appends_def encode_u8_items [OF assms] same_append_eq by simp

lemma append_only_u8_items [simp]:
  assumes "list_all append_only es"
  shows "append_only (encode_u8_items P es)"
  unfolding append_only_def appends_u8_items [OF assms] encode_u8_items [OF assms] by auto

lemma wire_codec_u16_items:
  assumes w: "wire_codec enc dec good"
    and ne: "\<And>x. \<not> appends (enc x) []"
    and items: "decodes_u16_items items"
  shows "wire_codec (\<lambda>xs. encode_u16_items P (map enc xs)) (items dec) (list_all good)"
proof
  have ao: "list_all append_only (map enc xs)" for xs
    using wire_codec.enc_append_only [OF w] by (simp add: list_all_iff)
  show "append_only (encode_u16_items P (map enc xs))" for xs
    by (simp add: ao)
  show "items dec c = Ok (xs, c') \<longleftrightarrow> list_all good xs \<and>
      matches (encode_u16_items P (map enc xs)) c c'" for c xs c'
    unfolding matches_def decodes_u16_itemsD [OF items] appends_u16_items [OF ao] list_all2_map1
      wire_codec.decodes_all_new_iff [OF w ne]
    by auto
qed

lemma wire_codec_u32_items:
  assumes w: "wire_codec enc dec good"
    and ne: "\<And>x. \<not> appends (enc x) []"
    and items: "decodes_u32_items items"
  shows "wire_codec (\<lambda>xs. encode_u32_items P (map enc xs)) (items dec) (list_all good)"
proof
  have ao: "list_all append_only (map enc xs)" for xs
    using wire_codec.enc_append_only [OF w] by (simp add: list_all_iff)
  show "append_only (encode_u32_items P (map enc xs))" for xs
    by (simp add: ao)
  show "items dec c = Ok (xs, c') \<longleftrightarrow> list_all good xs \<and>
      matches (encode_u32_items P (map enc xs)) c c'" for c xs c'
    unfolding matches_def decodes_u32_itemsD [OF items] appends_u32_items [OF ao] list_all2_map1
      wire_codec.decodes_all_new_iff [OF w ne]
    by auto
qed

lemma wire_codec_u8_items:
  assumes w: "wire_codec enc dec good"
    and ne: "\<And>x. \<not> appends (enc x) []"
    and items: "decodes_u8_items items"
  shows "wire_codec (\<lambda>xs. encode_u8_items P (map enc xs)) (items dec) (list_all good)"
proof
  have ao: "list_all append_only (map enc xs)" for xs
    using wire_codec.enc_append_only [OF w] by (simp add: list_all_iff)
  show "append_only (encode_u8_items P (map enc xs))" for xs
    by (simp add: ao)
  show "items dec c = Ok (xs, c') \<longleftrightarrow> list_all good xs \<and>
      matches (encode_u8_items P (map enc xs)) c c'" for c xs c'
    unfolding matches_def decodes_u8_itemsD [OF items] appends_u8_items [OF ao] list_all2_map1
      wire_codec.decodes_all_new_iff [OF w ne]
    by auto
qed

lemma encode_u16_prefixed_Ok_iff:
  assumes "append_only (e v)"
  shows "encode_u16_prefixed P v bs e = Ok out \<longleftrightarrow>
    (\<exists>body. appends (e v) body \<and> length body < 2 ^ 16 \<and>
            out = bs @ u16_to_be_bytes (of_nat (length body)) @ body)"
proof
  assume "encode_u16_prefixed P v bs e = Ok out"
  then obtain bs2 where bs2: "e v (bs @ u16_to_be_bytes 0) = Ok bs2"
      "length bs2 - length bs - 2 < 2 ^ 16"
      "out = take (length bs) bs2 @ u16_to_be_bytes (of_nat (length bs2 - length bs - 2))
             @ drop (length bs + 2) bs2"
    by (auto simp: encode_u16_prefixed_def Let_def u16_encode split: if_splits)
  obtain body where body: "bs2 = (bs @ u16_to_be_bytes 0) @ body" "appends (e v) body"
    using assms bs2(1) by (rule append_onlyE)
  with bs2(2,3) show "\<exists>body. appends (e v) body \<and> length body < 2 ^ 16 \<and>
      out = bs @ u16_to_be_bytes (of_nat (length body)) @ body"
    by auto
next
  assume "\<exists>body. appends (e v) body \<and> length body < 2 ^ 16 \<and>
      out = bs @ u16_to_be_bytes (of_nat (length body)) @ body"
  then show "encode_u16_prefixed P v bs e = Ok out"
    by (auto simp: encode_u16_prefixed_def Let_def u16_encode appends_def)
qed

lemma appends_u16_prefixed [wire_bytes]:
  assumes "append_only (e v)"
  shows "appends (\<lambda>bs. encode_u16_prefixed P v bs e) w \<longleftrightarrow>
    (\<exists>body. appends (e v) body \<and> length body < 2 ^ 16 \<and>
            w = u16_to_be_bytes (of_nat (length body)) @ body)"
  unfolding appends_def [of "\<lambda>bs. encode_u16_prefixed P v bs e"]
    encode_u16_prefixed_Ok_iff [of e v, OF assms] same_append_eq by simp

lemma append_only_u16_prefixed [simp]:
  assumes "append_only (e v)"
  shows "append_only (\<lambda>bs. encode_u16_prefixed P v bs e)"
  unfolding append_only_def appends_u16_prefixed [of e v, OF assms]
    encode_u16_prefixed_Ok_iff [of e v, OF assms] by auto

lemma decode_u16_prefixed_Ok_iff:
  "decode_u16_prefixed P v c d = Ok (x, c') \<longleftrightarrow>
   (\<exists>body inner. length body < 2 ^ 16 \<and>
      reads c (u16_to_be_bytes (of_nat (length body)) @ body) c' \<and>
      d v (cursor_new body) (Some (length body)) = Ok (x, inner) \<and> length body \<le> position inner)"
proof
  assume "decode_u16_prefixed P v c d = Ok (x, c')"
  then obtain n c1 inner where
    n: "reads c (u16_to_be_bytes n) c1" "position c1 + unat n \<le> length (get_ref c1)" and
    d: "d v (cursor_new (take (unat n) (drop (position c1) (get_ref c1)))) (Some (unat n)) = Ok (x, inner)"
       "unat n \<le> position inner" and
    c': "c' = c1\<lparr>position := position c1 + unat n\<rparr>"
    by (auto simp: decode_u16_prefixed_def Let_def u16_decode split: if_splits)
  define body where "body = take (unat n) (drop (position c1) (get_ref c1))"
  have len: "length body = unat n"
    using n(2) by (simp add: body_def)
  have "reads c1 body c'"
    using n(2) c' by (auto simp: reads_def len) (simp add: body_def)
  moreover have "of_nat (length body) = n" "length body < 2 ^ 16"
    using len unsigned_less [of n, where ?'a = nat] by simp_all
  ultimately show "\<exists>body inner. length body < 2 ^ 16 \<and>
      reads c (u16_to_be_bytes (of_nat (length body)) @ body) c' \<and>
      d v (cursor_new body) (Some (length body)) = Ok (x, inner) \<and> length body \<le> position inner"
    using n(1) d len unfolding body_def [symmetric] reads_append
    by (intro exI [of _ body] exI [of _ inner]) auto
next
  assume "\<exists>body inner. length body < 2 ^ 16 \<and>
      reads c (u16_to_be_bytes (of_nat (length body)) @ body) c' \<and>
      d v (cursor_new body) (Some (length body)) = Ok (x, inner) \<and> length body \<le> position inner"
  then obtain body inner c1 where b: "length body < 2 ^ 16"
      "reads c (u16_to_be_bytes (of_nat (length body))) c1" "reads c1 body c'"
      "d v (cursor_new body) (Some (length body)) = Ok (x, inner)" "length body \<le> position inner"
    by (auto simp: reads_append)
  have "u16_decode P c = Ok (of_nat (length body), c1)"
    using b(2) by (simp add: u16_decode)
  moreover have "unat (of_nat (length body) :: u16) = length body"
    using b(1) by (simp add: unat_of_nat)
  ultimately show "decode_u16_prefixed P v c d = Ok (x, c')"
    using b(3-5) by (simp add: decode_u16_prefixed_def reads_def)
qed

lemma decode_u16_prefixed_matches:
  assumes e: "append_only (e v)"
    and d: "\<And>body. (\<exists>inner. d v (cursor_new body) (Some (length body)) = Ok (x, inner) \<and>
                          length body \<le> position inner) \<longleftrightarrow> good \<and> appends (e v) body"
  shows "decode_u16_prefixed P v c d = Ok (x, c') \<longleftrightarrow>
         good \<and> matches (\<lambda>bs. encode_u16_prefixed P v bs e) c c'"
proof -
  have "decode_u16_prefixed P v c d = Ok (x, c') \<longleftrightarrow>
    (\<exists>body. length body < 2 ^ 16 \<and> reads c (u16_to_be_bytes (of_nat (length body)) @ body) c' \<and>
            (\<exists>inner. d v (cursor_new body) (Some (length body)) = Ok (x, inner) \<and>
                     length body \<le> position inner))"
    unfolding decode_u16_prefixed_Ok_iff by blast
  also have "\<dots> \<longleftrightarrow> good \<and> matches (\<lambda>bs. encode_u16_prefixed P v bs e) c c'"
    unfolding d matches_def appends_u16_prefixed [of e v, OF e] by blast
  finally show ?thesis .
qed

lemma decode_u16_prefixed_truncated:
  assumes "reads c (u16_to_be_bytes n) c1" and "length (get_ref c) < position c1 + unat n"
  shows "decode_u16_prefixed P v c d = Panic"
proof -
  have "u16_decode P c = Ok (n, c1)"
    using assms(1) by (simp add: u16_decode)
  moreover have "get_ref c1 = get_ref c"
    using assms(1) by (simp add: reads_def)
  ultimately show ?thesis
    using assms(2) by (simp add: decode_u16_prefixed_def)
qed

end

section \<open>Comparison in constant time is equality\<close>

lemma fold_or_zero_iff:
  "fold (\<lambda>(x, y) r. r OR (x XOR y)) (zip xs ys) r = 0 \<longleftrightarrow>
   r = 0 \<and> take (length ys) xs = take (length xs) (ys :: u8 list)"
proof (induction xs arbitrary: ys r)
  case Nil
  then show ?case by simp
next
  case (Cons x xs)
  have or0: "a OR b = 0 \<longleftrightarrow> a = 0 \<and> b = 0" for a b :: u8
    by (rule or_eq_0_iff)
  have xor0: "a XOR b = 0 \<longleftrightarrow> a = b" for a b :: u8
  proof
    assume "a XOR b = 0"
    then have "(a XOR b) XOR b = b" by simp
    then show "a = b" by (simp add: xor.assoc)
  qed simp
  show ?case
    by (cases ys) (auto simp: Cons.IH or0 xor0)
qed

lemma constant_time_eq_iff: "constant_time_eq left right \<longleftrightarrow> left = right"
  by (auto simp: constant_time_eq_def fold_or_zero_iff)

end
