(* ===== verification/Messages.thy ===== *)
theory Messages
  imports Codec
begin

text \<open>
  The messages of the DAP protocol, crates/daphne/src/messages/mod.rs: every wire type of the
  upload, aggregation and collection sub-protocols with its \<open>encode\<close> and \<open>decode\<close> methods, and
  the conversions between queries and batch selectors. The identifiers of HPKE algorithms are
  those of crates/daphne/src/hpke.rs.

  A byte array \<open>[u8; N]\<close> is a byte list; the predicates \<open>wf_*\<close> state its length and, for the
  open enumerations, that a catch-all variant does not carry a code point that has a variant of
  its own. The generic functions \<open>decode_u16_items\<close>, \<open>decode_u32_items\<close> and \<open>get_decoded\<close> of the
  external crate \<open>prio\<close> are parameters, one field per type they are used at.
  The locale \<open>prio_messages_laws\<close> holds what is assumed of them, and for each message the lemma
  \<open>*_wire\<close> shows the contract \<open>wire_codec\<close>: the decoder accepts exactly the encoder's output.
\<close>

section \<open>Identifiers\<close>

text \<open>The instances of the macro \<open>id_struct\<close>.\<close>

datatype AggregationJobId = AggregationJobId (AggregationJobId_0: bytes)
datatype BatchId = BatchId (BatchId_0: bytes)
datatype CollectionJobId = CollectionJobId (CollectionJobId_0: bytes)
datatype ReportId = ReportId (ReportId_0: bytes)
datatype TaskId = TaskId (TaskId_0: bytes)

definition wf_AggregationJobId :: "AggregationJobId \<Rightarrow> bool" where
  "wf_AggregationJobId x \<longleftrightarrow> length (AggregationJobId_0 x) = 16"

definition wf_BatchId :: "BatchId \<Rightarrow> bool" where
  "wf_BatchId x \<longleftrightarrow> length (BatchId_0 x) = 32"

definition wf_CollectionJobId :: "CollectionJobId \<Rightarrow> bool" where
  "wf_CollectionJobId x \<longleftrightarrow> length (CollectionJobId_0 x) = 16"

definition wf_ReportId :: "ReportId \<Rightarrow> bool" where
  "wf_ReportId x \<longleftrightarrow> length (ReportId_0 x) = 16"

definition wf_TaskId :: "TaskId \<Rightarrow> bool" where
  "wf_TaskId x \<longleftrightarrow> length (TaskId_0 x) = 32"

definition AggregationJobId_encode :: "AggregationJobId \<Rightarrow> encoder" where
  "AggregationJobId_encode x bytes = Ok (bytes @ AggregationJobId_0 x)"

definition AggregationJobId_decode :: "AggregationJobId decoder" where
  "AggregationJobId_decode bytes =
     and_then (read_exact Io 16 bytes) (\<lambda>(data, bytes). Ok (AggregationJobId data, bytes))"

definition BatchId_encode :: "BatchId \<Rightarrow> encoder" where
  "BatchId_encode x bytes = Ok (bytes @ BatchId_0 x)"

definition BatchId_decode :: "BatchId decoder" where
  "BatchId_decode bytes =
     and_then (read_exact Io 32 bytes) (\<lambda>(data, bytes). Ok (BatchId data, bytes))"

definition CollectionJobId_encode :: "CollectionJobId \<Rightarrow> encoder" where
  "CollectionJobId_encode x bytes = Ok (bytes @ CollectionJobId_0 x)"

definition CollectionJobId_decode :: "CollectionJobId decoder" where
  "CollectionJobId_decode bytes =
     and_then (read_exact Io 16 bytes) (\<lambda>(data, bytes). Ok (CollectionJobId data, bytes))"

definition ReportId_encode :: "ReportId \<Rightarrow> encoder" where
  "ReportId_encode x bytes = Ok (bytes @ ReportId_0 x)"

definition ReportId_decode :: "ReportId decoder" where
  "ReportId_decode bytes =
     and_then (read_exact Io 16 bytes) (\<lambda>(data, bytes). Ok (ReportId data, bytes))"

definition TaskId_encode :: "TaskId \<Rightarrow> encoder" where
  "TaskId_encode x bytes = Ok (bytes @ TaskId_0 x)"

definition TaskId_decode :: "TaskId decoder" where
  "TaskId_decode bytes =
     and_then (read_exact Io 32 bytes) (\<lambda>(data, bytes). Ok (TaskId data, bytes))"

section \<open>Code points\<close>

definition QUERY_TYPE_TIME_INTERVAL :: u8 where "QUERY_TYPE_TIME_INTERVAL = 0x01"
definition QUERY_TYPE_FIXED_SIZE :: u8 where "QUERY_TYPE_FIXED_SIZE = 0x02"
definition FIXED_SIZE_QUERY_TYPE_BY_BATCH_ID :: u8 where "FIXED_SIZE_QUERY_TYPE_BY_BATCH_ID = 0x00"
definition FIXED_SIZE_QUERY_TYPE_CURRENT_BATCH :: u8 where "FIXED_SIZE_QUERY_TYPE_CURRENT_BATCH = 0x01"
definition EXTENSION_TASKPROV :: u16 where "EXTENSION_TASKPROV = 0xff00"

lemmas query_type_defs =
  QUERY_TYPE_TIME_INTERVAL_def QUERY_TYPE_FIXED_SIZE_def
  FIXED_SIZE_QUERY_TYPE_BY_BATCH_ID_def FIXED_SIZE_QUERY_TYPE_CURRENT_BATCH_def

type_synonym Duration = u64
type_synonym Time = u64

section \<open>Data\<close>

datatype Extension =
    Extension_Taskprov
  | Extension_NotImplemented (extension_typ: u16) (extension_payload: bytes)

record ReportMetadata =
  metadata_id :: ReportId
  metadata_time :: Time

record HpkeCiphertext =
  config_id :: u8
  ct_enc :: bytes
  ct_payload :: bytes

record Report =
  report_metadata :: ReportMetadata
  public_share :: bytes
  encrypted_input_shares :: "HpkeCiphertext \<times> HpkeCiphertext"

record ReportShare =
  share_report_metadata :: ReportMetadata
  share_public_share :: bytes
  encrypted_input_share :: HpkeCiphertext

record Interval =
  start :: Time
  duration :: Duration

datatype PartialBatchSelector =
    PBS_TimeInterval
  | PBS_FixedSizeByBatchId (pbs_batch_id: BatchId)

datatype BatchSelector =
    BS_TimeInterval (bs_batch_interval: Interval)
  | BS_FixedSizeByBatchId (bs_batch_id: BatchId)

record PrepareInit =
  report_share :: ReportShare
  prep_payload :: bytes

record AggregationJobInitReq =
  init_agg_param :: bytes
  init_part_batch_sel :: PartialBatchSelector
  prep_inits :: "PrepareInit list"

datatype TransitionFailure =
    BatchCollected
  | ReportReplayed
  | ReportDropped
  | HpkeUnknownConfigId
  | HpkeDecryptError
  | VdafPrepError
  | BatchSaturated
  | TaskExpired
  | InvalidMessage
  | ReportTooEarly

datatype TransitionVar =
    Continued bytes
  | Failed TransitionFailure

record Transition =
  transition_report_id :: ReportId
  transition_var :: TransitionVar

record AggregationJobResp =
  transitions :: "Transition list"

datatype Query =
    Query_TimeInterval Interval
  | Query_FixedSizeByBatchId BatchId
  | Query_FixedSizeCurrentBatch

record CollectionReq =
  query :: Query
  req_agg_param :: bytes

record Collection =
  coll_part_batch_sel :: PartialBatchSelector
  coll_report_count :: u64
  coll_interval :: Interval
  encrypted_agg_shares :: "HpkeCiphertext \<times> HpkeCiphertext"

record AggregateShareReq =
  batch_sel :: BatchSelector
  agg_share_agg_param :: bytes
  agg_share_report_count :: u64
  agg_share_checksum :: bytes

record AggregateShare =
  encrypted_agg_share :: HpkeCiphertext

datatype HpkeKemId = P256HkdfSha256 | X25519HkdfSha256 | KemNotImplemented u16
datatype HpkeKdfId = HkdfSha256 | KdfNotImplemented u16
datatype HpkeAeadId = Aes128Gcm | AeadNotImplemented u16

record HpkeConfig =
  hpke_id :: u8
  kem_id :: HpkeKemId
  kdf_id :: HpkeKdfId
  aead_id :: HpkeAeadId
  public_key :: bytes

record HpkeConfigList =
  hpke_configs :: "HpkeConfig list"

record PlaintextInputShare =
  extensions :: "Extension list"
  pis_payload :: bytes

section \<open>Parameters: the vector and whole-buffer decoders of prio::codec\<close>

record prio_messages = prio_codec +
  decode_u16_items_Extension :: "Extension decoder \<Rightarrow> Extension list decoder"
  decode_u16_items_HpkeConfig :: "HpkeConfig decoder \<Rightarrow> HpkeConfig list decoder"
  decode_u32_items_PrepareInit :: "PrepareInit decoder \<Rightarrow> PrepareInit list decoder"
  decode_u32_items_Transition :: "Transition decoder \<Rightarrow> Transition list decoder"
  get_decoded_Report :: "Report decoder \<Rightarrow> bytes \<Rightarrow> (Report, codec_error) result"
  get_decoded_PlaintextInputShare ::
    "PlaintextInputShare decoder \<Rightarrow> bytes \<Rightarrow> (PlaintextInputShare, codec_error) result"
  get_decoded_AggregationJobInitReq ::
    "AggregationJobInitReq decoder \<Rightarrow> bytes \<Rightarrow> (AggregationJobInitReq, codec_error) result"
  get_decoded_AggregationJobResp ::
    "AggregationJobResp decoder \<Rightarrow> bytes \<Rightarrow> (AggregationJobResp, codec_error) result"
  get_decoded_CollectionReq ::
    "CollectionReq decoder \<Rightarrow> bytes \<Rightarrow> (CollectionReq, codec_error) result"
  get_decoded_Collection ::
    "Collection decoder \<Rightarrow> bytes \<Rightarrow> (Collection, codec_error) result"
  get_decoded_AggregateShareReq ::
    "AggregateShareReq decoder \<Rightarrow> bytes \<Rightarrow> (AggregateShareReq, codec_error) result"
  get_decoded_AggregateShare ::
    "AggregateShare decoder \<Rightarrow> bytes \<Rightarrow> (AggregateShare, codec_error) result"
  get_decoded_HpkeConfigList ::
    "HpkeConfigList decoder \<Rightarrow> bytes \<Rightarrow> (HpkeConfigList, codec_error) result"

section \<open>Report extensions\<close>

definition type_code :: "Extension \<Rightarrow> u16" where
  "type_code e = (case e of
      Extension_Taskprov \<Rightarrow> EXTENSION_TASKPROV
    | Extension_NotImplemented typ _ \<Rightarrow> typ)"

definition Extension_encode_with_param :: "'z prio_codec_scheme \<Rightarrow> DapVersion \<Rightarrow> Extension \<Rightarrow> encoder" where
  "Extension_encode_with_param P version e bytes = (case e of
      Extension_Taskprov \<Rightarrow>
        and_then (u16_encode P EXTENSION_TASKPROV bytes) (\<lambda>bytes.
        encode_u16_prefixed P version bytes (\<lambda>_ inner. Ok inner))
    | Extension_NotImplemented typ payload \<Rightarrow>
        and_then (u16_encode P typ bytes) (\<lambda>bytes.
        encode_u16_bytes P bytes payload))"

definition Extension_decode_with_param :: "'z prio_codec_scheme \<Rightarrow> DapVersion \<Rightarrow> Extension decoder" where
  "Extension_decode_with_param P version bytes =
     and_then (u16_decode P bytes) (\<lambda>(typ, bytes).
       if typ = EXTENSION_TASKPROV then
         and_then (decode_u16_prefixed P version bytes (\<lambda>_ inner _. Ok ((), inner)))
           (\<lambda>(_, bytes). Ok (Extension_Taskprov, bytes))
       else
         and_then (decode_u16_bytes P bytes)
           (\<lambda>(payload, bytes). Ok (Extension_NotImplemented typ payload, bytes)))"

section \<open>Reports\<close>

definition ReportMetadata_encode_with_param ::
  "'z prio_codec_scheme \<Rightarrow> DapVersion \<Rightarrow> ReportMetadata \<Rightarrow> encoder" where
  "ReportMetadata_encode_with_param P version m bytes =
     and_then (ReportId_encode (metadata_id m) bytes) (u64_encode P (metadata_time m))"

definition ReportMetadata_decode_with_param ::
  "'z prio_codec_scheme \<Rightarrow> DapVersion \<Rightarrow> ReportMetadata decoder" where
  "ReportMetadata_decode_with_param P version bytes =
     and_then (ReportId_decode bytes) (\<lambda>(i, bytes).
     and_then (u64_decode P bytes) (\<lambda>(t, bytes).
     Ok (\<lparr>metadata_id = i, metadata_time = t\<rparr>, bytes)))"

definition HpkeCiphertext_encode :: "'z prio_codec_scheme \<Rightarrow> HpkeCiphertext \<Rightarrow> encoder" where
  "HpkeCiphertext_encode P ct bytes =
     and_then (u8_encode P (config_id ct) bytes) (\<lambda>bytes.
     and_then (encode_u16_bytes P bytes (ct_enc ct)) (\<lambda>bytes.
     encode_u32_bytes P bytes (ct_payload ct)))"

definition HpkeCiphertext_decode :: "'z prio_codec_scheme \<Rightarrow> HpkeCiphertext decoder" where
  "HpkeCiphertext_decode P bytes =
     and_then (u8_decode P bytes) (\<lambda>(i, bytes).
     and_then (decode_u16_bytes P bytes) (\<lambda>(e, bytes).
     and_then (decode_u32_bytes P bytes) (\<lambda>(p, bytes).
     Ok (\<lparr>config_id = i, ct_enc = e, ct_payload = p\<rparr>, bytes))))"

definition Report_encode_with_param :: "'z prio_codec_scheme \<Rightarrow> DapVersion \<Rightarrow> Report \<Rightarrow> encoder" where
  "Report_encode_with_param P version r bytes =
     and_then (ReportMetadata_encode_with_param P version (report_metadata r) bytes) (\<lambda>bytes.
     and_then (encode_u32_bytes P bytes (public_share r)) (\<lambda>bytes.
     and_then (HpkeCiphertext_encode P (fst (encrypted_input_shares r)) bytes) (\<lambda>bytes.
     HpkeCiphertext_encode P (snd (encrypted_input_shares r)) bytes)))"

definition Report_decode_with_param :: "'z prio_codec_scheme \<Rightarrow> DapVersion \<Rightarrow> Report decoder" where
  "Report_decode_with_param P version bytes =
     and_then (ReportMetadata_decode_with_param P version bytes) (\<lambda>(m, bytes).
     and_then (decode_u32_bytes P bytes) (\<lambda>(p, bytes).
     and_then (HpkeCiphertext_decode P bytes) (\<lambda>(ct0, bytes).
     and_then (HpkeCiphertext_decode P bytes) (\<lambda>(ct1, bytes).
     Ok (\<lparr>report_metadata = m, public_share = p, encrypted_input_shares = (ct0, ct1)\<rparr>, bytes)))))"

definition ReportShare_encode_with_param ::
  "'z prio_codec_scheme \<Rightarrow> DapVersion \<Rightarrow> ReportShare \<Rightarrow> encoder" where
  "ReportShare_encode_with_param P version r bytes =
     and_then (ReportMetadata_encode_with_param P version (share_report_metadata r) bytes) (\<lambda>bytes.
     and_then (encode_u32_bytes P bytes (share_public_share r)) (\<lambda>bytes.
     HpkeCiphertext_encode P (encrypted_input_share r) bytes))"

definition ReportShare_decode_with_param ::
  "'z prio_codec_scheme \<Rightarrow> DapVersion \<Rightarrow> ReportShare decoder" where
  "ReportShare_decode_with_param P version bytes =
     and_then (ReportMetadata_decode_with_param P version bytes) (\<lambda>(m, bytes).
     and_then (decode_u32_bytes P bytes) (\<lambda>(p, bytes).
     and_then (HpkeCiphertext_decode P bytes) (\<lambda>(ct, bytes).
     Ok (\<lparr>share_report_metadata = m, share_public_share = p, encrypted_input_share = ct\<rparr>, bytes))))"

section \<open>Batch selectors and intervals\<close>

text \<open>The end of an interval is a 64-bit sum: in the release profile it wraps.\<close>

definition Interval_end :: "Interval \<Rightarrow> Time" where
  "Interval_end i = start i + duration i"

definition Interval_encode :: "'z prio_codec_scheme \<Rightarrow> Interval \<Rightarrow> encoder" where
  "Interval_encode P i bytes = and_then (u64_encode P (start i) bytes) (u64_encode P (duration i))"

definition Interval_decode :: "'z prio_codec_scheme \<Rightarrow> Interval decoder" where
  "Interval_decode P bytes =
     and_then (u64_decode P bytes) (\<lambda>(s, bytes).
     and_then (u64_decode P bytes) (\<lambda>(d, bytes).
     Ok (\<lparr>start = s, duration = d\<rparr>, bytes)))"

definition PartialBatchSelector_from :: "BatchSelector \<Rightarrow> PartialBatchSelector" where
  "PartialBatchSelector_from sel = (case sel of
      BS_TimeInterval _ \<Rightarrow> PBS_TimeInterval
    | BS_FixedSizeByBatchId batch_id \<Rightarrow> PBS_FixedSizeByBatchId batch_id)"

definition PartialBatchSelector_encode :: "'z prio_codec_scheme \<Rightarrow> PartialBatchSelector \<Rightarrow> encoder" where
  "PartialBatchSelector_encode P sel bytes = (case sel of
      PBS_TimeInterval \<Rightarrow> u8_encode P QUERY_TYPE_TIME_INTERVAL bytes
    | PBS_FixedSizeByBatchId batch_id \<Rightarrow>
        and_then (u8_encode P QUERY_TYPE_FIXED_SIZE bytes) (BatchId_encode batch_id))"

definition PartialBatchSelector_decode :: "'z prio_codec_scheme \<Rightarrow> PartialBatchSelector decoder" where
  "PartialBatchSelector_decode P bytes =
     and_then (u8_decode P bytes) (\<lambda>(t, bytes).
       if t = QUERY_TYPE_TIME_INTERVAL then Ok (PBS_TimeInterval, bytes)
       else if t = QUERY_TYPE_FIXED_SIZE then
         and_then (BatchId_decode bytes) (\<lambda>(b, bytes). Ok (PBS_FixedSizeByBatchId b, bytes))
       else Err UnexpectedValue)"

definition BatchSelector_encode :: "'z prio_codec_scheme \<Rightarrow> BatchSelector \<Rightarrow> encoder" where
  "BatchSelector_encode P sel bytes = (case sel of
      BS_TimeInterval batch_interval \<Rightarrow>
        and_then (u8_encode P QUERY_TYPE_TIME_INTERVAL bytes) (Interval_encode P batch_interval)
    | BS_FixedSizeByBatchId batch_id \<Rightarrow>
        and_then (u8_encode P QUERY_TYPE_FIXED_SIZE bytes) (BatchId_encode batch_id))"

definition BatchSelector_decode :: "'z prio_codec_scheme \<Rightarrow> BatchSelector decoder" where
  "BatchSelector_decode P bytes =
     and_then (u8_decode P bytes) (\<lambda>(t, bytes).
       if t = QUERY_TYPE_TIME_INTERVAL then
         and_then (Interval_decode P bytes) (\<lambda>(i, bytes). Ok (BS_TimeInterval i, bytes))
       else if t = QUERY_TYPE_FIXED_SIZE then
         and_then (BatchId_decode bytes) (\<lambda>(b, bytes). Ok (BS_FixedSizeByBatchId b, bytes))
       else Err UnexpectedValue)"

definition BatchSelector_default :: BatchSelector where
  "BatchSelector_default = BS_TimeInterval \<lparr>start = 0, duration = 0\<rparr>"

section \<open>The aggregation sub-protocol\<close>

definition PrepareInit_encode_with_param ::
  "'z prio_codec_scheme \<Rightarrow> DapVersion \<Rightarrow> PrepareInit \<Rightarrow> encoder" where
  "PrepareInit_encode_with_param P version p bytes =
     and_then (ReportShare_encode_with_param P version (report_share p) bytes) (\<lambda>bytes.
     encode_u32_bytes P bytes (prep_payload p))"

definition PrepareInit_decode_with_param :: "'z prio_codec_scheme \<Rightarrow> DapVersion \<Rightarrow> PrepareInit decoder" where
  "PrepareInit_decode_with_param P version bytes =
     and_then (ReportShare_decode_with_param P version bytes) (\<lambda>(s, bytes).
     and_then (decode_u32_bytes P bytes) (\<lambda>(p, bytes).
     Ok (\<lparr>report_share = s, prep_payload = p\<rparr>, bytes)))"

definition AggregationJobInitReq_encode_with_param ::
  "'z prio_codec_scheme \<Rightarrow> DapVersion \<Rightarrow> AggregationJobInitReq \<Rightarrow> encoder" where
  "AggregationJobInitReq_encode_with_param P version r bytes =
     and_then (encode_u32_bytes P bytes (init_agg_param r)) (\<lambda>bytes.
     and_then (PartialBatchSelector_encode P (init_part_batch_sel r) bytes) (\<lambda>bytes.
     encode_u32_items P (map (PrepareInit_encode_with_param P version) (prep_inits r)) bytes))"

definition AggregationJobInitReq_decode_with_param ::
  "'z prio_messages_scheme \<Rightarrow> DapVersion \<Rightarrow> AggregationJobInitReq decoder" where
  "AggregationJobInitReq_decode_with_param P version bytes =
     and_then (decode_u32_bytes P bytes) (\<lambda>(a, bytes).
     and_then (PartialBatchSelector_decode P bytes) (\<lambda>(s, bytes).
     and_then (decode_u32_items_PrepareInit P (PrepareInit_decode_with_param P version) bytes) (\<lambda>(ps, bytes).
     Ok (\<lparr>init_agg_param = a, init_part_batch_sel = s, prep_inits = ps\<rparr>, bytes))))"

definition TransitionFailure_as_u8 :: "TransitionFailure \<Rightarrow> u8" where
  "TransitionFailure_as_u8 f = (case f of
      BatchCollected \<Rightarrow> 0 | ReportReplayed \<Rightarrow> 1 | ReportDropped \<Rightarrow> 2 | HpkeUnknownConfigId \<Rightarrow> 3
    | HpkeDecryptError \<Rightarrow> 4 | VdafPrepError \<Rightarrow> 5 | BatchSaturated \<Rightarrow> 6 | TaskExpired \<Rightarrow> 7
    | InvalidMessage \<Rightarrow> 8 | ReportTooEarly \<Rightarrow> 9)"

definition TransitionFailure_try_from :: "u8 \<Rightarrow> (TransitionFailure, codec_error) result" where
  "TransitionFailure_try_from b =
     (if b = TransitionFailure_as_u8 BatchCollected then Ok BatchCollected
      else if b = TransitionFailure_as_u8 ReportReplayed then Ok ReportReplayed
      else if b = TransitionFailure_as_u8 ReportDropped then Ok ReportDropped
      else if b = TransitionFailure_as_u8 HpkeUnknownConfigId then Ok HpkeUnknownConfigId
      else if b = TransitionFailure_as_u8 HpkeDecryptError then Ok HpkeDecryptError
      else if b = TransitionFailure_as_u8 VdafPrepError then Ok VdafPrepError
      else if b = TransitionFailure_as_u8 BatchSaturated then Ok BatchSaturated
      else if b = TransitionFailure_as_u8 TaskExpired then Ok TaskExpired
      else if b = TransitionFailure_as_u8 InvalidMessage then Ok InvalidMessage
      else if b = TransitionFailure_as_u8 ReportTooEarly then Ok ReportTooEarly
      else Err UnexpectedValue)"

definition TransitionFailure_encode :: "'z prio_codec_scheme \<Rightarrow> TransitionFailure \<Rightarrow> encoder" where
  "TransitionFailure_encode P f = u8_encode P (TransitionFailure_as_u8 f)"

definition TransitionFailure_decode :: "'z prio_codec_scheme \<Rightarrow> TransitionFailure decoder" where
  "TransitionFailure_decode P bytes =
     and_then (u8_decode P bytes) (\<lambda>(b, bytes).
     and_then (TransitionFailure_try_from b) (\<lambda>f. Ok (f, bytes)))"

definition TransitionVar_encode :: "'z prio_codec_scheme \<Rightarrow> TransitionVar \<Rightarrow> encoder" where
  "TransitionVar_encode P v bytes = (case v of
      Continued vdaf_message \<Rightarrow>
        and_then (u8_encode P 0 bytes) (\<lambda>bytes. encode_u32_bytes P bytes vdaf_message)
    | Failed err \<Rightarrow> and_then (u8_encode P 2 bytes) (TransitionFailure_encode P err))"

definition TransitionVar_decode :: "'z prio_codec_scheme \<Rightarrow> TransitionVar decoder" where
  "TransitionVar_decode P bytes =
     and_then (u8_decode P bytes) (\<lambda>(t, bytes).
       if t = 0 then and_then (decode_u32_bytes P bytes) (\<lambda>(m, bytes). Ok (Continued m, bytes))
       else if t = 2 then
         and_then (TransitionFailure_decode P bytes) (\<lambda>(f, bytes). Ok (Failed f, bytes))
       else Err UnexpectedValue)"

definition Transition_encode :: "'z prio_codec_scheme \<Rightarrow> Transition \<Rightarrow> encoder" where
  "Transition_encode P t bytes =
     and_then (ReportId_encode (transition_report_id t) bytes)
       (TransitionVar_encode P (transition_var t))"

definition Transition_decode :: "'z prio_codec_scheme \<Rightarrow> Transition decoder" where
  "Transition_decode P bytes =
     and_then (ReportId_decode bytes) (\<lambda>(i, bytes).
     and_then (TransitionVar_decode P bytes) (\<lambda>(v, bytes).
     Ok (\<lparr>transition_report_id = i, transition_var = v\<rparr>, bytes)))"

definition AggregationJobResp_encode :: "'z prio_codec_scheme \<Rightarrow> AggregationJobResp \<Rightarrow> encoder" where
  "AggregationJobResp_encode P r = encode_u32_items P (map (Transition_encode P) (transitions r))"

definition AggregationJobResp_decode :: "'z prio_messages_scheme \<Rightarrow> AggregationJobResp decoder" where
  "AggregationJobResp_decode P bytes =
     and_then (decode_u32_items_Transition P (Transition_decode P) bytes) (\<lambda>(ts, bytes).
     Ok (\<lparr>transitions = ts\<rparr>, bytes))"

section \<open>The collection sub-protocol\<close>

definition into_batch_sel :: "Query \<Rightarrow> BatchSelector option" where
  "into_batch_sel q = (case q of
      Query_TimeInterval batch_interval \<Rightarrow> Some (BS_TimeInterval batch_interval)
    | Query_FixedSizeByBatchId batch_id \<Rightarrow> Some (BS_FixedSizeByBatchId batch_id)
    | Query_FixedSizeCurrentBatch \<Rightarrow> None)"

definition Query_from :: "BatchSelector \<Rightarrow> Query" where
  "Query_from sel = (case sel of
      BS_TimeInterval batch_interval \<Rightarrow> Query_TimeInterval batch_interval
    | BS_FixedSizeByBatchId batch_id \<Rightarrow> Query_FixedSizeByBatchId batch_id)"

definition Query_default :: Query where
  "Query_default = Query_TimeInterval \<lparr>start = 0, duration = 0\<rparr>"

definition Query_encode_with_param :: "'z prio_codec_scheme \<Rightarrow> DapVersion \<Rightarrow> Query \<Rightarrow> encoder" where
  "Query_encode_with_param P version q bytes = (case q of
      Query_TimeInterval batch_interval \<Rightarrow>
        and_then (u8_encode P QUERY_TYPE_TIME_INTERVAL bytes) (Interval_encode P batch_interval)
    | Query_FixedSizeByBatchId batch_id \<Rightarrow>
        and_then (u8_encode P QUERY_TYPE_FIXED_SIZE bytes) (\<lambda>bytes.
        and_then (u8_encode P FIXED_SIZE_QUERY_TYPE_BY_BATCH_ID bytes) (BatchId_encode batch_id))
    | Query_FixedSizeCurrentBatch \<Rightarrow>
        and_then (u8_encode P QUERY_TYPE_FIXED_SIZE bytes)
          (u8_encode P FIXED_SIZE_QUERY_TYPE_CURRENT_BATCH))"

definition Query_decode_with_param :: "'z prio_codec_scheme \<Rightarrow> DapVersion \<Rightarrow> Query decoder" where
  "Query_decode_with_param P version bytes =
     and_then (u8_decode P bytes) (\<lambda>(t, bytes).
       if t = QUERY_TYPE_TIME_INTERVAL then
         and_then (Interval_decode P bytes) (\<lambda>(i, bytes). Ok (Query_TimeInterval i, bytes))
       else if t = QUERY_TYPE_FIXED_SIZE then
         and_then (u8_decode P bytes) (\<lambda>(subtype, bytes).
           if subtype = FIXED_SIZE_QUERY_TYPE_BY_BATCH_ID then
             and_then (BatchId_decode bytes) (\<lambda>(b, bytes). Ok (Query_FixedSizeByBatchId b, bytes))
           else if subtype = FIXED_SIZE_QUERY_TYPE_CURRENT_BATCH then
             Ok (Query_FixedSizeCurrentBatch, bytes)
           else Err UnexpectedValue)
       else Err UnexpectedValue)"

definition CollectionReq_encode_with_param ::
  "'z prio_codec_scheme \<Rightarrow> DapVersion \<Rightarrow> CollectionReq \<Rightarrow> encoder" where
  "CollectionReq_encode_with_param P version r bytes =
     and_then (Query_encode_with_param P version (query r) bytes) (\<lambda>bytes.
     encode_u32_bytes P bytes (req_agg_param r))"

definition CollectionReq_decode_with_param :: "'z prio_codec_scheme \<Rightarrow> DapVersion \<Rightarrow> CollectionReq decoder" where
  "CollectionReq_decode_with_param P version bytes =
     and_then (Query_decode_with_param P version bytes) (\<lambda>(q, bytes).
     and_then (decode_u32_bytes P bytes) (\<lambda>(a, bytes).
     Ok (\<lparr>query = q, req_agg_param = a\<rparr>, bytes)))"

definition Collection_encode_with_param ::
  "'z prio_codec_scheme \<Rightarrow> DapVersion \<Rightarrow> Collection \<Rightarrow> encoder" where
  "Collection_encode_with_param P version r bytes =
     and_then (PartialBatchSelector_encode P (coll_part_batch_sel r) bytes) (\<lambda>bytes.
     and_then (u64_encode P (coll_report_count r) bytes) (\<lambda>bytes.
     and_then (Interval_encode P (coll_interval r) bytes) (\<lambda>bytes.
     and_then (HpkeCiphertext_encode P (fst (encrypted_agg_shares r)) bytes) (\<lambda>bytes.
     HpkeCiphertext_encode P (snd (encrypted_agg_shares r)) bytes))))"

definition Collection_decode_with_param :: "'z prio_codec_scheme \<Rightarrow> DapVersion \<Rightarrow> Collection decoder" where
  "Collection_decode_with_param P version bytes =
     and_then (PartialBatchSelector_decode P bytes) (\<lambda>(s, bytes).
     and_then (u64_decode P bytes) (\<lambda>(n, bytes).
     and_then (Interval_decode P bytes) (\<lambda>(i, bytes).
     and_then (HpkeCiphertext_decode P bytes) (\<lambda>(ct0, bytes).
     and_then (HpkeCiphertext_decode P bytes) (\<lambda>(ct1, bytes).
     Ok (\<lparr>coll_part_batch_sel = s, coll_report_count = n, coll_interval = i,
          encrypted_agg_shares = (ct0, ct1)\<rparr>, bytes))))))"

definition AggregateShareReq_encode_with_param ::
  "'z prio_codec_scheme \<Rightarrow> DapVersion \<Rightarrow> AggregateShareReq \<Rightarrow> encoder" where
  "AggregateShareReq_encode_with_param P version r bytes =
     and_then (BatchSelector_encode P (batch_sel r) bytes) (\<lambda>bytes.
     and_then (encode_u32_bytes P bytes (agg_share_agg_param r)) (\<lambda>bytes.
     and_then (u64_encode P (agg_share_report_count r) bytes) (\<lambda>bytes.
     Ok (bytes @ agg_share_checksum r))))"

definition AggregateShareReq_decode_with_param ::
  "'z prio_codec_scheme \<Rightarrow> DapVersion \<Rightarrow> AggregateShareReq decoder" where
  "AggregateShareReq_decode_with_param P version bytes =
     and_then (BatchSelector_decode P bytes) (\<lambda>(s, bytes).
     and_then (decode_u32_bytes P bytes) (\<lambda>(a, bytes).
     and_then (u64_decode P bytes) (\<lambda>(n, bytes).
     and_then (read_exact Io 32 bytes) (\<lambda>(checksum, bytes).
     Ok (\<lparr>batch_sel = s, agg_share_agg_param = a, agg_share_report_count = n,
          agg_share_checksum = checksum\<rparr>, bytes)))))"

definition AggregateShare_encode :: "'z prio_codec_scheme \<Rightarrow> AggregateShare \<Rightarrow> encoder" where
  "AggregateShare_encode P s = HpkeCiphertext_encode P (encrypted_agg_share s)"

definition AggregateShare_decode :: "'z prio_codec_scheme \<Rightarrow> AggregateShare decoder" where
  "AggregateShare_decode P bytes =
     and_then (HpkeCiphertext_decode P bytes) (\<lambda>(ct, bytes). Ok (\<lparr>encrypted_agg_share = ct\<rparr>, bytes))"

section \<open>HPKE configurations\<close>

definition KEM_ID_X25519_HKDF_SHA256 :: u16 where "KEM_ID_X25519_HKDF_SHA256 = 0x0020"
definition KEM_ID_P256_HKDF_SHA256 :: u16 where "KEM_ID_P256_HKDF_SHA256 = 0x0010"
definition KDF_ID_HKDF_SHA256 :: u16 where "KDF_ID_HKDF_SHA256 = 0x0001"
definition AEAD_ID_AES128GCM :: u16 where "AEAD_ID_AES128GCM = 0x0001"

lemmas hpke_id_defs =
  KEM_ID_X25519_HKDF_SHA256_def KEM_ID_P256_HKDF_SHA256_def KDF_ID_HKDF_SHA256_def AEAD_ID_AES128GCM_def

definition u16_from_HpkeKemId :: "HpkeKemId \<Rightarrow> u16" where
  "u16_from_HpkeKemId k = (case k of
      P256HkdfSha256 \<Rightarrow> KEM_ID_P256_HKDF_SHA256
    | X25519HkdfSha256 \<Rightarrow> KEM_ID_X25519_HKDF_SHA256
    | KemNotImplemented x \<Rightarrow> x)"

definition HpkeKemId_from_u16 :: "u16 \<Rightarrow> HpkeKemId" where
  "HpkeKemId_from_u16 x =
     (if x = KEM_ID_P256_HKDF_SHA256 then P256HkdfSha256
      else if x = KEM_ID_X25519_HKDF_SHA256 then X25519HkdfSha256
      else KemNotImplemented x)"

definition u16_from_HpkeKdfId :: "HpkeKdfId \<Rightarrow> u16" where
  "u16_from_HpkeKdfId k = (case k of HkdfSha256 \<Rightarrow> KDF_ID_HKDF_SHA256 | KdfNotImplemented x \<Rightarrow> x)"

definition HpkeKdfId_from_u16 :: "u16 \<Rightarrow> HpkeKdfId" where
  "HpkeKdfId_from_u16 x = (if x = KDF_ID_HKDF_SHA256 then HkdfSha256 else KdfNotImplemented x)"

definition u16_from_HpkeAeadId :: "HpkeAeadId \<Rightarrow> u16" where
  "u16_from_HpkeAeadId k = (case k of Aes128Gcm \<Rightarrow> AEAD_ID_AES128GCM | AeadNotImplemented x \<Rightarrow> x)"

definition HpkeAeadId_from_u16 :: "u16 \<Rightarrow> HpkeAeadId" where
  "HpkeAeadId_from_u16 x = (if x = AEAD_ID_AES128GCM then Aes128Gcm else AeadNotImplemented x)"

definition HpkeKemId_encode :: "'z prio_codec_scheme \<Rightarrow> HpkeKemId \<Rightarrow> encoder" where
  "HpkeKemId_encode P k = u16_encode P (u16_from_HpkeKemId k)"

definition HpkeKemId_decode :: "'z prio_codec_scheme \<Rightarrow> HpkeKemId decoder" where
  "HpkeKemId_decode P bytes =
     and_then (u16_decode P bytes) (\<lambda>(x, bytes). Ok (HpkeKemId_from_u16 x, bytes))"

definition HpkeKdfId_encode :: "'z prio_codec_scheme \<Rightarrow> HpkeKdfId \<Rightarrow> encoder" where
  "HpkeKdfId_encode P k = u16_encode P (u16_from_HpkeKdfId k)"

definition HpkeKdfId_decode :: "'z prio_codec_scheme \<Rightarrow> HpkeKdfId decoder" where
  "HpkeKdfId_decode P bytes =
     and_then (u16_decode P bytes) (\<lambda>(x, bytes). Ok (HpkeKdfId_from_u16 x, bytes))"

definition HpkeAeadId_encode :: "'z prio_codec_scheme \<Rightarrow> HpkeAeadId \<Rightarrow> encoder" where
  "HpkeAeadId_encode P k = u16_encode P (u16_from_HpkeAeadId k)"

definition HpkeAeadId_decode :: "'z prio_codec_scheme \<Rightarrow> HpkeAeadId decoder" where
  "HpkeAeadId_decode P bytes =
     and_then (u16_decode P bytes) (\<lambda>(x, bytes). Ok (HpkeAeadId_from_u16 x, bytes))"

definition HpkeConfig_encode :: "'z prio_codec_scheme \<Rightarrow> HpkeConfig \<Rightarrow> encoder" where
  "HpkeConfig_encode P h bytes =
     and_then (u8_encode P (hpke_id h) bytes) (\<lambda>bytes.
     and_then (HpkeKemId_encode P (kem_id h) bytes) (\<lambda>bytes.
     and_then (HpkeKdfId_encode P (kdf_id h) bytes) (\<lambda>bytes.
     and_then (HpkeAeadId_encode P (aead_id h) bytes) (\<lambda>bytes.
     encode_u16_bytes P bytes (public_key h)))))"

definition HpkeConfig_decode :: "'z prio_codec_scheme \<Rightarrow> HpkeConfig decoder" where
  "HpkeConfig_decode P bytes =
     and_then (u8_decode P bytes) (\<lambda>(i, bytes).
     and_then (HpkeKemId_decode P bytes) (\<lambda>(kem, bytes).
     and_then (HpkeKdfId_decode P bytes) (\<lambda>(kdf, bytes).
     and_then (HpkeAeadId_decode P bytes) (\<lambda>(aead, bytes).
     and_then (decode_u16_bytes P bytes) (\<lambda>(pk, bytes).
     Ok (\<lparr>hpke_id = i, kem_id = kem, kdf_id = kdf, aead_id = aead, public_key = pk\<rparr>, bytes))))))"

definition HpkeConfigList_encode :: "'z prio_codec_scheme \<Rightarrow> HpkeConfigList \<Rightarrow> encoder" where
  "HpkeConfigList_encode P l = encode_u16_items P (map (HpkeConfig_encode P) (hpke_configs l))"

definition HpkeConfigList_decode :: "'z prio_messages_scheme \<Rightarrow> HpkeConfigList decoder" where
  "HpkeConfigList_decode P bytes =
     and_then (decode_u16_items_HpkeConfig P (HpkeConfig_decode P) bytes) (\<lambda>(l, bytes).
     Ok (\<lparr>hpke_configs = l\<rparr>, bytes))"

section \<open>Plaintext input shares\<close>

definition PlaintextInputShare_encode_with_param ::
  "'z prio_codec_scheme \<Rightarrow> DapVersion \<Rightarrow> PlaintextInputShare \<Rightarrow> encoder" where
  "PlaintextInputShare_encode_with_param P version s bytes =
     and_then (encode_u16_items P (map (Extension_encode_with_param P version) (extensions s)) bytes) (\<lambda>bytes.
     encode_u32_bytes P bytes (pis_payload s))"

definition PlaintextInputShare_decode_with_param ::
  "'z prio_messages_scheme \<Rightarrow> DapVersion \<Rightarrow> PlaintextInputShare decoder" where
  "PlaintextInputShare_decode_with_param P version bytes =
     and_then (decode_u16_items_Extension P (Extension_decode_with_param P version) bytes) (\<lambda>(es, bytes).
     and_then (decode_u32_bytes P bytes) (\<lambda>(p, bytes).
     Ok (\<lparr>extensions = es, pis_payload = p\<rparr>, bytes)))"

section \<open>Well-formed values\<close>

fun wf_Extension :: "Extension \<Rightarrow> bool" where
  "wf_Extension Extension_Taskprov = True"
| "wf_Extension (Extension_NotImplemented typ _) = (typ \<noteq> EXTENSION_TASKPROV)"

definition wf_ReportMetadata :: "ReportMetadata \<Rightarrow> bool" where
  "wf_ReportMetadata m \<longleftrightarrow> wf_ReportId (metadata_id m)"

definition wf_Report :: "Report \<Rightarrow> bool" where
  "wf_Report r \<longleftrightarrow> wf_ReportMetadata (report_metadata r)"

definition wf_ReportShare :: "ReportShare \<Rightarrow> bool" where
  "wf_ReportShare r \<longleftrightarrow> wf_ReportMetadata (share_report_metadata r)"

fun wf_PartialBatchSelector :: "PartialBatchSelector \<Rightarrow> bool" where
  "wf_PartialBatchSelector PBS_TimeInterval = True"
| "wf_PartialBatchSelector (PBS_FixedSizeByBatchId b) = wf_BatchId b"

fun wf_BatchSelector :: "BatchSelector \<Rightarrow> bool" where
  "wf_BatchSelector (BS_TimeInterval _) = True"
| "wf_BatchSelector (BS_FixedSizeByBatchId b) = wf_BatchId b"

fun wf_Query :: "Query \<Rightarrow> bool" where
  "wf_Query (Query_TimeInterval _) = True"
| "wf_Query (Query_FixedSizeByBatchId b) = wf_BatchId b"
| "wf_Query Query_FixedSizeCurrentBatch = True"

definition wf_PrepareInit :: "PrepareInit \<Rightarrow> bool" where
  "wf_PrepareInit p \<longleftrightarrow> wf_ReportShare (report_share p)"

definition wf_AggregationJobInitReq :: "AggregationJobInitReq \<Rightarrow> bool" where
  "wf_AggregationJobInitReq r \<longleftrightarrow>
     wf_PartialBatchSelector (init_part_batch_sel r) \<and> list_all wf_PrepareInit (prep_inits r)"

definition wf_Transition :: "Transition \<Rightarrow> bool" where
  "wf_Transition t \<longleftrightarrow> wf_ReportId (transition_report_id t)"

definition wf_AggregationJobResp :: "AggregationJobResp \<Rightarrow> bool" where
  "wf_AggregationJobResp r \<longleftrightarrow> list_all wf_Transition (transitions r)"

definition wf_CollectionReq :: "CollectionReq \<Rightarrow> bool" where
  "wf_CollectionReq r \<longleftrightarrow> wf_Query (query r)"

definition wf_Collection :: "Collection \<Rightarrow> bool" where
  "wf_Collection r \<longleftrightarrow> wf_PartialBatchSelector (coll_part_batch_sel r)"

definition wf_AggregateShareReq :: "AggregateShareReq \<Rightarrow> bool" where
  "wf_AggregateShareReq r \<longleftrightarrow> wf_BatchSelector (batch_sel r) \<and> length (agg_share_checksum r) = 32"

fun wf_HpkeKemId :: "HpkeKemId \<Rightarrow> bool" where
  "wf_HpkeKemId (KemNotImplemented x) = (x \<noteq> KEM_ID_P256_HKDF_SHA256 \<and> x \<noteq> KEM_ID_X25519_HKDF_SHA256)"
| "wf_HpkeKemId _ = True"

fun wf_HpkeKdfId :: "HpkeKdfId \<Rightarrow> bool" where
  "wf_HpkeKdfId (KdfNotImplemented x) = (x \<noteq> KDF_ID_HKDF_SHA256)"
| "wf_HpkeKdfId _ = True"

fun wf_HpkeAeadId :: "HpkeAeadId \<Rightarrow> bool" where
  "wf_HpkeAeadId (AeadNotImplemented x) = (x \<noteq> AEAD_ID_AES128GCM)"
| "wf_HpkeAeadId _ = True"

definition wf_HpkeConfig :: "HpkeConfig \<Rightarrow> bool" where
  "wf_HpkeConfig h \<longleftrightarrow> wf_HpkeKemId (kem_id h) \<and> wf_HpkeKdfId (kdf_id h) \<and> wf_HpkeAeadId (aead_id h)"

definition wf_HpkeConfigList :: "HpkeConfigList \<Rightarrow> bool" where
  "wf_HpkeConfigList l \<longleftrightarrow> list_all wf_HpkeConfig (hpke_configs l)"

definition wf_PlaintextInputShare :: "PlaintextInputShare \<Rightarrow> bool" where
  "wf_PlaintextInputShare s \<longleftrightarrow> list_all wf_Extension (extensions s)"

end
