(* ===== verification/Messages_Wire.thy ===== *)
theory Messages_Wire
  imports Messages
begin

text \<open>
  The wire contract of every message of \<open>Messages\<close>: what its encoder appends, and that its
  decoder accepts exactly that. Decoders that go through \<open>decode_u16_prefixed\<close> may panic on a
  truncated buffer; for all others the lemmas \<open>*_returns\<close> show that no input makes them panic.
\<close>

section \<open>Code points\<close>

lemma TransitionFailure_as_u8_inject:
  "TransitionFailure_as_u8 f = TransitionFailure_as_u8 g \<longleftrightarrow> f = g"
  by (cases f; cases g) (simp_all add: TransitionFailure_as_u8_def)

lemma TransitionFailure_try_from_iff:
  "TransitionFailure_try_from b = Ok f \<longleftrightarrow> b = TransitionFailure_as_u8 f"
proof
  assume "TransitionFailure_try_from b = Ok f"
  then show "b = TransitionFailure_as_u8 f"
    by (auto simp: TransitionFailure_try_from_def split: if_splits)
next
  assume "b = TransitionFailure_as_u8 f"
  then show "TransitionFailure_try_from b = Ok f"
    by (cases f) (simp_all add: TransitionFailure_try_from_def TransitionFailure_as_u8_inject)
qed

lemma HpkeKemId_from_u16_iff:
  "HpkeKemId_from_u16 x = k \<longleftrightarrow> wf_HpkeKemId k \<and> x = u16_from_HpkeKemId k"
  by (cases k) (auto simp: HpkeKemId_from_u16_def u16_from_HpkeKemId_def hpke_id_defs)

lemma HpkeKdfId_from_u16_iff:
  "HpkeKdfId_from_u16 x = k \<longleftrightarrow> wf_HpkeKdfId k \<and> x = u16_from_HpkeKdfId k"
  by (cases k) (auto simp: HpkeKdfId_from_u16_def u16_from_HpkeKdfId_def)

lemma HpkeAeadId_from_u16_iff:
  "HpkeAeadId_from_u16 x = k \<longleftrightarrow> wf_HpkeAeadId k \<and> x = u16_from_HpkeAeadId k"
  by (cases k) (auto simp: HpkeAeadId_from_u16_def u16_from_HpkeAeadId_def)

section \<open>Identifiers\<close>

lemmas id_encode_defs =
  AggregationJobId_encode_def BatchId_encode_def CollectionJobId_encode_def ReportId_encode_def
  TaskId_encode_def

lemma append_only_ids [simp]:
  "append_only (AggregationJobId_encode a)" "append_only (BatchId_encode b)"
  "append_only (CollectionJobId_encode d)" "append_only (ReportId_encode r)"
  "append_only (TaskId_encode t)"
  by (auto simp: append_only_def appends_def id_encode_defs)

lemma AggregationJobId_decode_iff [wire_iff]:
  "AggregationJobId_decode c = Ok (x, c') \<longleftrightarrow> wf_AggregationJobId x \<and> matches (AggregationJobId_encode x) c c'"
  by (cases x) (auto simp: AggregationJobId_decode_def wf_AggregationJobId_def id_encode_defs [abs_def] wire_iff)

lemma BatchId_decode_iff [wire_iff]:
  "BatchId_decode c = Ok (x, c') \<longleftrightarrow> wf_BatchId x \<and> matches (BatchId_encode x) c c'"
  by (cases x) (auto simp: BatchId_decode_def wf_BatchId_def id_encode_defs [abs_def] wire_iff)

lemma CollectionJobId_decode_iff [wire_iff]:
  "CollectionJobId_decode c = Ok (x, c') \<longleftrightarrow> wf_CollectionJobId x \<and> matches (CollectionJobId_encode x) c c'"
  by (cases x) (auto simp: CollectionJobId_decode_def wf_CollectionJobId_def id_encode_defs [abs_def] wire_iff)

lemma ReportId_decode_iff [wire_iff]:
  "ReportId_decode c = Ok (x, c') \<longleftrightarrow> wf_ReportId x \<and> matches (ReportId_encode x) c c'"
  by (cases x) (auto simp: ReportId_decode_def wf_ReportId_def id_encode_defs [abs_def] wire_iff)

lemma TaskId_decode_iff [wire_iff]:
  "TaskId_decode c = Ok (x, c') \<longleftrightarrow> wf_TaskId x \<and> matches (TaskId_encode x) c c'"
  by (cases x) (auto simp: TaskId_decode_def wf_TaskId_def id_encode_defs [abs_def] wire_iff)

lemma ids_decode_return [simp]:
  "AggregationJobId_decode c \<noteq> Panic" "BatchId_decode c \<noteq> Panic" "CollectionJobId_decode c \<noteq> Panic"
  "ReportId_decode c \<noteq> Panic" "TaskId_decode c \<noteq> Panic"
  by (auto simp: AggregationJobId_decode_def BatchId_decode_def CollectionJobId_decode_def
    ReportId_decode_def TaskId_decode_def and_then_Panic_iff)

section \<open>The contract of each message\<close>

context prio_codec_laws
begin

lemma ReportMetadata_append_only [simp]: "append_only (ReportMetadata_encode_with_param P v x)"
  by (simp add: ReportMetadata_encode_with_param_def [abs_def])

lemma ReportMetadata_decode_iff [wire_iff]:
  "ReportMetadata_decode_with_param P v c = Ok (x, c') \<longleftrightarrow> wf_ReportMetadata x \<and> matches (ReportMetadata_encode_with_param P v x) c c'"
  by (cases x) (auto simp: ReportMetadata_decode_with_param_def ReportMetadata_encode_with_param_def [abs_def] wire_iff wf_ReportMetadata_def)

lemma ReportMetadata_decode_returns [simp]: "ReportMetadata_decode_with_param P v c \<noteq> Panic"
  by (auto simp: ReportMetadata_decode_with_param_def and_then_Panic_iff split: if_splits)

lemma HpkeCiphertext_append_only [simp]: "append_only (HpkeCiphertext_encode P x)"
  by (simp add: HpkeCiphertext_encode_def [abs_def])

lemma HpkeCiphertext_decode_iff [wire_iff]:
  "HpkeCiphertext_decode P c = Ok (x, c') \<longleftrightarrow> matches (HpkeCiphertext_encode P x) c c'"
  by (cases x) (auto simp: HpkeCiphertext_decode_def HpkeCiphertext_encode_def [abs_def] wire_iff)

lemma HpkeCiphertext_decode_returns [simp]: "HpkeCiphertext_decode P c \<noteq> Panic"
  by (auto simp: HpkeCiphertext_decode_def and_then_Panic_iff split: if_splits)

lemma Report_append_only [simp]: "append_only (Report_encode_with_param P v x)"
  by (simp add: Report_encode_with_param_def [abs_def])

lemma Report_decode_iff [wire_iff]:
  "Report_decode_with_param P v c = Ok (x, c') \<longleftrightarrow> wf_Report x \<and> matches (Report_encode_with_param P v x) c c'"
  by (cases x) (auto simp: Report_decode_with_param_def Report_encode_with_param_def [abs_def] wire_iff wf_Report_def; blast)

lemma Report_decode_returns [simp]: "Report_decode_with_param P v c \<noteq> Panic"
  by (auto simp: Report_decode_with_param_def and_then_Panic_iff split: if_splits)

lemma ReportShare_append_only [simp]: "append_only (ReportShare_encode_with_param P v x)"
  by (simp add: ReportShare_encode_with_param_def [abs_def])

lemma ReportShare_decode_iff [wire_iff]:
  "ReportShare_decode_with_param P v c = Ok (x, c') \<longleftrightarrow> wf_ReportShare x \<and> matches (ReportShare_encode_with_param P v x) c c'"
  by (cases x) (auto simp: ReportShare_decode_with_param_def ReportShare_encode_with_param_def [abs_def] wire_iff wf_ReportShare_def)

lemma ReportShare_decode_returns [simp]: "ReportShare_decode_with_param P v c \<noteq> Panic"
  by (auto simp: ReportShare_decode_with_param_def and_then_Panic_iff split: if_splits)

lemma Interval_append_only [simp]: "append_only (Interval_encode P x)"
  by (simp add: Interval_encode_def [abs_def])

lemma Interval_decode_iff [wire_iff]:
  "Interval_decode P c = Ok (x, c') \<longleftrightarrow> matches (Interval_encode P x) c c'"
  by (cases x) (auto simp: Interval_decode_def Interval_encode_def [abs_def] wire_iff)

lemma Interval_decode_returns [simp]: "Interval_decode P c \<noteq> Panic"
  by (auto simp: Interval_decode_def and_then_Panic_iff split: if_splits)

lemma PartialBatchSelector_append_only [simp]: "append_only (PartialBatchSelector_encode P x)"
  by (cases x) (simp_all add: PartialBatchSelector_encode_def [abs_def])

lemma PartialBatchSelector_decode_iff [wire_iff]:
  "PartialBatchSelector_decode P c = Ok (x, c') \<longleftrightarrow> wf_PartialBatchSelector x \<and> matches (PartialBatchSelector_encode P x) c c'"
  by (cases x) (auto simp: PartialBatchSelector_decode_def PartialBatchSelector_encode_def [abs_def] wire_iff result_simps
    query_type_defs)

lemma PartialBatchSelector_decode_returns [simp]: "PartialBatchSelector_decode P c \<noteq> Panic"
  by (auto simp: PartialBatchSelector_decode_def and_then_Panic_iff query_type_defs split: if_splits)

lemma BatchSelector_append_only [simp]: "append_only (BatchSelector_encode P x)"
  by (cases x) (simp_all add: BatchSelector_encode_def [abs_def])

lemma BatchSelector_decode_iff [wire_iff]:
  "BatchSelector_decode P c = Ok (x, c') \<longleftrightarrow> wf_BatchSelector x \<and> matches (BatchSelector_encode P x) c c'"
  by (cases x) (auto simp: BatchSelector_decode_def BatchSelector_encode_def [abs_def] wire_iff result_simps
    query_type_defs)

lemma BatchSelector_decode_returns [simp]: "BatchSelector_decode P c \<noteq> Panic"
  by (auto simp: BatchSelector_decode_def and_then_Panic_iff query_type_defs split: if_splits)

lemma PrepareInit_append_only [simp]: "append_only (PrepareInit_encode_with_param P v x)"
  by (simp add: PrepareInit_encode_with_param_def [abs_def])

lemma PrepareInit_decode_iff [wire_iff]:
  "PrepareInit_decode_with_param P v c = Ok (x, c') \<longleftrightarrow> wf_PrepareInit x \<and> matches (PrepareInit_encode_with_param P v x) c c'"
  by (cases x) (auto simp: PrepareInit_decode_with_param_def PrepareInit_encode_with_param_def [abs_def] wire_iff wf_PrepareInit_def)

lemma PrepareInit_decode_returns [simp]: "PrepareInit_decode_with_param P v c \<noteq> Panic"
  by (auto simp: PrepareInit_decode_with_param_def and_then_Panic_iff split: if_splits)

lemma TransitionFailure_append_only [simp]: "append_only (TransitionFailure_encode P x)"
  by (simp add: TransitionFailure_encode_def)

lemma TransitionFailure_decode_iff [wire_iff]:
  "TransitionFailure_decode P c = Ok (x, c') \<longleftrightarrow> matches (TransitionFailure_encode P x) c c'"
  by (auto simp: TransitionFailure_decode_def TransitionFailure_encode_def TransitionFailure_try_from_iff wire_iff)

lemma TransitionFailure_decode_returns [simp]: "TransitionFailure_decode P c \<noteq> Panic"
  by (auto simp: TransitionFailure_decode_def and_then_Panic_iff TransitionFailure_try_from_def split: if_splits)

lemma TransitionVar_append_only [simp]: "append_only (TransitionVar_encode P x)"
  by (cases x) (simp_all add: TransitionVar_encode_def [abs_def])

lemma TransitionVar_decode_iff [wire_iff]:
  "TransitionVar_decode P c = Ok (x, c') \<longleftrightarrow> matches (TransitionVar_encode P x) c c'"
  by (cases x) (auto simp: TransitionVar_decode_def TransitionVar_encode_def [abs_def] wire_iff result_simps
    query_type_defs)

lemma TransitionVar_decode_returns [simp]: "TransitionVar_decode P c \<noteq> Panic"
  by (auto simp: TransitionVar_decode_def and_then_Panic_iff split: if_splits)

lemma Transition_append_only [simp]: "append_only (Transition_encode P x)"
  by (simp add: Transition_encode_def [abs_def])

lemma Transition_decode_iff [wire_iff]:
  "Transition_decode P c = Ok (x, c') \<longleftrightarrow> wf_Transition x \<and> matches (Transition_encode P x) c c'"
  by (cases x) (auto simp: Transition_decode_def Transition_encode_def [abs_def] wire_iff wf_Transition_def)

lemma Transition_decode_returns [simp]: "Transition_decode P c \<noteq> Panic"
  by (auto simp: Transition_decode_def and_then_Panic_iff split: if_splits)

lemma Query_append_only [simp]: "append_only (Query_encode_with_param P v x)"
  by (cases x) (simp_all add: Query_encode_with_param_def [abs_def])

lemma Query_decode_iff [wire_iff]:
  "Query_decode_with_param P v c = Ok (x, c') \<longleftrightarrow> wf_Query x \<and> matches (Query_encode_with_param P v x) c c'"
  by (cases x) (auto simp: Query_decode_with_param_def Query_encode_with_param_def [abs_def] wire_iff result_simps
    query_type_defs)

lemma Query_decode_returns [simp]: "Query_decode_with_param P v c \<noteq> Panic"
  by (auto simp: Query_decode_with_param_def and_then_Panic_iff query_type_defs split: if_splits)

lemma CollectionReq_append_only [simp]: "append_only (CollectionReq_encode_with_param P v x)"
  by (simp add: CollectionReq_encode_with_param_def [abs_def])

lemma CollectionReq_decode_iff [wire_iff]:
  "CollectionReq_decode_with_param P v c = Ok (x, c') \<longleftrightarrow> wf_CollectionReq x \<and> matches (CollectionReq_encode_with_param P v x) c c'"
  by (cases x) (auto simp: CollectionReq_decode_with_param_def CollectionReq_encode_with_param_def [abs_def] wire_iff wf_CollectionReq_def)

lemma CollectionReq_decode_returns [simp]: "CollectionReq_decode_with_param P v c \<noteq> Panic"
  by (auto simp: CollectionReq_decode_with_param_def and_then_Panic_iff split: if_splits)

lemma Collection_append_only [simp]: "append_only (Collection_encode_with_param P v x)"
  by (simp add: Collection_encode_with_param_def [abs_def])

lemma Collection_decode_iff [wire_iff]:
  "Collection_decode_with_param P v c = Ok (x, c') \<longleftrightarrow> wf_Collection x \<and> matches (Collection_encode_with_param P v x) c c'"
  by (cases x) (auto simp: Collection_decode_with_param_def Collection_encode_with_param_def [abs_def] wire_iff wf_Collection_def; blast)

lemma Collection_decode_returns [simp]: "Collection_decode_with_param P v c \<noteq> Panic"
  by (auto simp: Collection_decode_with_param_def and_then_Panic_iff split: if_splits)

lemma AggregateShareReq_append_only [simp]: "append_only (AggregateShareReq_encode_with_param P v x)"
  by (simp add: AggregateShareReq_encode_with_param_def [abs_def])

lemma AggregateShareReq_decode_iff [wire_iff]:
  "AggregateShareReq_decode_with_param P v c = Ok (x, c') \<longleftrightarrow> wf_AggregateShareReq x \<and> matches (AggregateShareReq_encode_with_param P v x) c c'"
  by (cases x) (auto simp: AggregateShareReq_decode_with_param_def AggregateShareReq_encode_with_param_def [abs_def] wire_iff wf_AggregateShareReq_def; blast)

lemma AggregateShareReq_decode_returns [simp]: "AggregateShareReq_decode_with_param P v c \<noteq> Panic"
  by (auto simp: AggregateShareReq_decode_with_param_def and_then_Panic_iff split: if_splits)

lemma AggregateShare_append_only [simp]: "append_only (AggregateShare_encode P x)"
  by (simp add: AggregateShare_encode_def [abs_def])

lemma AggregateShare_decode_iff [wire_iff]:
  "AggregateShare_decode P c = Ok (x, c') \<longleftrightarrow> matches (AggregateShare_encode P x) c c'"
  by (cases x) (auto simp: AggregateShare_decode_def AggregateShare_encode_def [abs_def] wire_iff)

lemma AggregateShare_decode_returns [simp]: "AggregateShare_decode P c \<noteq> Panic"
  by (auto simp: AggregateShare_decode_def and_then_Panic_iff split: if_splits)

lemma HpkeKemId_append_only [simp]: "append_only (HpkeKemId_encode P x)"
  by (simp add: HpkeKemId_encode_def)

lemma HpkeKemId_decode_iff [wire_iff]:
  "HpkeKemId_decode P c = Ok (x, c') \<longleftrightarrow> wf_HpkeKemId x \<and> matches (HpkeKemId_encode P x) c c'"
  by (auto simp: HpkeKemId_decode_def HpkeKemId_encode_def wire_iff HpkeKemId_from_u16_iff)

lemma HpkeKemId_decode_returns [simp]: "HpkeKemId_decode P c \<noteq> Panic"
  by (auto simp: HpkeKemId_decode_def and_then_Panic_iff)

lemma HpkeKdfId_append_only [simp]: "append_only (HpkeKdfId_encode P x)"
  by (simp add: HpkeKdfId_encode_def)

lemma HpkeKdfId_decode_iff [wire_iff]:
  "HpkeKdfId_decode P c = Ok (x, c') \<longleftrightarrow> wf_HpkeKdfId x \<and> matches (HpkeKdfId_encode P x) c c'"
  by (auto simp: HpkeKdfId_decode_def HpkeKdfId_encode_def wire_iff HpkeKdfId_from_u16_iff)

lemma HpkeKdfId_decode_returns [simp]: "HpkeKdfId_decode P c \<noteq> Panic"
  by (auto simp: HpkeKdfId_decode_def and_then_Panic_iff)

lemma HpkeAeadId_append_only [simp]: "append_only (HpkeAeadId_encode P x)"
  by (simp add: HpkeAeadId_encode_def)

lemma HpkeAeadId_decode_iff [wire_iff]:
  "HpkeAeadId_decode P c = Ok (x, c') \<longleftrightarrow> wf_HpkeAeadId x \<and> matches (HpkeAeadId_encode P x) c c'"
  by (auto simp: HpkeAeadId_decode_def HpkeAeadId_encode_def wire_iff HpkeAeadId_from_u16_iff)

lemma HpkeAeadId_decode_returns [simp]: "HpkeAeadId_decode P c \<noteq> Panic"
  by (auto simp: HpkeAeadId_decode_def and_then_Panic_iff)

lemma HpkeConfig_append_only [simp]: "append_only (HpkeConfig_encode P x)"
  by (simp add: HpkeConfig_encode_def [abs_def])

lemma HpkeConfig_decode_iff [wire_iff]:
  "HpkeConfig_decode P c = Ok (x, c') \<longleftrightarrow> wf_HpkeConfig x \<and> matches (HpkeConfig_encode P x) c c'"
  by (cases x) (auto simp: HpkeConfig_decode_def HpkeConfig_encode_def [abs_def] wire_iff wf_HpkeConfig_def; blast)

lemma HpkeConfig_decode_returns [simp]: "HpkeConfig_decode P c \<noteq> Panic"
  by (auto simp: HpkeConfig_decode_def and_then_Panic_iff split: if_splits)

lemma Extension_append_only [simp]: "append_only (Extension_encode_with_param P v x)"
  by (cases x) (simp_all add: Extension_encode_with_param_def [abs_def])

lemma Extension_taskprov_payload:
  "decode_u16_prefixed P v c (\<lambda>_ inner _. Ok ((), inner)) = Ok ((), c') \<longleftrightarrow>
   matches (\<lambda>bs. encode_u16_prefixed P v bs (\<lambda>_ inner. Ok inner)) c c'"
  by (subst decode_u16_prefixed_matches [where good = True and e = "\<lambda>_ inner. Ok inner"])
    (auto simp: cursor_new_def)

lemma Extension_decode_iff [wire_iff]:
  "Extension_decode_with_param P v c = Ok (x, c') \<longleftrightarrow>
   wf_Extension x \<and> matches (Extension_encode_with_param P v x) c c'"
  by (cases x) (auto simp: Extension_decode_with_param_def Extension_encode_with_param_def [abs_def]
    Extension_taskprov_payload wire_iff result_simps)

lemma Extension_decode_truncated:
  assumes "reads c (u16_to_be_bytes EXTENSION_TASKPROV @ u16_to_be_bytes n) c1"
    and "length (get_ref c) < position c1 + unat n"
  shows "Extension_decode_with_param P v c = Panic"
proof -
  obtain c0 where c0: "reads c (u16_to_be_bytes EXTENSION_TASKPROV) c0" "reads c0 (u16_to_be_bytes n) c1"
    using assms(1) by (auto simp: reads_append)
  then have "get_ref c0 = get_ref c"
    by (simp add: reads_def)
  with c0 assms(2) show ?thesis
    by (simp add: Extension_decode_with_param_def u16_decode [THEN iffD2, OF c0(1)]
      decode_u16_prefixed_truncated [OF c0(2)])
qed

lemma TransitionVar_nonempty: "\<not> appends (TransitionVar_encode P x) []"
  by (cases x) (auto simp: TransitionVar_encode_def [abs_def] appends_seq wire_bytes)

lemma item_encodings_nonempty:
  "\<not> appends (Extension_encode_with_param P v e) []"
  "\<not> appends (HpkeConfig_encode P h) []"
  "\<not> appends (PrepareInit_encode_with_param P v p) []"
  "\<not> appends (Transition_encode P t) []"
  by (cases e) (auto simp: Extension_encode_with_param_def [abs_def] HpkeConfig_encode_def [abs_def]
      PrepareInit_encode_with_param_def [abs_def] Transition_encode_def [abs_def]
      TransitionVar_nonempty appends_seq wire_bytes)

lemma Extension_wire:
  "wire_codec (Extension_encode_with_param P v) (Extension_decode_with_param P v) wf_Extension"
  by unfold_locales (simp_all add: wire_iff)

lemma HpkeConfig_wire: "wire_codec (HpkeConfig_encode P) (HpkeConfig_decode P) wf_HpkeConfig"
  by unfold_locales (simp_all add: wire_iff)

lemma PrepareInit_wire:
  "wire_codec (PrepareInit_encode_with_param P v) (PrepareInit_decode_with_param P v) wf_PrepareInit"
  by unfold_locales (simp_all add: wire_iff)

lemma Transition_wire: "wire_codec (Transition_encode P) (Transition_decode P) wf_Transition"
  by unfold_locales (simp_all add: wire_iff)

lemma Report_wire:
  "wire_codec (Report_encode_with_param P v) (Report_decode_with_param P v) wf_Report"
  by unfold_locales (simp_all add: wire_iff)

lemma CollectionReq_wire:
  "wire_codec (CollectionReq_encode_with_param P v) (CollectionReq_decode_with_param P v) wf_CollectionReq"
  by unfold_locales (simp_all add: wire_iff)

lemma Collection_wire:
  "wire_codec (Collection_encode_with_param P v) (Collection_decode_with_param P v) wf_Collection"
  by unfold_locales (simp_all add: wire_iff)

lemma AggregateShareReq_wire:
  "wire_codec (AggregateShareReq_encode_with_param P v) (AggregateShareReq_decode_with_param P v)
     wf_AggregateShareReq"
  by unfold_locales (simp_all add: wire_iff)

lemma AggregateShare_wire:
  "wire_codec (AggregateShare_encode P) (AggregateShare_decode P) (\<lambda>_. True)"
  by unfold_locales (simp_all add: wire_iff)

end

section \<open>Messages with item vectors\<close>

locale prio_messages_laws = prio_codec_laws P
  for P :: "'z prio_messages_scheme" +
  assumes items_Extension: "decodes_u16_items (decode_u16_items_Extension P)"
    and items_HpkeConfig: "decodes_u16_items (decode_u16_items_HpkeConfig P)"
    and items_PrepareInit: "decodes_u32_items (decode_u32_items_PrepareInit P)"
    and items_Transition: "decodes_u32_items (decode_u32_items_Transition P)"
    and whole_Report: "decodes_whole (get_decoded_Report P)"
    and whole_PlaintextInputShare: "decodes_whole (get_decoded_PlaintextInputShare P)"
    and whole_AggregationJobInitReq: "decodes_whole (get_decoded_AggregationJobInitReq P)"
    and whole_AggregationJobResp: "decodes_whole (get_decoded_AggregationJobResp P)"
    and whole_CollectionReq: "decodes_whole (get_decoded_CollectionReq P)"
    and whole_Collection: "decodes_whole (get_decoded_Collection P)"
    and whole_AggregateShareReq: "decodes_whole (get_decoded_AggregateShareReq P)"
    and whole_AggregateShare: "decodes_whole (get_decoded_AggregateShare P)"
    and whole_HpkeConfigList: "decodes_whole (get_decoded_HpkeConfigList P)"
begin

lemmas prep_inits_decode_iff =
  wire_codec.dec_matches [OF wire_codec_u32_items [OF PrepareInit_wire item_encodings_nonempty(3) items_PrepareInit]]

lemmas transitions_decode_iff =
  wire_codec.dec_matches [OF wire_codec_u32_items [OF Transition_wire item_encodings_nonempty(4) items_Transition]]

lemmas hpke_configs_decode_iff =
  wire_codec.dec_matches [OF wire_codec_u16_items [OF HpkeConfig_wire item_encodings_nonempty(2) items_HpkeConfig]]

lemmas extensions_decode_iff =
  wire_codec.dec_matches [OF wire_codec_u16_items [OF Extension_wire item_encodings_nonempty(1) items_Extension]]

lemma AggregationJobInitReq_append_only [simp]:
  "append_only (AggregationJobInitReq_encode_with_param P v x)"
  by (simp add: AggregationJobInitReq_encode_with_param_def [abs_def] list_all_iff)

lemma AggregationJobInitReq_wire:
  "wire_codec (AggregationJobInitReq_encode_with_param P v) (AggregationJobInitReq_decode_with_param P v)
     wf_AggregationJobInitReq"
proof
  show "AggregationJobInitReq_decode_with_param P v c = Ok (x, c') \<longleftrightarrow>
      wf_AggregationJobInitReq x \<and> matches (AggregationJobInitReq_encode_with_param P v x) c c'"
    for c x c'
    by (cases x) (auto simp: AggregationJobInitReq_decode_with_param_def wf_AggregationJobInitReq_def
      AggregationJobInitReq_encode_with_param_def [abs_def] prep_inits_decode_iff wire_iff list_all_iff; blast)
qed simp

lemma AggregationJobResp_append_only [simp]: "append_only (AggregationJobResp_encode P x)"
  by (simp add: AggregationJobResp_encode_def list_all_iff)

lemma AggregationJobResp_wire:
  "wire_codec (AggregationJobResp_encode P) (AggregationJobResp_decode P) wf_AggregationJobResp"
proof
  show "AggregationJobResp_decode P c = Ok (x, c') \<longleftrightarrow>
      wf_AggregationJobResp x \<and> matches (AggregationJobResp_encode P x) c c'" for c x c'
    by (cases x) (auto simp: AggregationJobResp_decode_def AggregationJobResp_encode_def
      wf_AggregationJobResp_def transitions_decode_iff)
qed simp

lemma HpkeConfigList_append_only [simp]: "append_only (HpkeConfigList_encode P x)"
  by (simp add: HpkeConfigList_encode_def list_all_iff)

lemma HpkeConfigList_wire:
  "wire_codec (HpkeConfigList_encode P) (HpkeConfigList_decode P) wf_HpkeConfigList"
proof
  show "HpkeConfigList_decode P c = Ok (x, c') \<longleftrightarrow>
      wf_HpkeConfigList x \<and> matches (HpkeConfigList_encode P x) c c'" for c x c'
    by (cases x) (auto simp: HpkeConfigList_decode_def HpkeConfigList_encode_def
      wf_HpkeConfigList_def hpke_configs_decode_iff)
qed simp

lemma PlaintextInputShare_append_only [simp]:
  "append_only (PlaintextInputShare_encode_with_param P v x)"
  by (simp add: PlaintextInputShare_encode_with_param_def [abs_def] list_all_iff)

lemma PlaintextInputShare_wire:
  "wire_codec (PlaintextInputShare_encode_with_param P v) (PlaintextInputShare_decode_with_param P v)
     wf_PlaintextInputShare"
proof
  show "PlaintextInputShare_decode_with_param P v c = Ok (x, c') \<longleftrightarrow>
      wf_PlaintextInputShare x \<and> matches (PlaintextInputShare_encode_with_param P v x) c c'" for c x c'
    by (cases x) (auto simp: PlaintextInputShare_decode_with_param_def wf_PlaintextInputShare_def
      PlaintextInputShare_encode_with_param_def [abs_def] extensions_decode_iff wire_iff list_all_iff)
qed simp

lemma AggregationJobInitReq_decode_returns: "AggregationJobInitReq_decode_with_param P v c \<noteq> Panic"
  by (auto simp: AggregationJobInitReq_decode_with_param_def and_then_Panic_iff
    decodes_u32_items_return [OF items_PrepareInit])

lemma AggregationJobResp_decode_returns: "AggregationJobResp_decode P c \<noteq> Panic"
  by (auto simp: AggregationJobResp_decode_def and_then_Panic_iff
    decodes_u32_items_return [OF items_Transition])

lemma HpkeConfigList_decode_returns: "HpkeConfigList_decode P c \<noteq> Panic"
  by (auto simp: HpkeConfigList_decode_def and_then_Panic_iff
    decodes_u16_items_return [OF items_HpkeConfig])

end

end
