(* ===== verification/Wire_Instance.thy ===== *)
theory Wire_Instance
  imports Messages_Wire "HOL-Library.Code_Target_Nat"
begin

text \<open>
  A concrete codec that satisfies the laws assumed of \<open>prio::codec\<close>: integers in network byte
  order, vectors with a length prefix. It shows that the assumptions of \<open>prio_codec_laws\<close> and
  \<open>prio_messages_laws\<close> hold together, and the witnesses evaluate the message codecs on it.
  The last section states the properties of the message codecs.
\<close>

section \<open>A big-endian codec\<close>

definition be_decode_u8 :: "u8 decoder" where
  "be_decode_u8 c = and_then (read_exact Io 1 c) (\<lambda>(w, c'). Ok (hd w, c'))"

definition be_decode_u16 :: "u16 decoder" where
  "be_decode_u16 c = and_then (read_exact Io 2 c) (\<lambda>(w, c'). Ok (of_nat (be_value 0 w), c'))"

definition be_decode_u32 :: "u32 decoder" where
  "be_decode_u32 c = and_then (read_exact Io 4 c) (\<lambda>(w, c'). Ok (of_nat (be_value 0 w), c'))"

definition be_decode_u64 :: "u64 decoder" where
  "be_decode_u64 c = and_then (read_exact Io 8 c) (\<lambda>(w, c'). Ok (of_nat (be_value 0 w), c'))"

definition be_encode_items :: "(nat \<Rightarrow> bytes) \<Rightarrow> nat \<Rightarrow> encoder list \<Rightarrow> encoder" where
  "be_encode_items prefix limit es bs =
     and_then (try_fold (\<lambda>out e. e out) [] es) (\<lambda>body.
       if length body < limit then Ok (bs @ prefix (length body) @ body)
       else Err (LengthPrefixTooBig (length body)))"

partial_function (option) be_decode_loop ::
  "'a decoder \<Rightarrow> 'a list \<Rightarrow> cursor \<Rightarrow> ('a list, codec_error) result option" where
  "be_decode_loop dec acc c =
     (if length (get_ref c) \<le> position c then Some (Ok (rev acc))
      else (case dec c of
              Ok xc \<Rightarrow> be_decode_loop dec (fst xc # acc) (snd xc)
            | Err e \<Rightarrow> Some (Err e)
            | Panic \<Rightarrow> Some Panic))"

declare be_decode_loop.simps [code]

definition be_decode_body :: "'a decoder \<Rightarrow> bytes \<Rightarrow> ('a list, codec_error) result" where
  "be_decode_body dec body = (case be_decode_loop dec [] (cursor_new body) of Some r \<Rightarrow> r | None \<Rightarrow> Err Io)"

definition be_decode_items :: "nat decoder \<Rightarrow> 'a decoder \<Rightarrow> 'a list decoder" where
  "be_decode_items prefix dec c =
     and_then (prefix c) (\<lambda>(n, c).
     and_then (read_exact Io n c) (\<lambda>(body, c).
     and_then (be_decode_body dec body) (\<lambda>xs. Ok (xs, c))))"

definition be_decode_u8_items :: "'a decoder \<Rightarrow> 'a list decoder" where
  "be_decode_u8_items = be_decode_items (\<lambda>c. and_then (be_decode_u8 c) (\<lambda>(n, c). Ok (unat n, c)))"

definition be_decode_u16_items :: "'a decoder \<Rightarrow> 'a list decoder" where
  "be_decode_u16_items = be_decode_items (\<lambda>c. and_then (be_decode_u16 c) (\<lambda>(n, c). Ok (unat n, c)))"

definition be_decode_u32_items :: "'a decoder \<Rightarrow> 'a list decoder" where
  "be_decode_u32_items = be_decode_items (\<lambda>c. and_then (be_decode_u32 c) (\<lambda>(n, c). Ok (unat n, c)))"

definition be_get_decoded :: "'a decoder \<Rightarrow> bytes \<Rightarrow> ('a, codec_error) result" where
  "be_get_decoded dec bs = and_then (dec (cursor_new bs)) (\<lambda>(x, c).
     if length bs \<le> position c then Ok x else Err (BytesLeftOver (length bs - position c)))"

definition be_messages :: prio_messages where
  "be_messages = \<lparr>
     u8_encode = (\<lambda>x bs. Ok (bs @ [x])),
     u16_encode = (\<lambda>x bs. Ok (bs @ u16_to_be_bytes x)),
     u32_encode = (\<lambda>x bs. Ok (bs @ u32_to_be_bytes x)),
     u64_encode = (\<lambda>x bs. Ok (bs @ u64_to_be_bytes x)),
     u8_decode = be_decode_u8, u16_decode = be_decode_u16,
     u32_decode = be_decode_u32, u64_decode = be_decode_u64,
     encode_u8_items = be_encode_items (\<lambda>n. [of_nat n]) (2 ^ 8),
     encode_u16_items = be_encode_items (\<lambda>n. u16_to_be_bytes (of_nat n)) (2 ^ 16),
     encode_u32_items = be_encode_items (\<lambda>n. u32_to_be_bytes (of_nat n)) (2 ^ 32),
     get_encoded = (\<lambda>e. e []),
     decode_u16_items_Extension = be_decode_u16_items,
     decode_u16_items_HpkeConfig = be_decode_u16_items,
     decode_u32_items_PrepareInit = be_decode_u32_items,
     decode_u32_items_Transition = be_decode_u32_items,
     get_decoded_Report = be_get_decoded,
     get_decoded_PlaintextInputShare = be_get_decoded,
     get_decoded_AggregationJobInitReq = be_get_decoded,
     get_decoded_AggregationJobResp = be_get_decoded,
     get_decoded_CollectionReq = be_get_decoded,
     get_decoded_Collection = be_get_decoded,
     get_decoded_AggregateShareReq = be_get_decoded,
     get_decoded_AggregateShare = be_get_decoded,
     get_decoded_HpkeConfigList = be_get_decoded\<rparr>"

section \<open>It satisfies the laws\<close>

lemma be_decode_u8_iff: "be_decode_u8 c = Ok (x, c') \<longleftrightarrow> reads c [x] c'"
proof -
  have w: "length w = 1 \<and> hd w = x \<longleftrightarrow> w = [x]" for w :: bytes
    by (cases w) auto
  have "be_decode_u8 c = Ok (x, c') \<longleftrightarrow> (\<exists>w. (length w = 1 \<and> hd w = x) \<and> reads c w c')"
    by (auto simp: be_decode_u8_def read_exact_Ok_iff)
  then show ?thesis
    unfolding w by simp
qed

lemma be_decode_u16_iff: "be_decode_u16 c = Ok (x, c') \<longleftrightarrow> reads c (u16_to_be_bytes x) c'"
proof -
  have w: "length w = 2 \<and> of_nat (be_value 0 w) = x \<longleftrightarrow> w = u16_to_be_bytes x" for w
    by (auto simp: u16_to_be_bytes_of_value)
  have "be_decode_u16 c = Ok (x, c') \<longleftrightarrow> (\<exists>w. (length w = 2 \<and> of_nat (be_value 0 w) = x) \<and> reads c w c')"
    by (auto simp: be_decode_u16_def read_exact_Ok_iff)
  then show ?thesis
    unfolding w by simp
qed

lemma be_decode_u32_iff: "be_decode_u32 c = Ok (x, c') \<longleftrightarrow> reads c (u32_to_be_bytes x) c'"
proof -
  have w: "length w = 4 \<and> of_nat (be_value 0 w) = x \<longleftrightarrow> w = u32_to_be_bytes x" for w
    by (auto simp: u32_to_be_bytes_of_value)
  have "be_decode_u32 c = Ok (x, c') \<longleftrightarrow> (\<exists>w. (length w = 4 \<and> of_nat (be_value 0 w) = x) \<and> reads c w c')"
    by (auto simp: be_decode_u32_def read_exact_Ok_iff)
  then show ?thesis
    unfolding w by simp
qed

lemma be_decode_u64_iff: "be_decode_u64 c = Ok (x, c') \<longleftrightarrow> reads c (u64_to_be_bytes x) c'"
proof -
  have w: "length w = 8 \<and> of_nat (be_value 0 w) = x \<longleftrightarrow> w = u64_to_be_bytes x" for w
    by (auto simp: u64_to_be_bytes_of_value)
  have "be_decode_u64 c = Ok (x, c') \<longleftrightarrow> (\<exists>w. (length w = 8 \<and> of_nat (be_value 0 w) = x) \<and> reads c w c')"
    by (auto simp: be_decode_u64_def read_exact_Ok_iff)
  then show ?thesis
    unfolding w by simp
qed

lemma be_decode_ints_return:
  "be_decode_u8 c \<noteq> Panic" "be_decode_u16 c \<noteq> Panic" "be_decode_u32 c \<noteq> Panic" "be_decode_u64 c \<noteq> Panic"
  by (auto simp: be_decode_u8_def be_decode_u16_def be_decode_u32_def be_decode_u64_def and_then_Panic_iff)

lemma try_fold_encoders_iff:
  "list_all append_only es \<Longrightarrow>
   try_fold (\<lambda>out e. e out) bs es = Ok out \<longleftrightarrow>
   (\<exists>ws. list_all2 appends es ws \<and> out = bs @ concat ws)"
proof (induction es arbitrary: bs)
  case Nil
  then show ?case by auto
next
  case (Cons e es)
  have e: "append_only e" using Cons.prems by simp
  have "try_fold (\<lambda>out e. e out) bs (e # es) = Ok out \<longleftrightarrow>
      (\<exists>mid. e bs = Ok mid \<and> (\<exists>ws. list_all2 appends es ws \<and> out = mid @ concat ws))"
    using Cons by auto
  also have "\<dots> \<longleftrightarrow> (\<exists>w. appends e w \<and> (\<exists>ws. list_all2 appends es ws \<and> out = (bs @ w) @ concat ws))"
    using append_onlyE [OF e, of bs] appendsD [of e] by metis
  also have "\<dots> \<longleftrightarrow> (\<exists>ws. list_all2 appends (e # es) ws \<and> out = bs @ concat ws)"
    unfolding list_all2_Cons1 by (metis append.assoc concat.simps(2))
  finally show ?case .
qed

lemma be_encode_items_iff:
  assumes "list_all append_only es"
  shows "be_encode_items prefix limit es bs = Ok out \<longleftrightarrow>
    (\<exists>ws. list_all2 appends es ws \<and> length (concat ws) < limit \<and>
          out = bs @ prefix (length (concat ws)) @ concat ws)"
  by (auto simp: be_encode_items_def try_fold_encoders_iff [OF assms] split: if_splits)

lemma be_decode_loop_sound:
  assumes "be_decode_loop dec acc c = Some (Ok ys)"
  shows "\<exists>xs. ys = rev acc @ xs \<and> decodes_all dec c xs"
proof -
  have "\<forall>ys. r = Ok ys \<longrightarrow> (\<exists>xs. ys = rev acc @ xs \<and> decodes_all dec c xs)"
    if "be_decode_loop dec acc c = Some r" for r
    using that
  proof (induction rule: be_decode_loop.raw_induct [rotated 1, consumes 1])
    case (1 loop dec acc c r)
    show ?case
    proof (cases "length (get_ref c) \<le> position c")
      case True
      then show ?thesis using 1(2) by (auto intro: exI [of _ "[]"])
    next
      case False
      show ?thesis
      proof (cases "dec c")
        case (Ok xc)
        obtain x c' where xc: "xc = (x, c')" by (cases xc)
        have "loop dec (x # acc) c' = Some r"
          using 1(2) False Ok xc by simp
        from 1(1) [OF this] have "\<forall>ys. r = Ok ys \<longrightarrow> (\<exists>xs. ys = rev (x # acc) @ xs \<and> decodes_all dec c' xs)" .
        then show ?thesis
          using False Ok xc by (metis (no_types, lifting) append.assoc append_Cons append_Nil
            decodes_all.simps(2) not_le rev.simps(2))
      qed (use 1(2) False in auto)
    qed
  qed
  then show ?thesis using assms by blast
qed

lemma be_decode_loop_complete:
  "decodes_all dec c xs \<Longrightarrow> be_decode_loop dec acc c = Some (Ok (rev acc @ xs))"
proof (induction xs arbitrary: acc c)
  case Nil
  then show ?case by (subst be_decode_loop.simps) simp
next
  case (Cons x xs)
  then show ?case by (subst be_decode_loop.simps) auto
qed

lemma be_decode_body_iff: "be_decode_body dec body = Ok xs \<longleftrightarrow> decodes_all dec (cursor_new body) xs"
proof
  assume "be_decode_body dec body = Ok xs"
  then have "be_decode_loop dec [] (cursor_new body) = Some (Ok xs)"
    by (simp add: be_decode_body_def split: option.splits)
  then show "decodes_all dec (cursor_new body) xs"
    using be_decode_loop_sound by fastforce
next
  assume "decodes_all dec (cursor_new body) xs"
  then show "be_decode_body dec body = Ok xs"
    by (simp add: be_decode_body_def be_decode_loop_complete [where acc = "[]"])
qed

lemma be_decode_body_returns:
  assumes "\<And>c. dec c \<noteq> Panic"
  shows "be_decode_body dec body \<noteq> Panic"
proof -
  have "r \<noteq> Panic" if "be_decode_loop dec acc c = Some r" "\<forall>c. dec c \<noteq> Panic" for acc c r
    using that
    by (induction rule: be_decode_loop.raw_induct [rotated 1, consumes 1])
      (auto split: if_splits result.splits)
  then show ?thesis
    using assms by (auto simp: be_decode_body_def split: option.splits)
qed

lemma be_decode_items_iff:
  assumes "\<And>c n c'. prefix c = Ok (n, c') \<longleftrightarrow> n < limit \<and> reads c (pre n) c'"
  shows "be_decode_items prefix dec c = Ok (xs, c') \<longleftrightarrow>
    (\<exists>body. length body < limit \<and> reads c (pre (length body) @ body) c' \<and>
            decodes_all dec (cursor_new body) xs)"
  by (auto simp: be_decode_items_def assms read_exact_Ok_iff be_decode_body_iff reads_append)

lemma be_decode_items_returns:
  assumes "\<And>c. prefix c \<noteq> Panic" and "\<And>c. dec c \<noteq> Panic"
  shows "be_decode_items prefix dec c \<noteq> Panic"
  using be_decode_body_returns [of dec] assms
  by (auto simp: be_decode_items_def and_then_Panic_iff)

lemma be_prefix_iff:
  "and_then (be_decode_u8 c) (\<lambda>(n, c). Ok (unat n, c)) = Ok (m, c') \<longleftrightarrow> m < 2 ^ 8 \<and> reads c [of_nat m] c'"
  "and_then (be_decode_u16 c) (\<lambda>(n, c). Ok (unat n, c)) = Ok (m, c') \<longleftrightarrow>
     m < 2 ^ 16 \<and> reads c (u16_to_be_bytes (of_nat m)) c'"
  "and_then (be_decode_u32 c) (\<lambda>(n, c). Ok (unat n, c)) = Ok (m, c') \<longleftrightarrow>
     m < 2 ^ 32 \<and> reads c (u32_to_be_bytes (of_nat m)) c'"
  by (auto simp: be_decode_u8_iff be_decode_u16_iff be_decode_u32_iff unat_of_nat
      intro: unsigned_less [THEN order_less_le_trans] exI [of _ "of_nat m"])

lemma be_decodes_items:
  "decodes_u8_items be_decode_u8_items"
  "decodes_u16_items be_decode_u16_items"
  "decodes_u32_items be_decode_u32_items"
  by (auto simp: decodes_u8_items_def decodes_u16_items_def decodes_u32_items_def
    be_decode_u8_items_def be_decode_u16_items_def be_decode_u32_items_def
    be_decode_items_iff [OF be_prefix_iff(1)] be_decode_items_iff [OF be_prefix_iff(2)]
    be_decode_items_iff [OF be_prefix_iff(3)] and_then_Panic_iff be_decode_ints_return
    dest!: be_decode_items_returns [THEN notE, rotated -1])

lemma be_decodes_whole: "decodes_whole be_get_decoded"
  by (auto simp: decodes_whole_def be_get_decoded_def and_then_Panic_iff split: if_splits)

interpretation be: prio_messages_laws be_messages
  by unfold_locales
    (simp_all add: be_messages_def be_decode_u8_iff be_decode_u16_iff be_decode_u32_iff be_decode_u64_iff
      be_decode_ints_return be_encode_items_iff be_decodes_items be_decodes_whole)

section \<open>Properties of the message codecs\<close>

text \<open>
  C28. The Helper decodes the body of an aggregation job request to a value exactly when the body is
  what the Leader's encoder writes for that value. So decoding is the inverse of encoding, every
  accepted body is canonical, and no two requests share an encoding.
\<close>

theorem AggregationJobInitReq_roundtrip:
  assumes "prio_messages_laws P"
  shows "get_decoded_AggregationJobInitReq P (AggregationJobInitReq_decode_with_param P v) bs = Ok x \<longleftrightarrow>
         wf_AggregationJobInitReq x \<and> get_encoded P (AggregationJobInitReq_encode_with_param P v x) = Ok bs"
  unfolding prio_codec_laws.get_encoded [OF prio_messages_laws.axioms(1) [OF assms]]
  by (rule wire_codec.whole_dec_iff [OF prio_messages_laws.AggregationJobInitReq_wire [OF assms]
      prio_messages_laws.whole_AggregationJobInitReq [OF assms]])

theorem AggregationJobInitReq_roundtrip_witness:
  "get_decoded_AggregationJobInitReq be_messages (AggregationJobInitReq_decode_with_param be_messages Latest) ([0, 0, 0, 2, 1, 2, 2] @ replicate 32 9 @ [0, 0, 0, 42] @ replicate 16 3 @
    [0, 0, 0, 0, 0, 0, 3, 232, 0, 0, 0, 0, 5, 0, 1, 1, 0, 0, 0, 1, 4, 0, 0, 0, 1, 8]) = Ok \<lparr>init_agg_param = [1, 2], init_part_batch_sel = PBS_FixedSizeByBatchId (BatchId (replicate 32 9)),
    prep_inits = [\<lparr>report_share = \<lparr>share_report_metadata = \<lparr>metadata_id = ReportId (replicate 16 3), metadata_time = 1000\<rparr>,
    share_public_share = [], encrypted_input_share = \<lparr>config_id = 5, ct_enc = [1], ct_payload = [4]\<rparr>\<rparr>, prep_payload = [8]\<rparr>]\<rparr>"
proof -
  have "wf_AggregationJobInitReq \<lparr>init_agg_param = [1, 2], init_part_batch_sel = PBS_FixedSizeByBatchId (BatchId (replicate 32 9)),
    prep_inits = [\<lparr>report_share = \<lparr>share_report_metadata = \<lparr>metadata_id = ReportId (replicate 16 3), metadata_time = 1000\<rparr>,
    share_public_share = [], encrypted_input_share = \<lparr>config_id = 5, ct_enc = [1], ct_payload = [4]\<rparr>\<rparr>, prep_payload = [8]\<rparr>]\<rparr> \<and>
        get_encoded be_messages (AggregationJobInitReq_encode_with_param be_messages Latest \<lparr>init_agg_param = [1, 2], init_part_batch_sel = PBS_FixedSizeByBatchId (BatchId (replicate 32 9)),
    prep_inits = [\<lparr>report_share = \<lparr>share_report_metadata = \<lparr>metadata_id = ReportId (replicate 16 3), metadata_time = 1000\<rparr>,
    share_public_share = [], encrypted_input_share = \<lparr>config_id = 5, ct_enc = [1], ct_payload = [4]\<rparr>\<rparr>, prep_payload = [8]\<rparr>]\<rparr>) = Ok ([0, 0, 0, 2, 1, 2, 2] @ replicate 32 9 @ [0, 0, 0, 42] @ replicate 16 3 @
    [0, 0, 0, 0, 0, 0, 3, 232, 0, 0, 0, 0, 5, 0, 1, 1, 0, 0, 0, 1, 4, 0, 0, 0, 1, 8])"
    by code_simp
  then show ?thesis
    by (simp only: AggregationJobInitReq_roundtrip [OF be.prio_messages_laws_axioms])
qed

text \<open>
  C29. The Leader decodes the body of the Helper's response to a value exactly when the body is what
  the Helper's encoder writes for that value; in particular the transitions come out in the order
  they were written and every failure keeps its code.
\<close>

theorem AggregationJobResp_roundtrip:
  assumes "prio_messages_laws P"
  shows "get_decoded_AggregationJobResp P (AggregationJobResp_decode P) bs = Ok x \<longleftrightarrow>
         wf_AggregationJobResp x \<and> get_encoded P (AggregationJobResp_encode P x) = Ok bs"
  unfolding prio_codec_laws.get_encoded [OF prio_messages_laws.axioms(1) [OF assms]]
  by (rule wire_codec.whole_dec_iff [OF prio_messages_laws.AggregationJobResp_wire [OF assms]
      prio_messages_laws.whole_AggregationJobResp [OF assms]])

theorem AggregationJobResp_roundtrip_witness:
  "get_decoded_AggregationJobResp be_messages (AggregationJobResp_decode be_messages) ([0, 0, 0, 40] @ replicate 16 3 @ [0, 0, 0, 0, 1, 7] @ replicate 16 4 @ [2, 1]) = Ok \<lparr>transitions = [\<lparr>transition_report_id = ReportId (replicate 16 3), transition_var = Continued [7]\<rparr>,
    \<lparr>transition_report_id = ReportId (replicate 16 4), transition_var = Failed ReportReplayed\<rparr>]\<rparr>"
proof -
  have "wf_AggregationJobResp \<lparr>transitions = [\<lparr>transition_report_id = ReportId (replicate 16 3), transition_var = Continued [7]\<rparr>,
    \<lparr>transition_report_id = ReportId (replicate 16 4), transition_var = Failed ReportReplayed\<rparr>]\<rparr> \<and>
        get_encoded be_messages (AggregationJobResp_encode be_messages \<lparr>transitions = [\<lparr>transition_report_id = ReportId (replicate 16 3), transition_var = Continued [7]\<rparr>,
    \<lparr>transition_report_id = ReportId (replicate 16 4), transition_var = Failed ReportReplayed\<rparr>]\<rparr>) = Ok ([0, 0, 0, 40] @ replicate 16 3 @ [0, 0, 0, 0, 1, 7] @ replicate 16 4 @ [2, 1])"
    by code_simp
  then show ?thesis
    by (simp only: AggregationJobResp_roundtrip [OF be.prio_messages_laws_axioms])
qed

text \<open>
  C30. The Leader decodes the body of an upload to a report exactly when the body is what the client's
  encoder writes for that report.
\<close>

theorem Report_roundtrip:
  assumes "prio_messages_laws P"
  shows "get_decoded_Report P (Report_decode_with_param P v) bs = Ok x \<longleftrightarrow>
         wf_Report x \<and> get_encoded P (Report_encode_with_param P v x) = Ok bs"
  unfolding prio_codec_laws.get_encoded [OF prio_messages_laws.axioms(1) [OF assms]]
  by (rule wire_codec.whole_dec_iff [OF prio_codec_laws.Report_wire [OF prio_messages_laws.axioms(1) [OF assms]]
      prio_messages_laws.whole_Report [OF assms]])

theorem Report_roundtrip_witness:
  "get_decoded_Report be_messages (Report_decode_with_param be_messages Latest) (replicate 16 3 @ [0, 0, 0, 0, 0, 0, 3, 232, 0, 0, 0, 1, 6, 5, 0, 1, 1, 0, 0, 0, 1, 4,
    5, 0, 1, 1, 0, 0, 0, 1, 4]) = Ok \<lparr>report_metadata = \<lparr>metadata_id = ReportId (replicate 16 3), metadata_time = 1000\<rparr>, public_share = [6],
    encrypted_input_shares = (\<lparr>config_id = 5, ct_enc = [1], ct_payload = [4]\<rparr>,
      \<lparr>config_id = 5, ct_enc = [1], ct_payload = [4]\<rparr>)\<rparr>"
proof -
  have "wf_Report \<lparr>report_metadata = \<lparr>metadata_id = ReportId (replicate 16 3), metadata_time = 1000\<rparr>, public_share = [6],
    encrypted_input_shares = (\<lparr>config_id = 5, ct_enc = [1], ct_payload = [4]\<rparr>,
      \<lparr>config_id = 5, ct_enc = [1], ct_payload = [4]\<rparr>)\<rparr> \<and>
        get_encoded be_messages (Report_encode_with_param be_messages Latest \<lparr>report_metadata = \<lparr>metadata_id = ReportId (replicate 16 3), metadata_time = 1000\<rparr>, public_share = [6],
    encrypted_input_shares = (\<lparr>config_id = 5, ct_enc = [1], ct_payload = [4]\<rparr>,
      \<lparr>config_id = 5, ct_enc = [1], ct_payload = [4]\<rparr>)\<rparr>) = Ok (replicate 16 3 @ [0, 0, 0, 0, 0, 0, 3, 232, 0, 0, 0, 1, 6, 5, 0, 1, 1, 0, 0, 0, 1, 4,
    5, 0, 1, 1, 0, 0, 0, 1, 4])"
    by code_simp
  then show ?thesis
    by (simp only: Report_roundtrip [OF be.prio_messages_laws_axioms])
qed

text \<open>
  C31. An Aggregator decodes a decrypted input share to a value exactly when the plaintext is what the
  client encodes for that value: the list of extensions and the payload are recovered, and an
  extension with the taskprov code point is never read as an unknown extension.
\<close>

theorem PlaintextInputShare_roundtrip:
  assumes "prio_messages_laws P"
  shows "get_decoded_PlaintextInputShare P (PlaintextInputShare_decode_with_param P v) bs = Ok x \<longleftrightarrow>
         wf_PlaintextInputShare x \<and> get_encoded P (PlaintextInputShare_encode_with_param P v x) = Ok bs"
  unfolding prio_codec_laws.get_encoded [OF prio_messages_laws.axioms(1) [OF assms]]
  by (rule wire_codec.whole_dec_iff [OF prio_messages_laws.PlaintextInputShare_wire [OF assms]
      prio_messages_laws.whole_PlaintextInputShare [OF assms]])

theorem PlaintextInputShare_roundtrip_witness:
  "get_decoded_PlaintextInputShare be_messages (PlaintextInputShare_decode_with_param be_messages Latest) ([0, 10, 255, 0, 0, 0, 0, 16, 0, 2, 1, 2, 0, 0, 0, 1, 9]) = Ok \<lparr>extensions = [Extension_Taskprov, Extension_NotImplemented 0x10 [1, 2]], pis_payload = [9]\<rparr>"
proof -
  have "wf_PlaintextInputShare \<lparr>extensions = [Extension_Taskprov, Extension_NotImplemented 0x10 [1, 2]], pis_payload = [9]\<rparr> \<and>
        get_encoded be_messages (PlaintextInputShare_encode_with_param be_messages Latest \<lparr>extensions = [Extension_Taskprov, Extension_NotImplemented 0x10 [1, 2]], pis_payload = [9]\<rparr>) = Ok ([0, 10, 255, 0, 0, 0, 0, 16, 0, 2, 1, 2, 0, 0, 0, 1, 9])"
    by code_simp
  then show ?thesis
    by (simp only: PlaintextInputShare_roundtrip [OF be.prio_messages_laws_axioms])
qed

text \<open>
  C32. The Leader decodes the body of a collection request to a value exactly when the body is what the
  Collector's encoder writes for that value, for all three kinds of query.
\<close>

theorem CollectionReq_roundtrip:
  assumes "prio_messages_laws P"
  shows "get_decoded_CollectionReq P (CollectionReq_decode_with_param P v) bs = Ok x \<longleftrightarrow>
         wf_CollectionReq x \<and> get_encoded P (CollectionReq_encode_with_param P v x) = Ok bs"
  unfolding prio_codec_laws.get_encoded [OF prio_messages_laws.axioms(1) [OF assms]]
  by (rule wire_codec.whole_dec_iff [OF prio_codec_laws.CollectionReq_wire [OF prio_messages_laws.axioms(1) [OF assms]]
      prio_messages_laws.whole_CollectionReq [OF assms]])

theorem CollectionReq_roundtrip_witness:
  "get_decoded_CollectionReq be_messages (CollectionReq_decode_with_param be_messages Latest) [2, 1, 0, 0, 0, 1, 1] = Ok \<lparr>query = Query_FixedSizeCurrentBatch, req_agg_param = [1]\<rparr>"
proof -
  have "wf_CollectionReq \<lparr>query = Query_FixedSizeCurrentBatch, req_agg_param = [1]\<rparr> \<and>
        get_encoded be_messages (CollectionReq_encode_with_param be_messages Latest \<lparr>query = Query_FixedSizeCurrentBatch, req_agg_param = [1]\<rparr>) = Ok [2, 1, 0, 0, 0, 1, 1]"
    by code_simp
  then show ?thesis
    by (simp only: CollectionReq_roundtrip [OF be.prio_messages_laws_axioms])
qed

text \<open>
  C33. The Helper decodes the body of an aggregate share request to a value exactly when the body is
  what the Leader's encoder writes for that value: batch, aggregation parameter, report count and
  checksum arrive unchanged.
\<close>

theorem AggregateShareReq_roundtrip:
  assumes "prio_messages_laws P"
  shows "get_decoded_AggregateShareReq P (AggregateShareReq_decode_with_param P v) bs = Ok x \<longleftrightarrow>
         wf_AggregateShareReq x \<and> get_encoded P (AggregateShareReq_encode_with_param P v x) = Ok bs"
  unfolding prio_codec_laws.get_encoded [OF prio_messages_laws.axioms(1) [OF assms]]
  by (rule wire_codec.whole_dec_iff [OF prio_codec_laws.AggregateShareReq_wire [OF prio_messages_laws.axioms(1) [OF assms]]
      prio_messages_laws.whole_AggregateShareReq [OF assms]])

theorem AggregateShareReq_roundtrip_witness:
  "get_decoded_AggregateShareReq be_messages (AggregateShareReq_decode_with_param be_messages Latest) ([1, 0, 0, 0, 0, 0, 0, 1, 0, 0, 0, 0, 0, 0, 0, 0, 3, 0, 0, 0, 0,
    0, 0, 0, 0, 0, 0, 0, 2] @ replicate 32 1) = Ok \<lparr>batch_sel = BS_TimeInterval \<lparr>start = 256, duration = 3\<rparr>, agg_share_agg_param = [],
    agg_share_report_count = 2, agg_share_checksum = replicate 32 1\<rparr>"
proof -
  have "wf_AggregateShareReq \<lparr>batch_sel = BS_TimeInterval \<lparr>start = 256, duration = 3\<rparr>, agg_share_agg_param = [],
    agg_share_report_count = 2, agg_share_checksum = replicate 32 1\<rparr> \<and>
        get_encoded be_messages (AggregateShareReq_encode_with_param be_messages Latest \<lparr>batch_sel = BS_TimeInterval \<lparr>start = 256, duration = 3\<rparr>, agg_share_agg_param = [],
    agg_share_report_count = 2, agg_share_checksum = replicate 32 1\<rparr>) = Ok ([1, 0, 0, 0, 0, 0, 0, 1, 0, 0, 0, 0, 0, 0, 0, 0, 3, 0, 0, 0, 0,
    0, 0, 0, 0, 0, 0, 0, 2] @ replicate 32 1)"
    by code_simp
  then show ?thesis
    by (simp only: AggregateShareReq_roundtrip [OF be.prio_messages_laws_axioms])
qed

text \<open>
  C34. The Collector decodes the body of a collection to a value exactly when the body is what the
  Leader's encoder writes for that value; the two encrypted shares keep their order.
\<close>

theorem Collection_roundtrip:
  assumes "prio_messages_laws P"
  shows "get_decoded_Collection P (Collection_decode_with_param P v) bs = Ok x \<longleftrightarrow>
         wf_Collection x \<and> get_encoded P (Collection_encode_with_param P v x) = Ok bs"
  unfolding prio_codec_laws.get_encoded [OF prio_messages_laws.axioms(1) [OF assms]]
  by (rule wire_codec.whole_dec_iff [OF prio_codec_laws.Collection_wire [OF prio_messages_laws.axioms(1) [OF assms]]
      prio_messages_laws.whole_Collection [OF assms]])

theorem Collection_roundtrip_witness:
  "get_decoded_Collection be_messages (Collection_decode_with_param be_messages Latest) ([1, 0, 0, 0, 0, 0, 0, 0, 2, 0, 0, 0, 0, 0, 0, 1, 0, 0, 0, 0, 0, 0, 0, 0, 3, 5, 0, 1, 1, 0, 0, 0, 1, 4,
    6, 0, 1, 1, 0, 0, 0, 1, 4]) = Ok \<lparr>coll_part_batch_sel = PBS_TimeInterval, coll_report_count = 2,
    coll_interval = \<lparr>start = 256, duration = 3\<rparr>, encrypted_agg_shares = (\<lparr>config_id = 5, ct_enc = [1], ct_payload = [4]\<rparr>,
      \<lparr>config_id = 6, ct_enc = [1], ct_payload = [4]\<rparr>)\<rparr>"
proof -
  have "wf_Collection \<lparr>coll_part_batch_sel = PBS_TimeInterval, coll_report_count = 2,
    coll_interval = \<lparr>start = 256, duration = 3\<rparr>, encrypted_agg_shares = (\<lparr>config_id = 5, ct_enc = [1], ct_payload = [4]\<rparr>,
      \<lparr>config_id = 6, ct_enc = [1], ct_payload = [4]\<rparr>)\<rparr> \<and>
        get_encoded be_messages (Collection_encode_with_param be_messages Latest \<lparr>coll_part_batch_sel = PBS_TimeInterval, coll_report_count = 2,
    coll_interval = \<lparr>start = 256, duration = 3\<rparr>, encrypted_agg_shares = (\<lparr>config_id = 5, ct_enc = [1], ct_payload = [4]\<rparr>,
      \<lparr>config_id = 6, ct_enc = [1], ct_payload = [4]\<rparr>)\<rparr>) = Ok ([1, 0, 0, 0, 0, 0, 0, 0, 2, 0, 0, 0, 0, 0, 0, 1, 0, 0, 0, 0, 0, 0, 0, 0, 3, 5, 0, 1, 1, 0, 0, 0, 1, 4,
    6, 0, 1, 1, 0, 0, 0, 1, 4])"
    by code_simp
  then show ?thesis
    by (simp only: Collection_roundtrip [OF be.prio_messages_laws_axioms])
qed

text \<open>
  C35. A client decodes the list of HPKE configurations to a value exactly when the body is what the
  Aggregator's encoder writes for that value; code points that are not implemented survive.
\<close>

theorem HpkeConfigList_roundtrip:
  assumes "prio_messages_laws P"
  shows "get_decoded_HpkeConfigList P (HpkeConfigList_decode P) bs = Ok x \<longleftrightarrow>
         wf_HpkeConfigList x \<and> get_encoded P (HpkeConfigList_encode P x) = Ok bs"
  unfolding prio_codec_laws.get_encoded [OF prio_messages_laws.axioms(1) [OF assms]]
  by (rule wire_codec.whole_dec_iff [OF prio_messages_laws.HpkeConfigList_wire [OF assms]
      prio_messages_laws.whole_HpkeConfigList [OF assms]])

theorem HpkeConfigList_roundtrip_witness:
  "get_decoded_HpkeConfigList be_messages (HpkeConfigList_decode be_messages) [0, 10, 1, 0, 16, 0, 1, 0, 9, 0, 1, 3] = Ok \<lparr>hpke_configs = [\<lparr>hpke_id = 1, kem_id = P256HkdfSha256, kdf_id = HkdfSha256,
    aead_id = AeadNotImplemented 9, public_key = [3]\<rparr>]\<rparr>"
proof -
  have "wf_HpkeConfigList \<lparr>hpke_configs = [\<lparr>hpke_id = 1, kem_id = P256HkdfSha256, kdf_id = HkdfSha256,
    aead_id = AeadNotImplemented 9, public_key = [3]\<rparr>]\<rparr> \<and>
        get_encoded be_messages (HpkeConfigList_encode be_messages \<lparr>hpke_configs = [\<lparr>hpke_id = 1, kem_id = P256HkdfSha256, kdf_id = HkdfSha256,
    aead_id = AeadNotImplemented 9, public_key = [3]\<rparr>]\<rparr>) = Ok [0, 10, 1, 0, 16, 0, 1, 0, 9, 0, 1, 3]"
    by code_simp
  then show ?thesis
    by (simp only: HpkeConfigList_roundtrip [OF be.prio_messages_laws_axioms])
qed

text \<open>
  C37. No request body makes the decoders of uploads, aggregation jobs, their responses, collection
  requests, aggregate share requests or configuration lists panic: each returns a value or an error.
\<close>

theorem decoders_return:
  assumes "prio_messages_laws P"
  shows "Report_decode_with_param P v c \<noteq> Panic \<and>
         AggregationJobInitReq_decode_with_param P v c \<noteq> Panic \<and>
         AggregationJobResp_decode P c \<noteq> Panic \<and>
         CollectionReq_decode_with_param P v c \<noteq> Panic \<and>
         AggregateShareReq_decode_with_param P v c \<noteq> Panic \<and>
         AggregateShare_decode P c \<noteq> Panic \<and>
         Collection_decode_with_param P v c \<noteq> Panic \<and>
         HpkeConfigList_decode P c \<noteq> Panic"
  by (simp add: prio_codec_laws.Report_decode_returns prio_codec_laws.CollectionReq_decode_returns
    prio_codec_laws.AggregateShareReq_decode_returns prio_codec_laws.AggregateShare_decode_returns
    prio_codec_laws.Collection_decode_returns prio_messages_laws.HpkeConfigList_decode_returns
    prio_messages_laws.AggregationJobInitReq_decode_returns prio_messages_laws.AggregationJobResp_decode_returns
    prio_messages_laws.axioms(1) assms)

theorem decoders_return_witness:
  "AggregationJobInitReq_decode_with_param be_messages Latest (cursor_new [0, 0, 0, 9, 1]) \<noteq> Panic"
  using decoders_return [OF be.prio_messages_laws_axioms] by blast

text \<open>
  C38. A report extension with the taskprov code point whose length prefix points behind the end of
  the plaintext makes the decoder panic: \<open>decode_u16_prefixed\<close> slices the buffer without comparing
  the end of the section with its length.
\<close>

theorem Extension_truncated_panics:
  assumes "prio_messages_laws P"
    and "reads c (u16_to_be_bytes EXTENSION_TASKPROV @ u16_to_be_bytes n) c1"
    and "length (get_ref c) < position c1 + unat n"
  shows "Extension_decode_with_param P v c = Panic"
  by (rule prio_codec_laws.Extension_decode_truncated [OF prio_messages_laws.axioms(1) [OF assms(1)] assms(2,3)])

theorem Extension_truncated_panics_witness:
  "Extension_decode_with_param be_messages Latest (cursor_new [255, 0, 0, 1]) = Panic"
proof (rule Extension_truncated_panics [OF be.prio_messages_laws_axioms])
  show "reads (cursor_new [255, 0, 0, 1]) (u16_to_be_bytes EXTENSION_TASKPROV @ u16_to_be_bytes 1)
    \<lparr>get_ref = [255, 0, 0, 1], position = 4\<rparr>"
    by code_simp
  show "length (get_ref (cursor_new [255, 0, 0, 1])) <
    position \<lparr>get_ref = [255, 0, 0, 1], position = 4\<rparr> + unat (1 :: u16)"
    by code_simp
qed

text \<open>
  C39. The comparison in constant time, used on authentication tokens, is equality of byte strings.
\<close>

theorem constant_time_eq_correct: "constant_time_eq left right \<longleftrightarrow> left = right"
  by (rule constant_time_eq_iff)

end
