(* ===== verification/Dap_Error.thy ===== *)
theory Dap_Error
  imports Messages
begin

text \<open>
  The errors of the library, crates/daphne/src/error/mod.rs and error/aborts.rs: fatal errors,
  aborts (errors caused by the peer, reported as problem documents) and transition failures (the
  rejection of a single report). Logging is not modelled. A fatal error carries the text of its
  \<open>err\<close> field when that is a literal, and the literal message next to it when the field is an error
  value of another crate; text that the code formats keeps its leading fixed part.
\<close>

datatype DapAbort =
    BadRequest string
  | BatchInvalid (abort_detail: string) (abort_task_id: TaskId)
  | BatchMismatch string TaskId
  | BatchOverlap string TaskId
  | InvalidBatchSize string TaskId
  | InvalidTask string TaskId
  | MissingTaskId
  | QueryMismatch string TaskId
  | ReportRejected string
  | ReportTooLate ReportId
  | RoundMismatch string TaskId AggregationJobId
  | UnauthorizedRequest string TaskId
  | UnrecognizedAggregationJob TaskId AggregationJobId
  | Abort_InvalidMessage string TaskId
  | UnrecognizedTask TaskId

datatype DapError =
    Fatal string
  | Abort DapAbort
  | TransitionError TransitionFailure

datatype VdafError =
    VdafError_Codec codec_error
  | VdafError_Vdaf string
  | VdafError_Dap DapError

definition DapError_encoding :: "codec_error \<Rightarrow> DapError" where
  "DapError_encoding e = Fatal ''encountered fatal error during encoding''"

definition from_vdaf :: "VdafError \<Rightarrow> DapError" where
  "from_vdaf e = (case e of
      VdafError_Codec _ \<Rightarrow> TransitionError VdafPrepError
    | VdafError_Vdaf _ \<Rightarrow> TransitionError VdafPrepError
    | VdafError_Dap e \<Rightarrow> e)"

definition from_codec_error :: "codec_error \<Rightarrow> TaskId \<Rightarrow> DapAbort" where
  "from_codec_error e task_id = Abort_InvalidMessage ''codec error'' task_id"

definition version_unknown :: DapAbort where
  "version_unknown = BadRequest ''DAP version of request is not recognized''"

definition version_mismatch :: "DapVersion \<Rightarrow> DapVersion \<Rightarrow> DapAbort" where
  "version_mismatch indicated expected = BadRequest ''DAP version of request does not match task''"

definition batch_overlap :: "TaskId \<Rightarrow> DapAbort" where
  "batch_overlap task_id = BatchOverlap ''The batch indicated by the request'' task_id"

definition query_mismatch :: "TaskId \<Rightarrow> DapAbort" where
  "query_mismatch task_id =
     QueryMismatch ''The task's query type is'' task_id"

definition report_rejected :: "TransitionFailure \<Rightarrow> (DapAbort, string) result" where
  "report_rejected failure_reason = (case failure_reason of
      BatchCollected \<Rightarrow>
        Ok (ReportRejected ''The report pertains to a batch that has already been collected.'')
    | ReportReplayed \<Rightarrow>
        Ok (ReportRejected ''A report with the same ID was uploaded previously.'')
    | _ \<Rightarrow> Err ''Attempted to construct a \"reportRejected\" abort with unexpected transition failure'')"

section \<open>Problem documents\<close>

record ProblemDetails =
  pd_title :: string
  pd_typ :: "string option"
  pd_task_id :: "TaskId option"
  pd_agg_job_id :: "AggregationJobId option"
  pd_instance :: string
  pd_detail :: "string option"

fun DapAbort_name :: "DapAbort \<Rightarrow> string" where
  "DapAbort_name (BadRequest _) = ''bad request''"
| "DapAbort_name (BatchInvalid _ _) = ''batchInvalid''"
| "DapAbort_name (BatchMismatch _ _) = ''batchMismatch''"
| "DapAbort_name (BatchOverlap _ _) = ''batchOverlap''"
| "DapAbort_name (InvalidBatchSize _ _) = ''invalidBatchSize''"
| "DapAbort_name (InvalidTask _ _) = ''invalidTask''"
| "DapAbort_name MissingTaskId = ''missingTaskID''"
| "DapAbort_name (QueryMismatch _ _) = ''queryMismatch''"
| "DapAbort_name (ReportRejected _) = ''reportRejected''"
| "DapAbort_name (ReportTooLate _) = ''reportTooLate''"
| "DapAbort_name (RoundMismatch _ _ _) = ''roundMismatch''"
| "DapAbort_name (UnauthorizedRequest _ _) = ''unauthorizedRequest''"
| "DapAbort_name (UnrecognizedAggregationJob _ _) = ''unrecognizedAggregationJob''"
| "DapAbort_name (Abort_InvalidMessage _ _) = ''invalidMessage''"
| "DapAbort_name (UnrecognizedTask _) = ''unrecognizedTask''"

fun DapAbort_title :: "DapAbort \<Rightarrow> string" where
  "DapAbort_title (BadRequest _) = ''Bad request''"
| "DapAbort_title (BatchInvalid _ _) = ''Batch boundary check failed''"
| "DapAbort_title (BatchMismatch _ _) = ''Aggregators disagree on the set of reports in the batch''"
| "DapAbort_title (BatchOverlap _ _) = ''The selected batch overlaps with a previous batch''"
| "DapAbort_title (InvalidBatchSize _ _) = ''Batch size is invalid''"
| "DapAbort_title (InvalidTask _ _) = ''Opted out of Taskprov task''"
| "DapAbort_title MissingTaskId = ''Request for HPKE configuration with unspecified task''"
| "DapAbort_title (QueryMismatch _ _) = ''Query type does not match the task''"
| "DapAbort_title (ReportRejected _) = ''Report rejected''"
| "DapAbort_title (ReportTooLate _) = ''The requested task expires after report timestamp''"
| "DapAbort_title (RoundMismatch _ _ _) = ''Aggregation round indicated by peer does not match host''"
| "DapAbort_title (UnauthorizedRequest _ _) = ''Request authorization failed''"
| "DapAbort_title (UnrecognizedAggregationJob _ _) = ''Unrecognized aggregation job''"
| "DapAbort_title (Abort_InvalidMessage _ _) = ''Malformed or invalid message''"
| "DapAbort_title (UnrecognizedTask _) = ''Task indicated by request is not recognized''"

definition title_and_type :: "DapAbort \<Rightarrow> string \<times> string option" where
  "title_and_type a =
     (DapAbort_title a,
      case a of
        BadRequest _ \<Rightarrow> None
      | _ \<Rightarrow> Some (''urn:ietf:params:ppm:dap:error:'' @ DapAbort_name a))"

text \<open>
  The identifiers are printed in hexadecimal by the external crate \<open>hex\<close>, the parameter \<open>hex\<close>.
\<close>

definition DapAbort_into_problem_details :: "(bytes \<Rightarrow> string) \<Rightarrow> DapAbort \<Rightarrow> ProblemDetails" where
  "DapAbort_into_problem_details hex a =
     (let (title, typ) = title_and_type a;
          to_instance = (\<lambda>params. ''/problem-details/'' @
            (case typ of Some t \<Rightarrow> t | None \<Rightarrow> ''badrequest'') @ ''?'' @ params);
          task_param = (\<lambda>t. to_instance (''task_id='' @ hex (TaskId_0 t)));
          with_detail = (\<lambda>detail t. (Some t, Some detail, None, task_param t));
          (task_id, detail, agg_job_id, inst) =
            (case a of
               BatchInvalid detail t \<Rightarrow> with_detail detail t
             | InvalidTask detail t \<Rightarrow> with_detail detail t
             | BatchMismatch detail t \<Rightarrow> with_detail detail t
             | BatchOverlap detail t \<Rightarrow> with_detail detail t
             | InvalidBatchSize detail t \<Rightarrow> with_detail detail t
             | QueryMismatch detail t \<Rightarrow> with_detail detail t
             | UnauthorizedRequest detail t \<Rightarrow> with_detail detail t
             | Abort_InvalidMessage detail t \<Rightarrow> with_detail detail t
             | MissingTaskId \<Rightarrow>
                 (None, Some ''A task ID must be specified in the query parameter of the request.'',
                  None, to_instance ''task_id=none'')
             | BadRequest detail \<Rightarrow>
                 (None, Some detail, None, to_instance ''report_id=not-implemented'')
             | ReportRejected detail \<Rightarrow>
                 (None, Some detail, None, to_instance ''report_id=not-implemented'')
             | RoundMismatch detail t j \<Rightarrow>
                 (Some t, Some detail, Some j,
                  to_instance (''task_id='' @ hex (TaskId_0 t) @ ''&agg_job_id='' @ hex (AggregationJobId_0 j)))
             | UnrecognizedAggregationJob t j \<Rightarrow>
                 (Some t, Some ''The request indicates an aggregation job that does not exist.'',
                  Some j, to_instance (''agg_job_id='' @ hex (AggregationJobId_0 j)))
             | ReportTooLate r \<Rightarrow>
                 (None, Some ''one of the reports' timestamp was too late'', None,
                  to_instance (''report_id='' @ hex (ReportId_0 r)))
             | UnrecognizedTask t \<Rightarrow> (Some t, None, None, task_param t))
      in \<lparr>pd_title = title, pd_typ = typ, pd_task_id = task_id, pd_agg_job_id = agg_job_id,
          pd_instance = inst, pd_detail = detail\<rparr>)"

definition DapError_into_problem_details :: "(bytes \<Rightarrow> string) \<Rightarrow> DapError \<Rightarrow> ProblemDetails" where
  "DapError_into_problem_details hex e = (case e of
      Abort a \<Rightarrow> DapAbort_into_problem_details hex a
    | _ \<Rightarrow> \<lparr>pd_title = ''Internal server error'', pd_typ = None, pd_task_id = None,
            pd_agg_job_id = None, pd_instance = ''/problem-details/internal-server-error'',
            pd_detail = None\<rparr>)"

section \<open>Facts\<close>

text \<open>
  Only aborts are described to the peer: the problem document of a fatal error or of a transition
  failure carries no task, job, type or detail.
\<close>

lemma internal_errors_not_disclosed:
  assumes "\<And>a. e \<noteq> Abort a"
  shows "DapError_into_problem_details hex e =
    \<lparr>pd_title = ''Internal server error'', pd_typ = None, pd_task_id = None, pd_agg_job_id = None,
     pd_instance = ''/problem-details/internal-server-error'', pd_detail = None\<rparr>"
  using assms by (cases e) (auto simp: DapError_into_problem_details_def)

end
