(* ===== verification/Vdaf.thy ===== *)
theory Vdaf
  imports Dap_Error
begin

text \<open>
  Verifiable distributed aggregation functions, crates/daphne/src/vdaf/mod.rs, vdaf/prio2.rs,
  vdaf/prio3.rs and vdaf/pine.rs: the configurations, keys, preparation states and shares, and the
  wrappers that select the VDAF of a task and run one of its algorithms on encoded messages.

  The algorithms of the external crate \<open>prio\<close> are parameters: a \<open>vdaf\<close> record holds the
  operations of one VDAF instance (its \<open>Vdaf\<close>, \<open>Client\<close>, \<open>Aggregator\<close> and \<open>Collector\<close> traits and
  the codecs of its messages) over one opaque type \<open>'v\<close> of VDAF values, and a \<open>prio_vdafs\<close> record
  the constructors of the instances. PINE (crates/daphne/src/pine) enters through the same interface.
  The feature \<open>experimental\<close> (Mastic) is off.
\<close>

section \<open>Configurations\<close>

datatype Prio3Config =
    Count
  | Sum (sum_bits: usize)
  | Histogram (hist_length: usize) (hist_chunk_length: usize)
  | SumVec (sv_bits: usize) (sv_length: usize) (sv_chunk_length: usize)
  | SumVecField64MultiproofHmacSha256Aes128
      (svm_bits: usize) (svm_length: usize) (svm_chunk_length: usize) (svm_num_proofs: u8)

record PineParam =
  norm_bound :: u64
  dimension :: usize
  frac_bits :: usize
  chunk_len :: usize
  chunk_len_sq_norm_equal :: usize
  num_proofs :: u8
  num_proofs_sq_norm_equal :: u8
  num_wr_tests :: usize
  num_wr_successes :: usize

datatype PineConfig =
    Pine_Field32HmacSha256Aes128 PineParam
  | Pine_Field64HmacSha256Aes128 PineParam

datatype VdafConfig =
    Prio3 Prio3Config
  | Prio2 (prio2_dimension: usize)
  | Pine PineConfig

datatype VdafVerifyKey = L16 bytes | L32 bytes

text \<open>A 64-bit float is only passed on to the VDAF; it is its bit pattern.\<close>

type_synonym f64 = "64 word"

datatype DapMeasurement =
    Meas_U64 u64
  | Meas_U32Vec "u32 list"
  | Meas_U64Vec "u64 list"
  | Meas_U128Vec "u128 list"
  | Meas_F64Vec "f64 list"

datatype DapAggregateResult =
    Res_U32Vec "u32 list"
  | Res_U64 u64
  | Res_U64Vec "u64 list"
  | Res_U128 u128
  | Res_U128Vec "u128 list"
  | Res_F64Vec "f64 list"

text \<open>The aggregation parameter; the only variant of the default features is the empty one.\<close>

datatype DapAggregationParam = Agg_Empty

definition DapAggregationParam_encode :: "DapAggregationParam \<Rightarrow> encoder" where
  "DapAggregationParam_encode p bytes = (case p of Agg_Empty \<Rightarrow> Ok bytes)"

definition DapAggregationParam_decode_with_param :: "VdafConfig \<Rightarrow> DapAggregationParam decoder" where
  "DapAggregationParam_decode_with_param vdaf_config bytes = Ok (Agg_Empty, bytes)"

definition VdafVerifyKey_as_ref :: "VdafVerifyKey \<Rightarrow> bytes" where
  "VdafVerifyKey_as_ref k = (case k of L16 bytes \<Rightarrow> bytes | L32 bytes \<Rightarrow> bytes)"

definition VdafVerifyKey_len :: "VdafVerifyKey \<Rightarrow> usize" where
  "VdafVerifyKey_len k = (case k of L16 bytes \<Rightarrow> length bytes | L32 bytes \<Rightarrow> length bytes)"

definition uninitialized_verify_key :: "VdafConfig \<Rightarrow> VdafVerifyKey" where
  "uninitialized_verify_key c = (case c of
      Prio3 (SumVecField64MultiproofHmacSha256Aes128 _ _ _ _) \<Rightarrow> L32 (replicate 32 0)
    | Prio2 _ \<Rightarrow> L32 (replicate 32 0)
    | Prio3 _ \<Rightarrow> L16 (replicate 16 0)
    | Pine _ \<Rightarrow> L32 (replicate 32 0))"

definition try_L16 :: "bytes \<Rightarrow> (VdafVerifyKey, codec_error) result" where
  "try_L16 bytes = (if length bytes = 16 then Ok (L16 bytes)
                    else Err (Other ''could not convert slice to array''))"

definition try_L32 :: "bytes \<Rightarrow> (VdafVerifyKey, codec_error) result" where
  "try_L32 bytes = (if length bytes = 32 then Ok (L32 bytes)
                    else Err (Other ''could not convert slice to array''))"

definition get_decoded_verify_key :: "VdafConfig \<Rightarrow> bytes \<Rightarrow> (VdafVerifyKey, codec_error) result" where
  "get_decoded_verify_key c bytes = (case c of
      Prio3 (SumVecField64MultiproofHmacSha256Aes128 _ _ _ _) \<Rightarrow> try_L32 bytes
    | Prio2 _ \<Rightarrow> try_L32 bytes
    | Prio3 _ \<Rightarrow> try_L16 bytes
    | Pine _ \<Rightarrow> try_L32 bytes)"

definition is_valid_agg_param :: "VdafConfig \<Rightarrow> bytes \<Rightarrow> bool" where
  "is_valid_agg_param c agg_param = (case c of
      Prio3 _ \<Rightarrow> agg_param = []
    | Prio2 _ \<Rightarrow> agg_param = []
    | Pine _ \<Rightarrow> agg_param = [])"

section \<open>Parameters: the VDAF instances\<close>

datatype 'v PrepareTransition = Continue 'v 'v | Finish 'v

text \<open>
  A VDAF has one measurement type and one result type; \<open>shard\<close> and \<open>unshard\<close> are fields at each
  type they are used at, of which an instance uses its own; \<open>prep_message_unit\<close> is the message \<open>()\<close> of
  Prio2. \<open>shard\<close> draws its randomness from the
  random number generator: the last argument is what it draws. Decoding gets the message's parameter
  (the VDAF and the aggregator, or the state).
\<close>

record 'v vdaf =
  shard_bool :: "bool \<Rightarrow> bytes \<Rightarrow> bytes \<Rightarrow> ('v \<times> 'v list, string) result"
  shard_usize :: "usize \<Rightarrow> bytes \<Rightarrow> bytes \<Rightarrow> ('v \<times> 'v list, string) result"
  shard_u128 :: "u128 \<Rightarrow> bytes \<Rightarrow> bytes \<Rightarrow> ('v \<times> 'v list, string) result"
  shard_u32s :: "u32 list \<Rightarrow> bytes \<Rightarrow> bytes \<Rightarrow> ('v \<times> 'v list, string) result"
  shard_u64s :: "u64 list \<Rightarrow> bytes \<Rightarrow> bytes \<Rightarrow> ('v \<times> 'v list, string) result"
  shard_u128s :: "u128 list \<Rightarrow> bytes \<Rightarrow> bytes \<Rightarrow> ('v \<times> 'v list, string) result"
  shard_f64s :: "f64 list \<Rightarrow> bytes \<Rightarrow> bytes \<Rightarrow> ('v \<times> 'v list, string) result"
  public_share_encode :: "'v \<Rightarrow> (bytes, codec_error) result"
  public_share_decode :: "bytes \<Rightarrow> ('v, codec_error) result"
  input_share_encode :: "'v \<Rightarrow> (bytes, codec_error) result"
  input_share_decode :: "usize \<Rightarrow> bytes \<Rightarrow> ('v, codec_error) result"
  prepare_init :: "bytes \<Rightarrow> usize \<Rightarrow> bytes \<Rightarrow> 'v \<Rightarrow> 'v \<Rightarrow> ('v \<times> 'v, string) result"
  prep_share_decode :: "'v \<Rightarrow> bytes \<Rightarrow> ('v, codec_error) result"
  prepare_shares_to_prepare_message :: "'v list \<Rightarrow> ('v, string) result"
  prep_message_encode :: "'v \<Rightarrow> (bytes, codec_error) result"
  prep_message_decode :: "'v \<Rightarrow> bytes \<Rightarrow> ('v, codec_error) result"
  prep_message_unit :: 'v
  prepare_next :: "'v \<Rightarrow> 'v \<Rightarrow> ('v PrepareTransition, string) result"
  vdaf_aggregate :: "'v list \<Rightarrow> ('v, string) result"
  agg_share_decode :: "bytes \<Rightarrow> ('v, codec_error) result"
  unshard_u64 :: "'v list \<Rightarrow> usize \<Rightarrow> (u64, string) result"
  unshard_u128 :: "'v list \<Rightarrow> usize \<Rightarrow> (u128, string) result"
  unshard_u32s :: "'v list \<Rightarrow> usize \<Rightarrow> (u32 list, string) result"
  unshard_u64s :: "'v list \<Rightarrow> usize \<Rightarrow> (u64 list, string) result"
  unshard_u128s :: "'v list \<Rightarrow> usize \<Rightarrow> (u128 list, string) result"
  unshard_f64s :: "'v list \<Rightarrow> usize \<Rightarrow> (f64 list, string) result"

record 'v prio_vdafs =
  Prio2_new :: "usize \<Rightarrow> ('v vdaf, string) result"
  Prio3_new_count :: "('v vdaf, string) result"
  Prio3_new_histogram :: "usize \<Rightarrow> usize \<Rightarrow> ('v vdaf, string) result"
  Prio3_new_sum :: "usize \<Rightarrow> ('v vdaf, string) result"
  Prio3_new_sum_vec :: "usize \<Rightarrow> usize \<Rightarrow> usize \<Rightarrow> ('v vdaf, string) result"
  Prio3_new_multiproof :: "usize \<Rightarrow> usize \<Rightarrow> usize \<Rightarrow> u8 \<Rightarrow> ('v vdaf, string) result"
  Pine32_new :: "PineParam \<Rightarrow> ('v vdaf, string) result"
  Pine64_new :: "PineParam \<Rightarrow> ('v vdaf, string) result"
  Prio2PrepareShare_encode :: "'v \<Rightarrow> encoder"
  Prio3PrepareShare_encode :: "'v \<Rightarrow> encoder"
  PinePrepShare_encode :: "'v \<Rightarrow> encoder"
  AggregateShare_from :: "'v \<Rightarrow> 'v"
  Field32_encode :: "'v \<Rightarrow> encoder"
  Field64_encode :: "'v \<Rightarrow> encoder"
  Field128_encode :: "'v \<Rightarrow> encoder"
  Field32_merge :: "'v \<Rightarrow> 'v \<Rightarrow> ('v, string) result"
  Field64_merge :: "'v \<Rightarrow> 'v \<Rightarrow> ('v, string) result"
  Field128_merge :: "'v \<Rightarrow> 'v \<Rightarrow> ('v, string) result"

section \<open>Preparation states, shares and aggregate shares\<close>

datatype 'v VdafPrepState =
    State_Prio2 'v
  | State_Prio3Field64 'v
  | State_Prio3Field64HmacSha256Aes128 'v
  | State_Prio3Field128 'v
  | State_Pine64HmacSha256Aes128 'v
  | State_Pine32HmacSha256Aes128 'v

datatype 'v VdafPrepShare =
    Share_Prio2 'v
  | Share_Prio3Field64 'v
  | Share_Prio3Field64HmacSha256Aes128 'v
  | Share_Prio3Field128 'v
  | Share_Pine64HmacSha256Aes128 'v
  | Share_Pine32HmacSha256Aes128 'v

datatype 'v VdafAggregateShare = Field32 'v | Field64 'v | Field128 'v

definition VdafPrepShare_encode :: "('v, 'z) prio_vdafs_scheme \<Rightarrow> 'v VdafPrepShare \<Rightarrow> encoder" where
  "VdafPrepShare_encode V s bytes = (case s of
      Share_Prio3Field64 share \<Rightarrow> Prio3PrepareShare_encode V share bytes
    | Share_Prio3Field64HmacSha256Aes128 share \<Rightarrow> Prio3PrepareShare_encode V share bytes
    | Share_Prio3Field128 share \<Rightarrow> Prio3PrepareShare_encode V share bytes
    | Share_Prio2 share \<Rightarrow> Prio2PrepareShare_encode V share bytes
    | Share_Pine64HmacSha256Aes128 share \<Rightarrow> PinePrepShare_encode V share bytes
    | Share_Pine32HmacSha256Aes128 share \<Rightarrow> PinePrepShare_encode V share bytes)"

definition VdafAggregateShare_encode :: "('v, 'z) prio_vdafs_scheme \<Rightarrow> 'v VdafAggregateShare \<Rightarrow> encoder" where
  "VdafAggregateShare_encode V s bytes = (case s of
      Field32 agg_share \<Rightarrow> Field32_encode V agg_share bytes
    | Field64 agg_share \<Rightarrow> Field64_encode V agg_share bytes
    | Field128 agg_share \<Rightarrow> Field128_encode V agg_share bytes)"

section \<open>Algorithms on encoded messages\<close>

definition vdaf_err :: "('a, string) result \<Rightarrow> ('a, VdafError) result" where
  "vdaf_err r = map_err VdafError_Vdaf r"

definition codec_err :: "('a, codec_error) result \<Rightarrow> ('a, VdafError) result" where
  "codec_err r = map_err VdafError_Codec r"

definition new_err :: "string \<Rightarrow> ('a, string) result \<Rightarrow> ('a, VdafError) result" where
  "new_err s r = map_err (\<lambda>_. VdafError_Dap (Fatal s)) r"

definition shard_then_encode ::
  "'v vdaf \<Rightarrow> (bytes \<Rightarrow> bytes \<Rightarrow> ('v \<times> 'v list, string) result) \<Rightarrow> bytes \<Rightarrow> bytes \<Rightarrow>
   (bytes \<times> bytes \<times> bytes, VdafError) result" where
  "shard_then_encode vdaf shard nonce coins =
     and_then (vdaf_err (shard nonce coins)) (\<lambda>(public_share, input_shares).
     and_then (codec_err (public_share_encode vdaf public_share)) (\<lambda>public_share_data.
     and_then (codec_err (try_map (input_share_encode vdaf) input_shares)) (\<lambda>shares.
       case shares of
         [share0, share1] \<Rightarrow> Ok (public_share_data, share0, share1)
       | _ \<Rightarrow> Err (VdafError_Dap (Fatal ''expected 2 input shares'')))))"

definition vdaf_prep_init ::
  "'v vdaf \<Rightarrow> bytes \<Rightarrow> usize \<Rightarrow> bytes \<Rightarrow> bytes \<Rightarrow> bytes \<Rightarrow> ('v \<times> 'v, VdafError) result" where
  "vdaf_prep_init vdaf verify_key agg_id nonce public_share_data input_share_data =
     and_then (codec_err (public_share_decode vdaf public_share_data)) (\<lambda>public_share.
     and_then (codec_err (input_share_decode vdaf agg_id input_share_data)) (\<lambda>input_share.
     vdaf_err (prepare_init vdaf verify_key agg_id nonce public_share input_share)))"

definition prep_finish_from_shares ::
  "'v vdaf \<Rightarrow> usize \<Rightarrow> 'v \<Rightarrow> 'v \<Rightarrow> bytes \<Rightarrow> ('v \<times> bytes, VdafError) result" where
  "prep_finish_from_shares vdaf agg_id host_state host_share peer_share_data =
     and_then (codec_err (prep_share_decode vdaf host_state peer_share_data)) (\<lambda>peer_share.
     and_then (vdaf_err (prepare_shares_to_prepare_message vdaf
                (if agg_id = 0 then [host_share, peer_share] else [peer_share, host_share]))) (\<lambda>message.
     and_then (codec_err (prep_message_encode vdaf message)) (\<lambda>message_data.
     and_then (vdaf_err (prepare_next vdaf host_state message)) (\<lambda>transition.
       case transition of
         Continue _ _ \<Rightarrow> Err (VdafError_Dap (Fatal ''prep_finish_from_shares: unexpected transition''))
       | Finish out_share \<Rightarrow> Ok (out_share, message_data)))))"

definition prep_finish :: "'v vdaf \<Rightarrow> 'v \<Rightarrow> bytes \<Rightarrow> ('v, VdafError) result" where
  "prep_finish vdaf host_state peer_message_data =
     and_then (codec_err (prep_message_decode vdaf host_state peer_message_data)) (\<lambda>peer_message.
     and_then (vdaf_err (prepare_next vdaf host_state peer_message)) (\<lambda>transition.
       case transition of
         Continue _ _ \<Rightarrow> Err (VdafError_Dap (Fatal ''prep_finish: unexpected transition''))
       | Finish out_share \<Rightarrow> Ok out_share))"

definition unshard ::
  "'v vdaf \<Rightarrow> ('v list \<Rightarrow> usize \<Rightarrow> ('r, string) result) \<Rightarrow> usize \<Rightarrow> bytes list \<Rightarrow> ('r, VdafError) result" where
  "unshard vdaf unshard' num_measurements agg_shares =
     and_then (codec_err (try_map (agg_share_decode vdaf) agg_shares)) (\<lambda>agg_shares_vec.
     vdaf_err (unshard' agg_shares_vec num_measurements))"

definition aggregate_one :: "'v vdaf \<Rightarrow> 'v \<Rightarrow> ('v, VdafError) result" where
  "aggregate_one vdaf out_share = vdaf_err (vdaf_aggregate vdaf [out_share])"

section \<open>Prio2\<close>

definition new_prio2 :: "('v, 'z) prio_vdafs_scheme \<Rightarrow> usize \<Rightarrow> ('v vdaf, VdafError) result" where
  "new_prio2 V n = new_err ''failed to create prio2'' (Prio2_new V n)"

definition prio2_shard ::
  "('v, 'z) prio_vdafs_scheme \<Rightarrow> usize \<Rightarrow> DapMeasurement \<Rightarrow> bytes \<Rightarrow> bytes \<Rightarrow>
   (bytes \<times> bytes \<times> bytes, VdafError) result" where
  "prio2_shard V n measurement nonce coins =
     and_then (new_prio2 V n) (\<lambda>vdaf.
       case measurement of
         Meas_U32Vec data \<Rightarrow> shard_then_encode vdaf (shard_u32s vdaf data) nonce coins
       | _ \<Rightarrow> Err (VdafError_Dap (Fatal ''prio2_shard: unexpected measurement type'')))"

definition prio2_prep_init ::
  "('v, 'z) prio_vdafs_scheme \<Rightarrow> usize \<Rightarrow> VdafVerifyKey \<Rightarrow> usize \<Rightarrow> bytes \<Rightarrow> bytes \<Rightarrow> bytes \<Rightarrow>
   ('v VdafPrepState \<times> 'v VdafPrepShare, VdafError) result" where
  "prio2_prep_init V n verify_key agg_id nonce public_share_data input_share_data =
     (case verify_key of
        L32 key \<Rightarrow>
          and_then (new_prio2 V n) (\<lambda>vdaf.
          and_then (vdaf_prep_init vdaf key agg_id nonce public_share_data input_share_data) (\<lambda>(state, share).
          Ok (State_Prio2 state, Share_Prio2 share)))
      | _ \<Rightarrow> Err (VdafError_Dap (Fatal ''unhandled verify key type'')))"

text \<open>
  Prio2 has the empty preparation message: it is not encoded, and the shares are passed in the
  order host, peer whatever the aggregator.
\<close>

definition prio2_prep_finish_from_shares ::
  "('v, 'z) prio_vdafs_scheme \<Rightarrow> usize \<Rightarrow> 'v VdafPrepState \<Rightarrow> 'v VdafPrepShare \<Rightarrow> bytes \<Rightarrow>
   ('v VdafAggregateShare \<times> bytes, VdafError) result" where
  "prio2_prep_finish_from_shares V n host_state host_share peer_share_data =
     and_then (new_prio2 V n) (\<lambda>vdaf.
     and_then
       (case (host_state, host_share) of
          (State_Prio2 state, Share_Prio2 share) \<Rightarrow>
            and_then (codec_err (prep_share_decode vdaf state peer_share_data)) (\<lambda>peer_share.
            and_then (vdaf_err (prepare_shares_to_prepare_message vdaf [share, peer_share])) (\<lambda>_.
            and_then (vdaf_err (prepare_next vdaf state (prep_message_unit vdaf))) (\<lambda>transition.
              case transition of
                Continue _ _ \<Rightarrow> Err (VdafError_Dap
                  (Fatal ''prio2_prep_finish_from_shares: unexpected transition (continued)''))
              | Finish out_share \<Rightarrow> Ok (out_share, []))))
        | _ \<Rightarrow> Err (VdafError_Dap
            (Fatal ''prio2_prep_finish_from_shares: host state does not match share'')))
       (\<lambda>(out_share, outbound).
     and_then (aggregate_one vdaf out_share) (\<lambda>agg_share.
     Ok (Field32 agg_share, outbound))))"

definition prio2_prep_finish ::
  "('v, 'z) prio_vdafs_scheme \<Rightarrow> usize \<Rightarrow> 'v VdafPrepState \<Rightarrow> bytes \<Rightarrow>
   ('v VdafAggregateShare, VdafError) result" where
  "prio2_prep_finish V n host_state peer_message_data =
     and_then (new_prio2 V n) (\<lambda>vdaf.
     and_then (codec_err (if peer_message_data = [] then Ok ()
                          else Err (BytesLeftOver (length peer_message_data)))) (\<lambda>_.
     and_then
       (case host_state of
          State_Prio2 state \<Rightarrow>
            and_then (vdaf_err (prepare_next vdaf state (prep_message_unit vdaf))) (\<lambda>transition.
              case transition of
                Continue _ _ \<Rightarrow>
                  Err (VdafError_Dap (Fatal ''prio2_prep_finish: unexpected transition (continued)''))
              | Finish out_share \<Rightarrow> Ok out_share)
        | _ \<Rightarrow> Err (VdafError_Dap (Fatal ''prio2_prep_finish: unexpected state type'')))
       (\<lambda>out_share.
     and_then (aggregate_one vdaf out_share) (\<lambda>agg_share. Ok (Field32 agg_share)))))"

definition prio2_unshard ::
  "('v, 'z) prio_vdafs_scheme \<Rightarrow> usize \<Rightarrow> usize \<Rightarrow> bytes list \<Rightarrow> (DapAggregateResult, VdafError) result" where
  "prio2_unshard V n num_measurements encoded_agg_shares =
     and_then (new_prio2 V n) (\<lambda>vdaf.
     and_then (unshard vdaf (unshard_u32s vdaf) num_measurements encoded_agg_shares) (\<lambda>agg_res.
     Ok (Res_U32Vec agg_res)))"

section \<open>Prio3\<close>

text \<open>The instances are created for two aggregators.\<close>

definition new_prio3 :: "('v, 'z) prio_vdafs_scheme \<Rightarrow> Prio3Config \<Rightarrow> ('v vdaf, VdafError) result" where
  "new_prio3 V config = new_err ''failed to create prio3'' (case config of
      Count \<Rightarrow> Prio3_new_count V
    | Histogram n chunk \<Rightarrow> Prio3_new_histogram V n chunk
    | Sum bits \<Rightarrow> Prio3_new_sum V bits
    | SumVec bits n chunk \<Rightarrow> Prio3_new_sum_vec V bits n chunk
    | SumVecField64MultiproofHmacSha256Aes128 bits n chunk proofs \<Rightarrow>
        Prio3_new_multiproof V bits n chunk proofs)"

definition prio3_shard ::
  "('v, 'z) prio_vdafs_scheme \<Rightarrow> Prio3Config \<Rightarrow> DapMeasurement \<Rightarrow> bytes \<Rightarrow> bytes \<Rightarrow>
   (bytes \<times> bytes \<times> bytes, VdafError) result" where
  "prio3_shard V config measurement nonce coins = (case (config, measurement) of
      (Count, Meas_U64 m) \<Rightarrow>
        and_then (new_prio3 V config) (\<lambda>vdaf.
          if m = 0 then shard_then_encode vdaf (shard_bool vdaf False) nonce coins
          else if m = 1 then shard_then_encode vdaf (shard_bool vdaf True) nonce coins
          else Err (VdafError_Dap (Fatal ''cannot represent measurement as a 0 or 1'')))
    | (Histogram _ _, Meas_U64 m) \<Rightarrow>
        and_then (new_prio3 V config) (\<lambda>vdaf.
        shard_then_encode vdaf (shard_usize vdaf (unat m)) nonce coins)
    | (Sum _, Meas_U64 m) \<Rightarrow>
        and_then (new_prio3 V config) (\<lambda>vdaf.
        shard_then_encode vdaf (shard_u128 vdaf (ucast m)) nonce coins)
    | (SumVec _ _ _, Meas_U128Vec m) \<Rightarrow>
        and_then (new_prio3 V config) (\<lambda>vdaf.
        shard_then_encode vdaf (shard_u128s vdaf m) nonce coins)
    | (SumVecField64MultiproofHmacSha256Aes128 _ _ _ _, Meas_U64Vec m) \<Rightarrow>
        and_then (new_prio3 V config) (\<lambda>vdaf.
        shard_then_encode vdaf (shard_u64s vdaf m) nonce coins)
    | _ \<Rightarrow> Err (VdafError_Dap (Fatal ''prio3_shard: unexpected VDAF config'')))"

definition prio3_prep_init ::
  "('v, 'z) prio_vdafs_scheme \<Rightarrow> Prio3Config \<Rightarrow> VdafVerifyKey \<Rightarrow> usize \<Rightarrow> bytes \<Rightarrow> bytes \<Rightarrow> bytes \<Rightarrow>
   ('v VdafPrepState \<times> 'v VdafPrepShare, VdafError) result" where
  "prio3_prep_init V config verify_key agg_id nonce public_share_data input_share_data =
     (let init = (\<lambda>key. and_then (new_prio3 V config) (\<lambda>vdaf.
            vdaf_prep_init vdaf key agg_id nonce public_share_data input_share_data))
      in case (config, verify_key) of
          (Count, L16 key) \<Rightarrow>
            and_then (init key) (\<lambda>(state, share). Ok (State_Prio3Field64 state, Share_Prio3Field64 share))
        | (Histogram _ _, L16 key) \<Rightarrow>
            and_then (init key) (\<lambda>(state, share). Ok (State_Prio3Field128 state, Share_Prio3Field128 share))
        | (Sum _, L16 key) \<Rightarrow>
            and_then (init key) (\<lambda>(state, share). Ok (State_Prio3Field128 state, Share_Prio3Field128 share))
        | (SumVec _ _ _, L16 key) \<Rightarrow>
            and_then (init key) (\<lambda>(state, share). Ok (State_Prio3Field128 state, Share_Prio3Field128 share))
        | (SumVecField64MultiproofHmacSha256Aes128 _ _ _ _, L32 key) \<Rightarrow>
            and_then (init key) (\<lambda>(state, share).
              Ok (State_Prio3Field64HmacSha256Aes128 state, Share_Prio3Field64HmacSha256Aes128 share))
        | _ \<Rightarrow> Err (VdafError_Dap (Fatal ''unhandled config and verify key combination'')))"

definition prio3_prep_finish_from_shares ::
  "('v, 'z) prio_vdafs_scheme \<Rightarrow> Prio3Config \<Rightarrow> usize \<Rightarrow> 'v VdafPrepState \<Rightarrow> 'v VdafPrepShare \<Rightarrow> bytes \<Rightarrow>
   ('v VdafAggregateShare \<times> bytes, VdafError) result" where
  "prio3_prep_finish_from_shares V config agg_id host_state host_share peer_share_data =
     (let finish = (\<lambda>field state share.
            and_then (new_prio3 V config) (\<lambda>vdaf.
            and_then (prep_finish_from_shares vdaf agg_id state share peer_share_data) (\<lambda>(out_share, outbound).
            and_then (aggregate_one vdaf out_share) (\<lambda>agg_share. Ok (field agg_share, outbound)))))
      in case (config, host_state, host_share) of
          (Count, State_Prio3Field64 state, Share_Prio3Field64 share) \<Rightarrow> finish Field64 state share
        | (Histogram _ _, State_Prio3Field128 state, Share_Prio3Field128 share) \<Rightarrow> finish Field128 state share
        | (Sum _, State_Prio3Field128 state, Share_Prio3Field128 share) \<Rightarrow> finish Field128 state share
        | (SumVec _ _ _, State_Prio3Field128 state, Share_Prio3Field128 share) \<Rightarrow> finish Field128 state share
        | (SumVecField64MultiproofHmacSha256Aes128 _ _ _ _,
           State_Prio3Field64HmacSha256Aes128 state, Share_Prio3Field64HmacSha256Aes128 share) \<Rightarrow>
             finish Field64 state share
        | _ \<Rightarrow> Err (VdafError_Dap (Fatal
            ''prio3_prep_finish_from_shares: unexpected field type for step or message'')))"

definition prio3_prep_finish ::
  "('v, 'z) prio_vdafs_scheme \<Rightarrow> Prio3Config \<Rightarrow> 'v VdafPrepState \<Rightarrow> bytes \<Rightarrow>
   ('v VdafAggregateShare, VdafError) result" where
  "prio3_prep_finish V config host_state peer_message_data =
     (let finish = (\<lambda>field state.
            and_then (new_prio3 V config) (\<lambda>vdaf.
            and_then (prep_finish vdaf state peer_message_data) (\<lambda>out_share.
            and_then (aggregate_one vdaf out_share) (\<lambda>agg_share. Ok (field agg_share)))))
      in case (config, host_state) of
          (Count, State_Prio3Field64 state) \<Rightarrow> finish Field64 state
        | (Histogram _ _, State_Prio3Field128 state) \<Rightarrow> finish Field128 state
        | (Sum _, State_Prio3Field128 state) \<Rightarrow> finish Field128 state
        | (SumVec _ _ _, State_Prio3Field128 state) \<Rightarrow> finish Field128 state
        | (SumVecField64MultiproofHmacSha256Aes128 _ _ _ _, State_Prio3Field64HmacSha256Aes128 state) \<Rightarrow>
            finish Field64 state
        | _ \<Rightarrow> Err (VdafError_Dap (Fatal ''prio3_prep_finish: unexpected field type for step or message'')))"

definition prio3_unshard ::
  "('v, 'z) prio_vdafs_scheme \<Rightarrow> Prio3Config \<Rightarrow> usize \<Rightarrow> bytes list \<Rightarrow> (DapAggregateResult, VdafError) result" where
  "prio3_unshard V config num_measurements agg_shares =
     and_then (new_prio3 V config) (\<lambda>vdaf. case config of
        Count \<Rightarrow> and_then (unshard vdaf (unshard_u64 vdaf) num_measurements agg_shares) (\<lambda>r. Ok (Res_U64 r))
      | Histogram _ _ \<Rightarrow>
          and_then (unshard vdaf (unshard_u128s vdaf) num_measurements agg_shares) (\<lambda>r. Ok (Res_U128Vec r))
      | Sum _ \<Rightarrow> and_then (unshard vdaf (unshard_u128 vdaf) num_measurements agg_shares) (\<lambda>r. Ok (Res_U128 r))
      | SumVec _ _ _ \<Rightarrow>
          and_then (unshard vdaf (unshard_u128s vdaf) num_measurements agg_shares) (\<lambda>r. Ok (Res_U128Vec r))
      | SumVecField64MultiproofHmacSha256Aes128 _ _ _ _ \<Rightarrow>
          and_then (unshard vdaf (unshard_u64s vdaf) num_measurements agg_shares) (\<lambda>r. Ok (Res_U64Vec r)))"

section \<open>PINE\<close>

definition new_pine :: "('v, 'z) prio_vdafs_scheme \<Rightarrow> PineConfig \<Rightarrow> ('v vdaf, VdafError) result" where
  "new_pine V config = new_err ''invalid pine parameters'' (case config of
      Pine_Field32HmacSha256Aes128 param \<Rightarrow> Pine32_new V param
    | Pine_Field64HmacSha256Aes128 param \<Rightarrow> Pine64_new V param)"

definition pine_shard ::
  "('v, 'z) prio_vdafs_scheme \<Rightarrow> PineConfig \<Rightarrow> DapMeasurement \<Rightarrow> bytes \<Rightarrow> bytes \<Rightarrow>
   (bytes \<times> bytes \<times> bytes, VdafError) result" where
  "pine_shard V config measurement nonce coins = (case measurement of
      Meas_F64Vec gradient \<Rightarrow>
        and_then (new_pine V config) (\<lambda>vdaf. shard_then_encode vdaf (shard_f64s vdaf gradient) nonce coins)
    | _ \<Rightarrow> Err (VdafError_Dap (Fatal ''unexpected measurement type'')))"

definition pine_prep_init ::
  "('v, 'z) prio_vdafs_scheme \<Rightarrow> PineConfig \<Rightarrow> VdafVerifyKey \<Rightarrow> usize \<Rightarrow> bytes \<Rightarrow> bytes \<Rightarrow> bytes \<Rightarrow>
   ('v VdafPrepState \<times> 'v VdafPrepShare, VdafError) result" where
  "pine_prep_init V config verify_key agg_id nonce public_share_data input_share_data =
     (let init = (\<lambda>key. and_then (new_pine V config) (\<lambda>vdaf.
            vdaf_prep_init vdaf key agg_id nonce public_share_data input_share_data))
      in case (config, verify_key) of
          (Pine_Field32HmacSha256Aes128 _, L32 key) \<Rightarrow>
            and_then (init key) (\<lambda>(state, share).
              Ok (State_Pine32HmacSha256Aes128 state, Share_Pine32HmacSha256Aes128 share))
        | (Pine_Field64HmacSha256Aes128 _, L32 key) \<Rightarrow>
            and_then (init key) (\<lambda>(state, share).
              Ok (State_Pine64HmacSha256Aes128 state, Share_Pine64HmacSha256Aes128 share))
        | _ \<Rightarrow> Err (VdafError_Dap (Fatal ''unhandled config and verify key combination'')))"

definition pine_prep_finish_from_shares ::
  "('v, 'z) prio_vdafs_scheme \<Rightarrow> PineConfig \<Rightarrow> usize \<Rightarrow> 'v VdafPrepState \<Rightarrow> 'v VdafPrepShare \<Rightarrow> bytes \<Rightarrow>
   ('v VdafAggregateShare \<times> bytes, VdafError) result" where
  "pine_prep_finish_from_shares V config agg_id host_state host_share peer_share_data =
     (let finish = (\<lambda>field state share.
            and_then (new_pine V config) (\<lambda>vdaf.
            and_then (prep_finish_from_shares vdaf agg_id state share peer_share_data) (\<lambda>(out_share, outbound).
            Ok (field (AggregateShare_from V out_share), outbound))))
      in case (config, host_state, host_share) of
          (Pine_Field32HmacSha256Aes128 _, State_Pine32HmacSha256Aes128 state, Share_Pine32HmacSha256Aes128 share) \<Rightarrow>
            finish Field32 state share
        | (Pine_Field64HmacSha256Aes128 _, State_Pine64HmacSha256Aes128 state, Share_Pine64HmacSha256Aes128 share) \<Rightarrow>
            finish Field64 state share
        | _ \<Rightarrow> Err (VdafError_Dap (Fatal ''pine_prep_finish_from_shares: unexpected host state or share'')))"

definition pine_prep_finish ::
  "('v, 'z) prio_vdafs_scheme \<Rightarrow> PineConfig \<Rightarrow> 'v VdafPrepState \<Rightarrow> bytes \<Rightarrow>
   ('v VdafAggregateShare, VdafError) result" where
  "pine_prep_finish V config host_state peer_message_data =
     (let finish = (\<lambda>field state.
            and_then (new_pine V config) (\<lambda>vdaf.
            and_then (prep_finish vdaf state peer_message_data) (\<lambda>out_share.
            Ok (field (AggregateShare_from V out_share)))))
      in case (config, host_state) of
          (Pine_Field32HmacSha256Aes128 _, State_Pine32HmacSha256Aes128 state) \<Rightarrow> finish Field32 state
        | (Pine_Field64HmacSha256Aes128 _, State_Pine64HmacSha256Aes128 state) \<Rightarrow> finish Field64 state
        | _ \<Rightarrow> Err (VdafError_Dap (Fatal ''pine_prep_finish: unexpected host state'')))"

definition pine_unshard ::
  "('v, 'z) prio_vdafs_scheme \<Rightarrow> PineConfig \<Rightarrow> usize \<Rightarrow> bytes list \<Rightarrow> (DapAggregateResult, VdafError) result" where
  "pine_unshard V config num_measurements agg_shares =
     and_then (new_pine V config) (\<lambda>vdaf.
     and_then (unshard vdaf (unshard_f64s vdaf) num_measurements agg_shares) (\<lambda>r. Ok (Res_F64Vec r)))"

end
