(* ===== verification/Dap_Core.thy ===== *)
theory Dap_Core
  imports Vdaf "HOL-Library.AList" "HOL-Library.Multiset"
begin

text \<open>
  The core data of crates/daphne/src/lib.rs: query configurations, batch buckets, aggregate spans,
  task configurations with their time windows, aggregate shares, requests and responses.

  A \<open>HashMap\<close> is an association list with distinct keys, whose order stands for the order of
  iteration; a \<open>HashSet\<close> is a list without repetitions. SHA-256 is the external crate \<open>ring\<close>:
  the parameter \<open>sha256\<close> of the record \<open>dap_ext\<close>.
\<close>

section \<open>Query configurations\<close>

datatype DapQueryConfig =
    QC_TimeInterval
  | QC_FixedSize (qc_max_batch_size: "u64 option")

definition is_valid_part_batch_sel :: "DapQueryConfig \<Rightarrow> PartialBatchSelector \<Rightarrow> bool" where
  "is_valid_part_batch_sel q sel = (case (q, sel) of
      (QC_TimeInterval, PBS_TimeInterval) \<Rightarrow> True
    | (QC_FixedSize _, PBS_FixedSizeByBatchId _) \<Rightarrow> True
    | _ \<Rightarrow> False)"

definition is_valid_batch_sel :: "DapQueryConfig \<Rightarrow> BatchSelector \<Rightarrow> bool" where
  "is_valid_batch_sel q sel = (case (q, sel) of
      (QC_TimeInterval, BS_TimeInterval _) \<Rightarrow> True
    | (QC_FixedSize _, BS_FixedSizeByBatchId _) \<Rightarrow> True
    | _ \<Rightarrow> False)"

definition DapVersion_from_str :: "string \<Rightarrow> (DapVersion, DapAbort) result" where
  "DapVersion_from_str version =
     (if version = ''v09'' then Ok Draft09
      else if version = ''v10'' then Ok Latest
      else Err version_unknown)"

definition DapVersion_as_ref :: "DapVersion \<Rightarrow> string" where
  "DapVersion_as_ref v = (case v of Draft09 \<Rightarrow> ''v09'' | Latest \<Rightarrow> ''v10'')"

section \<open>Task configurations\<close>

type_synonym Url = string

datatype DapTaskConfigMethod =
    Method_Taskprov (method_info: "bytes option")
  | Method_Unknown

record DapTaskConfig =
  version :: DapVersion
  leader_url :: Url
  helper_url :: Url
  time_precision :: Duration
  min_batch_size :: u64
  query_config :: DapQueryConfig
  vdaf_config :: VdafConfig
  not_before :: Time
  not_after :: Time
  vdaf_verify_key :: VdafVerifyKey
  collector_hpke_config :: HpkeConfig
  config_method :: DapTaskConfigMethod
  num_agg_span_shards :: usize

record ShadowDapTaskConfig = DapTaskConfig +
  deprecated_taskprov :: bool

definition DapTaskConfig_try_from :: "ShadowDapTaskConfig \<Rightarrow> (DapTaskConfig, DapError) result" where
  "DapTaskConfig_try_from shadow =
     Ok (DapTaskConfig.truncate
       (case config_method shadow of
          Method_Unknown \<Rightarrow>
            if deprecated_taskprov shadow
            then shadow\<lparr>config_method := Method_Taskprov None\<rparr> else shadow
        | _ \<Rightarrow> shadow))"

definition method_is_taskprov :: "DapTaskConfig \<Rightarrow> bool" where
  "method_is_taskprov c = (case config_method c of Method_Taskprov _ \<Rightarrow> True | _ \<Rightarrow> False)"

text \<open>The remainder by a \<open>time_precision\<close> of zero panics; the sum wraps in the release profile.\<close>

definition quantized_time_lower_bound :: "DapTaskConfig \<Rightarrow> Time \<Rightarrow> (Time, 'e) result" where
  "quantized_time_lower_bound c time =
     (if time_precision c = 0 then Panic else Ok (time - (time mod time_precision c)))"

definition quantized_time_upper_bound :: "DapTaskConfig \<Rightarrow> Time \<Rightarrow> (Time, 'e) result" where
  "quantized_time_upper_bound c time =
     and_then (quantized_time_lower_bound c time) (\<lambda>l. Ok (l + time_precision c))"

definition is_report_count_compatible :: "DapTaskConfig \<Rightarrow> TaskId \<Rightarrow> u64 \<Rightarrow> (bool, DapAbort) result" where
  "is_report_count_compatible c task_id report_count =
     (case query_config c of
        QC_FixedSize (Some max_batch_size) \<Rightarrow>
          if report_count > max_batch_size
          then Err (InvalidBatchSize ''Report count exceeds maximum'' task_id)
          else Ok (report_count \<ge> min_batch_size c)
      | _ \<Rightarrow> Ok (report_count \<ge> min_batch_size c))"

section \<open>Batch buckets\<close>

datatype DapBatchBucket =
    Bucket_FixedSize (bucket_batch_id: BatchId) (bucket_shard: usize)
  | Bucket_TimeInterval (bucket_batch_window: Time) (bucket_shard: usize)

definition DapBatchBucket_shard :: "DapBatchBucket \<Rightarrow> usize" where
  "DapBatchBucket_shard b = (case b of
      Bucket_TimeInterval _ shard \<Rightarrow> shard
    | Bucket_FixedSize _ shard \<Rightarrow> shard)"

record dap_ext =
  sha256 :: "bytes \<Rightarrow> bytes"

fun le_value :: "bytes \<Rightarrow> nat" where
  "le_value [] = 0"
| "le_value (b # bs) = unat b + 256 * le_value bs"

definition ReportId_shard :: "'z dap_ext_scheme \<Rightarrow> ReportId \<Rightarrow> usize \<Rightarrow> usize" where
  "ReportId_shard E i num_shards =
     (let index = le_value (take 4 (sha256 E (ReportId_0 i))) in index mod num_shards)"

definition batch_span_for_sel :: "DapTaskConfig \<Rightarrow> BatchSelector \<Rightarrow> (DapBatchBucket list, DapError) result" where
  "batch_span_for_sel c sel =
     (if \<not> is_valid_batch_sel (query_config c) sel
      then Err (Fatal ''batch selector not compatible with task'')
      else case sel of
          BS_TimeInterval batch_interval \<Rightarrow>
            if time_precision c = 0 then Panic
            else let windows = duration batch_interval div time_precision c in
              Ok (remdups (concat (map (\<lambda>i. map (\<lambda>shard.
                    Bucket_TimeInterval (start batch_interval + of_nat i * time_precision c) shard)
                    [0..<num_agg_span_shards c]) [0..<unat windows])))
        | BS_FixedSizeByBatchId batch_id \<Rightarrow>
            Ok (map (\<lambda>shard. Bucket_FixedSize batch_id shard) [0..<num_agg_span_shards c]))"

section \<open>Aggregate shares\<close>

record 'v DapAggregateShare =
  report_count :: u64
  min_time :: Time
  max_time :: Time
  checksum :: bytes
  agg_data :: "'v VdafAggregateShare option"

definition DapAggregateShare_default :: "'v DapAggregateShare" where
  "DapAggregateShare_default =
     \<lparr>report_count = 0, min_time = 0, max_time = 0, checksum = replicate 32 0, agg_data = None\<rparr>"

definition fatal_err :: "string \<Rightarrow> ('a, string) result \<Rightarrow> ('a, DapError) result" where
  "fatal_err s r = map_err (\<lambda>_. Fatal s) r"

definition merge_agg_data ::
  "('v, 'z) prio_vdafs_scheme \<Rightarrow> 'v VdafAggregateShare option \<Rightarrow> 'v VdafAggregateShare option \<Rightarrow>
   ('v VdafAggregateShare option, DapError) result" where
  "merge_agg_data V self other = (case (self, other) of
      (_, None) \<Rightarrow> Ok self
    | (None, Some data) \<Rightarrow> Ok (Some data)
    | (Some (Field64 left), Some (Field64 right)) \<Rightarrow>
        and_then (fatal_err ''failed to merge 64bit wide vdaf shares'' (Field64_merge V left right))
          (\<lambda>s. Ok (Some (Field64 s)))
    | (Some (Field128 left), Some (Field128 right)) \<Rightarrow>
        and_then (fatal_err ''failed to merge 128bit wide vdaf shares'' (Field128_merge V left right))
          (\<lambda>s. Ok (Some (Field128 s)))
    | (Some (Field32 left), Some (Field32 right)) \<Rightarrow>
        and_then (fatal_err ''failed to merge prio2 vdaf shares'' (Field32_merge V left right))
          (\<lambda>s. Ok (Some (Field32 s)))
    | _ \<Rightarrow> Err (Fatal ''invalid aggregate share merge''))"

definition xor_bytes :: "bytes \<Rightarrow> bytes \<Rightarrow> bytes" where
  "xor_bytes xs ys = map2 (\<lambda>x y. x XOR y) xs ys @ drop (length ys) xs"

definition DapAggregateShare_merge ::
  "('v, 'z) prio_vdafs_scheme \<Rightarrow> 'v DapAggregateShare \<Rightarrow> 'v DapAggregateShare \<Rightarrow>
   ('v DapAggregateShare, DapError) result" where
  "DapAggregateShare_merge V self other =
     and_then (merge_agg_data V (agg_data self) (agg_data other)) (\<lambda>data.
     Ok \<lparr>report_count = report_count self + report_count other,
         min_time = (if report_count self = 0 then min_time other
                     else if report_count other > 0 then min (min_time self) (min_time other)
                     else min_time self),
         max_time = (if report_count self = 0 then max_time other
                     else if report_count other > 0 then max (max_time self) (max_time other)
                     else max_time self),
         checksum = xor_bytes (checksum self) (checksum other),
         agg_data = data\<rparr>)"

definition DapAggregateShare_empty :: "'v DapAggregateShare \<Rightarrow> bool" where
  "DapAggregateShare_empty s \<longleftrightarrow> report_count s = 0"

definition DapAggregateShare_reset :: "'v DapAggregateShare \<Rightarrow> 'v DapAggregateShare" where
  "DapAggregateShare_reset s =
     s\<lparr>report_count := 0, min_time := 0, max_time := 0, checksum := replicate 32 0, agg_data := None\<rparr>"

definition DapAggregateShare_add_out_share ::
  "('v, 'z) prio_vdafs_scheme \<Rightarrow> 'y dap_ext_scheme \<Rightarrow> 'v DapAggregateShare \<Rightarrow> ReportId \<Rightarrow> Time \<Rightarrow>
   'v VdafAggregateShare \<Rightarrow> ('v DapAggregateShare, DapError) result" where
  "DapAggregateShare_add_out_share V E self report_id time data =
     DapAggregateShare_merge V self
       \<lparr>report_count = 1, min_time = time, max_time = time,
        checksum = sha256 E (ReportId_0 report_id), agg_data = Some data\<rparr>"

section \<open>Aggregate spans\<close>

type_synonym 't DapAggregateSpan = "(DapBatchBucket \<times> 't \<times> (ReportId \<times> Time) list) list"

text \<open>\<open>entry k d m\<close> is the value of \<open>entry(k).or_default()\<close>, and \<open>AList.update\<close> stores the new one.\<close>

definition entry :: "'k \<Rightarrow> 'a \<Rightarrow> ('k \<times> 'a) list \<Rightarrow> 'a" where
  "entry k d m = (case map_of m k of Some x \<Rightarrow> x | None \<Rightarrow> d)"

definition report_bucket ::
  "'y dap_ext_scheme \<Rightarrow> DapTaskConfig \<Rightarrow> PartialBatchSelector \<Rightarrow> ReportId \<Rightarrow> Time \<Rightarrow>
   (DapBatchBucket, DapError) result" where
  "report_bucket E c sel report_id time =
     (let shard = ReportId_shard E report_id (num_agg_span_shards c) in
      case sel of
        PBS_TimeInterval \<Rightarrow>
          and_then (quantized_time_lower_bound c time) (\<lambda>w. Ok (Bucket_TimeInterval w shard))
      | PBS_FixedSizeByBatchId batch_id \<Rightarrow> Ok (Bucket_FixedSize batch_id shard))"

definition DapAggregateSpan_add_out_share ::
  "('v, 'z) prio_vdafs_scheme \<Rightarrow> 'y dap_ext_scheme \<Rightarrow> 'v DapAggregateShare DapAggregateSpan \<Rightarrow>
   DapTaskConfig \<Rightarrow> PartialBatchSelector \<Rightarrow> ReportId \<Rightarrow> Time \<Rightarrow> 'v VdafAggregateShare \<Rightarrow>
   ('v DapAggregateShare DapAggregateSpan, DapError) result" where
  "DapAggregateSpan_add_out_share V E self c sel report_id time data =
     (if \<not> is_valid_part_batch_sel (query_config c) sel
      then Err (Fatal ''partial batch selector not compatible with task'')
      else and_then (report_bucket E c sel report_id time) (\<lambda>bucket.
           let (agg_share, reports) = entry bucket (DapAggregateShare_default, []) self in
           and_then (DapAggregateShare_add_out_share V E agg_share report_id time data) (\<lambda>agg_share.
           Ok (AList.update bucket (agg_share, reports @ [(report_id, time)]) self))))"

definition DapAggregateSpan_merge ::
  "('v, 'z) prio_vdafs_scheme \<Rightarrow> 'v DapAggregateShare DapAggregateSpan \<Rightarrow>
   'v DapAggregateShare DapAggregateSpan \<Rightarrow> ('v DapAggregateShare DapAggregateSpan, DapError) result" where
  "DapAggregateSpan_merge V self other =
     try_fold (\<lambda>span (bucket, other_agg_share, other_reports).
       let (agg_share, reports) = entry bucket (DapAggregateShare_default, []) span in
       and_then (DapAggregateShare_merge V agg_share other_agg_share) (\<lambda>agg_share.
       Ok (AList.update bucket (agg_share, reports @ other_reports) span))) self other"

definition DapAggregateSpan_report_count :: "'t DapAggregateSpan \<Rightarrow> usize" where
  "DapAggregateSpan_report_count span = sum_list (map (\<lambda>(_, _, report_ids). length report_ids) span)"

definition DapAggregateSpan_extend_reports ::
  "unit DapAggregateSpan \<Rightarrow> (DapBatchBucket \<times> ReportId \<times> Time) list \<Rightarrow> unit DapAggregateSpan" where
  "DapAggregateSpan_extend_reports self iter =
     fold (\<lambda>(k, v) span. AList.update k ((), snd (entry k ((), []) span) @ [v]) span) iter self"

definition DapAggregateSpan_from_reports ::
  "(DapBatchBucket \<times> ReportId \<times> Time) list \<Rightarrow> unit DapAggregateSpan" where
  "DapAggregateSpan_from_reports iter = DapAggregateSpan_extend_reports [] iter"

section \<open>Aggregation jobs\<close>

record 'v AggregationJobReportState =
  job_prep_state :: "'v VdafPrepState"
  job_time :: Time
  job_report_id :: ReportId

record 'v DapAggregationJobState =
  job_seq :: "'v AggregationJobReportState list"
  job_part_batch_sel :: PartialBatchSelector

definition DapAggregationJobState_report_count :: "'v DapAggregationJobState \<Rightarrow> usize" where
  "DapAggregationJobState_report_count s = length (job_seq s)"

datatype DapCollectionJob = Done Collection | Pending | Unknown

end
