(* ===== verification/Dap_Time.thy ===== *)
theory Dap_Time
  imports Dap_Core
begin

text \<open>
  Time windows and batch buckets of \<open>Dap_Core\<close>: the quantized bounds of a timestamp, and that
  \<open>batch_span_for_sel\<close> selects exactly the buckets of the reports a batch selector stands for.
\<close>

text \<open>A task that the witnesses evaluate the definitions on.\<close>

definition example_task :: DapTaskConfig where
  "example_task = \<lparr>version = Latest, leader_url = ''https://leader/'', helper_url = ''https://helper/'',
     time_precision = 60, min_batch_size = 1, query_config = QC_TimeInterval, vdaf_config = Prio3 Count,
     not_before = 0, not_after = 1000, vdaf_verify_key = L16 (replicate 16 1),
     collector_hpke_config = \<lparr>hpke_id = 1, kem_id = P256HkdfSha256, kdf_id = HkdfSha256,
       aead_id = Aes128Gcm, public_key = []\<rparr>,
     config_method = Method_Unknown, num_agg_span_shards = 2\<rparr>"

section \<open>Quantized timestamps\<close>

lemma unat_sub_mod: "unat (t - t mod p) = unat t div unat p * unat (p :: u64)"
proof -
  have le: "t mod p \<le> t"
    by (simp add: word_le_nat_alt unat_mod)
  have "unat (t - t mod p) = unat t - unat t mod unat p"
    by (simp add: unat_sub [OF le] unat_mod)
  then show ?thesis
    by (simp add: minus_mod_eq_div_mult)
qed

lemma quantized_time_lower_bound_Ok:
  "quantized_time_lower_bound c t = Ok l \<longleftrightarrow>
   time_precision c \<noteq> 0 \<and> unat l = unat t div unat (time_precision c) * unat (time_precision c)"
proof -
  have "l = t - t mod time_precision c \<longleftrightarrow>
        unat l = unat t div unat (time_precision c) * unat (time_precision c)"
    by (simp add: word_unat_eq_iff unat_sub_mod)
  then show ?thesis
    by (auto simp: quantized_time_lower_bound_def)
qed

lemma quantized_time_lower_bound_Panic:
  "quantized_time_lower_bound c t = Panic \<longleftrightarrow> time_precision c = 0"
  by (simp add: quantized_time_lower_bound_def)

lemma quantized_not_Err [simp]: "quantized_time_lower_bound c t \<noteq> Err e"
  by (simp add: quantized_time_lower_bound_def)

lemma unat_add_no_overflow:
  "unat (a :: u64) + unat b < 2 ^ 64 \<Longrightarrow> unat (a + b) = unat a + unat b"
  by (simp add: unat_word_ariths)

section \<open>Batch spans\<close>

lemma bucket_in_span_iff:
  assumes "0 < (p :: nat)" and "s = p * k" and "d = p * n"
  shows "(\<exists>i < n. t div p * p = s + i * p) \<longleftrightarrow> s \<le> t \<and> t < s + d"
proof
  assume "\<exists>i < n. t div p * p = s + i * p"
  then obtain i where i: "i < n" "t div p * p = s + i * p" by blast
  have "t = s + i * p + t mod p"
    using i(2) div_mult_mod_eq [of t p] by simp
  moreover have "t mod p < p" using assms(1) by simp
  moreover have "i * p + p \<le> n * p"
    using i(1) by (metis add.commute mult_Suc mult_le_mono1 Suc_leI)
  ultimately show "s \<le> t \<and> t < s + d"
    unfolding assms(3) mult.commute [of p n] by linarith
next
  assume st: "s \<le> t \<and> t < s + d"
  have "k \<le> t div p"
    using st assms(1,2) by (simp add: less_eq_div_iff_mult_less_eq mult.commute)
  moreover have "t div p < k + n"
    using st assms by (simp add: div_less_iff_less_mult algebra_simps)
  ultimately show "\<exists>i < n. t div p * p = s + i * p"
    using assms(2) by (intro exI [of _ "t div p - k"]) (auto simp: algebra_simps diff_mult_distrib)
qed

lemma window_unat:
  assumes "unat s + unat d < 2 ^ 64" and "i < unat (d div p)" and "unat p dvd unat d"
  shows "unat (s + of_nat i * p :: u64) = unat s + i * unat p"
proof -
  have "i * unat p \<le> unat d"
    using assms(2,3) by (metis dvd_div_mult_self less_imp_le_nat mult_le_mono1 unat_div)
  moreover have "i < 2 ^ 64"
    using assms(2) unsigned_less [of "d div p", where ?'a = nat] by simp
  then have i: "unat (of_nat i :: u64) = i"
    by (simp add: unat_of_nat)
  ultimately have "unat (of_nat i * p :: u64) = i * unat p"
    using assms(1) by (simp add: unat_word_ariths i)
  then show ?thesis
    using assms(1) \<open>i * unat p \<le> unat d\<close> by (simp add: unat_word_ariths)
qed

lemma shard_less: "0 < n \<Longrightarrow> ReportId_shard E i n < n"
  by (simp add: ReportId_shard_def)

lemma set_time_span:
  assumes "query_config c = QC_TimeInterval" and "time_precision c \<noteq> 0"
    and "batch_span_for_sel c (BS_TimeInterval i) = Ok span"
  shows "set span = {Bucket_TimeInterval (start i + of_nat k * time_precision c) shard | k shard.
    k < unat (duration i div time_precision c) \<and> shard < num_agg_span_shards c}"
proof -
  have span: "span = remdups (concat (map (\<lambda>k. map (\<lambda>shard.
      Bucket_TimeInterval (start i + of_nat k * time_precision c) shard)
      [0..<num_agg_span_shards c]) [0..<unat (duration i div time_precision c)]))"
    using assms by (simp add: batch_span_for_sel_def is_valid_batch_sel_def Let_def)
  have "set span = (\<Union>k\<in>{0..<unat (duration i div time_precision c)}.
    Bucket_TimeInterval (start i + of_nat k * time_precision c) ` {0..<num_agg_span_shards c})"
    unfolding span set_remdups set_concat set_map set_upt image_image ..
  then show ?thesis
    by (simp only: set_eq_iff UN_iff image_iff mem_Collect_eq Bex_def atLeastLessThan_iff) blast
qed

lemma time_span_exact:
  assumes c: "query_config c = QC_TimeInterval" "0 < num_agg_span_shards c"
    and aligned: "unat (time_precision c) dvd unat (start i)" "unat (time_precision c) dvd unat (duration i)"
    and no_overflow: "unat (start i) + unat (duration i) < 2 ^ 64"
    and span: "batch_span_for_sel c (BS_TimeInterval i) = Ok span"
    and bucket: "report_bucket E c PBS_TimeInterval report_id time = Ok b"
  shows "b \<in> set span \<longleftrightarrow> start i \<le> time \<and> time < Interval_end i"
proof -
  let ?p = "time_precision c"
  obtain w where w: "?p \<noteq> 0" "unat w = unat time div unat ?p * unat ?p"
    and b: "b = Bucket_TimeInterval w (ReportId_shard E report_id (num_agg_span_shards c))"
    using bucket by (auto simp: report_bucket_def Let_def quantized_time_lower_bound_Ok)
  have p: "0 < unat ?p"
    using w(1) by (simp add: unat_gt_0)
  have n: "unat (duration i div ?p) = unat (duration i) div unat ?p"
    by (simp add: unat_div)
  have "b \<in> set span \<longleftrightarrow> (\<exists>k < unat (duration i div ?p). w = start i + of_nat k * ?p)"
    unfolding set_time_span [OF c(1) w(1) span] using c(2) by (auto simp: b shard_less)
  also have "\<dots> \<longleftrightarrow> (\<exists>k < unat (duration i) div unat ?p.
      unat time div unat ?p * unat ?p = unat (start i) + k * unat ?p)"
    using window_unat [OF no_overflow _ aligned(2)] by (auto simp: word_unat_eq_iff n w(2))
  also have "\<dots> \<longleftrightarrow> unat (start i) \<le> unat time \<and> unat time < unat (start i) + unat (duration i)"
    using aligned p
    by (intro bucket_in_span_iff [of _ _ "unat (start i) div unat ?p"]) simp_all
  also have "\<dots> \<longleftrightarrow> start i \<le> time \<and> time < Interval_end i"
    by (simp add: Interval_end_def word_le_nat_alt word_less_nat_alt unat_add_no_overflow [OF no_overflow])
  finally show ?thesis .
qed

lemma fixed_size_span_exact:
  assumes "query_config c = QC_FixedSize m" "0 < num_agg_span_shards c"
    and "batch_span_for_sel c (BS_FixedSizeByBatchId batch_id) = Ok span"
    and "report_bucket E c (PBS_FixedSizeByBatchId batch_id') report_id time = Ok b"
  shows "b \<in> set span \<longleftrightarrow> batch_id' = batch_id"
  using assms by (auto simp: batch_span_for_sel_def is_valid_batch_sel_def report_bucket_def Let_def shard_less)

lemma batch_span_distinct: "batch_span_for_sel c sel = Ok span \<Longrightarrow> distinct span"
  by (auto simp: batch_span_for_sel_def Let_def distinct_map inj_on_def
      split: if_splits BatchSelector.splits)

lemma time_span_windows:
  assumes "query_config c = QC_TimeInterval" "time_precision c \<noteq> 0"
    and "unat (time_precision c) dvd unat (duration i)"
    and "unat (start i) + unat (duration i) < 2 ^ 64"
    and "batch_span_for_sel c (BS_TimeInterval i) = Ok span" and "Bucket_TimeInterval w shard \<in> set span"
  shows "unat (start i) \<le> unat w \<and> unat w < unat (start i) + unat (duration i)"
proof -
  let ?p = "time_precision c"
  obtain k where k: "k < unat (duration i div ?p)" "w = start i + of_nat k * ?p"
    using assms(6) unfolding set_time_span [OF assms(1,2,5)] by blast
  have "unat w = unat (start i) + k * unat ?p"
    using window_unat [OF assms(4) k(1) assms(3)] k(2) by simp
  moreover have "k * unat ?p < unat (duration i)"
    using k(1) assms(2,3)
    by (metis dvd_div_mult_self mult_less_mono1 unat_div unat_gt_0)
  ultimately show ?thesis by simp
qed

section \<open>Properties\<close>

text \<open>
  C27. With a nonzero time precision, the lower quantized bound of a timestamp is the greatest
  multiple of the precision that is not after it, and the upper one, where it fits 64 bits, the least
  multiple that is after it.
\<close>

theorem quantized_time_bounds:
  assumes "time_precision c \<noteq> 0" and "unat time + unat (time_precision c) < 2 ^ 64"
  shows "\<exists>l u. quantized_time_lower_bound c time = Ok l \<and> quantized_time_upper_bound c time = Ok u \<and>
    unat (time_precision c) dvd unat l \<and> l \<le> time \<and>
    (\<forall>m. unat (time_precision c) dvd m \<and> m \<le> unat time \<longrightarrow> m \<le> unat l) \<and>
    unat (time_precision c) dvd unat u \<and> time < u \<and>
    (\<forall>m. unat (time_precision c) dvd m \<and> unat time < m \<longrightarrow> unat u \<le> m)"
proof -
  let ?p = "time_precision c" and ?t = "unat time"
  have p: "0 < unat ?p"
    using assms(1) by (simp add: unat_gt_0)
  define l where "l = time - time mod ?p"
  have l: "quantized_time_lower_bound c time = Ok l" "unat l = ?t div unat ?p * unat ?p"
    using assms(1) by (simp_all add: quantized_time_lower_bound_def l_def unat_sub_mod)
  have le: "unat l \<le> ?t" "?t < unat l + unat ?p"
    unfolding l(2) using p by (simp_all add: div_times_less_eq_dividend dividend_less_div_times add.commute)
  then have u: "unat (l + ?p) = unat l + unat ?p"
    using assms(2) by (intro unat_add_no_overflow) linarith
  have greatest: "m \<le> unat l" if "unat ?p dvd m \<and> m \<le> ?t" for m
    using that p unfolding l(2) by (metis div_le_mono dvd_div_mult_self mult_le_mono1)
  have least: "unat (l + ?p) \<le> m" if m: "unat ?p dvd m \<and> ?t < m" for m
  proof -
    obtain k where k: "m = k * unat ?p"
      using m dvd_div_mult_self [of "unat ?p" m] by metis
    then have "?t div unat ?p < k"
      using m p by (simp add: div_less_iff_less_mult)
    then have "Suc (?t div unat ?p) * unat ?p \<le> k * unat ?p"
      using mult_le_mono1 Suc_leI by blast
    then show ?thesis
      unfolding u k l(2) by simp
  qed
  have "quantized_time_upper_bound c time = Ok (l + ?p)"
    using assms(1) by (simp add: quantized_time_upper_bound_def quantized_time_lower_bound_def l_def)
  moreover have "unat ?p dvd unat l" "unat ?p dvd unat (l + ?p)"
    unfolding u by (simp_all add: l(2))
  moreover have "l \<le> time" "time < l + ?p"
    using le u by (simp_all add: word_le_nat_alt word_less_nat_alt)
  ultimately show ?thesis
    using l(1) greatest least by blast
qed

theorem quantized_time_bounds_witness:
  "\<exists>l u. quantized_time_lower_bound example_task 130 = Ok l \<and> quantized_time_upper_bound example_task 130 = Ok u \<and>
    l \<le> 130 \<and> 130 < u"
  using quantized_time_bounds [of example_task 130] by (auto simp: example_task_def)

text \<open>
  C25. For a time-interval task and an interval aligned with the time precision, the batch span
  contains the bucket of a report exactly when the interval contains the report's timestamp. So a
  collection covers every report of the interval and no other.
\<close>

theorem batch_span_covers_interval:
  assumes "query_config c = QC_TimeInterval" "time_precision c \<noteq> 0" "0 < num_agg_span_shards c"
    and "unat (time_precision c) dvd unat (start i)" "unat (time_precision c) dvd unat (duration i)"
    and "unat (start i) + unat (duration i) < 2 ^ 64"
  shows "\<exists>span b. batch_span_for_sel c (BS_TimeInterval i) = Ok span \<and>
    report_bucket E c PBS_TimeInterval report_id time = Ok b \<and>
    (b \<in> set span \<longleftrightarrow> start i \<le> time \<and> time < Interval_end i)"
proof -
  obtain span where span: "batch_span_for_sel c (BS_TimeInterval i) = Ok span"
    using assms(1,2) by (auto simp: batch_span_for_sel_def is_valid_batch_sel_def Let_def)
  obtain b where b: "report_bucket E c PBS_TimeInterval report_id time = Ok b"
    using assms(2) by (auto simp: report_bucket_def quantized_time_lower_bound_def Let_def)
  from time_span_exact [OF assms(1,3-6) span b] span b show ?thesis by blast
qed

theorem batch_span_covers_interval_witness:
  "\<exists>span b. batch_span_for_sel example_task (BS_TimeInterval \<lparr>start = 60, duration = 120\<rparr>) = Ok span \<and>
    report_bucket \<lparr>sha256 = (\<lambda>_. replicate 32 1)\<rparr> example_task PBS_TimeInterval (ReportId []) 130 = Ok b \<and>
    b \<in> set span"
  using batch_span_covers_interval [of example_task "\<lparr>start = 60, duration = 120\<rparr>"
    "\<lparr>sha256 = (\<lambda>_. replicate 32 1)\<rparr>" "ReportId []" 130]
  by (simp add: example_task_def Interval_end_def)

text \<open>
  C26. Batches that do not overlap share no bucket: two aligned intervals of which one ends before
  the other starts have disjoint batch spans, so no report is collected in both.
\<close>

theorem disjoint_intervals_disjoint_spans:
  assumes "query_config c = QC_TimeInterval"
    and "unat (time_precision c) dvd unat (duration i)" "unat (time_precision c) dvd unat (duration j)"
    and "unat (start i) + unat (duration i) < 2 ^ 64" "unat (start j) + unat (duration j) < 2 ^ 64"
    and "Interval_end i \<le> start j"
    and "batch_span_for_sel c (BS_TimeInterval i) = Ok span_i"
    and "batch_span_for_sel c (BS_TimeInterval j) = Ok span_j"
  shows "set span_i \<inter> set span_j = {}"
proof (rule ccontr)
  have p: "time_precision c \<noteq> 0"
    using assms(1,7) by (auto simp: batch_span_for_sel_def is_valid_batch_sel_def)
  assume "set span_i \<inter> set span_j \<noteq> {}"
  then obtain w shard where w: "Bucket_TimeInterval w shard \<in> set span_i" "Bucket_TimeInterval w shard \<in> set span_j"
    unfolding set_time_span [OF assms(1) p assms(7)] by blast
  have "unat (Interval_end i) = unat (start i) + unat (duration i)"
    unfolding Interval_end_def by (rule unat_add_no_overflow [OF assms(4)])
  with time_span_windows [OF assms(1) p assms(2,4,7) w(1)] time_span_windows [OF assms(1) p assms(3,5,8) w(2)]
    assms(6) show False
    by (simp add: word_le_nat_alt)
qed

theorem disjoint_intervals_disjoint_spans_witness:
  "\<exists>s s'. batch_span_for_sel example_task (BS_TimeInterval \<lparr>start = 0, duration = 60\<rparr>) = Ok s \<and>
    batch_span_for_sel example_task (BS_TimeInterval \<lparr>start = 60, duration = 60\<rparr>) = Ok s' \<and>
    set s \<inter> set s' = {}"
proof -
  obtain s s' where
    s: "batch_span_for_sel example_task (BS_TimeInterval \<lparr>start = 0, duration = 60\<rparr>) = Ok s" and
    s': "batch_span_for_sel example_task (BS_TimeInterval \<lparr>start = 60, duration = 60\<rparr>) = Ok s'"
    by (simp add: batch_span_for_sel_def is_valid_batch_sel_def example_task_def)
  have "set s \<inter> set s' = {}"
    by (rule disjoint_intervals_disjoint_spans [OF _ _ _ _ _ _ s s'])
      (simp_all add: example_task_def Interval_end_def)
  with s s' show ?thesis by blast
qed

end
