(* ===== verification/Aggregate_Laws.thy ===== *)
theory Aggregate_Laws
  imports Dap_Time
begin

text \<open>
  The algebra of aggregate shares and aggregate spans. An aggregate share is determined by the
  multiset of the reports that were added to it: merging is commutative and associative, adding is
  independent of the order, and merging the shares of two batches is the share of their union.
  A span holds, for each bucket, the share of the reports of that bucket.

  What the code relies on of the external crates is stated by the locale \<open>merge_laws\<close>: the merge of
  prio's aggregate shares is a commutative and associative partial operation, and a SHA-256 digest
  has 32 bytes.
\<close>

section \<open>Definitions\<close>

text \<open>The share and the span of a sequence of contributions, added one by one.\<close>

definition share_of ::
  "('v, 'z) prio_vdafs_scheme \<Rightarrow> 'y dap_ext_scheme \<Rightarrow> (ReportId \<times> Time \<times> 'v VdafAggregateShare) list \<Rightarrow>
   ('v DapAggregateShare, DapError) result" where
  "share_of V E rs =
     try_fold (\<lambda>s (i, t, d). DapAggregateShare_add_out_share V E s i t d) DapAggregateShare_default rs"

definition span_of ::
  "('v, 'z) prio_vdafs_scheme \<Rightarrow> 'y dap_ext_scheme \<Rightarrow> DapTaskConfig \<Rightarrow> PartialBatchSelector \<Rightarrow>
   (ReportId \<times> Time \<times> 'v VdafAggregateShare) list \<Rightarrow> ('v DapAggregateShare DapAggregateSpan, DapError) result" where
  "span_of V E c sel rs =
     try_fold (\<lambda>span (i, t, d). DapAggregateSpan_add_out_share V E span c sel i t d) [] rs"

definition commutative_merge :: "('a \<Rightarrow> 'a \<Rightarrow> ('a, 'e) result) \<Rightarrow> bool" where
  "commutative_merge m \<longleftrightarrow>
     (\<forall>a b. m a b \<noteq> Panic) \<and>
     (\<forall>a b c. m a b = Ok c \<longrightarrow> m b a = Ok c) \<and>
     (\<forall>a b c ab abc. m a b = Ok ab \<and> m ab c = Ok abc \<longrightarrow> (\<exists>bc. m b c = Ok bc \<and> m a bc = Ok abc))"

definition single_share ::
  "'y dap_ext_scheme \<Rightarrow> ReportId \<times> Time \<times> 'v VdafAggregateShare \<Rightarrow> 'v DapAggregateShare" where
  "single_share E r = (case r of (i, t, d) \<Rightarrow>
     \<lparr>report_count = 1, min_time = t, max_time = t, checksum = sha256 E (ReportId_0 i), agg_data = Some d\<rparr>)"

text \<open>The invariant of an aggregate share: an empty one is the default.\<close>

definition share_inv :: "'v DapAggregateShare \<Rightarrow> bool" where
  "share_inv s \<longleftrightarrow> length (checksum s) = 32 \<and> (report_count s = 0 \<longrightarrow> s = DapAggregateShare_default)"

text \<open>What a span holds after the contributions \<open>rs\<close>: the share and the reports of each bucket.\<close>

definition in_bucket ::
  "'y dap_ext_scheme \<Rightarrow> DapTaskConfig \<Rightarrow> PartialBatchSelector \<Rightarrow> DapBatchBucket \<Rightarrow>
   (ReportId \<times> Time \<times> 'v VdafAggregateShare) list \<Rightarrow> (ReportId \<times> Time \<times> 'v VdafAggregateShare) list" where
  "in_bucket E c sel b rs = filter (\<lambda>(i, t, d). report_bucket E c sel i t = Ok b) rs"

definition report_times :: "(ReportId \<times> Time \<times> 'd) list \<Rightarrow> (ReportId \<times> Time) list" where
  "report_times rs = map (\<lambda>(i, t, d). (i, t)) rs"

definition bucket_holds ::
  "('v, 'z) prio_vdafs_scheme \<Rightarrow> 'y dap_ext_scheme \<Rightarrow> (ReportId \<times> Time \<times> 'v VdafAggregateShare) list \<Rightarrow>
   ('v DapAggregateShare \<times> (ReportId \<times> Time) list) option \<Rightarrow> bool" where
  "bucket_holds V E rs x = (case x of
      None \<Rightarrow> rs = []
    | Some (share, reports) \<Rightarrow> rs \<noteq> [] \<and> share_of V E rs = Ok share \<and> reports = report_times rs)"

definition span_holds ::
  "('v, 'z) prio_vdafs_scheme \<Rightarrow> 'y dap_ext_scheme \<Rightarrow> DapTaskConfig \<Rightarrow> PartialBatchSelector \<Rightarrow>
   (ReportId \<times> Time \<times> 'v VdafAggregateShare) list \<Rightarrow> 'v DapAggregateShare DapAggregateSpan \<Rightarrow> bool" where
  "span_holds V E c sel rs span \<longleftrightarrow>
     distinct (map fst span) \<and>
     (\<forall>b. bucket_holds V E (in_bucket E c sel b rs) (map_of span b))"

section \<open>Exclusive or of checksums\<close>

lemma length_xor_bytes [simp]: "length (xor_bytes xs ys) = length xs"
  by (simp add: xor_bytes_def)

lemma xor_bytes_nth:
  "length xs = length ys \<Longrightarrow> i < length xs \<Longrightarrow> xor_bytes xs ys ! i = xs ! i XOR ys ! i"
  by (simp add: xor_bytes_def)

lemma xor_bytes_comm: "length xs = length ys \<Longrightarrow> xor_bytes xs ys = xor_bytes ys xs"
  by (rule nth_equalityI) (simp_all add: xor_bytes_nth xor.commute)

lemma xor_bytes_assoc:
  "length xs = length ys \<Longrightarrow> length ys = length zs \<Longrightarrow>
   xor_bytes (xor_bytes xs ys) zs = xor_bytes xs (xor_bytes ys zs)"
  by (rule nth_equalityI) (simp_all add: xor_bytes_nth xor.assoc)

lemma xor_bytes_zero: "length xs = n \<Longrightarrow> xor_bytes xs (replicate n 0) = xs"
  by (rule nth_equalityI) (simp_all add: xor_bytes_nth)

lemma zero_xor_bytes: "length xs = n \<Longrightarrow> xor_bytes (replicate n 0) xs = xs"
  by (rule nth_equalityI) (simp_all add: xor_bytes_nth)

section \<open>The contract of the external merge\<close>

lemma commutative_merge_returns: "commutative_merge m \<Longrightarrow> m a b \<noteq> Panic"
  unfolding commutative_merge_def by blast

lemma commutative_merge_comm: "commutative_merge m \<Longrightarrow> m a b = Ok c \<Longrightarrow> m b a = Ok c"
  unfolding commutative_merge_def by blast

lemma commutative_merge_assoc:
  "commutative_merge m \<Longrightarrow> m a b = Ok ab \<Longrightarrow> m ab c = Ok abc \<Longrightarrow> \<exists>bc. m b c = Ok bc \<and> m a bc = Ok abc"
  unfolding commutative_merge_def by blast

lemma merge_agg_data_None [simp]:
  "merge_agg_data V a None = Ok a" "merge_agg_data V None a = Ok a"
  by (cases a; simp add: merge_agg_data_def split: VdafAggregateShare.splits)+

lemma merge_agg_data_Some:
  "merge_agg_data V (Some (Field32 x)) (Some (Field32 y)) = Ok c \<longleftrightarrow>
     (\<exists>z. Field32_merge V x y = Ok z \<and> c = Some (Field32 z))"
  "merge_agg_data V (Some (Field64 x)) (Some (Field64 y)) = Ok c \<longleftrightarrow>
     (\<exists>z. Field64_merge V x y = Ok z \<and> c = Some (Field64 z))"
  "merge_agg_data V (Some (Field128 x)) (Some (Field128 y)) = Ok c \<longleftrightarrow>
     (\<exists>z. Field128_merge V x y = Ok z \<and> c = Some (Field128 z))"
  "merge_agg_data V (Some (Field32 x)) (Some (Field64 y)) \<noteq> Ok c"
  "merge_agg_data V (Some (Field32 x)) (Some (Field128 y)) \<noteq> Ok c"
  "merge_agg_data V (Some (Field64 x)) (Some (Field32 y)) \<noteq> Ok c"
  "merge_agg_data V (Some (Field64 x)) (Some (Field128 y)) \<noteq> Ok c"
  "merge_agg_data V (Some (Field128 x)) (Some (Field32 y)) \<noteq> Ok c"
  "merge_agg_data V (Some (Field128 x)) (Some (Field64 y)) \<noteq> Ok c"
  by (auto simp: merge_agg_data_def fatal_err_def map_err_Ok_iff)

locale merge_laws =
  fixes V :: "('v, 'z) prio_vdafs_scheme"
    and E :: "'y dap_ext_scheme"
  assumes merge32: "commutative_merge (Field32_merge V)"
    and merge64: "commutative_merge (Field64_merge V)"
    and merge128: "commutative_merge (Field128_merge V)"
    and sha256_length: "length (sha256 E x) = 32"
begin

lemma merge_agg_data_comm:
  assumes "merge_agg_data V a b = Ok c"
  shows "merge_agg_data V b a = Ok c"
proof (cases "a = None \<or> b = None")
  case True
  then show ?thesis using assms by auto
next
  case False
  then obtain x y where "a = Some x" "b = Some y" by auto
  then show ?thesis
    using assms by (cases x; cases y) (auto simp: merge_agg_data_Some
      intro: commutative_merge_comm [OF merge32] commutative_merge_comm [OF merge64]
        commutative_merge_comm [OF merge128])
qed

lemma merge_agg_data_assoc:
  assumes "merge_agg_data V a b = Ok ab" and "merge_agg_data V ab c = Ok abc"
  shows "\<exists>bc. merge_agg_data V b c = Ok bc \<and> merge_agg_data V a bc = Ok abc"
proof (cases "a = None \<or> b = None \<or> c = None")
  case True
  then show ?thesis
    using assms by (elim disjE) auto
next
  case False
  then obtain x y z where xyz: "a = Some x" "b = Some y" "c = Some z" by auto
  show ?thesis
  proof (cases x)
    case (Field32 x')
    then obtain y' z' xy' w where m: "y = Field32 y'" "z = Field32 z'" "Field32_merge V x' y' = Ok xy'"
        "Field32_merge V xy' z' = Ok w" "abc = Some (Field32 w)"
      using assms unfolding xyz by (cases y; cases z) (auto simp: merge_agg_data_Some)
    obtain yz' where "Field32_merge V y' z' = Ok yz'" "Field32_merge V x' yz' = Ok w"
      using commutative_merge_assoc [OF merge32 m(3,4)] by blast
    then show ?thesis
      by (intro exI [of _ "Some (Field32 yz')"]) (simp add: xyz Field32 m merge_agg_data_Some)
  next
    case (Field64 x')
    then obtain y' z' xy' w where m: "y = Field64 y'" "z = Field64 z'" "Field64_merge V x' y' = Ok xy'"
        "Field64_merge V xy' z' = Ok w" "abc = Some (Field64 w)"
      using assms unfolding xyz by (cases y; cases z) (auto simp: merge_agg_data_Some)
    obtain yz' where "Field64_merge V y' z' = Ok yz'" "Field64_merge V x' yz' = Ok w"
      using commutative_merge_assoc [OF merge64 m(3,4)] by blast
    then show ?thesis
      by (intro exI [of _ "Some (Field64 yz')"]) (simp add: xyz Field64 m merge_agg_data_Some)
  next
    case (Field128 x')
    then obtain y' z' xy' w where m: "y = Field128 y'" "z = Field128 z'" "Field128_merge V x' y' = Ok xy'"
        "Field128_merge V xy' z' = Ok w" "abc = Some (Field128 w)"
      using assms unfolding xyz by (cases y; cases z) (auto simp: merge_agg_data_Some)
    obtain yz' where "Field128_merge V y' z' = Ok yz'" "Field128_merge V x' yz' = Ok w"
      using commutative_merge_assoc [OF merge128 m(3,4)] by blast
    then show ?thesis
      by (intro exI [of _ "Some (Field128 yz')"]) (simp add: xyz Field128 m merge_agg_data_Some)
  qed
qed

lemma merge_agg_data_returns [simp]: "merge_agg_data V a b \<noteq> Panic"
  using commutative_merge_returns [OF merge32] commutative_merge_returns [OF merge64]
    commutative_merge_returns [OF merge128]
  by (auto simp: merge_agg_data_def fatal_err_def and_then_Panic_iff map_err_Panic_iff
      split: option.splits VdafAggregateShare.splits)

section \<open>Merging aggregate shares\<close>

lemma share_merge_Ok_iff:
  "DapAggregateShare_merge V a b = Ok s \<longleftrightarrow>
     merge_agg_data V (agg_data a) (agg_data b) = Ok (agg_data s) \<and>
     report_count s = report_count a + report_count b \<and>
     min_time s = (if report_count a = 0 then min_time b
                   else if report_count b > 0 then min (min_time a) (min_time b) else min_time a) \<and>
     max_time s = (if report_count a = 0 then max_time b
                   else if report_count b > 0 then max (max_time a) (max_time b) else max_time a) \<and>
     checksum s = xor_bytes (checksum a) (checksum b)"
  by (cases s) (auto simp: DapAggregateShare_merge_def)

lemma share_inv_cases:
  assumes "share_inv a"
  obtains "a = DapAggregateShare_default" | "report_count a > 0" "length (checksum a) = 32"
  using assms by (auto simp: share_inv_def word_gt_0)

lemma share_inv_default [simp]: "share_inv DapAggregateShare_default"
  by (simp add: share_inv_def DapAggregateShare_default_def)

lemma share_merge_default:
  assumes "share_inv a"
  shows "DapAggregateShare_merge V a DapAggregateShare_default = Ok a"
    and "DapAggregateShare_merge V DapAggregateShare_default a = Ok a"
proof -
  have len: "length (checksum a) = 32"
    and zero: "report_count a = 0 \<Longrightarrow> min_time a = 0 \<and> max_time a = 0"
    using assms by (auto simp: share_inv_def DapAggregateShare_default_def)
  show "DapAggregateShare_merge V a DapAggregateShare_default = Ok a"
    unfolding share_merge_Ok_iff DapAggregateShare_default_def
    using xor_bytes_zero [OF len] zero by simp
  show "DapAggregateShare_merge V DapAggregateShare_default a = Ok a"
    unfolding share_merge_Ok_iff DapAggregateShare_default_def
    using zero_xor_bytes [OF len] by simp
qed

lemma share_merge_comm:
  assumes "share_inv a" "share_inv b" "DapAggregateShare_merge V a b = Ok s"
  shows "DapAggregateShare_merge V b a = Ok s"
  using assms(1)
proof (cases rule: share_inv_cases)
  case 1
  then show ?thesis using assms share_merge_default by simp
next
  case a: 2
  show ?thesis
    using assms(2)
  proof (cases rule: share_inv_cases)
    case 1
    then show ?thesis using assms share_merge_default by simp
  next
    case 2
    then show ?thesis
      using a assms(3) by (auto simp: share_merge_Ok_iff add.commute min.commute max.commute
        intro: merge_agg_data_comm xor_bytes_comm)
  qed
qed

lemma share_merge_count:
  assumes "DapAggregateShare_merge V a b = Ok s"
    and "unat (report_count a) + unat (report_count b) < 2 ^ 64"
  shows "unat (report_count s) = unat (report_count a) + unat (report_count b)"
  using assms unat_add_no_overflow [OF assms(2)] by (simp add: share_merge_Ok_iff)

lemma share_merge_inv:
  assumes "share_inv a" "share_inv b" "DapAggregateShare_merge V a b = Ok s"
    and "unat (report_count a) + unat (report_count b) < 2 ^ 64"
  shows "share_inv s"
proof (cases "report_count s = 0")
  case True
  then have "report_count a = 0" "report_count b = 0"
    using share_merge_count [OF assms(3,4)] by (simp_all add: word_unat_eq_iff)
  then have "a = DapAggregateShare_default" "b = DapAggregateShare_default"
    using assms(1,2) by (simp_all add: share_inv_def)
  then show ?thesis
    using assms(3) share_merge_default [of DapAggregateShare_default] by simp
next
  case False
  then show ?thesis
    using assms(1,3) by (simp add: share_inv_def share_merge_Ok_iff)
qed

lemma share_merge_assoc:
  assumes inv: "share_inv a" "share_inv b" "share_inv c"
    and m: "DapAggregateShare_merge V a b = Ok ab" "DapAggregateShare_merge V ab c = Ok abc"
    and no_overflow: "unat (report_count a) + unat (report_count b) + unat (report_count c) < 2 ^ 64"
  shows "\<exists>bc. DapAggregateShare_merge V b c = Ok bc \<and> DapAggregateShare_merge V a bc = Ok abc"
proof (cases "a = DapAggregateShare_default \<or> b = DapAggregateShare_default \<or> c = DapAggregateShare_default")
  case True
  then show ?thesis
  proof (elim disjE)
    assume "a = DapAggregateShare_default"
    then have "ab = b" using m(1) inv(2) by (simp add: share_merge_default)
    then have "share_inv abc"
      using share_merge_inv [OF inv(2,3)] m(2) no_overflow by auto
    then show ?thesis
      using m(2) \<open>ab = b\<close> \<open>a = _\<close> by (auto simp: share_merge_default)
  next
    assume "b = DapAggregateShare_default"
    then show ?thesis using m inv by (auto simp: share_merge_default)
  next
    assume "c = DapAggregateShare_default"
    moreover have "share_inv ab"
      using share_merge_inv [OF inv(1,2) m(1)] no_overflow by simp
    ultimately show ?thesis using m inv by (auto simp: share_merge_default)
  qed
next
  case False
  then have pos: "report_count a > 0" "report_count b > 0" "report_count c > 0"
    and len: "length (checksum a) = 32" "length (checksum b) = 32" "length (checksum c) = 32"
    using inv by (auto simp: share_inv_def word_gt_0)
  have "unat (report_count a + report_count b) \<noteq> 0"
    using pos no_overflow unat_add_no_overflow [of "report_count a" "report_count b"]
    by (simp add: word_gt_0 unat_eq_0)
  then have ab0: "report_count a + report_count b \<noteq> 0"
    by auto
  have "unat (report_count b + report_count c) \<noteq> 0"
    using pos no_overflow unat_add_no_overflow [of "report_count b" "report_count c"]
    by (simp add: word_gt_0 unat_eq_0)
  then have bc0: "report_count b + report_count c > 0"
    by (simp add: word_gt_0) auto
  obtain d where d: "merge_agg_data V (agg_data b) (agg_data c) = Ok d"
      "merge_agg_data V (agg_data a) d = Ok (agg_data abc)"
    using merge_agg_data_assoc m by (fastforce simp: share_merge_Ok_iff)
  let ?bc = "\<lparr>report_count = report_count b + report_count c, min_time = min (min_time b) (min_time c),
    max_time = max (max_time b) (max_time c), checksum = xor_bytes (checksum b) (checksum c), agg_data = d\<rparr>"
  have "DapAggregateShare_merge V b c = Ok ?bc"
    using d(1) pos by (auto simp: share_merge_Ok_iff)
  moreover have "DapAggregateShare_merge V a ?bc = Ok abc"
    using m d(2) pos ab0 bc0 len
    by (auto simp: share_merge_Ok_iff add.assoc min.assoc max.assoc xor_bytes_assoc)
  ultimately show ?thesis by blast
qed

lemma share_merge_assoc':
  assumes inv: "share_inv a" "share_inv b" "share_inv c"
    and m: "DapAggregateShare_merge V b c = Ok bc" "DapAggregateShare_merge V a bc = Ok abc"
    and no_overflow: "unat (report_count a) + unat (report_count b) + unat (report_count c) < 2 ^ 64"
  shows "\<exists>ab. DapAggregateShare_merge V a b = Ok ab \<and> DapAggregateShare_merge V ab c = Ok abc"
proof -
  have bc: "share_inv bc"
    using share_merge_inv [OF inv(2,3) m(1)] no_overflow by simp
  obtain ba where ba: "DapAggregateShare_merge V b a = Ok ba" "DapAggregateShare_merge V c ba = Ok abc"
    using share_merge_assoc [OF inv(3,2,1) share_merge_comm [OF inv(2,3) m(1)]
        share_merge_comm [OF inv(1) bc m(2)]] no_overflow by auto
  have "share_inv ba"
    using share_merge_inv [OF inv(2,1) ba(1)] no_overflow by simp
  then show ?thesis
    using share_merge_comm [OF inv(2,1) ba(1)] share_merge_comm [OF inv(3) _ ba(2)] by blast
qed

lemma share_merge_returns [simp]: "DapAggregateShare_merge V a b \<noteq> Panic"
  by (simp add: DapAggregateShare_merge_def and_then_Panic_iff)

section \<open>Adding reports\<close>

lemma add_out_share_single:
  "DapAggregateShare_add_out_share V E s i t d = DapAggregateShare_merge V s (single_share E (i, t, d))"
  by (simp add: DapAggregateShare_add_out_share_def single_share_def)

lemma single_share_inv [simp]: "share_inv (single_share E r)" "unat (report_count (single_share E r)) = 1"
  by (cases r; simp add: single_share_def share_inv_def sha256_length)+

lemma add_fold:
  "(\<lambda>s (i, t, d). DapAggregateShare_add_out_share V E s i t d) =
   (\<lambda>s r. DapAggregateShare_merge V s (single_share E r))"
  by (auto simp: fun_eq_iff add_out_share_single)

lemma share_of_def': "share_of V E rs = try_fold (\<lambda>s r. DapAggregateShare_merge V s (single_share E r)) DapAggregateShare_default rs"
  by (simp add: share_of_def add_fold)

lemma add_fold_inv:
  assumes "share_inv s" and "unat (report_count s) + length rs < 2 ^ 64"
    and "try_fold (\<lambda>s r. DapAggregateShare_merge V s (single_share E r)) s rs = Ok s'"
  shows "share_inv s' \<and> unat (report_count s') = unat (report_count s) + length rs"
  using assms
proof (induction rs arbitrary: s)
  case Nil
  then show ?case by simp
next
  case (Cons r rs)
  then obtain s1 where s1: "DapAggregateShare_merge V s (single_share E r) = Ok s1"
      "try_fold (\<lambda>s r. DapAggregateShare_merge V s (single_share E r)) s1 rs = Ok s'"
    by auto
  have "unat (report_count s) + unat (report_count (single_share E r)) < 2 ^ 64"
    using Cons.prems(2) by simp
  then have "share_inv s1" "unat (report_count s1) = unat (report_count s) + 1"
    using share_merge_inv [OF Cons.prems(1) _ s1(1)] share_merge_count [OF s1(1)] by simp_all
  then show ?case
    using Cons.IH [OF _ _ s1(2)] Cons.prems(2) by simp
qed

lemma share_of_inv:
  assumes "share_of V E rs = Ok s" and "length rs < 2 ^ 64"
  shows "share_inv s" "unat (report_count s) = length rs"
  using add_fold_inv [of DapAggregateShare_default rs s] assms
  by (simp_all add: share_of_def' DapAggregateShare_default_def [THEN arg_cong [of _ _ report_count]])

lemma share_of_Nil [simp]: "share_of V E [] = Ok DapAggregateShare_default"
  by (simp add: share_of_def)

lemma share_of_single: "share_of V E [r] = Ok (single_share E r)"
  by (simp add: share_of_def' share_merge_default)

lemma add_fold_merge:
  assumes "share_inv s" and "unat (report_count s) + length rs < 2 ^ 64"
  shows "try_fold (\<lambda>s r. DapAggregateShare_merge V s (single_share E r)) s rs = Ok s' \<longleftrightarrow>
    (\<exists>d. share_of V E rs = Ok d \<and> DapAggregateShare_merge V s d = Ok s')"
  using assms
proof (induction rs arbitrary: s s')
  case Nil
  then show ?case by (auto simp: share_merge_default)
next
  case (Cons r rs)
  let ?x = "single_share E r"
  let ?fold = "try_fold (\<lambda>s r. DapAggregateShare_merge V s (single_share E r))"
  have of_Cons: "share_of V E (r # rs) = Ok e \<longleftrightarrow>
      (\<exists>d. share_of V E rs = Ok d \<and> DapAggregateShare_merge V ?x d = Ok e)" for e
    using Cons.IH [of ?x e] Cons.prems(2) by (simp add: share_of_def' share_merge_default)
  have sum: "unat (report_count s) + unat (report_count ?x) + unat (report_count d) < 2 ^ 64"
    if "share_of V E rs = Ok d" for d
    using share_of_inv(2) [OF that] Cons.prems(2) by simp
  have inv: "share_inv d" if "share_of V E rs = Ok d" for d
    using share_of_inv(1) [OF that] Cons.prems(2) by simp
  have step: "?fold s1 rs = Ok s' \<longleftrightarrow> (\<exists>d. share_of V E rs = Ok d \<and> DapAggregateShare_merge V s1 d = Ok s')"
    if "DapAggregateShare_merge V s ?x = Ok s1" for s1
    using that Cons.IH [of s1 s'] share_merge_inv [OF Cons.prems(1) _ that] share_merge_count [OF that] Cons.prems(2)
    by simp
  have "?fold s (r # rs) = Ok s' \<longleftrightarrow>
    (\<exists>s1 d. DapAggregateShare_merge V s ?x = Ok s1 \<and> share_of V E rs = Ok d \<and> DapAggregateShare_merge V s1 d = Ok s')"
    using step by auto
  also have "\<dots> \<longleftrightarrow> (\<exists>d xd. share_of V E rs = Ok d \<and> DapAggregateShare_merge V ?x d = Ok xd \<and>
      DapAggregateShare_merge V s xd = Ok s')"
    using share_merge_assoc [OF Cons.prems(1) single_share_inv(1) inv _ _ sum]
      share_merge_assoc' [OF Cons.prems(1) single_share_inv(1) inv _ _ sum] by blast
  finally show ?case
    unfolding of_Cons by blast
qed

lemma share_of_append:
  assumes "length rs + length rs' < 2 ^ 64"
  shows "share_of V E (rs @ rs') = Ok s \<longleftrightarrow>
    (\<exists>a b. share_of V E rs = Ok a \<and> share_of V E rs' = Ok b \<and> DapAggregateShare_merge V a b = Ok s)"
proof -
  have "share_of V E (rs @ rs') = Ok s \<longleftrightarrow>
    (\<exists>a. share_of V E rs = Ok a \<and>
         try_fold (\<lambda>s r. DapAggregateShare_merge V s (single_share E r)) a rs' = Ok s)"
    by (auto simp: share_of_def' try_fold_append)
  also have "\<dots> \<longleftrightarrow> (\<exists>a. share_of V E rs = Ok a \<and>
      (\<exists>b. share_of V E rs' = Ok b \<and> DapAggregateShare_merge V a b = Ok s))"
    using add_fold_merge share_of_inv assms by (intro ex_cong1 conj_cong refl) auto
  finally show ?thesis by blast
qed

lemma share_of_swap:
  assumes "length rs + length rs' < 2 ^ 64" and "share_of V E (rs @ rs') = Ok s"
  shows "share_of V E (rs' @ rs) = Ok s"
proof -
  obtain a b where ab: "share_of V E rs = Ok a" "share_of V E rs' = Ok b" "DapAggregateShare_merge V a b = Ok s"
    using assms(2) share_of_append [OF assms(1)] by blast
  have "DapAggregateShare_merge V b a = Ok s"
    using share_merge_comm [OF _ _ ab(3)] share_of_inv(1) [OF ab(1)] share_of_inv(1) [OF ab(2)] assms(1) by simp
  moreover have "length rs' + length rs < 2 ^ 64"
    using assms(1) by simp
  ultimately show ?thesis
    using ab share_of_append by blast
qed

lemma share_of_perm:
  assumes "mset rs = mset rs'" and "length rs < 2 ^ 64" and "share_of V E rs = Ok s"
  shows "share_of V E rs' = Ok s"
  using assms
proof (induction rs arbitrary: rs' s)
  case Nil
  then show ?case by simp
next
  case (Cons r rs)
  then obtain ys zs where rs': "rs' = ys @ r # zs"
    by (metis in_multiset_in_set list.set_intros(1) split_list)
  with Cons.prems(1) have eq: "mset rs = mset (zs @ ys)"
    by (simp add: union_commute)
  then have len: "length rs = length ys + length zs"
    by (metis add.commute length_append size_mset)
  obtain b where b: "share_of V E rs = Ok b" "DapAggregateShare_merge V (single_share E r) b = Ok s"
    using share_of_append [of "[r]" rs s] Cons.prems(2,3) by (auto simp: share_of_single)
  have "share_of V E (zs @ ys) = Ok b"
    using Cons.IH [OF eq _ b(1)] Cons.prems(2) by simp
  then have "share_of V E ((r # zs) @ ys) = Ok s"
    using share_of_append [of "[r]" "zs @ ys" s] b(2) len Cons.prems(2) by (auto simp: share_of_single)
  then show ?case
    unfolding rs' using share_of_swap [of "r # zs" ys s] len Cons.prems(2) by simp
qed

lemma share_of_fields:
  assumes "share_of V E rs = Ok s" and "rs \<noteq> []" and "length rs < 2 ^ 64"
  shows "unat (report_count s) = length rs"
    "min_time s = Min ((\<lambda>(i, t, d). t) ` set rs)"
    "max_time s = Max ((\<lambda>(i, t, d). t) ` set rs)"
    "checksum s = fold (\<lambda>(i, t, d) c. xor_bytes c (sha256 E (ReportId_0 i))) rs (replicate 32 0)"
proof -
  show "unat (report_count s) = length rs"
    using share_of_inv(2) [OF assms(1,3)] .
  have "min_time s = Min ((\<lambda>(i, t, d). t) ` set rs) \<and> max_time s = Max ((\<lambda>(i, t, d). t) ` set rs) \<and>
    checksum s = fold (\<lambda>(i, t, d) c. xor_bytes c (sha256 E (ReportId_0 i))) rs (replicate 32 0)"
    using assms
  proof (induction rs arbitrary: s rule: rev_induct)
    case Nil
    then show ?case by simp
  next
    case (snoc r rs)
    obtain a where a: "share_of V E rs = Ok a" "DapAggregateShare_merge V a (single_share E r) = Ok s"
      using snoc.prems(1,3) share_of_append [of rs "[r]" s] by (auto simp: share_of_single)
    show ?case
    proof (cases "rs = []")
      case True
      with a have "s = single_share E r"
        by (simp add: share_merge_default)
      then show ?thesis
        using True sha256_length by (auto simp: single_share_def zero_xor_bytes split: prod.splits)
    next
      case False
      have "unat (report_count a) \<noteq> 0"
        using share_of_inv(2) [OF a(1)] snoc.prems(3) False by simp
      then have "report_count a \<noteq> 0"
        by auto
      then show ?thesis
        using a snoc.IH [OF a(1) False] snoc.prems(3) False
        by (auto simp: share_merge_Ok_iff single_share_def min.commute max.commute split: prod.splits)
    qed
  qed
  then show "min_time s = Min ((\<lambda>(i, t, d). t) ` set rs)" "max_time s = Max ((\<lambda>(i, t, d). t) ` set rs)"
    "checksum s = fold (\<lambda>(i, t, d) c. xor_bytes c (sha256 E (ReportId_0 i))) rs (replicate 32 0)"
    by simp_all
qed

end

section \<open>Spans\<close>

lemma entry_default: "map_of m k = None \<Longrightarrow> entry k d m = d"
  by (simp add: entry_def)

lemma entry_Some: "map_of m k = Some x \<Longrightarrow> entry k d m = x"
  by (simp add: entry_def)

lemma in_bucket_snoc:
  "in_bucket E c sel b (rs @ [(i, t, d)]) =
   in_bucket E c sel b rs @ (if report_bucket E c sel i t = Ok b then [(i, t, d)] else [])"
  by (simp add: in_bucket_def)

lemma in_bucket_append:
  "in_bucket E c sel b (rs @ rs') = in_bucket E c sel b rs @ in_bucket E c sel b rs'"
  by (simp add: in_bucket_def)

lemma report_times_append [simp]: "report_times (rs @ rs') = report_times rs @ report_times rs'"
  by (simp add: report_times_def)

lemma report_times_simps [simp]:
  "report_times [] = []" "report_times ((i, t, d) # rs) = (i, t) # report_times rs"
  by (simp_all add: report_times_def)

lemma span_holds_Nil: "span_holds V E c sel [] []"
  by (simp add: span_holds_def in_bucket_def bucket_holds_def)

lemma span_holds_bucket:
  "span_holds V E c sel rs span \<Longrightarrow> bucket_holds V E (in_bucket E c sel b rs) (map_of span b)"
  by (simp add: span_holds_def)

lemma span_holdsD:
  assumes "span_holds V E c sel rs span"
  shows "share_of V E (in_bucket E c sel b rs) = Ok (fst (entry b (DapAggregateShare_default, []) span))"
    and "snd (entry b (DapAggregateShare_default, []) span) = report_times (in_bucket E c sel b rs)"
  using span_holds_bucket [OF assms, of b]
  by (auto simp: bucket_holds_def entry_def share_of_def split: option.splits)

lemma span_add_Ok_iff:
  "DapAggregateSpan_add_out_share V E span c sel i t d = Ok span' \<longleftrightarrow>
   is_valid_part_batch_sel (query_config c) sel \<and>
   (\<exists>b s'. report_bucket E c sel i t = Ok b \<and>
     DapAggregateShare_add_out_share V E (fst (entry b (DapAggregateShare_default, []) span)) i t d = Ok s' \<and>
     span' = AList.update b (s', snd (entry b (DapAggregateShare_default, []) span) @ [(i, t)]) span)"
  by (auto simp: DapAggregateSpan_add_out_share_def case_prod_beta Let_def)

lemma span_add_holds:
  assumes holds: "span_holds V E c sel rs span"
    and add: "DapAggregateSpan_add_out_share V E span c sel i t d = Ok span'"
  shows "span_holds V E c sel (rs @ [(i, t, d)]) span'"
proof -
  obtain b s' where b: "report_bucket E c sel i t = Ok b"
    and s': "DapAggregateShare_add_out_share V E (fst (entry b (DapAggregateShare_default, []) span)) i t d = Ok s'"
    and span': "span' = AList.update b (s', snd (entry b (DapAggregateShare_default, []) span) @ [(i, t)]) span"
    using add by (auto simp: span_add_Ok_iff)
  have "bucket_holds V E (in_bucket E c sel k (rs @ [(i, t, d)])) (map_of span' k)" for k
  proof (cases "k = b")
    case True
    then show ?thesis
      using b s' span_holdsD [OF holds, of b]
      by (simp add: bucket_holds_def span' update_conv' in_bucket_snoc share_of_def try_fold_append)
  next
    case False
    then show ?thesis
      using b span_holds_bucket [OF holds, of k] by (simp add: span' update_conv' in_bucket_snoc)
  qed
  moreover have "distinct (map fst span')"
    using holds by (simp add: span_holds_def span' distinct_update)
  ultimately show ?thesis
    by (simp add: span_holds_def)
qed

lemma span_of_holds: "span_of V E c sel rs = Ok span \<Longrightarrow> span_holds V E c sel rs span"
proof (induction rs arbitrary: span rule: rev_induct)
  case Nil
  then show ?case by (simp add: span_of_def span_holds_Nil)
next
  case (snoc r rs)
  obtain i t d where r: "r = (i, t, d)" by (cases r)
  obtain s where "span_of V E c sel rs = Ok s" "DapAggregateSpan_add_out_share V E s c sel i t d = Ok span"
    using snoc.prems by (auto simp: span_of_def try_fold_append r)
  then show ?case
    using snoc.IH span_add_holds unfolding r by blast
qed

lemma span_report_count_update:
  "DapAggregateSpan_report_count (AList.update b (s, l) span) + length (snd (entry b (d, []) span)) =
   DapAggregateSpan_report_count span + length l"
  by (induction span) (auto simp: DapAggregateSpan_report_count_def entry_def)

lemma span_of_report_count:
  "span_of V E c sel rs = Ok span \<Longrightarrow> DapAggregateSpan_report_count span = length rs"
proof (induction rs arbitrary: span rule: rev_induct)
  case Nil
  then show ?case by (simp add: span_of_def DapAggregateSpan_report_count_def)
next
  case (snoc r rs)
  obtain i t d where r: "r = (i, t, d)" by (cases r)
  obtain s where s: "span_of V E c sel rs = Ok s" "DapAggregateSpan_add_out_share V E s c sel i t d = Ok span"
    using snoc.prems by (auto simp: span_of_def try_fold_append r)
  from s(2) obtain b s' where "span = AList.update b (s', snd (entry b (DapAggregateShare_default, []) s) @ [(i, t)]) s"
    by (auto simp: span_add_Ok_iff)
  then show ?case
    using snoc.IH [OF s(1)]
      span_report_count_update [of b s' "snd (entry b (DapAggregateShare_default, []) s) @ [(i, t)]" s DapAggregateShare_default]
    by simp
qed

lemma span_merge_lookup:
  assumes "DapAggregateSpan_merge V a b = Ok m" and "distinct (map fst b)" and "distinct (map fst a)"
  shows "distinct (map fst m)"
    and "case map_of b k of
           None \<Rightarrow> map_of m k = map_of a k
         | Some (s', l') \<Rightarrow> \<exists>s. DapAggregateShare_merge V (fst (entry k (DapAggregateShare_default, []) a)) s' = Ok s \<and>
                               map_of m k = Some (s, snd (entry k (DapAggregateShare_default, []) a) @ l')"
proof -
  have "distinct (map fst m) \<and> (case map_of b k of
           None \<Rightarrow> map_of m k = map_of a k
         | Some (s', l') \<Rightarrow> \<exists>s. DapAggregateShare_merge V (fst (entry k (DapAggregateShare_default, []) a)) s' = Ok s \<and>
                               map_of m k = Some (s, snd (entry k (DapAggregateShare_default, []) a) @ l'))"
    using assms
  proof (induction b arbitrary: a)
    case Nil
    then show ?case by (simp add: DapAggregateSpan_merge_def)
  next
    case (Cons x b)
    obtain kx s' l' where x: "x = (kx, s', l')" by (cases x)
    obtain s where s: "DapAggregateShare_merge V (fst (entry kx (DapAggregateShare_default, []) a)) s' = Ok s"
      and m: "DapAggregateSpan_merge V (AList.update kx (s, snd (entry kx (DapAggregateShare_default, []) a) @ l') a) b = Ok m"
      using Cons.prems(1) by (auto simp: DapAggregateSpan_merge_def x case_prod_beta Let_def)
    have kx: "map_of b kx = None"
      using Cons.prems(2) by (simp add: x map_of_eq_None_iff)
    note IH = Cons.IH [OF m]
    show ?case
    proof (cases "k = kx")
      case True
      then show ?thesis
        using IH Cons.prems(2,3) s kx by (simp add: x distinct_update update_conv')
    next
      case False
      then have upd: "map_of (AList.update kx y a) k = map_of a k" "entry k z (AList.update kx y a) = entry k z a" for y z
        by (simp_all add: update_conv' entry_def)
      from False show ?thesis
        using IH [unfolded upd] Cons.prems(2,3) by (simp add: x distinct_update)
    qed
  qed
  then show "distinct (map fst m)"
    and "case map_of b k of
           None \<Rightarrow> map_of m k = map_of a k
         | Some (s', l') \<Rightarrow> \<exists>s. DapAggregateShare_merge V (fst (entry k (DapAggregateShare_default, []) a)) s' = Ok s \<and>
                               map_of m k = Some (s, snd (entry k (DapAggregateShare_default, []) a) @ l')"
    by blast+
qed

context merge_laws
begin

lemma span_merge_holds:
  assumes a: "span_holds V E c sel rs a" and b: "span_holds V E c sel rs' b"
    and m: "DapAggregateSpan_merge V a b = Ok m" and len: "length rs + length rs' < 2 ^ 64"
  shows "span_holds V E c sel (rs @ rs') m"
proof -
  have d: "distinct (map fst a)" "distinct (map fst b)"
    using a b by (simp_all add: span_holds_def)
  have lenk: "length (in_bucket E c sel k rs) + length (in_bucket E c sel k rs') < 2 ^ 64" for k
    using len length_filter_le [of "\<lambda>(i, t, d). report_bucket E c sel i t = Ok k" rs]
      length_filter_le [of "\<lambda>(i, t, d). report_bucket E c sel i t = Ok k" rs']
    unfolding in_bucket_def by linarith
  have "bucket_holds V E (in_bucket E c sel k (rs @ rs')) (map_of m k)" for k
  proof (cases "map_of b k")
    case None
    then show ?thesis
      using span_holds_bucket [OF a, of k] span_holds_bucket [OF b, of k]
        span_merge_lookup(2) [OF m d(2,1), of k]
      by (simp add: bucket_holds_def in_bucket_append)
  next
    case (Some sl)
    obtain s' l' where sl: "sl = (s', l')" by (cases sl)
    obtain s where s: "DapAggregateShare_merge V (fst (entry k (DapAggregateShare_default, []) a)) s' = Ok s"
      "map_of m k = Some (s, snd (entry k (DapAggregateShare_default, []) a) @ l')"
      using span_merge_lookup(2) [OF m d(2,1), of k] Some sl by auto
    have b': "in_bucket E c sel k rs' \<noteq> []" "share_of V E (in_bucket E c sel k rs') = Ok s'"
      "l' = report_times (in_bucket E c sel k rs')"
      using span_holds_bucket [OF b, of k] Some sl by (auto simp: bucket_holds_def)
    have "share_of V E (in_bucket E c sel k rs @ in_bucket E c sel k rs') = Ok s"
      using share_of_append [OF lenk] span_holdsD(1) [OF a, of k] b'(2) s(1) by blast
    then show ?thesis
      using s(2) b' span_holdsD(2) [OF a, of k] by (simp add: bucket_holds_def in_bucket_append)
  qed
  then show ?thesis
    using span_merge_lookup(1) [OF m d(2,1)] by (simp add: span_holds_def)
qed

end

end
