(* ===== verification/Aggregate_Instance.thy ===== *)
theory Aggregate_Instance
  imports Aggregate_Laws
begin

text \<open>
  Prio's aggregate shares as vectors of field elements, added element by element modulo the prime of
  the field: an instance of \<open>merge_laws\<close>, on which the witnesses evaluate. The last section states
  the properties of aggregate shares and spans.
\<close>

section \<open>Vectors of field elements\<close>

definition field_merge :: "nat \<Rightarrow> nat list \<Rightarrow> nat list \<Rightarrow> (nat list, string) result" where
  "field_merge p xs ys =
     (if length xs = length ys then Ok (map2 (\<lambda>x y. (x + y) mod p) xs ys)
      else Err ''length mismatch'')"

definition example_vdaf :: "nat list vdaf" where
  "example_vdaf = \<lparr>
     shard_bool = (\<lambda>m _ _. Ok ([], [[if m then 3 else 2], [18446744069414584319]])), shard_usize = (\<lambda>_ _ _. Err ''unused''),
     shard_u128 = (\<lambda>_ _ _. Err ''unused''), shard_u32s = (\<lambda>_ _ _. Err ''unused''),
     shard_u64s = (\<lambda>_ _ _. Err ''unused''), shard_u128s = (\<lambda>_ _ _. Err ''unused''),
     shard_f64s = (\<lambda>_ _ _. Err ''unused''),
     public_share_encode = (\<lambda>_. Ok []), public_share_decode = (\<lambda>_. Ok []),
     input_share_encode = (\<lambda>v. Ok (concat (map (be_bytes 8) v))),
     input_share_decode = (\<lambda>_ bs. Ok [be_value 0 bs]),
     prepare_init = (\<lambda>_ _ _ _ share. Ok (share, [])),
     prep_share_decode = (\<lambda>_ _. Ok []), prepare_shares_to_prepare_message = (\<lambda>_. Ok []),
     prep_message_encode = (\<lambda>_. Ok []), prep_message_decode = (\<lambda>_ _. Ok []), prep_message_unit = [],
     prepare_next = (\<lambda>state _. Ok (Finish state)), vdaf_aggregate = (\<lambda>shares. Ok (concat shares)),
     agg_share_decode = (\<lambda>bs. Ok [be_value 0 bs]),
     unshard_u64 = (\<lambda>shares _. Ok (of_nat (sum_list (concat shares) mod 18446744069414584321))),
     unshard_u128 = (\<lambda>_ _. Err ''unused''),
     unshard_u32s = (\<lambda>_ _. Err ''unused''), unshard_u64s = (\<lambda>_ _. Err ''unused''),
     unshard_u128s = (\<lambda>_ _. Err ''unused''), unshard_f64s = (\<lambda>_ _. Err ''unused'')\<rparr>"

definition example_vdafs :: "nat list prio_vdafs" where
  "example_vdafs = \<lparr>
     Prio2_new = (\<lambda>_. Ok example_vdaf), Prio3_new_count = Ok example_vdaf,
     Prio3_new_histogram = (\<lambda>_ _. Ok example_vdaf), Prio3_new_sum = (\<lambda>_. Ok example_vdaf),
     Prio3_new_sum_vec = (\<lambda>_ _ _. Ok example_vdaf), Prio3_new_multiproof = (\<lambda>_ _ _ _. Ok example_vdaf),
     Pine32_new = (\<lambda>_. Ok example_vdaf), Pine64_new = (\<lambda>_. Ok example_vdaf),
     Prio2PrepareShare_encode = (\<lambda>v bs. Ok (bs @ map of_nat v)),
     Prio3PrepareShare_encode = (\<lambda>v bs. Ok (bs @ map of_nat v)),
     PinePrepShare_encode = (\<lambda>v bs. Ok (bs @ map of_nat v)),
     AggregateShare_from = (\<lambda>v. v),
     Field32_encode = (\<lambda>v bs. Ok (bs @ concat (map (be_bytes 4) v))),
     Field64_encode = (\<lambda>v bs. Ok (bs @ concat (map (be_bytes 8) v))),
     Field128_encode = (\<lambda>v bs. Ok (bs @ concat (map (be_bytes 16) v))),
     Field32_merge = field_merge 4293918721,
     Field64_merge = field_merge 18446744069414584321,
     Field128_merge = field_merge 340282366920938462946865773367900766209\<rparr>"

definition example_ext :: dap_ext where
  "example_ext = \<lparr>sha256 = (\<lambda>bs. take 32 (bs @ replicate 32 7))\<rparr>"

definition example_reports :: "(ReportId \<times> Time \<times> nat list VdafAggregateShare) list" where
  "example_reports = [(ReportId [1], 130, Field64 [1, 2]), (ReportId [2], 190, Field64 [3, 4])]"

section \<open>It satisfies the laws\<close>

lemma field_merge_commutative: "commutative_merge (field_merge p)"
  unfolding commutative_merge_def
proof (intro conjI allI impI)
  show "field_merge p a b \<noteq> Panic" for a b
    by (simp add: field_merge_def)
  show "field_merge p b a = Ok c" if "field_merge p a b = Ok c" for a b c
  proof -
    have "map2 (\<lambda>x y. (x + y) mod p) b a = map2 (\<lambda>x y. (x + y) mod p) a b" if "length a = length b"
      using that by (intro nth_equalityI) (simp_all add: add.commute)
    then show ?thesis
      using that by (auto simp: field_merge_def split: if_splits)
  qed
  show "\<exists>bc. field_merge p b c = Ok bc \<and> field_merge p a bc = Ok abc"
    if "field_merge p a b = Ok ab \<and> field_merge p ab c = Ok abc" for a b c ab abc
  proof -
    have len: "length a = length b" "length b = length c"
      and ab: "ab = map2 (\<lambda>x y. (x + y) mod p) a b" and abc: "abc = map2 (\<lambda>x y. (x + y) mod p) ab c"
      using that by (auto simp: field_merge_def split: if_splits)
    have "map2 (\<lambda>x y. (x + y) mod p) a (map2 (\<lambda>x y. (x + y) mod p) b c) = abc"
      unfolding ab abc using len by (intro nth_equalityI) (simp_all add: mod_simps add.assoc)
    with len show ?thesis
      by (simp add: field_merge_def)
  qed
qed

interpretation field: merge_laws example_vdafs example_ext
  by unfold_locales (simp_all add: example_vdafs_def example_ext_def field_merge_commutative)

section \<open>Properties of aggregate shares and spans\<close>

lemmas share_eval =
  example_reports_def share_of_def DapAggregateShare_add_out_share_def DapAggregateShare_merge_def
  merge_agg_data_def DapAggregateShare_default_def example_vdafs_def field_merge_def fatal_err_def

lemmas span_eval =
  span_of_def DapAggregateSpan_add_out_share_def DapAggregateSpan_merge_def Let_def report_bucket_def
  quantized_time_lower_bound_def example_task_def is_valid_part_batch_sel_def entry_def
  ReportId_shard_def example_ext_def

text \<open>
  C21. The aggregate share of a batch does not depend on the order in which its reports are added.
\<close>

theorem share_order_independent:
  assumes "merge_laws V E" and "mset rs = mset rs'" and "length rs < 2 ^ 64"
  shows "share_of V E rs = Ok s \<longleftrightarrow> share_of V E rs' = Ok s"
  using merge_laws.share_of_perm [OF assms(1)] assms(2,3) by (metis size_mset)

theorem share_order_independent_witness:
  "share_of example_vdafs example_ext (rev example_reports) =
   share_of example_vdafs example_ext example_reports \<and>
   (\<exists>s. share_of example_vdafs example_ext example_reports = Ok s)"
proof -
  obtain s where s: "share_of example_vdafs example_ext example_reports = Ok s"
    by (simp add: share_eval)
  have "mset example_reports = mset (rev example_reports)" "length example_reports < 2 ^ 64"
    by (simp_all add: example_reports_def)
  with s show ?thesis
    using share_order_independent [OF field.merge_laws_axioms] by metis
qed

text \<open>
  C22. Merging the aggregate shares of two sets of reports gives the aggregate share of their union,
  and fails exactly when that share does not exist. So it does not matter how the reports of a batch
  are spread over aggregation jobs, shards and buckets.
\<close>

theorem share_merge_is_union:
  assumes "merge_laws V E" and "length rs + length rs' < 2 ^ 64"
    and "share_of V E rs = Ok a" and "share_of V E rs' = Ok b"
  shows "DapAggregateShare_merge V a b = Ok s \<longleftrightarrow> share_of V E (rs @ rs') = Ok s"
  using merge_laws.share_of_append [OF assms(1,2)] assms(3,4) by auto

theorem share_merge_is_union_witness:
  "\<exists>a b. share_of example_vdafs example_ext (take 1 example_reports) = Ok a \<and>
         share_of example_vdafs example_ext (drop 1 example_reports) = Ok b \<and>
         DapAggregateShare_merge example_vdafs a b =
         share_of example_vdafs example_ext example_reports"
proof -
  have one: "share_of example_vdafs example_ext [r] = Ok (single_share example_ext r)" for r
    by (rule field.share_of_single)
  obtain s where s: "share_of example_vdafs example_ext (take 1 example_reports @ drop 1 example_reports) = Ok s"
    by (simp add: share_eval)
  have len: "length (take 1 example_reports) + length (drop 1 example_reports) < 2 ^ 64"
    by (simp add: example_reports_def)
  have "DapAggregateShare_merge example_vdafs (single_share example_ext (hd example_reports))
      (single_share example_ext (last example_reports)) = Ok s"
    using share_merge_is_union [OF field.merge_laws_axioms len] s one
    by (simp add: example_reports_def)
  then show ?thesis
    using s one by (simp add: example_reports_def)
qed

text \<open>
  C23. The aggregate share of a non-empty batch reports the number of its reports, the first and the
  last of their timestamps, and the exclusive or of the digests of their identifiers.
\<close>

theorem share_describes_batch:
  assumes "merge_laws V E" and "share_of V E rs = Ok s" and "rs \<noteq> []" and "length rs < 2 ^ 64"
  shows "unat (report_count s) = length rs \<and>
    min_time s = Min ((\<lambda>(i, t, d). t) ` set rs) \<and>
    max_time s = Max ((\<lambda>(i, t, d). t) ` set rs) \<and>
    checksum s = fold (\<lambda>(i, t, d) c. xor_bytes c (sha256 E (ReportId_0 i))) rs (replicate 32 0)"
  using merge_laws.share_of_fields [OF assms] by blast

theorem share_describes_batch_witness:
  "\<exists>s. share_of example_vdafs example_ext example_reports = Ok s \<and> unat (report_count s) = 2 \<and>
       min_time s = 130 \<and> max_time s = 190"
proof -
  obtain s where s: "share_of example_vdafs example_ext example_reports = Ok s"
    by (simp add: share_eval)
  then show ?thesis
    using share_describes_batch [OF field.merge_laws_axioms s]
    by (auto simp: example_reports_def)
qed

text \<open>
  C20. Adding the reports of an aggregation job to an empty span puts every report into exactly the
  bucket of its timestamp or batch and its shard: each bucket of the span holds the aggregate share
  and the list of the reports that fall into it, in order, and the span counts all reports.
\<close>

theorem span_partitions_reports:
  assumes "span_of V E c sel rs = Ok span"
  shows "distinct (map fst span) \<and>
    (\<forall>b. bucket_holds V E (in_bucket E c sel b rs) (map_of span b)) \<and>
    DapAggregateSpan_report_count span = length rs"
  using span_of_holds [OF assms] span_of_report_count [OF assms] by (simp add: span_holds_def)

theorem span_partitions_reports_witness:
  "\<exists>span. span_of example_vdafs example_ext example_task PBS_TimeInterval example_reports = Ok span \<and>
          DapAggregateSpan_report_count span = 2"
proof -
  obtain span where span: "span_of example_vdafs example_ext example_task PBS_TimeInterval example_reports = Ok span"
    by (simp add: share_eval span_eval)
  with span_partitions_reports [OF span] show ?thesis
    by (simp add: example_reports_def)
qed

text \<open>
  C24. Merging the spans of two aggregation jobs gives a span that holds, bucket by bucket, the share
  and the reports of both.
\<close>

theorem span_merge_is_union:
  assumes "merge_laws V E" and "span_holds V E c sel rs a" and "span_holds V E c sel rs' b"
    and "DapAggregateSpan_merge V a b = Ok m" and "length rs + length rs' < 2 ^ 64"
  shows "span_holds V E c sel (rs @ rs') m"
  by (rule merge_laws.span_merge_holds [OF assms])

theorem span_merge_is_union_witness:
  "\<exists>a b m. span_of example_vdafs example_ext example_task PBS_TimeInterval (take 1 example_reports) = Ok a \<and>
     span_of example_vdafs example_ext example_task PBS_TimeInterval (drop 1 example_reports) = Ok b \<and>
     DapAggregateSpan_merge example_vdafs a b = Ok m \<and>
     span_holds example_vdafs example_ext example_task PBS_TimeInterval example_reports m"
proof -
  let ?span = "span_of example_vdafs example_ext example_task PBS_TimeInterval"
  obtain a b m where a: "?span (take 1 example_reports) = Ok a" and b: "?span (drop 1 example_reports) = Ok b"
    and m: "DapAggregateSpan_merge example_vdafs a b = Ok m"
    by (simp add: share_eval span_eval)
  have "length (take 1 example_reports) + length (drop 1 example_reports) < 2 ^ 64"
    by (simp add: example_reports_def)
  from span_merge_is_union [OF field.merge_laws_axioms span_of_holds [OF a] span_of_holds [OF b] m this]
  show ?thesis
    using a b m by auto
qed

end
