(* ===== verification/Hpke.thy ===== *)
theory Hpke
  imports Dap_Error
begin

text \<open>
  Hybrid public-key encryption, crates/daphne/src/hpke.rs: the check of the cipher suite, HPKE
  configurations, and receiver configurations (a configuration with its private key).

  The algorithms are the external crates \<open>hpke_rs\<close>, \<open>hpke_rs_crypto\<close> and \<open>hpke_rs_rust_crypto\<close>: the
  record \<open>hpke_rs\<close> holds the operations the code calls, over an opaque type \<open>'c\<close> of contexts. Of the
  algorithm identifiers of those crates only the ones the code names are told apart. Operations that
  draw randomness get what they draw as an argument. The conversions of foreign errors
  (\<open>From<HpkeError>\<close>, \<open>From<Error>\<close>) are the function \<open>from_hpke_error\<close>.
\<close>

section \<open>Parameters: the HPKE crates\<close>

datatype KemAlgorithm = DhKemP256 | DhKem25519 | OtherKem
datatype KdfAlgorithm = Kdf_HkdfSha256 | OtherKdf
datatype AeadAlgorithm = Aead_Aes128Gcm | OtherAead

record Hpke =
  hpke_kem :: KemAlgorithm
  hpke_kdf :: KdfAlgorithm
  hpke_aead :: AeadAlgorithm

record 'c hpke_rs =
  KemAlgorithm_try_from :: "u16 \<Rightarrow> KemAlgorithm option"
  KdfAlgorithm_try_from :: "u16 \<Rightarrow> KdfAlgorithm option"
  AeadAlgorithm_try_from :: "u16 \<Rightarrow> AeadAlgorithm option"
  setup_sender :: "Hpke \<Rightarrow> bytes \<Rightarrow> bytes \<Rightarrow> bytes \<Rightarrow> (bytes \<times> 'c, unit) result"
  hpke_seal :: "'c \<Rightarrow> bytes \<Rightarrow> bytes \<Rightarrow> (bytes, unit) result"
  setup_receiver :: "Hpke \<Rightarrow> bytes \<Rightarrow> bytes \<Rightarrow> bytes \<Rightarrow> ('c, unit) result"
  hpke_open :: "'c \<Rightarrow> bytes \<Rightarrow> bytes \<Rightarrow> (bytes, unit) result"
  generate_key_pair :: "Hpke \<Rightarrow> bytes \<Rightarrow> (bytes \<times> bytes, unit) result"
  kem_derive_base :: "KemAlgorithm \<Rightarrow> bytes \<Rightarrow> (bytes, unit) result"

section \<open>Encryption and decryption\<close>

definition from_hpke_error :: "unit \<Rightarrow> DapError" where
  "from_hpke_error _ = TransitionError HpkeDecryptError"

definition check_suite ::
  "('c, 'z) hpke_rs_scheme \<Rightarrow> HpkeKemId \<Rightarrow> HpkeKdfId \<Rightarrow> HpkeAeadId \<Rightarrow> (Hpke, DapError) result" where
  "check_suite R kem_i kdf_i aead_i =
     (let s = Fatal ''HPKE ciphersuite not implemented'' in
      and_then (ok_or (KemAlgorithm_try_from R (u16_from_HpkeKemId kem_i)) s) (\<lambda>kem.
      and_then (ok_or (KdfAlgorithm_try_from R (u16_from_HpkeKdfId kdf_i)) s) (\<lambda>kdf.
      and_then (ok_or (AeadAlgorithm_try_from R (u16_from_HpkeAeadId aead_i)) s) (\<lambda>aead.
        case (kem, kdf, aead) of
          (DhKemP256, Kdf_HkdfSha256, Aead_Aes128Gcm) \<Rightarrow>
            Ok \<lparr>hpke_kem = kem, hpke_kdf = kdf, hpke_aead = aead\<rparr>
        | (DhKem25519, Kdf_HkdfSha256, Aead_Aes128Gcm) \<Rightarrow>
            Ok \<lparr>hpke_kem = kem, hpke_kdf = kdf, hpke_aead = aead\<rparr>
        | _ \<Rightarrow> Err s))))"

definition HpkeConfig_encrypt ::
  "('c, 'z) hpke_rs_scheme \<Rightarrow> bytes \<Rightarrow> HpkeConfig \<Rightarrow> bytes \<Rightarrow> bytes \<Rightarrow> bytes \<Rightarrow>
   (HpkeCiphertext, DapError) result" where
  "HpkeConfig_encrypt R coins self info aad plaintext =
     and_then (check_suite R (kem_id self) (kdf_id self) (aead_id self)) (\<lambda>sender.
     and_then (map_err from_hpke_error (setup_sender R sender (public_key self) info coins)) (\<lambda>(enc, ctx).
     and_then (map_err from_hpke_error (hpke_seal R ctx aad plaintext)) (\<lambda>ciphertext.
     Ok \<lparr>config_id = hpke_id self, ct_enc = enc, ct_payload = ciphertext\<rparr>)))"

definition HpkeConfig_decrypt ::
  "('c, 'z) hpke_rs_scheme \<Rightarrow> HpkeConfig \<Rightarrow> bytes \<Rightarrow> bytes \<Rightarrow> bytes \<Rightarrow> HpkeCiphertext \<Rightarrow>
   (bytes, DapError) result" where
  "HpkeConfig_decrypt R self private_key info aad ciphertext =
     (if hpke_id self \<noteq> config_id ciphertext then Err (TransitionError HpkeUnknownConfigId)
      else and_then (check_suite R (kem_id self) (kdf_id self) (aead_id self)) (\<lambda>receiver.
           and_then (map_err from_hpke_error (setup_receiver R receiver (ct_enc ciphertext) private_key info)) (\<lambda>ctx.
           map_err from_hpke_error (hpke_open R ctx aad (ct_payload ciphertext)))))"

section \<open>Receiver configurations\<close>

record HpkeReceiverConfig =
  receiver_config :: HpkeConfig
  private_key :: bytes

definition HpkeReceiverConfig_encrypt ::
  "('c, 'z) hpke_rs_scheme \<Rightarrow> bytes \<Rightarrow> HpkeReceiverConfig \<Rightarrow> bytes \<Rightarrow> bytes \<Rightarrow> bytes \<Rightarrow>
   (HpkeCiphertext, DapError) result" where
  "HpkeReceiverConfig_encrypt R coins self info aad plaintext =
     HpkeConfig_encrypt R coins (receiver_config self) info aad plaintext"

definition HpkeReceiverConfig_decrypt ::
  "('c, 'z) hpke_rs_scheme \<Rightarrow> HpkeReceiverConfig \<Rightarrow> bytes \<Rightarrow> bytes \<Rightarrow> HpkeCiphertext \<Rightarrow>
   (bytes, DapError) result" where
  "HpkeReceiverConfig_decrypt R self info aad ciphertext =
     HpkeConfig_decrypt R (receiver_config self) (private_key self) info aad ciphertext"

definition HpkeReceiverConfig_gen ::
  "('c, 'z) hpke_rs_scheme \<Rightarrow> bytes \<Rightarrow> u8 \<Rightarrow> HpkeKemId \<Rightarrow> (HpkeReceiverConfig, DapError) result" where
  "HpkeReceiverConfig_gen R coins i kem_id' =
     and_then (case kem_id' of
         P256HkdfSha256 \<Rightarrow> Ok DhKemP256
       | X25519HkdfSha256 \<Rightarrow> Ok DhKem25519
       | KemNotImplemented x \<Rightarrow> Err (Fatal ''Unsupported KEM'')) (\<lambda>kem.
     and_then (map_err (\<lambda>_. Fatal ''bad key generation for KEM'') (generate_key_pair R
         \<lparr>hpke_kem = kem, hpke_kdf = Kdf_HkdfSha256, hpke_aead = Aead_Aes128Gcm\<rparr> coins)) (\<lambda>(sk, pk).
     Ok \<lparr>receiver_config = \<lparr>hpke_id = i, kem_id = kem_id', kdf_id = HkdfSha256, aead_id = Aes128Gcm,
           public_key = pk\<rparr>,
         private_key = sk\<rparr>))"

definition HpkeReceiverConfig_try_from ::
  "('c, 'z) hpke_rs_scheme \<Rightarrow> HpkeConfig \<times> bytes \<Rightarrow> (HpkeReceiverConfig, DapError) result" where
  "HpkeReceiverConfig_try_from R = (\<lambda>(config, sk).
     (case KemAlgorithm_try_from R (u16_from_HpkeKemId (kem_id config)) of
        None \<Rightarrow> Panic
      | Some kem \<Rightarrow>
          and_then (map_err from_hpke_error (kem_derive_base R kem sk)) (\<lambda>pk.
            if pk = public_key config then Ok \<lparr>receiver_config = config, private_key = sk\<rparr>
            else Err (Fatal ''public key does not match private key''))))"

section \<open>The contract of the external crates\<close>

text \<open>
  The documented behaviour the code relies on: the code points of RFC 9180, that a generated key
  pair fits, and that the receiver with the private key of a public key opens what a sender sealed
  to it under the same info string and associated data.
\<close>

text \<open>A receiver whose private key belongs to the public key of its configuration.\<close>

definition key_matches :: "('c, 'z) hpke_rs_scheme \<Rightarrow> HpkeReceiverConfig \<Rightarrow> bool" where
  "key_matches R r \<longleftrightarrow> (\<exists>suite.
     check_suite R (kem_id (receiver_config r)) (kdf_id (receiver_config r)) (aead_id (receiver_config r)) = Ok suite \<and>
     kem_derive_base R (hpke_kem suite) (private_key r) = Ok (public_key (receiver_config r)))"

locale hpke_laws =
  fixes R :: "('c, 'z) hpke_rs_scheme"
  assumes kem_p256: "KemAlgorithm_try_from R 0x0010 = Some DhKemP256"
    and kem_x25519: "KemAlgorithm_try_from R 0x0020 = Some DhKem25519"
    and kdf_sha256: "KdfAlgorithm_try_from R 0x0001 = Some Kdf_HkdfSha256"
    and aead_aes128: "AeadAlgorithm_try_from R 0x0001 = Some Aead_Aes128Gcm"
    and key_pair: "generate_key_pair R suite coins = Ok (sk, pk) \<Longrightarrow>
      kem_derive_base R (hpke_kem suite) sk = Ok pk"
    and open_seal: "kem_derive_base R (hpke_kem suite) sk = Ok pk \<Longrightarrow>
      setup_sender R suite pk info coins = Ok (enc, s) \<Longrightarrow> hpke_seal R s aad pt = Ok ct \<Longrightarrow>
      \<exists>r. setup_receiver R suite enc sk info = Ok r \<and> hpke_open R r aad ct = Ok pt"
begin

lemma check_suite_kem:
  assumes "check_suite R kem_i kdf_i aead_i = Ok suite"
  shows "KemAlgorithm_try_from R (u16_from_HpkeKemId kem_i) = Some (hpke_kem suite)"
proof -
  from assms obtain kem kdf aead where
    "KemAlgorithm_try_from R (u16_from_HpkeKemId kem_i) = Some kem"
    "(case (kem, kdf, aead) of
        (DhKemP256, Kdf_HkdfSha256, Aead_Aes128Gcm) \<Rightarrow>
          Ok \<lparr>hpke_kem = kem, hpke_kdf = kdf, hpke_aead = aead\<rparr>
      | (DhKem25519, Kdf_HkdfSha256, Aead_Aes128Gcm) \<Rightarrow>
          Ok \<lparr>hpke_kem = kem, hpke_kdf = kdf, hpke_aead = aead\<rparr>
      | _ \<Rightarrow> Err (Fatal ''HPKE ciphersuite not implemented'')) = Ok suite"
    unfolding check_suite_def Let_def by (auto simp only: and_then_Ok_iff ok_or_Ok_iff)
  then show ?thesis
    by (cases kem; cases kdf; cases aead) auto
qed

lemma decrypt_encrypt:
  assumes "key_matches R r" and "HpkeConfig_encrypt R coins (receiver_config r) info aad pt = Ok ct"
  shows "HpkeReceiverConfig_decrypt R r info aad ct = Ok pt"
  using assms open_seal
  by (fastforce simp: key_matches_def HpkeConfig_encrypt_def HpkeReceiverConfig_decrypt_def
      HpkeConfig_decrypt_def)

lemma try_from_key_matches:
  assumes "HpkeReceiverConfig_try_from R (config, sk) = Ok r"
    and "HpkeConfig_encrypt R coins config info aad pt = Ok ct"
  shows "key_matches R r" "receiver_config r = config"
proof -
  obtain suite where suite: "check_suite R (kem_id config) (kdf_id config) (aead_id config) = Ok suite"
    using assms(2) by (auto simp: HpkeConfig_encrypt_def)
  show "key_matches R r" "receiver_config r = config"
    using assms(1) suite check_suite_kem [OF suite]
    by (auto simp: key_matches_def HpkeReceiverConfig_try_from_def split: if_splits)
qed

lemma check_suite_supported:
  "k \<in> {P256HkdfSha256, X25519HkdfSha256} \<Longrightarrow>
   check_suite R k HkdfSha256 Aes128Gcm = Ok
     \<lparr>hpke_kem = (if k = P256HkdfSha256 then DhKemP256 else DhKem25519),
      hpke_kdf = Kdf_HkdfSha256, hpke_aead = Aead_Aes128Gcm\<rparr>"
  by (auto simp: check_suite_def u16_from_HpkeKemId_def u16_from_HpkeKdfId_def u16_from_HpkeAeadId_def
      KEM_ID_P256_HKDF_SHA256_def KEM_ID_X25519_HKDF_SHA256_def KDF_ID_HKDF_SHA256_def
      AEAD_ID_AES128GCM_def kem_p256 kem_x25519 kdf_sha256 aead_aes128)

lemma gen_key_matches:
  assumes "HpkeReceiverConfig_gen R coins i k = Ok r"
  shows "key_matches R r"
proof -
  have k: "k \<in> {P256HkdfSha256, X25519HkdfSha256}"
    using assms by (cases k) (auto simp: HpkeReceiverConfig_gen_def)
  with assms show ?thesis
    using check_suite_supported [OF k]
    by (auto simp: key_matches_def HpkeReceiverConfig_gen_def dest!: key_pair)
qed

end

section \<open>An instance\<close>

text \<open>
  Witnesses evaluate on an HPKE whose public key is its private key and whose ciphertext is the
  plaintext behind the key, the info string and the associated data.
\<close>

definition clear_hpke :: "bytes hpke_rs" where
  "clear_hpke = \<lparr>
     KemAlgorithm_try_from = (\<lambda>x. if x = 0x0010 then Some DhKemP256
       else if x = 0x0020 then Some DhKem25519 else None),
     KdfAlgorithm_try_from = (\<lambda>x. if x = 0x0001 then Some Kdf_HkdfSha256 else None),
     AeadAlgorithm_try_from = (\<lambda>x. if x = 0x0001 then Some Aead_Aes128Gcm else None),
     setup_sender = (\<lambda>_ pk info coins. Ok (coins, pk @ info)),
     hpke_seal = (\<lambda>ctx aad pt. Ok (ctx @ aad @ pt)),
     setup_receiver = (\<lambda>_ enc sk info. Ok (sk @ info)),
     hpke_open = (\<lambda>ctx aad ct. if take (length (ctx @ aad)) ct = ctx @ aad
       then Ok (drop (length (ctx @ aad)) ct) else Err ()),
     generate_key_pair = (\<lambda>_ coins. Ok (coins, coins)),
     kem_derive_base = (\<lambda>_ sk. Ok sk)\<rparr>"

interpretation clear: hpke_laws clear_hpke
  by unfold_locales (auto simp: clear_hpke_def)

section \<open>Properties\<close>

text \<open>
  C19. A receiver configuration that was generated, or accepted with its private key by \<open>try_from\<close>,
  decrypts what is encrypted under its public configuration with the same info string and
  associated data.
\<close>

theorem receiver_decrypts:
  assumes "hpke_laws R"
    and "HpkeReceiverConfig_gen R c i k = Ok r \<or> HpkeReceiverConfig_try_from R (config, sk) = Ok r"
    and "HpkeReceiverConfig_encrypt R coins r info aad pt = Ok ct"
  shows "HpkeReceiverConfig_decrypt R r info aad ct = Ok pt"
proof -
  have config: "receiver_config r = config" if "HpkeReceiverConfig_try_from R (config, sk) = Ok r"
    using that by (auto simp: HpkeReceiverConfig_try_from_def split: option.splits if_splits)
  have "key_matches R r"
    using assms(2,3) config hpke_laws.gen_key_matches [OF assms(1)] hpke_laws.try_from_key_matches [OF assms(1)]
    unfolding HpkeReceiverConfig_encrypt_def by metis
  then show ?thesis
    using hpke_laws.decrypt_encrypt [OF assms(1)] assms(3) unfolding HpkeReceiverConfig_encrypt_def by blast
qed

theorem receiver_decrypts_witness:
  "\<exists>r ct. HpkeReceiverConfig_try_from clear_hpke (\<lparr>hpke_id = 7, kem_id = X25519HkdfSha256,
       kdf_id = HkdfSha256, aead_id = Aes128Gcm, public_key = [1, 2]\<rparr>, [1, 2]) = Ok r \<and>
     HpkeReceiverConfig_encrypt clear_hpke [9] r [3] [4] [5, 6] = Ok ct \<and>
     HpkeReceiverConfig_decrypt clear_hpke r [3] [4] ct = Ok [5, 6]"
proof -
  let ?config = "\<lparr>hpke_id = 7, kem_id = X25519HkdfSha256, kdf_id = HkdfSha256, aead_id = Aes128Gcm,
    public_key = [1, 2]\<rparr>"
  let ?r = "\<lparr>receiver_config = ?config, private_key = [1, 2]\<rparr>"
  have r: "HpkeReceiverConfig_try_from clear_hpke (?config, [1, 2]) = Ok ?r"
    by (simp add: HpkeReceiverConfig_try_from_def clear_hpke_def u16_from_HpkeKemId_def
        KEM_ID_X25519_HKDF_SHA256_def)
  obtain ct where ct: "HpkeReceiverConfig_encrypt clear_hpke [9] ?r [3] [4] [5, 6] = Ok ct"
    unfolding HpkeReceiverConfig_encrypt_def HpkeConfig_encrypt_def
    by (simp add: clear.check_suite_supported) (simp add: clear_hpke_def)
  from receiver_decrypts [OF clear.hpke_laws_axioms disjI2 [OF r] ct] r ct show ?thesis by blast
qed

end
