(* ===== verification/Protocol_Client.thy ===== *)
theory Protocol_Client
  imports Hpke Vdaf
begin

text \<open>
  The client of the protocol, crates/daphne/src/protocol/client.rs, and the HPKE contexts of
  protocol/mod.rs: a measurement is split into two input shares, each is encrypted to its Aggregator.
  The report identifier and the randomness of sharding and of the two encryptions are arguments.
\<close>

section \<open>Contexts\<close>

definition ascii :: "string \<Rightarrow> bytes" where
  "ascii s = map of_char s"

definition CTX_INPUT_SHARE_DRAFT09 :: bytes where
  "CTX_INPUT_SHARE_DRAFT09 = ascii ''dap-09 input share''"
definition CTX_AGG_SHARE_DRAFT09 :: bytes where
  "CTX_AGG_SHARE_DRAFT09 = ascii ''dap-09 aggregate share''"
definition CTX_ROLE_COLLECTOR :: u8 where "CTX_ROLE_COLLECTOR = 0"
definition CTX_ROLE_CLIENT :: u8 where "CTX_ROLE_CLIENT = 1"
definition CTX_ROLE_LEADER :: u8 where "CTX_ROLE_LEADER = 2"
definition CTX_ROLE_HELPER :: u8 where "CTX_ROLE_HELPER = 3"

section \<open>Reports\<close>

definition produce_input_shares ::
  "('v, 'y) prio_vdafs_scheme \<Rightarrow> bytes \<Rightarrow> VdafConfig \<Rightarrow> DapMeasurement \<Rightarrow> bytes \<Rightarrow>
   (bytes \<times> bytes \<times> bytes, VdafError) result" where
  "produce_input_shares V coins self measurement nonce = (case self of
      Prio3 prio3_config \<Rightarrow> prio3_shard V prio3_config measurement nonce coins
    | Prio2 dim \<Rightarrow> prio2_shard V dim measurement nonce coins
    | Pine pine \<Rightarrow> pine_shard V pine measurement nonce coins)"

text \<open>The info string and the associated data of an encrypted input share.\<close>

text \<open>The info string of the \<open>i\<close>-th input share: the receiver role is a placeholder that the loop sets.\<close>

definition report_info :: "nat \<Rightarrow> bytes" where
  "report_info i = (CTX_INPUT_SHARE_DRAFT09 @ [CTX_ROLE_CLIENT, CTX_ROLE_LEADER])
     [length CTX_INPUT_SHARE_DRAFT09 + 1 := if i = 0 then CTX_ROLE_LEADER else CTX_ROLE_HELPER]"

definition report_aad ::
  "'z prio_codec_scheme \<Rightarrow> DapVersion \<Rightarrow> TaskId \<Rightarrow> ReportMetadata \<Rightarrow> bytes \<Rightarrow> (bytes, DapError) result" where
  "report_aad P version task_id metadata pub_share =
     map_err DapError_encoding
      (and_then (TaskId_encode task_id []) (\<lambda>aad.
       and_then (ReportMetadata_encode_with_param P version metadata aad) (\<lambda>aad.
       encode_u32_bytes P aad pub_share)))"

definition produce_report_with_extensions_for_shares ::
  "'z prio_codec_scheme \<Rightarrow> ('c, 'y) hpke_rs_scheme \<Rightarrow> bytes \<times> bytes \<Rightarrow> bytes \<Rightarrow> bytes \<times> bytes \<Rightarrow>
   HpkeConfig \<times> HpkeConfig \<Rightarrow> Time \<Rightarrow> TaskId \<Rightarrow> ReportId \<Rightarrow> Extension list \<Rightarrow> DapVersion \<Rightarrow>
   (Report, DapError) result" where
  "produce_report_with_extensions_for_shares P R coins pub_share input_shares configs time task_id
     report_id exts version =
     (let metadata = \<lparr>metadata_id = report_id, metadata_time = time\<rparr>;
          encode_share = (\<lambda>input_share. map_err DapError_encoding (get_encoded P
            (PlaintextInputShare_encode_with_param P version
              \<lparr>extensions = exts, pis_payload = input_share\<rparr>))) in
      and_then (report_aad P version task_id metadata pub_share) (\<lambda>aad.
      and_then (encode_share (fst input_shares)) (\<lambda>leader_plaintext.
      and_then (HpkeConfig_encrypt R (fst coins) (fst configs) (report_info 0) aad leader_plaintext)
        (\<lambda>leader_share.
      and_then (encode_share (snd input_shares)) (\<lambda>helper_plaintext.
      and_then (HpkeConfig_encrypt R (snd coins) (snd configs) (report_info 1) aad helper_plaintext)
        (\<lambda>helper_share.
      Ok \<lparr>report_metadata = metadata, public_share = pub_share,
          encrypted_input_shares = (leader_share, helper_share)\<rparr>))))))"

definition produce_report_with_extensions ::
  "'z prio_codec_scheme \<Rightarrow> ('c, 'y) hpke_rs_scheme \<Rightarrow> ('v, 'x) prio_vdafs_scheme \<Rightarrow> bytes \<Rightarrow>
   bytes \<times> bytes \<Rightarrow> ReportId \<Rightarrow> VdafConfig \<Rightarrow> HpkeConfig \<times> HpkeConfig \<Rightarrow> Time \<Rightarrow> TaskId \<Rightarrow>
   DapMeasurement \<Rightarrow> Extension list \<Rightarrow> DapVersion \<Rightarrow> (Report, DapError) result" where
  "produce_report_with_extensions P R V coins enc_coins report_id self configs time task_id measurement
     exts version =
     and_then (map_err from_vdaf (produce_input_shares V coins self measurement (ReportId_0 report_id)))
       (\<lambda>(pub_share, input_shares).
     produce_report_with_extensions_for_shares P R enc_coins pub_share input_shares configs time task_id
       report_id exts version)"

definition produce_report ::
  "'z prio_codec_scheme \<Rightarrow> ('c, 'y) hpke_rs_scheme \<Rightarrow> ('v, 'x) prio_vdafs_scheme \<Rightarrow> bytes \<Rightarrow>
   bytes \<times> bytes \<Rightarrow> ReportId \<Rightarrow> VdafConfig \<Rightarrow> HpkeConfig \<times> HpkeConfig \<Rightarrow> Time \<Rightarrow> TaskId \<Rightarrow>
   DapMeasurement \<Rightarrow> DapVersion \<Rightarrow> (Report, DapError) result" where
  "produce_report P R V coins enc_coins report_id self configs time task_id measurement version =
     produce_report_with_extensions P R V coins enc_coins report_id self configs time task_id measurement
       [] version"

end
