(* ===== verification/Taskprov_Messages.thy ===== *)
theory Taskprov_Messages
  imports Vdaf Wire_Instance
begin

text \<open>
  The messages of the taskprov extension, crates/daphne/src/messages/taskprov.rs: the task
  configuration a peer advertises, with its query and VDAF configurations, and the wire contract of
  each. The types \<open>VdafConfig\<close> and \<open>QueryConfig\<close> of that module carry the prefix \<open>Taskprov\<close> here.

  Variants the code does not know keep the rest of their section as raw bytes, whose number is the
  \<open>bytes_left\<close> that the decoders get. A subtraction that would pass below zero yields the length of
  a vector that cannot be allocated, which panics.
\<close>

section \<open>Data\<close>

definition VDAF_TYPE_PRIO2 :: u32 where "VDAF_TYPE_PRIO2 = 0xFFFF0000"
definition VDAF_TYPE_PRIO3_SUM_VEC_FIELD64_MULTIPROOF_HMAC_SHA256_AES128 :: u32 where
  "VDAF_TYPE_PRIO3_SUM_VEC_FIELD64_MULTIPROOF_HMAC_SHA256_AES128 = 0xFFFF1003"
definition VDAF_TYPE_PINE_FIELD64_HMAC_SHA256_AES128 :: u32 where
  "VDAF_TYPE_PINE_FIELD64_HMAC_SHA256_AES128 = 0xFFFF1004"
definition VDAF_TYPE_PINE_FIELD32_HMAC_SHA256_AES128 :: u32 where
  "VDAF_TYPE_PINE_FIELD32_HMAC_SHA256_AES128 = 0xFFFF1005"
definition DP_MECHANISM_NONE :: u8 where "DP_MECHANISM_NONE = 0x01"

lemmas taskprov_code_points =
  VDAF_TYPE_PRIO2_def VDAF_TYPE_PRIO3_SUM_VEC_FIELD64_MULTIPROOF_HMAC_SHA256_AES128_def
  VDAF_TYPE_PINE_FIELD64_HMAC_SHA256_AES128_def VDAF_TYPE_PINE_FIELD32_HMAC_SHA256_AES128_def
  DP_MECHANISM_NONE_def

datatype VdafTypeVar =
    Var_Prio2 (var_dimension: u32)
  | Var_Prio3SumVecField64MultiproofHmacSha256Aes128
      (var_length: u32) (var_bits: u8) (var_chunk_length: u32) (var_num_proofs: u8)
  | Var_Pine32HmacSha256Aes128 PineParam
  | Var_Pine64HmacSha256Aes128 PineParam
  | Var_NotImplemented u32 bytes

datatype DpConfig = Dp_None | Dp_NotImplemented u8 bytes

record TaskprovVdafConfig =
  dp_config :: DpConfig
  vdaf_var :: VdafTypeVar

record UrlBytes =
  url_bytes :: bytes

datatype QueryConfigVar =
    QVar_TimeInterval
  | QVar_FixedSize u32
  | QVar_NotImplemented u8 bytes

record TaskprovQueryConfig =
  tq_time_precision :: Duration
  max_batch_query_count :: u16
  tq_min_batch_size :: u32
  query_var :: QueryConfigVar

record TaskConfig =
  task_info :: bytes
  tc_leader_url :: UrlBytes
  tc_helper_url :: UrlBytes
  tc_query_config :: TaskprovQueryConfig
  task_expiration :: Time
  tc_vdaf_config :: TaskprovVdafConfig

text \<open>
  What the code uses of \<open>prio::codec\<close> for these messages, on top of \<open>prio_messages\<close>, and for the
  aggregation parameter: the decoder of a vector of bytes and the whole-buffer decoders.
\<close>

record prio_protocol = prio_messages +
  decode_u8_items_u8 :: "u8 decoder \<Rightarrow> u8 list decoder"
  get_decoded_TaskConfig :: "TaskConfig decoder \<Rightarrow> bytes \<Rightarrow> (TaskConfig, codec_error) result"
  get_decoded_DapAggregationParam ::
    "DapAggregationParam decoder \<Rightarrow> bytes \<Rightarrow> (DapAggregationParam, codec_error) result"

section \<open>Codecs\<close>

text \<open>A \<open>usize\<close> written as a \<open>u32\<close> or \<open>u16\<close>, and read back.\<close>

definition u32_try_encode :: "'z prio_codec_scheme \<Rightarrow> usize \<Rightarrow> encoder" where
  "u32_try_encode P n bytes =
     (if n < 2 ^ 32 then u32_encode P (of_nat n) bytes else Err UnexpectedValue)"

definition u16_try_encode :: "'z prio_codec_scheme \<Rightarrow> usize \<Rightarrow> encoder" where
  "u16_try_encode P n bytes =
     (if n < 2 ^ 16 then u16_encode P (of_nat n) bytes else Err UnexpectedValue)"

definition u32_decode_usize :: "'z prio_codec_scheme \<Rightarrow> usize decoder" where
  "u32_decode_usize P bytes = and_then (u32_decode P bytes) (\<lambda>(x, bytes). Ok (unat x, bytes))"

definition u16_decode_usize :: "'z prio_codec_scheme \<Rightarrow> usize decoder" where
  "u16_decode_usize P bytes = and_then (u16_decode P bytes) (\<lambda>(x, bytes). Ok (unat x, bytes))"

definition PineParam_encode :: "'z prio_codec_scheme \<Rightarrow> PineParam \<Rightarrow> encoder" where
  "PineParam_encode P p bytes =
     and_then (u64_encode P (norm_bound p) bytes) (\<lambda>bytes.
     and_then (u32_try_encode P (frac_bits p) bytes) (\<lambda>bytes.
     and_then (u32_try_encode P (dimension p) bytes) (\<lambda>bytes.
     and_then (u32_try_encode P (chunk_len p) bytes) (\<lambda>bytes.
     and_then (u32_try_encode P (chunk_len_sq_norm_equal p) bytes) (\<lambda>bytes.
     and_then (u8_encode P (num_proofs p) bytes) (\<lambda>bytes.
     and_then (u8_encode P (num_proofs_sq_norm_equal p) bytes) (\<lambda>bytes.
     and_then (u16_try_encode P (num_wr_tests p) bytes) (\<lambda>bytes.
     u16_try_encode P (num_wr_successes p) bytes))))))))"

definition PineParam_decode :: "'z prio_codec_scheme \<Rightarrow> PineParam decoder" where
  "PineParam_decode P bytes =
     and_then (u64_decode P bytes) (\<lambda>(l2_norm_bound, bytes).
     and_then (u32_decode_usize P bytes) (\<lambda>(num_frac_bits, bytes).
     and_then (u32_decode_usize P bytes) (\<lambda>(len, bytes).
     and_then (u32_decode_usize P bytes) (\<lambda>(chunk_length, bytes).
     and_then (u32_decode_usize P bytes) (\<lambda>(chunk_length_norm_equality, bytes).
     and_then (u8_decode P bytes) (\<lambda>(proofs, bytes).
     and_then (u8_decode P bytes) (\<lambda>(proofs_sq_norm_equal, bytes).
     and_then (u16_decode_usize P bytes) (\<lambda>(wr_checks, bytes).
     and_then (u16_decode_usize P bytes) (\<lambda>(wr_successes, bytes).
     Ok (\<lparr>norm_bound = l2_norm_bound, dimension = len, frac_bits = num_frac_bits,
          chunk_len = chunk_length, chunk_len_sq_norm_equal = chunk_length_norm_equality,
          num_proofs = proofs, num_proofs_sq_norm_equal = proofs_sq_norm_equal,
          num_wr_tests = wr_checks, num_wr_successes = wr_successes\<rparr>, bytes))))))))))"

definition VdafTypeVar_encode_with_param ::
  "'z prio_codec_scheme \<Rightarrow> DapVersion \<Rightarrow> VdafTypeVar \<Rightarrow> encoder" where
  "VdafTypeVar_encode_with_param P version v bytes = (case v of
      Var_Prio2 dim \<Rightarrow> and_then (u32_encode P VDAF_TYPE_PRIO2 bytes) (u32_encode P dim)
    | Var_Prio3SumVecField64MultiproofHmacSha256Aes128 len bits chunk_length proofs \<Rightarrow>
        and_then (u32_encode P VDAF_TYPE_PRIO3_SUM_VEC_FIELD64_MULTIPROOF_HMAC_SHA256_AES128 bytes) (\<lambda>bytes.
        and_then (u32_encode P len bytes) (\<lambda>bytes.
        and_then (u8_encode P bits bytes) (\<lambda>bytes.
        and_then (u32_encode P chunk_length bytes) (\<lambda>bytes.
        u8_encode P proofs bytes))))
    | Var_Pine32HmacSha256Aes128 param \<Rightarrow>
        and_then (u32_encode P VDAF_TYPE_PINE_FIELD32_HMAC_SHA256_AES128 bytes) (PineParam_encode P param)
    | Var_Pine64HmacSha256Aes128 param \<Rightarrow>
        and_then (u32_encode P VDAF_TYPE_PINE_FIELD64_HMAC_SHA256_AES128 bytes) (PineParam_encode P param)
    | Var_NotImplemented typ param \<Rightarrow>
        and_then (u32_encode P typ bytes) (\<lambda>bytes. Ok (bytes @ param)))"

definition VdafTypeVar_decode_with_param ::
  "'z prio_codec_scheme \<Rightarrow> DapVersion \<times> usize option \<Rightarrow> VdafTypeVar decoder" where
  "VdafTypeVar_decode_with_param P param bytes =
     and_then (u32_decode P bytes) (\<lambda>(vdaf_type, bytes).
       if vdaf_type = VDAF_TYPE_PRIO2 then
         and_then (u32_decode P bytes) (\<lambda>(dim, bytes). Ok (Var_Prio2 dim, bytes))
       else if vdaf_type = VDAF_TYPE_PRIO3_SUM_VEC_FIELD64_MULTIPROOF_HMAC_SHA256_AES128 then
         and_then (u32_decode P bytes) (\<lambda>(len, bytes).
         and_then (u8_decode P bytes) (\<lambda>(bits, bytes).
         and_then (u32_decode P bytes) (\<lambda>(chunk_length, bytes).
         and_then (u8_decode P bytes) (\<lambda>(proofs, bytes).
         Ok (Var_Prio3SumVecField64MultiproofHmacSha256Aes128 len bits chunk_length proofs, bytes)))))
       else if vdaf_type = VDAF_TYPE_PINE_FIELD32_HMAC_SHA256_AES128 then
         and_then (PineParam_decode P bytes) (\<lambda>(p, bytes). Ok (Var_Pine32HmacSha256Aes128 p, bytes))
       else if vdaf_type = VDAF_TYPE_PINE_FIELD64_HMAC_SHA256_AES128 then
         and_then (PineParam_decode P bytes) (\<lambda>(p, bytes). Ok (Var_Pine64HmacSha256Aes128 p, bytes))
       else case snd param of
           Some bytes_left \<Rightarrow>
             if bytes_left < 4 then Panic
             else and_then (read_exact Io (bytes_left - 4) bytes) (\<lambda>(p, bytes).
                  Ok (Var_NotImplemented vdaf_type p, bytes))
         | None \<Rightarrow> Err (Other
             ''cannot decode VdafConfig variant without knowing the length of the remainder''))"

definition DpConfig_encode :: "'z prio_codec_scheme \<Rightarrow> DpConfig \<Rightarrow> encoder" where
  "DpConfig_encode P d bytes = (case d of
      Dp_None \<Rightarrow> u8_encode P DP_MECHANISM_NONE bytes
    | Dp_NotImplemented typ param \<Rightarrow> and_then (u8_encode P typ bytes) (\<lambda>bytes. Ok (bytes @ param)))"

definition DpConfig_decode_with_param ::
  "'z prio_codec_scheme \<Rightarrow> DapVersion \<times> usize option \<Rightarrow> DpConfig decoder" where
  "DpConfig_decode_with_param P param bytes =
     and_then (u8_decode P bytes) (\<lambda>(dp_mechanism, bytes).
       if dp_mechanism = DP_MECHANISM_NONE then Ok (Dp_None, bytes)
       else case snd param of
           Some bytes_left \<Rightarrow>
             if bytes_left < 1 then Panic
             else and_then (read_exact Io (bytes_left - 1) bytes) (\<lambda>(p, bytes).
                  Ok (Dp_NotImplemented dp_mechanism p, bytes))
         | None \<Rightarrow> Err (Other
             ''cannot decode DpConfig variant without knowing the length of the remainder''))"

definition TaskprovVdafConfig_encode_with_param ::
  "'z prio_codec_scheme \<Rightarrow> DapVersion \<Rightarrow> TaskprovVdafConfig \<Rightarrow> encoder" where
  "TaskprovVdafConfig_encode_with_param P version c bytes =
     and_then (encode_u16_prefixed P version bytes (\<lambda>_ inner. DpConfig_encode P (dp_config c) inner))
       (VdafTypeVar_encode_with_param P version (vdaf_var c))"

definition TaskprovVdafConfig_decode_with_param ::
  "'z prio_codec_scheme \<Rightarrow> DapVersion \<times> usize option \<Rightarrow> TaskprovVdafConfig decoder" where
  "TaskprovVdafConfig_decode_with_param P param bytes =
     (let prefix_start = position bytes in
      and_then (decode_u16_prefixed P (fst param) bytes (\<lambda>version inner bytes_left.
          DpConfig_decode_with_param P (version, bytes_left) inner)) (\<lambda>(dp, bytes).
      let prefix_len = position bytes - prefix_start;
          bytes_left = map_option (\<lambda>l. l - prefix_len) (snd param) in
      and_then (VdafTypeVar_decode_with_param P (fst param, bytes_left) bytes) (\<lambda>(v, bytes).
      Ok (\<lparr>dp_config = dp, vdaf_var = v\<rparr>, bytes))))"

definition UrlBytes_encode :: "'z prio_codec_scheme \<Rightarrow> UrlBytes \<Rightarrow> encoder" where
  "UrlBytes_encode P u bytes = encode_u16_bytes P bytes (url_bytes u)"

definition UrlBytes_decode :: "'z prio_codec_scheme \<Rightarrow> UrlBytes decoder" where
  "UrlBytes_decode P bytes =
     and_then (decode_u16_bytes P bytes) (\<lambda>(b, bytes). Ok (\<lparr>url_bytes = b\<rparr>, bytes))"

definition encode_query_type :: "'z prio_codec_scheme \<Rightarrow> QueryConfigVar \<Rightarrow> encoder" where
  "encode_query_type P v = u8_encode P (case v of
      QVar_TimeInterval \<Rightarrow> QUERY_TYPE_TIME_INTERVAL
    | QVar_FixedSize _ \<Rightarrow> QUERY_TYPE_FIXED_SIZE
    | QVar_NotImplemented typ _ \<Rightarrow> typ)"

definition TaskprovQueryConfig_encode_with_param ::
  "'z prio_codec_scheme \<Rightarrow> DapVersion \<Rightarrow> TaskprovQueryConfig \<Rightarrow> encoder" where
  "TaskprovQueryConfig_encode_with_param P version q bytes =
     and_then (u64_encode P (tq_time_precision q) bytes) (\<lambda>bytes.
     and_then (u16_encode P (max_batch_query_count q) bytes) (\<lambda>bytes.
     and_then (u32_encode P (tq_min_batch_size q) bytes) (\<lambda>bytes.
     and_then (encode_query_type P (query_var q) bytes) (\<lambda>bytes.
       case query_var q of
         QVar_TimeInterval \<Rightarrow> Ok bytes
       | QVar_FixedSize max_batch_size \<Rightarrow> u32_encode P max_batch_size bytes
       | QVar_NotImplemented _ param \<Rightarrow> Ok (bytes @ param)))))"

definition TaskprovQueryConfig_decode_with_param ::
  "'z prio_codec_scheme \<Rightarrow> DapVersion \<times> usize option \<Rightarrow> TaskprovQueryConfig decoder" where
  "TaskprovQueryConfig_decode_with_param P param bytes =
     and_then (u64_decode P bytes) (\<lambda>(precision, bytes).
     and_then (u16_decode P bytes) (\<lambda>(query_count, bytes).
     and_then (u32_decode P bytes) (\<lambda>(batch_size, bytes).
     and_then (u8_decode P bytes) (\<lambda>(query_type, bytes).
     and_then
       (if query_type = QUERY_TYPE_TIME_INTERVAL then Ok (QVar_TimeInterval, bytes)
        else if query_type = QUERY_TYPE_FIXED_SIZE then
          and_then (u32_decode P bytes) (\<lambda>(m, bytes). Ok (QVar_FixedSize m, bytes))
        else case snd param of
            Some bytes_left \<Rightarrow>
              if bytes_left < 15 then Panic
              else and_then (read_exact Io (bytes_left - 15) bytes) (\<lambda>(p, bytes).
                   Ok (QVar_NotImplemented query_type p, bytes))
          | None \<Rightarrow> Err (Other
              ''cannot decode QueryConfig variant without knowing the length of the remainder''))
       (\<lambda>(v, bytes).
     Ok (\<lparr>tq_time_precision = precision, max_batch_query_count = query_count,
          tq_min_batch_size = batch_size, query_var = v\<rparr>, bytes))))))"

definition TaskConfig_encode_with_param ::
  "'z prio_codec_scheme \<Rightarrow> DapVersion \<Rightarrow> TaskConfig \<Rightarrow> encoder" where
  "TaskConfig_encode_with_param P version t bytes =
     and_then (encode_u8_items P (map (u8_encode P) (task_info t)) bytes) (\<lambda>bytes.
     and_then (UrlBytes_encode P (tc_leader_url t) bytes) (\<lambda>bytes.
     and_then (UrlBytes_encode P (tc_helper_url t) bytes) (\<lambda>bytes.
     and_then (encode_u16_prefixed P version bytes (\<lambda>version inner.
       TaskprovQueryConfig_encode_with_param P version (tc_query_config t) inner)) (\<lambda>bytes.
     and_then (u64_encode P (task_expiration t) bytes) (\<lambda>bytes.
     encode_u16_prefixed P version bytes (\<lambda>version inner.
       TaskprovVdafConfig_encode_with_param P version (tc_vdaf_config t) inner))))))"

definition TaskConfig_decode_with_param ::
  "'z prio_protocol_scheme \<Rightarrow> DapVersion \<Rightarrow> TaskConfig decoder" where
  "TaskConfig_decode_with_param P version bytes =
     and_then (decode_u8_items_u8 P (u8_decode P) bytes) (\<lambda>(info, bytes).
     and_then (UrlBytes_decode P bytes) (\<lambda>(leader, bytes).
     and_then (UrlBytes_decode P bytes) (\<lambda>(helper, bytes).
     and_then (decode_u16_prefixed P version bytes (\<lambda>version inner len.
       TaskprovQueryConfig_decode_with_param P (version, len) inner)) (\<lambda>(q, bytes).
     and_then (u64_decode P bytes) (\<lambda>(expiration, bytes).
     and_then (decode_u16_prefixed P version bytes (\<lambda>version inner len.
       TaskprovVdafConfig_decode_with_param P (version, len) inner)) (\<lambda>(v, bytes).
     Ok (\<lparr>task_info = info, tc_leader_url = leader, tc_helper_url = helper, tc_query_config = q,
          task_expiration = expiration, tc_vdaf_config = v\<rparr>, bytes)))))))"

text \<open>An unknown variant does not carry a code point that has a meaning.\<close>

definition wf_VdafTypeVar :: "VdafTypeVar \<Rightarrow> bool" where
  "wf_VdafTypeVar v = (case v of
      Var_NotImplemented typ _ \<Rightarrow>
        typ \<notin> {VDAF_TYPE_PRIO2, VDAF_TYPE_PRIO3_SUM_VEC_FIELD64_MULTIPROOF_HMAC_SHA256_AES128,
                 VDAF_TYPE_PINE_FIELD32_HMAC_SHA256_AES128, VDAF_TYPE_PINE_FIELD64_HMAC_SHA256_AES128}
    | _ \<Rightarrow> True)"

definition wf_DpConfig :: "DpConfig \<Rightarrow> bool" where
  "wf_DpConfig d = (case d of Dp_None \<Rightarrow> True | Dp_NotImplemented typ _ \<Rightarrow> typ \<noteq> DP_MECHANISM_NONE)"

definition wf_QueryConfigVar :: "QueryConfigVar \<Rightarrow> bool" where
  "wf_QueryConfigVar v = (case v of
      QVar_NotImplemented typ _ \<Rightarrow> typ \<noteq> QUERY_TYPE_TIME_INTERVAL \<and> typ \<noteq> QUERY_TYPE_FIXED_SIZE
    | _ \<Rightarrow> True)"

definition wf_TaskConfig :: "TaskConfig \<Rightarrow> bool" where
  "wf_TaskConfig t \<longleftrightarrow>
     wf_QueryConfigVar (query_var (tc_query_config t)) \<and>
     wf_DpConfig (dp_config (tc_vdaf_config t)) \<and> wf_VdafTypeVar (vdaf_var (tc_vdaf_config t))"

end
