(* ===== verification/Hpke_Provider.thy ===== *)
theory Hpke_Provider
  imports Hpke Dap_Core
begin

text \<open>
  The traits \<open>HpkeDecrypter\<close> and \<open>HpkeProvider\<close> of crates/daphne/src/hpke.rs: a receiver configuration as
  a decrypter (used by Collectors), and the server's implementation
  (crates/daphne-server/src/roles/aggregator.rs), which selects a receiver of the configured list by its
  identifier.

  What the server reads from its storage is an argument: \<open>get_task_config_for\<close> looks up the task, and
  \<open>receivers\<close> the list of receiver configurations for a protocol version, \<open>None\<close> when there is none.
\<close>

type_synonym decrypter = "TaskId \<Rightarrow> bytes \<Rightarrow> bytes \<Rightarrow> HpkeCiphertext \<Rightarrow> (bytes, DapError) result"

type_synonym task_lookup = "TaskId \<Rightarrow> (DapTaskConfig option, DapError) result"

type_synonym receiver_lookup = "DapVersion \<Rightarrow> (HpkeReceiverConfig list option, unit) result"

definition HpkeReceiverConfig_hpke_decrypt ::
  "('c, 'z) hpke_rs_scheme \<Rightarrow> HpkeReceiverConfig \<Rightarrow> decrypter" where
  "HpkeReceiverConfig_hpke_decrypt R self task_id info aad ciphertext =
     HpkeReceiverConfig_decrypt R self info aad ciphertext"

definition App_hpke_decrypt ::
  "('c, 'z) hpke_rs_scheme \<Rightarrow> task_lookup \<Rightarrow> receiver_lookup \<Rightarrow> decrypter" where
  "App_hpke_decrypt R get_task_config_for receivers task_id info aad ciphertext =
     and_then (get_task_config_for task_id) (\<lambda>task.
     and_then (ok_or task (Abort (UnrecognizedTask task_id))) (\<lambda>c.
     and_then (map_err (\<lambda>_. Fatal ''failed to get the hpke config'') (receivers (version c))) (\<lambda>config_list.
     case Option.bind config_list
            (List.find (\<lambda>receiver. hpke_id (receiver_config receiver) = config_id ciphertext)) of
       None \<Rightarrow> Err (TransitionError HpkeUnknownConfigId)
     | Some receiver \<Rightarrow> HpkeReceiverConfig_decrypt R receiver info aad ciphertext)))"

section \<open>Decrypting with a list of receivers\<close>

lemma find_distinct:
  assumes "distinct (map f xs)" and "x \<in> set xs"
  shows "List.find (\<lambda>y. f y = f x) xs = Some x"
  using assms by (induction xs) (auto simp: rev_image_eqI)

lemma HpkeConfig_encrypt_config_id:
  "HpkeConfig_encrypt R coins config info aad pt = Ok ct \<Longrightarrow> config_id ct = hpke_id config"
  by (auto simp: HpkeConfig_encrypt_def)

context hpke_laws
begin

text \<open>The server decrypts what is encrypted to one of its receivers, whichever comes first in the list.\<close>

lemma App_decrypts:
  assumes "get_task_config_for task_id = Ok (Some c)" and "receivers (version c) = Ok (Some rs)"
    and "distinct (map (hpke_id \<circ> receiver_config) rs)" and "r \<in> set rs" and "key_matches R r"
    and "HpkeConfig_encrypt R coins (receiver_config r) info aad pt = Ok ct"
  shows "App_hpke_decrypt R get_task_config_for receivers task_id info aad ct = Ok pt"
  using assms(1,2) decrypt_encrypt [OF assms(5,6)] HpkeConfig_encrypt_config_id [OF assms(6)]
    find_distinct [OF assms(3,4)]
  by (simp add: App_hpke_decrypt_def)

end

end
