(* ===== verification/Protocol_Aggregator.thy ===== *)
theory Protocol_Aggregator
  imports Protocol_Client Taskprov_Messages Aggregate_Laws Hpke_Provider
begin

text \<open>
  The Aggregators' side of the protocol, crates/daphne/src/protocol/aggregator.rs: consuming report
  shares, the Leader's aggregation job request, the Helper's response and its aggregate span, and the
  Leader's span. Metrics and logging are not modelled.

  The traits the functions are generic in are arguments: a decrypter (\<open>HpkeDecrypter\<close>) and an
  \<open>initializer\<close> record (\<open>DapReportInitializer\<close>). A \<open>HashSet\<close> of identifiers is a list without
  repetitions, the map of report statuses an association list. A formatted error message is its format
  string.
\<close>

section \<open>Ping-pong framing\<close>

datatype PingPongMessageType = PP_Initialize | PP_Finish

definition PingPongMessageType_as_u8 :: "PingPongMessageType \<Rightarrow> u8" where
  "PingPongMessageType_as_u8 t = (case t of PP_Initialize \<Rightarrow> 0 | PP_Finish \<Rightarrow> 2)"

definition decode_ping_pong_framed ::
  "'z prio_codec_scheme \<Rightarrow> bytes \<Rightarrow> PingPongMessageType \<Rightarrow> (bytes, codec_error) result" where
  "decode_ping_pong_framed P bytes expected_type =
     and_then (u8_decode P (cursor_new bytes)) (\<lambda>(message_type, r).
       if message_type \<noteq> PingPongMessageType_as_u8 expected_type then Err UnexpectedValue
       else and_then (u32_decode P r) (\<lambda>(len, r).
         let message_len = unat len; message_start = position r in
         if length bytes - message_start < message_len then Err (LengthPrefixTooBig message_len)
         else if length bytes - message_start > message_len then Err (BytesLeftOver message_len)
         else Ok (drop message_start bytes)))"

section \<open>Consuming a report share\<close>

datatype EarlyReportStateConsumed =
    Consumed_Ready ReportMetadata bytes bytes "bytes option"
  | Consumed_Rejected ReportMetadata TransitionFailure

fun Consumed_metadata :: "EarlyReportStateConsumed \<Rightarrow> ReportMetadata" where
  "Consumed_metadata (Consumed_Ready metadata _ _ _) = metadata"
| "Consumed_metadata (Consumed_Rejected metadata _) = metadata"

fun Consumed_is_ready :: "EarlyReportStateConsumed \<Rightarrow> bool" where
  "Consumed_is_ready (Consumed_Ready _ _ _ _) = True"
| "Consumed_is_ready (Consumed_Rejected _ _) = False"

text \<open>
  The loop over the extensions, with the type codes seen so far and whether taskprov was indicated;
  \<open>None\<close> rejects the report.
\<close>

fun check_extensions :: "DapTaskConfig \<Rightarrow> u16 list \<Rightarrow> bool \<Rightarrow> Extension list \<Rightarrow> bool option" where
  "check_extensions c seen taskprov_indicated [] = Some taskprov_indicated"
| "check_extensions c seen taskprov_indicated (e # es) =
     (if type_code e \<in> set seen then None
      else case e of
          Extension_Taskprov \<Rightarrow>
            if method_is_taskprov c then check_extensions c (type_code e # seen) True es else None
        | _ \<Rightarrow> None)"

text \<open>What follows decryption: decoding the plaintext, the extensions, and the Leader's framed message.\<close>

definition consume_plaintext ::
  "'z prio_messages_scheme \<Rightarrow> DapTaskConfig \<Rightarrow> ReportShare \<Rightarrow> bytes option \<Rightarrow> bytes \<Rightarrow>
   (EarlyReportStateConsumed, DapError) result" where
  "consume_plaintext P c share prep_init_payload encoded_input_share =
     (let metadata = share_report_metadata share;
          reject = (\<lambda>failure. Ok (Consumed_Rejected metadata failure)) in
      case get_decoded_PlaintextInputShare P
             (PlaintextInputShare_decode_with_param P (version c)) encoded_input_share of
        Panic \<Rightarrow> Panic
      | Err _ \<Rightarrow> reject InvalidMessage
      | Ok input_share \<Rightarrow>
        (case check_extensions c [] False (extensions input_share) of
           None \<Rightarrow> reject InvalidMessage
         | Some taskprov_indicated \<Rightarrow>
             if method_is_taskprov c \<and> \<not> taskprov_indicated then reject InvalidMessage
             else case prep_init_payload of
                 None \<Rightarrow>
                   Ok (Consumed_Ready metadata (share_public_share share) (pis_payload input_share) None)
               | Some payload \<Rightarrow>
                   (case decode_ping_pong_framed P payload PP_Initialize of
                      Panic \<Rightarrow> Panic
                    | Err _ \<Rightarrow> reject VdafPrepError
                    | Ok peer_prep_share \<Rightarrow>
                        Ok (Consumed_Ready metadata (share_public_share share)
                             (pis_payload input_share) (Some peer_prep_share)))))"

definition input_share_info :: "bool \<Rightarrow> bytes" where
  "input_share_info is_leader = CTX_INPUT_SHARE_DRAFT09 @
     [CTX_ROLE_CLIENT, if is_leader then CTX_ROLE_LEADER else CTX_ROLE_HELPER]"

definition input_share_aad ::
  "'z prio_codec_scheme \<Rightarrow> DapVersion \<Rightarrow> TaskId \<Rightarrow> ReportMetadata \<Rightarrow> bytes \<Rightarrow> (bytes, DapError) result" where
  "input_share_aad P ver task_id metadata pub_share =
     map_err DapError_encoding
      (and_then (TaskId_encode task_id []) (\<lambda>aad.
       and_then (ReportMetadata_encode_with_param P ver metadata aad) (\<lambda>aad.
       encode_u32_bytes P aad pub_share)))"

definition EarlyReportStateConsumed_consume ::
  "'z prio_messages_scheme \<Rightarrow> decrypter \<Rightarrow> Time \<times> Time \<Rightarrow> bool \<Rightarrow> TaskId \<Rightarrow> DapTaskConfig \<Rightarrow> ReportShare \<Rightarrow>
   bytes option \<Rightarrow> (EarlyReportStateConsumed, DapError) result" where
  "EarlyReportStateConsumed_consume P decrypt valid_range is_leader task_id c share prep_init_payload =
     (let metadata = share_report_metadata share;
          reject = (\<lambda>failure. Ok (Consumed_Rejected metadata failure)) in
      if metadata_time metadata \<ge> not_after c then reject TaskExpired
      else if metadata_time metadata < fst valid_range then reject ReportDropped
      else if snd valid_range < metadata_time metadata then reject ReportTooEarly
      else and_then (input_share_aad P (version c) task_id metadata (share_public_share share)) (\<lambda>aad.
        case decrypt task_id (input_share_info is_leader) aad (encrypted_input_share share) of
          Panic \<Rightarrow> Panic
        | Err (TransitionError failure) \<Rightarrow> reject failure
        | Err e \<Rightarrow> Err e
        | Ok encoded_input_share \<Rightarrow> consume_plaintext P c share prep_init_payload encoded_input_share))"

section \<open>Initializing VDAF preparation\<close>

datatype 'v EarlyReportStateInitialized =
    Initialized_Ready ReportMetadata bytes "bytes option" "'v VdafPrepShare" "'v VdafPrepState"
  | Initialized_Rejected ReportMetadata TransitionFailure

fun Initialized_metadata :: "'v EarlyReportStateInitialized \<Rightarrow> ReportMetadata" where
  "Initialized_metadata (Initialized_Ready metadata _ _ _ _) = metadata"
| "Initialized_metadata (Initialized_Rejected metadata _) = metadata"

fun Initialized_is_ready :: "'v EarlyReportStateInitialized \<Rightarrow> bool" where
  "Initialized_is_ready (Initialized_Ready _ _ _ _ _) = True"
| "Initialized_is_ready (Initialized_Rejected _ _) = False"

definition EarlyReportStateInitialized_initialize ::
  "('v, 'x) prio_vdafs_scheme \<Rightarrow> bool \<Rightarrow> VdafVerifyKey \<Rightarrow> VdafConfig \<Rightarrow> DapAggregationParam \<Rightarrow>
   EarlyReportStateConsumed \<Rightarrow> ('v EarlyReportStateInitialized, DapError) result" where
  "EarlyReportStateInitialized_initialize V is_leader verify_key config agg_param consumed =
     (case consumed of
        Consumed_Rejected metadata failure \<Rightarrow> Ok (Initialized_Rejected metadata failure)
      | Consumed_Ready metadata pub_share input_share peer_prep_share \<Rightarrow>
          (let agg_id = (if is_leader then 0 else 1);
               nonce = ReportId_0 (metadata_id metadata);
               res = (case config of
                   Prio3 prio3_config \<Rightarrow>
                     prio3_prep_init V prio3_config verify_key agg_id nonce pub_share input_share
                 | Prio2 dim \<Rightarrow> prio2_prep_init V dim verify_key agg_id nonce pub_share input_share
                 | Pine pine \<Rightarrow> pine_prep_init V pine verify_key agg_id nonce pub_share input_share)
           in case res of
                Ok (prep_state, prep_share) \<Rightarrow>
                  Ok (Initialized_Ready metadata pub_share peer_prep_share prep_share prep_state)
              | Err _ \<Rightarrow> Ok (Initialized_Rejected metadata VdafPrepError)
              | Panic \<Rightarrow> Panic))"

record 'v initializer =
  valid_report_time_range :: "Time \<times> Time"
  initialize_reports ::
    "bool \<Rightarrow> DapTaskConfig \<Rightarrow> DapAggregationParam \<Rightarrow> EarlyReportStateConsumed list \<Rightarrow>
     ('v EarlyReportStateInitialized list, DapError) result"

text \<open>
  The initializer of the server, crates/daphne-server/src/roles/aggregator.rs: the reports are
  initialized in parallel and collected in order, and the time range is saturated at the bounds
  of the timestamps.
\<close>

definition saturating_sub :: "u64 \<Rightarrow> u64 \<Rightarrow> u64" where
  "saturating_sub a b = (if b \<le> a then a - b else 0)"

definition saturating_add :: "u64 \<Rightarrow> u64 \<Rightarrow> u64" where
  "saturating_add a b = (if unat a + unat b < 2 ^ 64 then a + b else - 1)"

definition App_valid_report_time_range :: "Time \<Rightarrow> Duration \<Rightarrow> Duration \<Rightarrow> Time \<times> Time" where
  "App_valid_report_time_range now epoch_duration max_future_time_skew =
     (saturating_sub now epoch_duration, saturating_add now max_future_time_skew)"

definition App_initialize_reports ::
  "('v, 'x) prio_vdafs_scheme \<Rightarrow> bool \<Rightarrow> DapTaskConfig \<Rightarrow> DapAggregationParam \<Rightarrow>
   EarlyReportStateConsumed list \<Rightarrow> ('v EarlyReportStateInitialized list, DapError) result" where
  "App_initialize_reports V is_leader c agg_param consumed_reports =
     (case try_map (EarlyReportStateInitialized_initialize V is_leader (vdaf_verify_key c)
             (vdaf_config c) agg_param) consumed_reports of
        Panic \<Rightarrow> Err (Fatal ''initialzing reports panicked'')
      | r \<Rightarrow> r)"

definition App_initializer ::
  "('v, 'x) prio_vdafs_scheme \<Rightarrow> Time \<Rightarrow> Duration \<Rightarrow> Duration \<Rightarrow> 'v initializer" where
  "App_initializer V now epoch_duration max_future_time_skew =
     \<lparr>valid_report_time_range = App_valid_report_time_range now epoch_duration max_future_time_skew,
      initialize_reports = App_initialize_reports V\<rparr>"

section \<open>The Leader's request\<close>

datatype ReplayProtection = Enabled | InsecureDisabled

definition ReplayProtection_enabled :: "ReplayProtection \<Rightarrow> bool" where
  "ReplayProtection_enabled r = (case r of Enabled \<Rightarrow> True | InsecureDisabled \<Rightarrow> False)"

text \<open>
  The loop over the reports: \<open>processed\<close> is the set of identifiers seen, \<open>None\<close> without replay
  protection.
\<close>

fun consume_reports ::
  "'z prio_messages_scheme \<Rightarrow> decrypter \<Rightarrow> Time \<times> Time \<Rightarrow> TaskId \<Rightarrow> DapTaskConfig \<Rightarrow> ReportId list option \<Rightarrow>
   Report list \<Rightarrow> ((EarlyReportStateConsumed \<times> HpkeCiphertext) list, DapError) result" where
  "consume_reports P decrypt valid_range task_id c processed [] = Ok []"
| "consume_reports P decrypt valid_range task_id c processed (report # reports) =
     (let i = metadata_id (report_metadata report) in
      if (case processed of Some ids \<Rightarrow> i \<in> set ids | None \<Rightarrow> False)
      then Err (Fatal ''tried to process report sequence with non-unique report IDs'')
      else
        and_then (EarlyReportStateConsumed_consume P decrypt valid_range True task_id c
            \<lparr>share_report_metadata = report_metadata report, share_public_share = public_share report,
             encrypted_input_share = fst (encrypted_input_shares report)\<rparr> None) (\<lambda>consumed.
        and_then (consume_reports P decrypt valid_range task_id c
            (map_option (\<lambda>ids. i # ids) processed) reports) (\<lambda>rest.
        Ok ((consumed, snd (encrypted_input_shares report)) # rest))))"

text \<open>One report of the request; a rejected report is skipped.\<close>

definition prep_init_for ::
  "'z prio_codec_scheme \<Rightarrow> ('v, 'x) prio_vdafs_scheme \<Rightarrow> 'v EarlyReportStateInitialized \<times> HpkeCiphertext \<Rightarrow>
   (('v AggregationJobReportState \<times> PrepareInit) option, DapError) result" where
  "prep_init_for P V = (\<lambda>(initialized_report, helper_share).
     (case initialized_report of
        Initialized_Ready metadata pub_share _ prep_share prep_state \<Rightarrow>
          and_then (map_err DapError_encoding (encode_u32_items P [VdafPrepShare_encode V prep_share]
              [PingPongMessageType_as_u8 PP_Initialize])) (\<lambda>payload.
          Ok (Some
            (\<lparr>job_prep_state = prep_state, job_time = metadata_time metadata,
              job_report_id = metadata_id metadata\<rparr>,
             \<lparr>report_share = \<lparr>share_report_metadata = metadata, share_public_share = pub_share,
                encrypted_input_share = helper_share\<rparr>,
              prep_payload = payload\<rparr>)))
      | Initialized_Rejected _ _ \<Rightarrow> Ok None))"

definition produce_agg_job_req_impl ::
  "'z prio_messages_scheme \<Rightarrow> ('v, 'x) prio_vdafs_scheme \<Rightarrow> DapTaskConfig \<Rightarrow> decrypter \<Rightarrow> 'v initializer \<Rightarrow>
   TaskId \<Rightarrow> PartialBatchSelector \<Rightarrow> DapAggregationParam \<Rightarrow> Report list \<Rightarrow> ReplayProtection \<Rightarrow>
   ('v DapAggregationJobState \<times> AggregationJobInitReq, DapError) result" where
  "produce_agg_job_req_impl P V c decrypt init task_id sel agg_param reports replay_protection =
     and_then (consume_reports P decrypt (valid_report_time_range init) task_id c
         (if ReplayProtection_enabled replay_protection then Some [] else None) reports) (\<lambda>consumed.
     and_then (initialize_reports init True c agg_param (map fst consumed)) (\<lambda>initialized_reports.
       if length initialized_reports \<noteq> length consumed then Panic
       else
         and_then (try_map (prep_init_for P V) (zip initialized_reports (map snd consumed))) (\<lambda>preps.
         and_then (map_err DapError_encoding (get_encoded P (DapAggregationParam_encode agg_param))) (\<lambda>param.
         Ok (\<lparr>job_seq = map fst (List.map_filter id preps), job_part_batch_sel = sel\<rparr>,
             \<lparr>init_agg_param = param, init_part_batch_sel = sel,
              prep_inits = map snd (List.map_filter id preps)\<rparr>)))))"

definition produce_agg_job_req ::
  "'z prio_messages_scheme \<Rightarrow> ('v, 'x) prio_vdafs_scheme \<Rightarrow> DapTaskConfig \<Rightarrow> decrypter \<Rightarrow> 'v initializer \<Rightarrow>
   TaskId \<Rightarrow> PartialBatchSelector \<Rightarrow> DapAggregationParam \<Rightarrow> Report list \<Rightarrow>
   ('v DapAggregationJobState \<times> AggregationJobInitReq, DapError) result" where
  "produce_agg_job_req P V c decrypt init task_id sel agg_param reports =
     produce_agg_job_req_impl P V c decrypt init task_id sel agg_param reports Enabled"

section \<open>The Helper consumes the request\<close>

fun consume_prep_inits ::
  "'z prio_messages_scheme \<Rightarrow> decrypter \<Rightarrow> Time \<times> Time \<Rightarrow> TaskId \<Rightarrow> DapTaskConfig \<Rightarrow> ReportId list option \<Rightarrow>
   PrepareInit list \<Rightarrow> (EarlyReportStateConsumed list, DapError) result" where
  "consume_prep_inits P decrypt valid_range task_id c processed [] = Ok []"
| "consume_prep_inits P decrypt valid_range task_id c processed (prep_init # inits) =
     (let i = metadata_id (share_report_metadata (report_share prep_init)) in
      if (case processed of Some ids \<Rightarrow> i \<in> set ids | None \<Rightarrow> False)
      then Err (Abort (Abort_InvalidMessage ''report ID {} appears twice in the same aggregation job'' task_id))
      else
        and_then (EarlyReportStateConsumed_consume P decrypt valid_range False task_id c
            (report_share prep_init) (Some (prep_payload prep_init))) (\<lambda>consumed.
        and_then (consume_prep_inits P decrypt valid_range task_id c
            (map_option (\<lambda>ids. i # ids) processed) inits) (\<lambda>rest.
        Ok (consumed # rest))))"

definition consume_agg_job_req ::
  "'z prio_protocol_scheme \<Rightarrow> DapTaskConfig \<Rightarrow> decrypter \<Rightarrow> 'v initializer \<Rightarrow> TaskId \<Rightarrow>
   AggregationJobInitReq \<Rightarrow> ReplayProtection \<Rightarrow> ('v EarlyReportStateInitialized list, DapError) result" where
  "consume_agg_job_req P c decrypt init task_id agg_job_init_req replay_protection =
     and_then (consume_prep_inits P decrypt (valid_report_time_range init) task_id c
         (if ReplayProtection_enabled replay_protection then Some [] else None)
         (prep_inits agg_job_init_req)) (\<lambda>consumed_reports.
     and_then (map_err (\<lambda>e. Abort (from_codec_error e task_id)) (get_decoded_DapAggregationParam P
         (DapAggregationParam_decode_with_param (vdaf_config c)) (init_agg_param agg_job_init_req)))
       (\<lambda>agg_param.
     initialize_reports init False c agg_param consumed_reports))"

section \<open>The Helper's response\<close>

datatype ReportProcessedStatus = Status_Aggregated | Status_Rejected TransitionFailure

definition helper_prep_finish_from_shares ::
  "('v, 'x) prio_vdafs_scheme \<Rightarrow> VdafConfig \<Rightarrow> 'v VdafPrepState \<Rightarrow> 'v VdafPrepShare \<Rightarrow> bytes \<Rightarrow>
   ('v VdafAggregateShare \<times> bytes, VdafError) result" where
  "helper_prep_finish_from_shares V config prep_state prep_share leader_prep_share = (case config of
      Prio3 prio3_config \<Rightarrow>
        prio3_prep_finish_from_shares V prio3_config 1 prep_state prep_share leader_prep_share
    | Prio2 dim \<Rightarrow> prio2_prep_finish_from_shares V dim prep_state prep_share leader_prep_share
    | Pine pine \<Rightarrow> pine_prep_finish_from_shares V pine 1 prep_state prep_share leader_prep_share)"

definition produce_transition ::
  "'z prio_codec_scheme \<Rightarrow> ('v, 'x) prio_vdafs_scheme \<Rightarrow> 'y dap_ext_scheme \<Rightarrow> DapTaskConfig \<Rightarrow>
   (ReportId \<times> ReportProcessedStatus) list \<Rightarrow> PartialBatchSelector \<Rightarrow>
   'v DapAggregateShare DapAggregateSpan \<Rightarrow> 'v EarlyReportStateInitialized \<Rightarrow>
   ('v DapAggregateShare DapAggregateSpan \<times> TransitionVar, DapError) result" where
  "produce_transition P V E c report_status sel agg_span initialized_report =
     (let status = map_of report_status (metadata_id (Initialized_metadata initialized_report)) in
      case status of
        Some (Status_Rejected failure) \<Rightarrow> Ok (agg_span, Failed failure)
      | _ \<Rightarrow>
        (case initialized_report of
           Initialized_Ready metadata _ (Some leader_prep_share) prep_share prep_state \<Rightarrow>
             (case helper_prep_finish_from_shares V (vdaf_config c) prep_state prep_share leader_prep_share of
                Ok (data, prep_msg) \<Rightarrow>
                  and_then (if status = None
                    then DapAggregateSpan_add_out_share V E agg_span c sel (metadata_id metadata)
                           (metadata_time metadata) data
                    else Ok agg_span) (\<lambda>agg_span.
                  and_then (map_err DapError_encoding
                    (encode_u32_bytes P [PingPongMessageType_as_u8 PP_Finish] prep_msg)) (\<lambda>outbound.
                  Ok (agg_span, Continued outbound)))
              | Err (VdafError_Dap e) \<Rightarrow> Err e
              | Err _ \<Rightarrow> Ok (agg_span, Failed VdafPrepError)
              | Panic \<Rightarrow> Panic)
         | Initialized_Ready _ _ None _ _ \<Rightarrow> Err (Fatal ''expected leader prep share, got none'')
         | Initialized_Rejected _ failure \<Rightarrow> Ok (agg_span, Failed failure)))"

definition produce_agg_job_resp ::
  "'z prio_codec_scheme \<Rightarrow> ('v, 'x) prio_vdafs_scheme \<Rightarrow> 'y dap_ext_scheme \<Rightarrow> DapTaskConfig \<Rightarrow>
   (ReportId \<times> ReportProcessedStatus) list \<Rightarrow> PartialBatchSelector \<Rightarrow>
   'v EarlyReportStateInitialized list \<Rightarrow>
   ('v DapAggregateShare DapAggregateSpan \<times> AggregationJobResp, DapError) result" where
  "produce_agg_job_resp P V E c report_status sel initialized_reports =
     and_then (try_fold (\<lambda>(agg_span, ts) initialized_report.
         and_then (produce_transition P V E c report_status sel agg_span initialized_report) (\<lambda>(agg_span, var).
         Ok (agg_span, ts @ [\<lparr>transition_report_id = metadata_id (Initialized_metadata initialized_report),
                              transition_var = var\<rparr>]))) ([], []) initialized_reports) (\<lambda>(agg_span, ts).
     Ok (agg_span, \<lparr>transitions = ts\<rparr>))"

section \<open>The Leader consumes the response\<close>

definition leader_prep_finish ::
  "('v, 'x) prio_vdafs_scheme \<Rightarrow> VdafConfig \<Rightarrow> 'v VdafPrepState \<Rightarrow> bytes \<Rightarrow>
   ('v VdafAggregateShare, VdafError) result" where
  "leader_prep_finish V config prep_state prep_msg = (case config of
      Prio3 prio3_config \<Rightarrow> prio3_prep_finish V prio3_config prep_state prep_msg
    | Prio2 dim \<Rightarrow> prio2_prep_finish V dim prep_state prep_msg
    | Pine pine \<Rightarrow> pine_prep_finish V pine prep_state prep_msg)"

definition consume_transition ::
  "'z prio_codec_scheme \<Rightarrow> ('v, 'x) prio_vdafs_scheme \<Rightarrow> 'y dap_ext_scheme \<Rightarrow> DapTaskConfig \<Rightarrow> TaskId \<Rightarrow>
   PartialBatchSelector \<Rightarrow> 'v DapAggregateShare DapAggregateSpan \<Rightarrow>
   Transition \<times> 'v AggregationJobReportState \<Rightarrow> ('v DapAggregateShare DapAggregateSpan, DapError) result" where
  "consume_transition P V E c task_id sel agg_span = (\<lambda>(helper, leader).
     if transition_report_id helper \<noteq> job_report_id leader
     then Err (Abort (Abort_InvalidMessage ''report ID {} appears out of order in aggregation job response'' task_id))
     else case transition_var helper of
         Failed failure \<Rightarrow> Ok agg_span
       | Continued inbound \<Rightarrow>
         (case decode_ping_pong_framed P inbound PP_Finish of
            Panic \<Rightarrow> Panic
          | Err _ \<Rightarrow> Err (Abort (Abort_InvalidMessage
              ''The Helper's AggregationJobResp is invalid, but it may have already committed its state change. A batch mismatch is inevitable.''
              task_id))
          | Ok prep_msg \<Rightarrow>
            (case leader_prep_finish V (vdaf_config c) (job_prep_state leader) prep_msg of
               Ok data \<Rightarrow>
                 DapAggregateSpan_add_out_share V E agg_span c sel (job_report_id leader) (job_time leader) data
             | Err (VdafError_Dap e) \<Rightarrow> Err e
             | Err _ \<Rightarrow> Ok agg_span
             | Panic \<Rightarrow> Panic)))"

definition consume_agg_job_resp ::
  "'z prio_codec_scheme \<Rightarrow> ('v, 'x) prio_vdafs_scheme \<Rightarrow> 'y dap_ext_scheme \<Rightarrow> DapTaskConfig \<Rightarrow> TaskId \<Rightarrow>
   'v DapAggregationJobState \<Rightarrow> AggregationJobResp \<Rightarrow> ('v DapAggregateShare DapAggregateSpan, DapError) result" where
  "consume_agg_job_resp P V E c task_id state resp =
     (if length (transitions resp) \<noteq> length (job_seq state)
      then Err (Abort (Abort_InvalidMessage ''aggregation job response has {} reports; expected {}'' task_id))
      else try_fold (consume_transition P V E c task_id (job_part_batch_sel state)) []
             (zip (transitions resp) (job_seq state)))"

section \<open>Encrypted aggregate shares\<close>

definition agg_share_info :: "bool \<Rightarrow> bytes" where
  "agg_share_info is_leader = CTX_AGG_SHARE_DRAFT09 @
     [if is_leader then CTX_ROLE_LEADER else CTX_ROLE_HELPER, CTX_ROLE_COLLECTOR]"

definition agg_share_aad ::
  "'z prio_codec_scheme \<Rightarrow> TaskId \<Rightarrow> DapVersion \<Rightarrow> DapAggregationParam \<Rightarrow> BatchSelector \<Rightarrow>
   (bytes, DapError) result" where
  "agg_share_aad P task_id ver agg_param sel =
     map_err DapError_encoding
      (and_then (TaskId_encode task_id []) (\<lambda>aad.
       and_then (encode_u32_prefixed P ver aad (\<lambda>_ bytes. DapAggregationParam_encode agg_param bytes))
        (BatchSelector_encode P sel)))"

definition produce_encrypted_agg_share ::
  "'z prio_codec_scheme \<Rightarrow> ('c, 'w) hpke_rs_scheme \<Rightarrow> ('v, 'x) prio_vdafs_scheme \<Rightarrow> bytes \<Rightarrow> bool \<Rightarrow>
   HpkeConfig \<Rightarrow> TaskId \<Rightarrow> BatchSelector \<Rightarrow> DapAggregationParam \<Rightarrow> 'v DapAggregateShare \<Rightarrow> DapVersion \<Rightarrow>
   (HpkeCiphertext, DapError) result" where
  "produce_encrypted_agg_share P R V coins is_leader hpke_config task_id sel agg_param agg_share ver =
     and_then (ok_or (agg_data agg_share) (Fatal ''empty aggregate share'')) (\<lambda>data.
     and_then (map_err DapError_encoding (get_encoded P (VdafAggregateShare_encode V data))) (\<lambda>agg_share_data.
     and_then (agg_share_aad P task_id ver agg_param sel) (\<lambda>aad.
     HpkeConfig_encrypt R coins hpke_config (agg_share_info is_leader) aad agg_share_data)))"

definition produce_leader_encrypted_agg_share ::
  "'z prio_codec_scheme \<Rightarrow> ('c, 'w) hpke_rs_scheme \<Rightarrow> ('v, 'x) prio_vdafs_scheme \<Rightarrow> bytes \<Rightarrow>
   HpkeConfig \<Rightarrow> TaskId \<Rightarrow> BatchSelector \<Rightarrow> DapAggregationParam \<Rightarrow> 'v DapAggregateShare \<Rightarrow> DapVersion \<Rightarrow>
   (HpkeCiphertext, DapError) result" where
  "produce_leader_encrypted_agg_share P R V coins = produce_encrypted_agg_share P R V coins True"

definition produce_helper_encrypted_agg_share ::
  "'z prio_codec_scheme \<Rightarrow> ('c, 'w) hpke_rs_scheme \<Rightarrow> ('v, 'x) prio_vdafs_scheme \<Rightarrow> bytes \<Rightarrow>
   HpkeConfig \<Rightarrow> TaskId \<Rightarrow> BatchSelector \<Rightarrow> DapAggregationParam \<Rightarrow> 'v DapAggregateShare \<Rightarrow> DapVersion \<Rightarrow>
   (HpkeCiphertext, DapError) result" where
  "produce_helper_encrypted_agg_share P R V coins = produce_encrypted_agg_share P R V coins False"

end
