(* ===== verification/Taskprov_Wire.thy ===== *)
theory Taskprov_Wire
  imports Taskprov_Messages
begin

text \<open>
  The wire contract of the taskprov messages: a task configuration is decoded to a value exactly
  when the bytes are what the encoder writes for that value.
\<close>

context prio_codec_laws
begin

section \<open>Integers of usize\<close>

lemma try_encode_append_only [simp]:
  "append_only (u32_try_encode P n)" "append_only (u16_try_encode P n)"
  by (cases "n < 2 ^ 32"; cases "n < 2 ^ 16";
      simp add: u32_try_encode_def [abs_def] u16_try_encode_def [abs_def])+

lemma u32_decode_usize_matches [wire_iff]:
  "u32_decode_usize P c = Ok (n, c') \<longleftrightarrow> matches (u32_try_encode P n) c c'"
proof (cases "n < 2 ^ 32")
  case True
  have "unat x = n \<longleftrightarrow> x = of_nat n" for x :: u32
    using True by (auto simp: unat_of_nat)
  with True show ?thesis
    by (auto simp: u32_decode_usize_def u32_try_encode_def [abs_def] wire_iff)
next
  case False
  have "unat x \<noteq> n" for x :: u32
    using False unsigned_less [of x, where ?'a = nat] by auto
  with False show ?thesis
    by (auto simp: u32_decode_usize_def u32_try_encode_def [abs_def] wire_iff)
qed

lemma u16_decode_usize_matches [wire_iff]:
  "u16_decode_usize P c = Ok (n, c') \<longleftrightarrow> matches (u16_try_encode P n) c c'"
proof (cases "n < 2 ^ 16")
  case True
  have "unat x = n \<longleftrightarrow> x = of_nat n" for x :: u16
    using True by (auto simp: unat_of_nat)
  with True show ?thesis
    by (auto simp: u16_decode_usize_def u16_try_encode_def [abs_def] wire_iff)
next
  case False
  have "unat x \<noteq> n" for x :: u16
    using False unsigned_less [of x, where ?'a = nat] by auto
  with False show ?thesis
    by (auto simp: u16_decode_usize_def u16_try_encode_def [abs_def] wire_iff)
qed

section \<open>Sections with unknown variants\<close>

lemma PineParam_append_only [simp]: "append_only (PineParam_encode P x)"
  by (simp add: PineParam_encode_def [abs_def])

lemma PineParam_decode_iff [wire_iff]:
  "PineParam_decode P c = Ok (x, c') \<longleftrightarrow> matches (PineParam_encode P x) c c'"
  by (cases x) (auto simp: PineParam_decode_def PineParam_encode_def [abs_def] wire_iff; blast)

lemma VdafTypeVar_append_only [simp]: "append_only (VdafTypeVar_encode_with_param P v x)"
  by (cases x) (simp_all add: VdafTypeVar_encode_with_param_def [abs_def])

text \<open>
  A decoder of an unknown variant gets the number of bytes from the start of its section to the end
  of the buffer, so what remains after a code point of \<open>k\<close> bytes is read to the end.
\<close>

lemma rest_of_section:
  assumes "reads c w c1" and "reads c1 p c'" and "length (get_ref c) \<le> position c'"
  shows "length w \<le> length (get_ref c) - position c"
    and "length p = length (get_ref c) - position c - length w"
  using assms by (auto simp: reads_def)

lemma VdafTypeVar_decode_rest:
  assumes n: "n = length (get_ref c) - position c"
  shows "VdafTypeVar_decode_with_param P (v, Some n) c = Ok (x, c') \<and> length (get_ref c) \<le> position c' \<longleftrightarrow>
    wf_VdafTypeVar x \<and> matches (VdafTypeVar_encode_with_param P v x) c c' \<and> length (get_ref c) \<le> position c'"
proof (cases x)
  case (Var_NotImplemented t param)
  have "VdafTypeVar_decode_with_param P (v, Some n) c = Ok (x, c') \<longleftrightarrow>
    wf_VdafTypeVar x \<and> \<not> n < 4 \<and> length param = n - 4 \<and>
    (\<exists>c1. reads c (u32_to_be_bytes t) c1 \<and> reads c1 param c')"
    unfolding Var_NotImplemented
    by (auto simp: VdafTypeVar_decode_with_param_def wf_VdafTypeVar_def u32_decode u8_decode
        read_exact_Ok_iff split: if_splits)
  moreover have "matches (VdafTypeVar_encode_with_param P v x) c c' \<longleftrightarrow>
    (\<exists>c1. reads c (u32_to_be_bytes t) c1 \<and> reads c1 param c')"
    unfolding Var_NotImplemented
    by (simp add: VdafTypeVar_encode_with_param_def [abs_def] wire_iff)
      (simp add: matches_def appends_u32)
  ultimately show ?thesis
    using rest_of_section [of c "u32_to_be_bytes t" _ param c'] n by fastforce
qed (auto simp: VdafTypeVar_decode_with_param_def VdafTypeVar_encode_with_param_def [abs_def]
    wf_VdafTypeVar_def taskprov_code_points wire_iff result_simps split: if_splits; blast)+

lemma DpConfig_append_only [simp]: "append_only (DpConfig_encode P x)"
  by (cases x) (simp_all add: DpConfig_encode_def [abs_def])

lemma QueryConfig_append_only [simp]: "append_only (TaskprovQueryConfig_encode_with_param P v x)"
  by (cases "query_var x")
    (simp_all add: TaskprovQueryConfig_encode_with_param_def [abs_def] encode_query_type_def)

lemma UrlBytes_append_only [simp]: "append_only (UrlBytes_encode P x)"
  by (simp add: UrlBytes_encode_def [abs_def])

lemma UrlBytes_decode_iff [wire_iff]:
  "UrlBytes_decode P c = Ok (x, c') \<longleftrightarrow> matches (UrlBytes_encode P x) c c'"
  by (cases x) (auto simp: UrlBytes_decode_def UrlBytes_encode_def [abs_def] wire_iff)

lemma cursor_new_simps [simp]: "get_ref (cursor_new bs) = bs" "position (cursor_new bs) = 0"
  by (simp_all add: cursor_new_def)

lemma matches_whole:
  "(\<exists>c'. matches e (cursor_new body) c' \<and> length body \<le> position c') \<longleftrightarrow> appends e body"
proof
  assume "\<exists>c'. matches e (cursor_new body) c' \<and> length body \<le> position c'"
  then obtain w c' where w: "appends e w" "reads (cursor_new body) w c'" "length body \<le> position c'"
    by (auto simp: matches_def)
  have "position c' = length w" "take (length w) body = w"
    using w(2) by (simp_all only: reads_def cursor_new_def) simp_all
  with w(3) have "length body \<le> length w" "take (length w) body = w"
    by simp_all
  then have "body = w"
    by (metis take_all)
  with w(1) show "appends e body" by simp
next
  assume "appends e body"
  then show "\<exists>c'. matches e (cursor_new body) c' \<and> length body \<le> position c'"
    by (intro exI [of _ "\<lparr>get_ref = body, position = length body\<rparr>"]) (auto simp: matches_def reads_new_whole)
qed

lemma section_iff:
  assumes "\<And>c'. d (cursor_new body) = Ok (x, c') \<and> length body \<le> position c' \<longleftrightarrow>
      good \<and> matches e (cursor_new body) c' \<and> length body \<le> position c'"
  shows "(\<exists>c'. d (cursor_new body) = Ok (x, c') \<and> length body \<le> position c') \<longleftrightarrow> good \<and> appends e body"
  unfolding assms using matches_whole [of e body] by auto

lemma DpConfig_decode_rest:
  assumes n: "n = length (get_ref c) - position c"
  shows "DpConfig_decode_with_param P (v, Some n) c = Ok (x, c') \<and> length (get_ref c) \<le> position c' \<longleftrightarrow>
    wf_DpConfig x \<and> matches (DpConfig_encode P x) c c' \<and> length (get_ref c) \<le> position c'"
proof (cases x)
  case (Dp_NotImplemented t param)
  have "DpConfig_decode_with_param P (v, Some n) c = Ok (x, c') \<longleftrightarrow>
    wf_DpConfig x \<and> \<not> n < 1 \<and> length param = n - 1 \<and> (\<exists>c1. reads c [t] c1 \<and> reads c1 param c')"
    unfolding Dp_NotImplemented
    by (auto simp: DpConfig_decode_with_param_def wf_DpConfig_def u8_decode read_exact_Ok_iff split: if_splits)
  moreover have "matches (DpConfig_encode P x) c c' \<longleftrightarrow> (\<exists>c1. reads c [t] c1 \<and> reads c1 param c')"
    unfolding Dp_NotImplemented
    by (simp add: DpConfig_encode_def [abs_def] wire_iff) (simp add: matches_def appends_u8)
  ultimately show ?thesis
    using rest_of_section [of c "[t]" _ param c'] n by fastforce
qed (auto simp: DpConfig_decode_with_param_def DpConfig_encode_def [abs_def] wf_DpConfig_def wire_iff
    result_simps split: if_splits)

lemma reads_seq4:
  assumes "reads c a c1" "reads c1 b c2" "reads c2 d c3" "reads c3 e c4"
  shows "reads c (a @ b @ d @ e) c4"
  using assms unfolding reads_append by blast

lemma QueryConfig_decode_rest:
  assumes n: "n = length (get_ref c) - position c"
  shows "TaskprovQueryConfig_decode_with_param P (v, Some n) c = Ok (x, c') \<and> length (get_ref c) \<le> position c' \<longleftrightarrow>
    wf_QueryConfigVar (query_var x) \<and> matches (TaskprovQueryConfig_encode_with_param P v x) c c' \<and>
    length (get_ref c) \<le> position c'"
proof (cases "query_var x")
  case (QVar_NotImplemented t param)
  let ?fields = "\<lambda>c4. \<exists>c1 c2 c3. reads c (u64_to_be_bytes (tq_time_precision x)) c1 \<and>
      reads c1 (u16_to_be_bytes (max_batch_query_count x)) c2 \<and>
      reads c2 (u32_to_be_bytes (tq_min_batch_size x)) c3 \<and> reads c3 [t] c4"
  have "TaskprovQueryConfig_decode_with_param P (v, Some n) c = Ok (x, c') \<longleftrightarrow>
    wf_QueryConfigVar (query_var x) \<and> \<not> n < 15 \<and> length param = n - 15 \<and> (\<exists>c4. ?fields c4 \<and> reads c4 param c')"
    using QVar_NotImplemented
    by (cases x) (auto simp: TaskprovQueryConfig_decode_with_param_def wf_QueryConfigVar_def u64_decode
        u32_decode u16_decode u8_decode read_exact_Ok_iff split: if_splits; blast)
  moreover have "matches (TaskprovQueryConfig_encode_with_param P v x) c c' \<longleftrightarrow> (\<exists>c4. ?fields c4 \<and> reads c4 param c')"
    using QVar_NotImplemented
    by (simp add: TaskprovQueryConfig_encode_with_param_def [abs_def] encode_query_type_def wire_iff)
      (simp add: matches_def appends_u8 appends_u16 appends_u32 appends_u64; blast)
  moreover have "length param = n - 15 \<and> 15 \<le> n"
    if "?fields c4" "reads c4 param c'" "length (get_ref c) \<le> position c'" for c4
    using that n rest_of_section [OF reads_seq4 that(2,3)] by fastforce
  ultimately show ?thesis
    by (metis (no_types, lifting) leD)
next
  case QVar_TimeInterval
  then show ?thesis
    by (cases x) (auto simp: TaskprovQueryConfig_decode_with_param_def encode_query_type_def
        TaskprovQueryConfig_encode_with_param_def [abs_def] wf_QueryConfigVar_def wire_iff query_type_defs
        result_simps split: if_splits; blast intro: matches_reads_end)
next
  case (QVar_FixedSize m)
  then show ?thesis
    by (cases x) (auto simp: TaskprovQueryConfig_decode_with_param_def encode_query_type_def
        TaskprovQueryConfig_encode_with_param_def [abs_def] wf_QueryConfigVar_def wire_iff query_type_defs
        result_simps split: if_splits; blast)
qed

lemma dp_section:
  "decode_u16_prefixed P v c (\<lambda>version inner bytes_left.
     DpConfig_decode_with_param P (version, bytes_left) inner) = Ok (x, c') \<longleftrightarrow>
   wf_DpConfig x \<and> matches (\<lambda>bs. encode_u16_prefixed P v bs (\<lambda>_ inner. DpConfig_encode P x inner)) c c'"
  by (rule decode_u16_prefixed_matches, simp, rule section_iff)
    (use DpConfig_decode_rest [of "length body" "cursor_new body" for body] in simp)

lemma VdafConfig_append_only [simp]: "append_only (TaskprovVdafConfig_encode_with_param P v x)"
  by (simp add: TaskprovVdafConfig_encode_with_param_def [abs_def] append_only_u16_prefixed)

lemma VdafConfig_decode_rest:
  assumes n: "n = length (get_ref c) - position c"
  shows "TaskprovVdafConfig_decode_with_param P (v, Some n) c = Ok (x, c') \<and> length (get_ref c) \<le> position c' \<longleftrightarrow>
    (wf_DpConfig (dp_config x) \<and> wf_VdafTypeVar (vdaf_var x)) \<and>
    matches (TaskprovVdafConfig_encode_with_param P v x) c c' \<and> length (get_ref c) \<le> position c'"
proof -
  let ?dp = "\<lambda>c1. wf_DpConfig (dp_config x) \<and>
    matches (\<lambda>bs. encode_u16_prefixed P v bs (\<lambda>_ inner. DpConfig_encode P (dp_config x) inner)) c c1"
  have rest: "n - (position c1 - position c) = length (get_ref c1) - position c1 \<and> get_ref c1 = get_ref c"
    if "?dp c1" for c1
    using that n by (auto simp: matches_def reads_def)
  have "TaskprovVdafConfig_decode_with_param P (v, Some n) c = Ok (x, c') \<longleftrightarrow>
    (\<exists>c1. ?dp c1 \<and> VdafTypeVar_decode_with_param P (v, Some (n - (position c1 - position c))) c1 = Ok (vdaf_var x, c'))"
    by (cases x) (auto simp: TaskprovVdafConfig_decode_with_param_def Let_def dp_section)
  also have "\<dots> \<and> length (get_ref c) \<le> position c' \<longleftrightarrow>
    (\<exists>c1. ?dp c1 \<and> wf_VdafTypeVar (vdaf_var x) \<and>
      matches (VdafTypeVar_encode_with_param P v (vdaf_var x)) c1 c' \<and> length (get_ref c) \<le> position c')"
    using VdafTypeVar_decode_rest [OF conjunct1 [OF rest], where v = v and x = "vdaf_var x"] rest by metis
  also have "\<dots> \<longleftrightarrow> (wf_DpConfig (dp_config x) \<and> wf_VdafTypeVar (vdaf_var x)) \<and>
    matches (TaskprovVdafConfig_encode_with_param P v x) c c' \<and> length (get_ref c) \<le> position c'"
    by (auto simp: TaskprovVdafConfig_encode_with_param_def [abs_def] matches_seq append_only_u16_prefixed)
  finally show ?thesis .
qed

lemma query_section:
  "decode_u16_prefixed P v c (\<lambda>version inner len.
     TaskprovQueryConfig_decode_with_param P (version, len) inner) = Ok (x, c') \<longleftrightarrow>
   wf_QueryConfigVar (query_var x) \<and>
   matches (\<lambda>bs. encode_u16_prefixed P v bs (\<lambda>version inner.
     TaskprovQueryConfig_encode_with_param P version x inner)) c c'"
  by (rule decode_u16_prefixed_matches, simp, rule section_iff)
    (use QueryConfig_decode_rest [of "length body" "cursor_new body" for body] in simp)

lemma vdaf_section:
  "decode_u16_prefixed P v c (\<lambda>version inner len.
     TaskprovVdafConfig_decode_with_param P (version, len) inner) = Ok (x, c') \<longleftrightarrow>
   (wf_DpConfig (dp_config x) \<and> wf_VdafTypeVar (vdaf_var x)) \<and>
   matches (\<lambda>bs. encode_u16_prefixed P v bs (\<lambda>version inner.
     TaskprovVdafConfig_encode_with_param P version x inner)) c c'"
  by (rule decode_u16_prefixed_matches, simp, rule section_iff)
    (use VdafConfig_decode_rest [of "length body" "cursor_new body" for body] in simp)

end

section \<open>Task configurations\<close>

locale prio_protocol_laws = prio_messages_laws P
  for P :: "'z prio_protocol_scheme" +
  assumes items_u8: "decodes_u8_items (decode_u8_items_u8 P)"
    and whole_TaskConfig: "decodes_whole (get_decoded_TaskConfig P)"
    and whole_DapAggregationParam: "decodes_whole (get_decoded_DapAggregationParam P)"
begin

lemma u8_wire: "wire_codec (u8_encode P) (u8_decode P) (\<lambda>_. True)"
  by unfold_locales (simp_all add: wire_iff)

lemma task_info_decode_iff:
  "decode_u8_items_u8 P (u8_decode P) c = Ok (x, c') \<longleftrightarrow> matches (encode_u8_items P (map (u8_encode P) x)) c c'"
  using wire_codec.dec_matches [OF wire_codec_u8_items [OF u8_wire _ items_u8]] by (simp add: appends_u8 list_all_iff)

lemma TaskConfig_append_only [simp]: "append_only (TaskConfig_encode_with_param P v x)"
  by (simp add: TaskConfig_encode_with_param_def [abs_def] list_all_iff)

lemma TaskConfig_wire:
  "wire_codec (TaskConfig_encode_with_param P v) (TaskConfig_decode_with_param P v) wf_TaskConfig"
proof
  show "TaskConfig_decode_with_param P v c = Ok (x, c') \<longleftrightarrow>
      wf_TaskConfig x \<and> matches (TaskConfig_encode_with_param P v x) c c'" for c x c'
    by (cases x) (auto simp: TaskConfig_decode_with_param_def wf_TaskConfig_def list_all_iff
      TaskConfig_encode_with_param_def [abs_def] task_info_decode_iff query_section vdaf_section wire_iff; blast)
qed simp

lemma whole_DapAggregationParam_iff:
  "get_decoded_DapAggregationParam P (DapAggregationParam_decode_with_param c) bs = Ok p \<longleftrightarrow> bs = []"
  by (cases p) (auto simp: decodes_wholeD [OF whole_DapAggregationParam]
    DapAggregationParam_decode_with_param_def)

end

section \<open>The big-endian instance\<close>

definition be_protocol :: prio_protocol where
  "be_protocol = prio_messages.extend be_messages
     (prio_protocol.fields be_decode_u8_items be_get_decoded be_get_decoded)"

interpretation bep: prio_protocol_laws be_protocol
  by unfold_locales
    (simp_all add: be_protocol_def prio_messages.defs prio_protocol.defs be_messages_def be_decode_u8_iff
      be_decode_u16_iff be_decode_u32_iff be_decode_u64_iff be_decode_ints_return be_encode_items_iff
      be_decodes_items be_decodes_whole)

section \<open>Properties\<close>

definition example_advertisement :: TaskConfig where
  "example_advertisement = \<lparr>task_info = [104, 105], tc_leader_url = \<lparr>url_bytes = [1]\<rparr>,
     tc_helper_url = \<lparr>url_bytes = [2, 3]\<rparr>,
     tc_query_config = \<lparr>tq_time_precision = 60, max_batch_query_count = 1, tq_min_batch_size = 10,
       query_var = QVar_FixedSize 100\<rparr>,
     task_expiration = 5000,
     tc_vdaf_config = \<lparr>dp_config = Dp_None, vdaf_var = Var_NotImplemented 7 [8, 9]\<rparr>\<rparr>"

text \<open>
  C36. A taskprov advertisement decodes to a task configuration exactly when it is the encoding of that
  configuration, unknown query types, privacy mechanisms and VDAF types included. So the task
  identifier, which is the digest of the advertisement, stands for one configuration only.
\<close>

theorem TaskConfig_roundtrip:
  assumes "prio_protocol_laws P"
  shows "get_decoded_TaskConfig P (TaskConfig_decode_with_param P v) bs = Ok x \<longleftrightarrow>
         wf_TaskConfig x \<and> get_encoded P (TaskConfig_encode_with_param P v x) = Ok bs"
proof -
  have "prio_codec_laws P"
    using assms by (simp add: prio_protocol_laws_def prio_messages_laws_def)
  then show ?thesis
    using wire_codec.whole_dec_iff [OF prio_protocol_laws.TaskConfig_wire [OF assms]
        prio_protocol_laws.whole_TaskConfig [OF assms]]
    by (simp add: prio_codec_laws.get_encoded )
qed

theorem TaskConfig_roundtrip_witness:
  "get_decoded_TaskConfig be_protocol (TaskConfig_decode_with_param be_protocol Latest)
     [2, 104, 105, 0, 1, 1, 0, 2, 2, 3, 0, 19, 0, 0, 0, 0, 0, 0, 0, 60, 0, 1, 0, 0, 0, 10, 2, 0, 0, 0, 100,
      0, 0, 0, 0, 0, 0, 19, 136, 0, 9, 0, 1, 1, 0, 0, 0, 7, 8, 9] = Ok example_advertisement"
proof -
  have "wf_TaskConfig example_advertisement \<and>
    get_encoded be_protocol (TaskConfig_encode_with_param be_protocol Latest example_advertisement) =
    Ok [2, 104, 105, 0, 1, 1, 0, 2, 2, 3, 0, 19, 0, 0, 0, 0, 0, 0, 0, 60, 0, 1, 0, 0, 0, 10, 2, 0, 0, 0, 100,
      0, 0, 0, 0, 0, 0, 19, 136, 0, 9, 0, 1, 1, 0, 0, 0, 7, 8, 9]"
    by code_simp
  then show ?thesis
    by (simp only: TaskConfig_roundtrip [OF bep.prio_protocol_laws_axioms])
qed

end
