(* ===== verification/Protocol_Laws.thy ===== *)
theory Protocol_Laws
  imports Protocol_Aggregator Taskprov_Wire "HOL-Library.Sublist"
begin

text \<open>
  Facts about \<open>Protocol_Aggregator\<close>: the framing of ping-pong messages, which report shares are
  consumed, and what an aggregation job puts into the spans of the two Aggregators. The spans are
  described by \<open>span_of\<close> on the list of accepted reports, a specification that separates the outcome
  of a single report from the bookkeeping of the loop.
\<close>

section \<open>Specifications\<close>

text \<open>
  What the Helper answers for one report, and the report's contribution to the Helper's span. Neither
  depends on the span or on the other reports.
\<close>

definition helper_transition ::
  "'z prio_codec_scheme \<Rightarrow> ('v, 'x) prio_vdafs_scheme \<Rightarrow> DapTaskConfig \<Rightarrow> (ReportId \<times> ReportProcessedStatus) list \<Rightarrow>
   'v EarlyReportStateInitialized \<Rightarrow> (Transition, DapError) result" where
  "helper_transition P V c report_status r =
     (let i = metadata_id (Initialized_metadata r);
          answer = (\<lambda>var. Ok \<lparr>transition_report_id = i, transition_var = var\<rparr>) in
      case (map_of report_status i, r) of
        (Some (Status_Rejected failure), _) \<Rightarrow> answer (Failed failure)
      | (_, Initialized_Rejected _ failure) \<Rightarrow> answer (Failed failure)
      | (_, Initialized_Ready _ _ None _ _) \<Rightarrow> Err (Fatal ''expected leader prep share, got none'')
      | (_, Initialized_Ready _ _ (Some leader_share) share state) \<Rightarrow>
          (case helper_prep_finish_from_shares V (vdaf_config c) state share leader_share of
             Ok (_, msg) \<Rightarrow>
               and_then (map_err DapError_encoding
                 (encode_u32_bytes P [PingPongMessageType_as_u8 PP_Finish] msg)) (answer \<circ> Continued)
           | Err (VdafError_Dap e) \<Rightarrow> Err e
           | Err _ \<Rightarrow> answer (Failed VdafPrepError)
           | Panic \<Rightarrow> Panic))"

definition helper_contribution ::
  "('v, 'x) prio_vdafs_scheme \<Rightarrow> DapTaskConfig \<Rightarrow> (ReportId \<times> ReportProcessedStatus) list \<Rightarrow>
   'v EarlyReportStateInitialized \<Rightarrow> (ReportId \<times> Time \<times> 'v VdafAggregateShare) option" where
  "helper_contribution V c report_status r =
     (case r of
        Initialized_Ready m _ (Some leader_share) share state \<Rightarrow>
          (case (map_of report_status (metadata_id m),
                 helper_prep_finish_from_shares V (vdaf_config c) state share leader_share) of
             (None, Ok (data, _)) \<Rightarrow> Some (metadata_id m, metadata_time m, data)
           | _ \<Rightarrow> None)
      | _ \<Rightarrow> None)"

text \<open>The contribution of a report to the Leader's span, given the Helper's transition.\<close>

definition leader_contribution ::
  "'z prio_codec_scheme \<Rightarrow> ('v, 'x) prio_vdafs_scheme \<Rightarrow> DapTaskConfig \<Rightarrow> Transition \<times> 'v AggregationJobReportState \<Rightarrow>
   (ReportId \<times> Time \<times> 'v VdafAggregateShare) option" where
  "leader_contribution P V c = (\<lambda>(helper, leader).
     (case transition_var helper of
        Failed _ \<Rightarrow> None
      | Continued inbound \<Rightarrow>
          (case decode_ping_pong_framed P inbound PP_Finish of
             Ok msg \<Rightarrow>
               (case leader_prep_finish V (vdaf_config c) (job_prep_state leader) msg of
                  Ok data \<Rightarrow> Some (job_report_id leader, job_time leader, data)
                | _ \<Rightarrow> None)
           | _ \<Rightarrow> None)))"

text \<open>A transition the Leader can process: a frame it decodes and a message that is at worst rejected.\<close>

definition leader_processes ::
  "'z prio_codec_scheme \<Rightarrow> ('v, 'x) prio_vdafs_scheme \<Rightarrow> DapTaskConfig \<Rightarrow> Transition \<times> 'v AggregationJobReportState \<Rightarrow>
   bool" where
  "leader_processes P V c = (\<lambda>(helper, leader).
     transition_report_id helper = job_report_id leader \<and>
     (case transition_var helper of
        Failed _ \<Rightarrow> True
      | Continued inbound \<Rightarrow>
          (case decode_ping_pong_framed P inbound PP_Finish of
             Ok msg \<Rightarrow>
               (case leader_prep_finish V (vdaf_config c) (job_prep_state leader) msg of
                  Ok _ \<Rightarrow> True
                | Err (VdafError_Dap _) \<Rightarrow> False
                | Err _ \<Rightarrow> True
                | Panic \<Rightarrow> False)
           | _ \<Rightarrow> False)))"

section \<open>Client and Aggregator derive the same context\<close>

lemma report_info_receives: "report_info 0 = input_share_info True" "report_info 1 = input_share_info False"
  by (simp_all add: report_info_def input_share_info_def list_update_append)

lemma report_aad_receives: "report_aad = input_share_aad"
  by (intro ext) (simp add: report_aad_def input_share_aad_def)

section \<open>Framing\<close>

context prio_codec_laws
begin

lemma decode_ping_pong_framed_iff:
  "decode_ping_pong_framed P bytes t = Ok m \<longleftrightarrow>
   length m < 2 ^ 32 \<and>
   bytes = PingPongMessageType_as_u8 t # u32_to_be_bytes (of_nat (length m)) @ m"
proof
  assume "decode_ping_pong_framed P bytes t = Ok m"
  then obtain r len r' where r: "reads (cursor_new bytes) [PingPongMessageType_as_u8 t] r"
    and r': "reads r (u32_to_be_bytes len) r'"
    and len: "length bytes - position r' = unat len" and m: "m = drop (position r') bytes"
    by (auto simp: decode_ping_pong_framed_def u8_decode u32_decode Let_def split: if_splits)
  let ?w = "PingPongMessageType_as_u8 t # u32_to_be_bytes len"
  have "reads (cursor_new bytes) ([PingPongMessageType_as_u8 t] @ u32_to_be_bytes len) r'"
    unfolding reads_append using r r' by blast
  then have all: "reads (cursor_new bytes) ?w r'"
    by (simp only: append.simps)
  have "length ?w = 5"
    by simp
  then have pos: "position r' = 5" and pre: "take 5 bytes = ?w"
    using all by (simp_all only: reads_def cursor_new_def cursor.simps drop_0 add_0_left)
  have lm: "length m = unat len"
    using m len pos by simp
  then have "of_nat (length m) = len" "length m < 2 ^ 32"
    using unsigned_less [of len, where ?'a = nat] by simp_all
  then show "length m < 2 ^ 32 \<and>
      bytes = PingPongMessageType_as_u8 t # u32_to_be_bytes (of_nat (length m)) @ m"
    using append_take_drop_id [of 5 bytes] m pos pre by (metis append_Cons)
next
  assume a: "length m < 2 ^ 32 \<and>
    bytes = PingPongMessageType_as_u8 t # u32_to_be_bytes (of_nat (length m)) @ m"
  let ?c = "\<lambda>n. \<lparr>get_ref = bytes, position = n\<rparr>"
  have "u8_decode P (cursor_new bytes) = Ok (PingPongMessageType_as_u8 t, ?c 1)"
    "u32_decode P (?c 1) = Ok (of_nat (length m), ?c 5)"
    using a by (simp_all add: u8_decode u32_decode reads_def cursor_new_def)
  moreover have "unat (of_nat (length m) :: u32) = length m"
    using a by (simp add: unat_of_nat)
  ultimately show "decode_ping_pong_framed P bytes t = Ok m"
    using a by (simp add: decode_ping_pong_framed_def)
qed

lemma decode_ping_pong_framed_returns [simp]: "decode_ping_pong_framed P bytes t \<noteq> Panic"
  by (auto simp: decode_ping_pong_framed_def Let_def and_then_Panic_iff split: if_splits)

lemma frame_Ok_iff:
  "encode_u32_bytes P [PingPongMessageType_as_u8 t] m = Ok w \<longleftrightarrow> decode_ping_pong_framed P w t = Ok m"
  by (auto simp: decode_ping_pong_framed_iff encode_u32_bytes_def u32_encode)

end

section \<open>Consuming report shares\<close>

lemma check_extensions_iff:
  "check_extensions c [] False es = Some b \<longleftrightarrow>
   es = [] \<and> \<not> b \<or> es = [Extension_Taskprov] \<and> method_is_taskprov c \<and> b"
proof (cases es)
  case (Cons e es')
  show ?thesis
    unfolding Cons by (cases es'; cases e) (auto simp: type_code_def split: Extension.splits)
qed auto

lemma consume_plaintext_Ready_iff:
  "consume_plaintext P c share payload plaintext = Ok (Consumed_Ready metadata pub_share input_share peer) \<longleftrightarrow>
   metadata = share_report_metadata share \<and> pub_share = share_public_share share \<and>
   (\<exists>pis. get_decoded_PlaintextInputShare P (PlaintextInputShare_decode_with_param P (version c)) plaintext = Ok pis \<and>
      extensions pis = (if method_is_taskprov c then [Extension_Taskprov] else []) \<and>
      input_share = pis_payload pis) \<and>
   (case payload of
      None \<Rightarrow> peer = None
    | Some p \<Rightarrow> \<exists>s. decode_ping_pong_framed P p PP_Initialize = Ok s \<and> peer = Some s)"
proof (cases "get_decoded_PlaintextInputShare P (PlaintextInputShare_decode_with_param P (version c)) plaintext")
  case (Ok pis)
  have e: "(check_extensions c [] False (extensions pis) = Some b \<and> (method_is_taskprov c \<longrightarrow> b)) \<longleftrightarrow>
      extensions pis = (if method_is_taskprov c then [Extension_Taskprov] else []) \<and> b = method_is_taskprov c" for b
    by (auto simp: check_extensions_iff)
  show ?thesis
  proof (cases "check_extensions c [] False (extensions pis)")
    case None
    then have "extensions pis \<noteq> (if method_is_taskprov c then [Extension_Taskprov] else [])"
      using e [of "method_is_taskprov c"] by auto
    with Ok None show ?thesis
      by (simp add: consume_plaintext_def Let_def)
  next
    case (Some b)
    with Ok e [of b] show ?thesis
      by (auto simp: consume_plaintext_def Let_def split: option.split result.split)
  qed
qed (simp_all add: consume_plaintext_def Let_def)

lemma decrypted_Ok_iff:
  "(case r of Panic \<Rightarrow> Panic | Err (TransitionError failure) \<Rightarrow> Ok (reject failure) | Err e \<Rightarrow> Err e | Ok pt \<Rightarrow> k pt) =
     Ok s \<longleftrightarrow>
   (\<exists>f. r = Err (TransitionError f) \<and> s = reject f) \<or> (\<exists>pt. r = Ok pt \<and> k pt = Ok s)"
  by (auto split: result.splits DapError.splits)

lemma consume_Ok_iff:
  "EarlyReportStateConsumed_consume P decrypt valid is_leader task_id c share payload = Ok s \<longleftrightarrow>
   (let m = share_report_metadata share in
    if metadata_time m \<ge> not_after c then s = Consumed_Rejected m TaskExpired
    else if metadata_time m < fst valid then s = Consumed_Rejected m ReportDropped
    else if snd valid < metadata_time m then s = Consumed_Rejected m ReportTooEarly
    else \<exists>aad. input_share_aad P (version c) task_id m (share_public_share share) = Ok aad \<and>
      ((\<exists>f. decrypt task_id (input_share_info is_leader) aad (encrypted_input_share share) = Err (TransitionError f) \<and>
            s = Consumed_Rejected m f) \<or>
       (\<exists>pt. decrypt task_id (input_share_info is_leader) aad (encrypted_input_share share) = Ok pt \<and>
             consume_plaintext P c share payload pt = Ok s)))"
  unfolding EarlyReportStateConsumed_consume_def Let_def
  by (simp only: decrypted_Ok_iff and_then_Ok_iff result.inject eq_commute [of _ s] split: if_split)
    (simp add: eq_commute [of _ s])

lemma consume_Ready_iff:
  "EarlyReportStateConsumed_consume P decrypt valid is_leader task_id c share payload =
     Ok (Consumed_Ready metadata pub_share input_share peer) \<longleftrightarrow>
   metadata_time metadata < not_after c \<and>
   fst valid \<le> metadata_time metadata \<and> metadata_time metadata \<le> snd valid \<and>
   (\<exists>aad plaintext.
      input_share_aad P (version c) task_id metadata pub_share = Ok aad \<and>
      decrypt task_id (input_share_info is_leader) aad (encrypted_input_share share) = Ok plaintext \<and>
      consume_plaintext P c share payload plaintext = Ok (Consumed_Ready metadata pub_share input_share peer))"
  unfolding consume_Ok_iff Let_def
  by (auto simp: not_less not_le consume_plaintext_Ready_iff)

lemma consume_plaintext_metadata:
  "consume_plaintext P c share payload plaintext = Ok s \<Longrightarrow> Consumed_metadata s = share_report_metadata share"
  by (auto simp: consume_plaintext_def Let_def split: result.split_asm option.split_asm if_split_asm)

lemma consume_metadata:
  "EarlyReportStateConsumed_consume P decrypt valid is_leader task_id c share payload = Ok s \<Longrightarrow>
   Consumed_metadata s = share_report_metadata share"
  by (auto simp: consume_Ok_iff Let_def dest: consume_plaintext_metadata split: if_split_asm)

section \<open>The aggregation job as a filter\<close>

text \<open>Adding an optional contribution to a span.\<close>

lemma span_of_map_filter_snoc:
  "span_of V E c sel (List.map_filter f (rs @ [r])) = Ok span' \<longleftrightarrow>
   (\<exists>span. span_of V E c sel (List.map_filter f rs) = Ok span \<and>
      (case f r of None \<Rightarrow> span' = span
       | Some (i, t, d) \<Rightarrow> DapAggregateSpan_add_out_share V E span c sel i t d = Ok span'))"
  by (auto simp: span_of_def try_fold_append List.map_filter_def split: option.splits)

lemma produce_transition_iff:
  "produce_transition P V E c status sel span r = Ok (span', var) \<longleftrightarrow>
   helper_transition P V c status r =
     Ok \<lparr>transition_report_id = metadata_id (Initialized_metadata r), transition_var = var\<rparr> \<and>
   (case helper_contribution V c status r of
      None \<Rightarrow> span' = span
    | Some (i, t, d) \<Rightarrow> DapAggregateSpan_add_out_share V E span c sel i t d = Ok span')"
proof (cases r)
  case (Initialized_Ready m pub peer share state)
  show ?thesis
  proof (cases "map_of status (metadata_id m)")
    case None
    then show ?thesis
      by (cases peer; cases "helper_prep_finish_from_shares V (vdaf_config c) state share (the peer)")
        (auto simp: Initialized_Ready produce_transition_def helper_transition_def helper_contribution_def
          split: VdafError.splits)
  next
    case (Some st)
    then show ?thesis
      by (cases st; cases peer; cases "helper_prep_finish_from_shares V (vdaf_config c) state share (the peer)")
        (auto simp: Initialized_Ready produce_transition_def helper_transition_def helper_contribution_def
          split: VdafError.splits)
  qed
next
  case (Initialized_Rejected m failure)
  then show ?thesis
    by (auto simp: produce_transition_def helper_transition_def helper_contribution_def Let_def
        split: option.splits ReportProcessedStatus.splits)
qed

lemma consume_transition_iff:
  "consume_transition P V E c task_id sel span th = Ok span' \<longleftrightarrow>
   leader_processes P V c th \<and>
   (case leader_contribution P V c th of
      None \<Rightarrow> span' = span
    | Some (i, t, d) \<Rightarrow> DapAggregateSpan_add_out_share V E span c sel i t d = Ok span')"
proof (cases th)
  case (Pair helper leader)
  show ?thesis
  proof (cases "transition_var helper")
    case (Continued inbound)
    then show ?thesis
      unfolding Pair
      by (cases "decode_ping_pong_framed P inbound PP_Finish")
        (auto simp: consume_transition_def leader_processes_def leader_contribution_def
          split: result.splits VdafError.splits)
  qed (auto simp: Pair consume_transition_def leader_processes_def leader_contribution_def)
qed

lemma produce_agg_job_resp_iff:
  "produce_agg_job_resp P V E c status sel rs = Ok (span, resp) \<longleftrightarrow>
   try_map (helper_transition P V c status) rs = Ok (transitions resp) \<and>
   span_of V E c sel (List.map_filter (helper_contribution V c status) rs) = Ok span"
proof -
  let ?step = "\<lambda>(agg_span, ts) initialized_report.
      and_then (produce_transition P V E c status sel agg_span initialized_report) (\<lambda>(agg_span, var).
      Ok (agg_span, ts @ [\<lparr>transition_report_id = metadata_id (Initialized_metadata initialized_report),
                           transition_var = var\<rparr>]))"
  have id: "transition_report_id t = metadata_id (Initialized_metadata r)"
    if "helper_transition P V c status r = Ok t" for t r
    using that by (auto simp: helper_transition_def Let_def split: option.splits ReportProcessedStatus.splits
        EarlyReportStateInitialized.splits result.splits VdafError.splits)
  have "try_fold ?step ([], []) rs = Ok (span, ts) \<longleftrightarrow>
    try_map (helper_transition P V c status) rs = Ok ts \<and>
    span_of V E c sel (List.map_filter (helper_contribution V c status) rs) = Ok span" for span ts
  proof (induction rs arbitrary: span ts rule: rev_induct)
    case Nil
    then show ?case by (auto simp: span_of_def)
  next
    case (snoc r rs)
    have t: "t = \<lparr>transition_report_id = metadata_id (Initialized_metadata r), transition_var = transition_var t\<rparr>"
      if "helper_transition P V c status r = Ok t" for t
      using id [OF that] by simp
    show ?case
      unfolding try_fold_append and_then_Ok_iff span_of_map_filter_snoc try_map_append
      by (auto simp: snoc.IH produce_transition_iff) (metis t)
  qed
  then show ?thesis
    by (cases resp) (auto simp: produce_agg_job_resp_def)
qed

lemma consume_agg_job_resp_iff:
  "consume_agg_job_resp P V E c task_id state resp = Ok span \<longleftrightarrow>
   length (transitions resp) = length (job_seq state) \<and>
   (\<forall>th \<in> set (zip (transitions resp) (job_seq state)). leader_processes P V c th) \<and>
   span_of V E c (job_part_batch_sel state)
     (List.map_filter (leader_contribution P V c) (zip (transitions resp) (job_seq state))) = Ok span"
proof -
  have "try_fold (consume_transition P V E c task_id sel) [] ths = Ok span \<longleftrightarrow>
    (\<forall>th \<in> set ths. leader_processes P V c th) \<and>
    span_of V E c sel (List.map_filter (leader_contribution P V c) ths) = Ok span" for sel ths span
  proof (induction ths arbitrary: span rule: rev_induct)
    case Nil
    then show ?case by (auto simp: span_of_def)
  next
    case (snoc th ths)
    then show ?case
      unfolding try_fold_append and_then_Ok_iff span_of_map_filter_snoc
      by (auto simp: consume_transition_iff)
  qed
  then show ?thesis
    by (auto simp: consume_agg_job_resp_def)
qed

end
