(* ===== verification/Protocol_Job.thy ===== *)
theory Protocol_Job
  imports Protocol_Laws
begin

text \<open>
  An aggregation job from the Leader's request to its span: which reports are in the request, that the
  Helper's response answers them in order, and how the two spans are related. The locale
  \<open>report_initializer\<close> is what the protocol functions rely on of a \<open>DapReportInitializer\<close>; the server's
  initializer satisfies it.
\<close>

section \<open>Sequences\<close>

lemma subseq_subset: "subseq xs ys \<Longrightarrow> set xs \<subseteq> set ys"
  by (auto dest: list_emb_set)

lemma subseq_distinct: "subseq xs ys \<Longrightarrow> distinct ys \<Longrightarrow> distinct xs"
  by (induction rule: list_emb.induct) (auto dest: subseq_subset)

lemma subseq_map_filter:
  assumes "list_all2 (\<lambda>x y. \<forall>a. f x = Some a \<longrightarrow> P (p a) \<longrightarrow> (\<exists>b. g y = Some b \<and> p a = q b)) xs ys"
  shows "subseq (filter P (map p (List.map_filter f xs))) (map q (List.map_filter g ys))"
  using assms
proof (induction rule: list_all2_induct)
  case (Cons x xs y ys)
  then show ?case
    by (cases "f x"; cases "g y") (auto simp: List.map_filter_simps)
qed simp

lemma subseq_map_filter_map:
  assumes "\<And>x a. x \<in> set xs \<Longrightarrow> f x = Some a \<Longrightarrow> p a = q x"
  shows "subseq (map p (List.map_filter f xs)) (map q xs)"
  using assms
proof (induction xs)
  case (Cons x xs)
  then show ?case
    by (cases "f x") (auto simp: List.map_filter_simps)
qed simp

section \<open>The contract of an initializer\<close>

locale report_initializer =
  fixes init :: "'v initializer"
  assumes initialize_metadata:
    "initialize_reports init is_leader c agg_param consumed = Ok initialized \<Longrightarrow>
     map Initialized_metadata initialized = map Consumed_metadata consumed"

lemma initialize_metadata:
  "EarlyReportStateInitialized_initialize V is_leader key config agg_param s = Ok r \<Longrightarrow>
   Initialized_metadata r = Consumed_metadata s"
  by (auto simp: EarlyReportStateInitialized_initialize_def Let_def
      split: EarlyReportStateConsumed.splits result.split_asm)

interpretation app: report_initializer "App_initializer V now epoch_duration max_future_time_skew"
  for V now epoch_duration max_future_time_skew
proof
  fix is_leader c agg_param consumed initialized
  assume "initialize_reports (App_initializer V now epoch_duration max_future_time_skew) is_leader c
    agg_param consumed = Ok initialized"
  then have "list_all2 (\<lambda>s r. Initialized_metadata r = Consumed_metadata s) consumed initialized"
    by (auto simp: App_initializer_def App_initialize_reports_def try_map_Ok_iff
        split: result.splits elim!: list_all2_mono dest: initialize_metadata)
  then show "map Initialized_metadata initialized = map Consumed_metadata consumed"
    by (induction rule: list_all2_induct) auto
qed

section \<open>Consuming the reports of a job\<close>

lemma consume_reports_Ok:
  assumes "consume_reports P decrypt valid task_id c processed reports = Ok consumed"
  shows "map (Consumed_metadata \<circ> fst) consumed = map report_metadata reports"
    and "map snd consumed = map (snd \<circ> encrypted_input_shares) reports"
    and "processed = Some ids \<Longrightarrow> distinct (map (metadata_id \<circ> report_metadata) reports) \<and>
           set ids \<inter> (metadata_id \<circ> report_metadata) ` set reports = {}"
  using assms
  by (induction reports arbitrary: consumed processed ids)
    (fastforce simp: Let_def dest: consume_metadata split: if_splits)+

lemma consume_prep_inits_Ok:
  assumes "consume_prep_inits P decrypt valid task_id c processed inits = Ok consumed"
  shows "map Consumed_metadata consumed = map (share_report_metadata \<circ> report_share) inits"
    and "processed = Some ids \<Longrightarrow> distinct (map (metadata_id \<circ> share_report_metadata \<circ> report_share) inits) \<and>
           set ids \<inter> (metadata_id \<circ> share_report_metadata \<circ> report_share) ` set inits = {}"
  using assms
  by (induction inits arbitrary: consumed processed ids)
    (fastforce simp: Let_def dest: consume_metadata split: if_splits)+

section \<open>The request\<close>

lemma prep_init_for_Some:
  assumes "prep_init_for P V (r, share) = Ok (Some (state, prep))"
  shows "\<lparr>metadata_id = job_report_id state, metadata_time = job_time state\<rparr> = Initialized_metadata r"
    and "share_report_metadata (report_share prep) = Initialized_metadata r"
    and "encrypted_input_share (report_share prep) = share"
  using assms by (auto simp: prep_init_for_def split: EarlyReportStateInitialized.splits)

abbreviation job_metadata :: "'v AggregationJobReportState \<Rightarrow> ReportMetadata" where
  "job_metadata s \<equiv> \<lparr>metadata_id = job_report_id s, metadata_time = job_time s\<rparr>"

abbreviation request_metadata :: "AggregationJobInitReq \<Rightarrow> ReportMetadata list" where
  "request_metadata req \<equiv> map (share_report_metadata \<circ> report_share) (prep_inits req)"

lemma try_map_prep_init_for:
  assumes "try_map (prep_init_for P V) xs = Ok preps"
  shows "map (job_metadata \<circ> fst) (List.map_filter id preps) =
         map (share_report_metadata \<circ> report_share \<circ> snd) (List.map_filter id preps)"
    and "subseq (map (share_report_metadata \<circ> report_share \<circ> snd) (List.map_filter id preps))
         (map (Initialized_metadata \<circ> fst) xs)"
proof -
  have all: "list_all2 (\<lambda>(r, share) p. prep_init_for P V (r, share) = Ok p) xs preps"
    using assms by (auto simp: try_map_Ok_iff elim!: list_all2_mono)
  show "map (job_metadata \<circ> fst) (List.map_filter id preps) =
      map (share_report_metadata \<circ> report_share \<circ> snd) (List.map_filter id preps)"
    and "subseq (map (share_report_metadata \<circ> report_share \<circ> snd) (List.map_filter id preps))
      (map (Initialized_metadata \<circ> fst) xs)"
    using all
    by (induction rule: list_all2_induct)
      (auto simp: List.map_filter_simps prep_init_for_Some split: option.splits)
qed

context report_initializer
begin

lemma request_reports:
  assumes "produce_agg_job_req_impl P V c decrypt init task_id sel agg_param reports replay_protection =
    Ok (state, req)"
  shows "map job_metadata (job_seq state) = request_metadata req"
    and "subseq (request_metadata req) (map report_metadata reports)"
    and "ReplayProtection_enabled replay_protection \<Longrightarrow> distinct (map (metadata_id \<circ> report_metadata) reports)"
    and "job_part_batch_sel state = sel" "init_part_batch_sel req = sel"
proof -
  obtain consumed rs preps where
    consumed: "consume_reports P decrypt (valid_report_time_range init) task_id c
      (if ReplayProtection_enabled replay_protection then Some [] else None) reports = Ok consumed"
    and rs: "initialize_reports init True c agg_param (map fst consumed) = Ok rs" "length rs = length consumed"
    and preps: "try_map (prep_init_for P V) (zip rs (map snd consumed)) = Ok preps"
    and out: "job_seq state = map fst (List.map_filter id preps)" "job_part_batch_sel state = sel"
      "init_part_batch_sel req = sel" "prep_inits req = map snd (List.map_filter id preps)"
    using assms by (auto simp: produce_agg_job_req_impl_def split: if_splits)
  have "map Initialized_metadata rs = map report_metadata reports"
    using initialize_metadata [OF rs(1)] consume_reports_Ok(1) [OF consumed] by simp
  then show "map job_metadata (job_seq state) = request_metadata req"
    and "subseq (request_metadata req) (map report_metadata reports)"
    using try_map_prep_init_for [OF preps] rs(2) by (simp_all add: out comp_assoc flip: map_map)
  show "ReplayProtection_enabled replay_protection \<Longrightarrow> distinct (map (metadata_id \<circ> report_metadata) reports)"
    using consume_reports_Ok(3) [OF consumed] by simp
  show "job_part_batch_sel state = sel" "init_part_batch_sel req = sel"
    by (fact out)+
qed

lemma helper_reports:
  assumes "consume_agg_job_req P c decrypt init task_id req replay_protection = Ok rs"
  shows "map Initialized_metadata rs = request_metadata req"
    and "ReplayProtection_enabled replay_protection \<Longrightarrow> distinct (map metadata_id (request_metadata req))"
proof -
  obtain consumed agg_param where
    consumed: "consume_prep_inits P decrypt (valid_report_time_range init) task_id c
      (if ReplayProtection_enabled replay_protection then Some [] else None) (prep_inits req) = Ok consumed"
    and rs: "initialize_reports init False c agg_param consumed = Ok rs"
    using assms by (auto simp: consume_agg_job_req_def)
  show "map Initialized_metadata rs = request_metadata req"
    using initialize_metadata [OF rs] consume_prep_inits_Ok(1) [OF consumed] by simp
  show "ReplayProtection_enabled replay_protection \<Longrightarrow> distinct (map metadata_id (request_metadata req))"
    using consume_prep_inits_Ok(2) [OF consumed] by (simp add: comp_assoc)
qed

end

section \<open>The two spans of a job\<close>

lemma leader_contribution_Some:
  assumes "leader_contribution P V c (helper, leader) = Some (i, t, d)"
  shows "i = job_report_id leader" "t = job_time leader" "\<exists>m. transition_var helper = Continued m"
  using assms by (auto simp: leader_contribution_def split: TransitionVar.splits result.splits)

lemma helper_transition_Continued:
  assumes "helper_transition P V c status r = Ok t" and "transition_var t = Continued m"
  shows "\<exists>meta pub peer share state. r = Initialized_Ready meta pub (Some peer) share state \<and>
    (\<exists>out. helper_prep_finish_from_shares V (vdaf_config c) state share peer = Ok out) \<and>
    map_of status (metadata_id meta) \<in> {None, Some Status_Aggregated}"
  using assms
  by (auto simp: helper_transition_def Let_def split: option.splits ReportProcessedStatus.splits
      EarlyReportStateInitialized.splits result.splits VdafError.splits)

lemma helper_contribution_Some:
  assumes "helper_contribution V c status r = Some (i, t, d)"
  shows "i = metadata_id (Initialized_metadata r)" "t = metadata_time (Initialized_metadata r)"
    "map_of status i = None"
  using assms by (auto simp: helper_contribution_def
      split: EarlyReportStateInitialized.splits option.splits result.splits)

text \<open>
  What a report contributes to the Leader's span it contributes to the Helper's, unless the Helper
  has it recorded as aggregated.
\<close>

lemma contributions_agree:
  assumes "helper_transition P V c status r = Ok t" and "leader_contribution P V c (t, s) = Some (i, time, d)"
    and "job_metadata s = Initialized_metadata r"
  shows "map_of status i = Some Status_Aggregated \<or> (\<exists>d. helper_contribution V c status r = Some (i, time, d))"
proof -
  note lead = leader_contribution_Some [OF assms(2)]
  from lead(3) obtain m where "transition_var t = Continued m" ..
  from helper_transition_Continued [OF assms(1) this] obtain meta pub peer share state data msg where
    "r = Initialized_Ready meta pub (Some peer) share state"
    "helper_prep_finish_from_shares V (vdaf_config c) state share peer = Ok (data, msg)"
    "map_of status (metadata_id meta) \<in> {None, Some Status_Aggregated}"
    by auto
  then show ?thesis
    using lead(1,2) assms(3) by (auto simp: helper_contribution_def)
qed

text \<open>
  The Leader's request, the Helper's handling of it and the Leader's handling of the response. The
  identifiers and timestamps that the spans are made of come from the reports of the job, each report
  at most once.
\<close>

definition id_time :: "Report \<Rightarrow> ReportId \<times> Time" where
  "id_time r = (metadata_id (report_metadata r), metadata_time (report_metadata r))"

lemma job_spans:
  assumes "report_initializer init" "report_initializer init'"
    and req: "produce_agg_job_req P V c decrypt init task_id sel agg_param reports = Ok (state, req)"
    and consumed: "consume_agg_job_req P c decrypt' init' task_id req replay_protection = Ok rs"
    and resp: "produce_agg_job_resp P V E c status sel rs = Ok (helper_span, resp)"
    and fin: "consume_agg_job_resp P V E c task_id state resp = Ok leader_span"
  obtains ls hs where "span_of V E c sel ls = Ok leader_span" "span_of V E c sel hs = Ok helper_span"
    "subseq (report_times ls) (map id_time reports)" "subseq (report_times hs) (map id_time reports)"
    "distinct (map (metadata_id \<circ> report_metadata) reports)"
    "subseq (filter (\<lambda>(i, t). map_of status i \<noteq> Some Status_Aggregated) (report_times ls)) (report_times hs)"
    "\<forall>(i, t) \<in> set (report_times hs). map_of status i = None"
proof -
  note req' = report_initializer.request_reports [OF assms(1) req [unfolded produce_agg_job_req_def]]
  note rs = report_initializer.helper_reports [OF assms(2) consumed]
  define ths where "ths = zip (transitions resp) (job_seq state)"
  define ls where "ls = List.map_filter (leader_contribution P V c) ths"
  define hs where "hs = List.map_filter (helper_contribution V c status) rs"
  have meta: "map job_metadata (job_seq state) = map Initialized_metadata rs"
    using req'(1) rs(1) by simp
  have ts: "list_all2 (\<lambda>r t. helper_transition P V c status r = Ok t) rs (transitions resp)"
    using resp by (simp add: produce_agg_job_resp_iff try_map_Ok_iff)
  have len: "length (transitions resp) = length (job_seq state)" "length rs = length (job_seq state)"
    using meta [THEN arg_cong [where f = length]] ts [THEN list_all2_lengthD] by simp_all
  have all: "list_all2 (\<lambda>th r. helper_transition P V c status r = Ok (fst th) \<and>
      job_metadata (snd th) = Initialized_metadata r) ths rs"
    using ts meta len by (simp add: list_all2_conv_all_nth ths_def list_eq_iff_nth_eq)
  have times: "map id_time reports = map (\<lambda>m. (metadata_id m, metadata_time m)) (map report_metadata reports)"
    by (simp add: id_time_def)
  have sub: "subseq (map (\<lambda>m. (metadata_id m, metadata_time m)) (map Initialized_metadata rs)) (map id_time reports)"
    unfolding times rs(1) by (rule subseq_map [OF req'(2)])
  show thesis
  proof
    show "span_of V E c sel ls = Ok leader_span"
      using fin req'(4) by (simp add: consume_agg_job_resp_iff ls_def ths_def)
    show "span_of V E c sel hs = Ok helper_span"
      using resp by (simp add: produce_agg_job_resp_iff hs_def)
    show "distinct (map (metadata_id \<circ> report_metadata) reports)"
      using req'(3) by (simp add: ReplayProtection_enabled_def)
    have "subseq (report_times hs) (map (\<lambda>m. (metadata_id m, metadata_time m)) (map Initialized_metadata rs))"
      unfolding report_times_def hs_def map_map
      by (rule subseq_map_filter_map) (auto dest: helper_contribution_Some)
    then show "subseq (report_times hs) (map id_time reports)"
      by (rule subseq_order.trans [OF _ sub])
    have "subseq (report_times ls) (map (\<lambda>m. (metadata_id m, metadata_time m)) (map (job_metadata \<circ> snd) ths))"
      unfolding report_times_def ls_def map_map
      by (rule subseq_map_filter_map) (auto dest: leader_contribution_Some)
    moreover have "map (job_metadata \<circ> snd) ths = map Initialized_metadata rs"
      using meta len by (simp add: ths_def flip: map_map)
    ultimately show "subseq (report_times ls) (map id_time reports)"
      using subseq_order.trans [OF _ sub] by simp
    show "subseq (filter (\<lambda>(i, t). map_of status i \<noteq> Some Status_Aggregated) (report_times ls)) (report_times hs)"
      unfolding report_times_def ls_def hs_def
      by (rule subseq_map_filter, rule list_all2_mono [OF all]) (auto dest: contributions_agree)
    show "\<forall>(i, t) \<in> set (report_times hs). map_of status i = None"
      by (auto simp: report_times_def hs_def List.map_filter_def dest: helper_contribution_Some)
  qed
qed

end
