(* ===== verification/Protocol_Collector.thy ===== *)
theory Protocol_Collector
  imports Protocol_Aggregator
begin

text \<open>
  The Collector's side of the protocol, crates/daphne/src/protocol/collector.rs: decrypting the two
  aggregate shares and unsharding them.
\<close>

definition vdaf_unshard ::
  "('v, 'x) prio_vdafs_scheme \<Rightarrow> VdafConfig \<Rightarrow> usize \<Rightarrow> bytes list \<Rightarrow> (DapAggregateResult, VdafError) result" where
  "vdaf_unshard V self num_measurements agg_shares = (case self of
      Prio3 prio3_config \<Rightarrow> prio3_unshard V prio3_config num_measurements agg_shares
    | Prio2 dim \<Rightarrow> prio2_unshard V dim num_measurements agg_shares
    | Pine pine \<Rightarrow> pine_unshard V pine num_measurements agg_shares)"

text \<open>The info string of the \<open>i\<close>-th aggregate share: the sender role is a placeholder that the loop sets.\<close>

definition collector_info :: "nat \<Rightarrow> bytes" where
  "collector_info i = (CTX_AGG_SHARE_DRAFT09 @ [CTX_ROLE_LEADER, CTX_ROLE_COLLECTOR])
     [length CTX_AGG_SHARE_DRAFT09 := if i = 0 then CTX_ROLE_LEADER else CTX_ROLE_HELPER]"

definition collector_aad ::
  "'z prio_codec_scheme \<Rightarrow> TaskId \<Rightarrow> DapVersion \<Rightarrow> DapAggregationParam \<Rightarrow> BatchSelector \<Rightarrow>
   (bytes, DapError) result" where
  "collector_aad P task_id ver agg_param sel =
     map_err DapError_encoding
      (and_then (TaskId_encode task_id []) (\<lambda>aad.
       and_then (encode_u32_prefixed P ver aad (\<lambda>_ bytes. DapAggregationParam_encode agg_param bytes))
        (BatchSelector_encode P sel)))"

text \<open>
  A share that does not decrypt ends the loop, so the second check on the number of shares never
  fails; it is kept as in the code.
\<close>

definition consume_encrypted_agg_shares ::
  "'z prio_codec_scheme \<Rightarrow> ('v, 'x) prio_vdafs_scheme \<Rightarrow> decrypter \<Rightarrow> VdafConfig \<Rightarrow> TaskId \<Rightarrow> BatchSelector \<Rightarrow>
   u64 \<Rightarrow> DapAggregationParam \<Rightarrow> HpkeCiphertext list \<Rightarrow> DapVersion \<Rightarrow> (DapAggregateResult, DapError) result" where
  "consume_encrypted_agg_shares P V decrypt self task_id sel num_reports agg_param encrypted_shares ver =
     (if length encrypted_shares \<noteq> 2 then Err (Fatal ''unexpected number of encrypted aggregate shares'')
      else
        and_then (collector_aad P task_id ver agg_param sel) (\<lambda>aad.
        and_then (try_map (\<lambda>(i, ciphertext). decrypt task_id (collector_info i) aad ciphertext)
            (enumerate 0 encrypted_shares)) (\<lambda>agg_shares.
        if length agg_shares \<noteq> length encrypted_shares
        then Err (Fatal ''one or more HPKE ciphertexts with unrecognized config ID'')
        else map_err (\<lambda>_. Fatal ''failed to unshard agg_shares'')
               (vdaf_unshard V self (unat num_reports) agg_shares))))"

lemma collector_info_sends: "collector_info 0 = agg_share_info True" "collector_info (Suc 0) = agg_share_info False"
  by (simp_all add: collector_info_def agg_share_info_def list_update_append)

lemma collector_aad_sends: "collector_aad = agg_share_aad"
  by (intro ext) (simp add: collector_aad_def agg_share_aad_def)

end
