(* ===== verification/Protocol_Instance.thy ===== *)
theory Protocol_Instance
  imports Protocol_Job Protocol_Collector Aggregate_Instance "HOL-Library.Code_Target_Nat"
begin

text \<open>
  The properties of the protocol functions: a client's report reaches both Aggregators, the aggregation
  job is a filter on the reports whose two sides agree, and the Collector recovers the aggregate shares.
  The witnesses evaluate a whole job on the instances of the external crates.
\<close>

section \<open>Definitions\<close>

text \<open>A server that can open what is encrypted to the receiver \<open>r\<close>.\<close>

definition holds_key ::
  "('c, 'z) hpke_rs_scheme \<Rightarrow> task_lookup \<Rightarrow> receiver_lookup \<Rightarrow> TaskId \<Rightarrow> DapTaskConfig \<Rightarrow> HpkeReceiverConfig \<Rightarrow>
   bool" where
  "holds_key R get_task receivers task_id c r \<longleftrightarrow>
     get_task task_id = Ok (Some c) \<and>
     (\<exists>rs. receivers (version c) = Ok (Some rs) \<and> distinct (map (hpke_id \<circ> receiver_config) rs) \<and>
           r \<in> set rs \<and> key_matches R r)"

text \<open>One aggregation job: the four protocol functions of the two Aggregators one after another.\<close>

definition agg_job_exchange ::
  "'z prio_protocol_scheme \<Rightarrow> ('v, 'x) prio_vdafs_scheme \<Rightarrow> 'y dap_ext_scheme \<Rightarrow> DapTaskConfig \<Rightarrow> TaskId \<Rightarrow>
   decrypter \<times> 'v initializer \<Rightarrow> decrypter \<times> 'v initializer \<Rightarrow> (ReportId \<times> ReportProcessedStatus) list \<Rightarrow>
   PartialBatchSelector \<Rightarrow> DapAggregationParam \<Rightarrow> Report list \<Rightarrow>
   ('v DapAggregateShare DapAggregateSpan \<times> 'v DapAggregateShare DapAggregateSpan, DapError) result" where
  "agg_job_exchange P V E c task_id leader helper status sel agg_param reports =
     and_then (produce_agg_job_req P V c (fst leader) (snd leader) task_id sel agg_param reports) (\<lambda>(state, req).
     and_then (consume_agg_job_req P c (fst helper) (snd helper) task_id req Enabled) (\<lambda>initialized.
     and_then (produce_agg_job_resp P V E c status (init_part_batch_sel req) initialized) (\<lambda>(helper_span, resp).
     and_then (consume_agg_job_resp P V E c task_id state resp) (\<lambda>leader_span.
     Ok (leader_span, helper_span)))))"


text \<open>The data of the witnesses.\<close>

definition example_receiver :: "u8 \<Rightarrow> HpkeReceiverConfig" where
  "example_receiver i = \<lparr>receiver_config = \<lparr>hpke_id = i, kem_id = X25519HkdfSha256, kdf_id = HkdfSha256,
     aead_id = Aes128Gcm, public_key = [i]\<rparr>, private_key = [i]\<rparr>"

definition example_get_task :: task_lookup where
  "example_get_task _ = Ok (Some example_task)"

definition example_receivers :: "u8 \<Rightarrow> receiver_lookup" where
  "example_receivers i _ = Ok (Some [example_receiver 3, example_receiver i])"

definition example_aggregator :: "u8 \<Rightarrow> decrypter \<times> nat list initializer" where
  "example_aggregator i = (App_hpke_decrypt clear_hpke example_get_task (example_receivers i),
     App_initializer example_vdafs 500 1000 100)"

definition example_report :: "u8 \<Rightarrow> Time \<Rightarrow> u64 \<Rightarrow> (Report, DapError) result" where
  "example_report i t m = produce_report be_protocol clear_hpke example_vdafs [] ([], []) (ReportId [i])
     (Prio3 Count) (receiver_config (example_receiver 7), receiver_config (example_receiver 8)) t
     (TaskId [9]) (Meas_U64 m) Latest"

definition example_exchange ::
  "Report list \<Rightarrow> (nat list DapAggregateShare DapAggregateSpan \<times> nat list DapAggregateShare DapAggregateSpan, DapError) result" where
  "example_exchange = agg_job_exchange be_protocol example_vdafs example_ext example_task (TaskId [9])
     (example_aggregator 7) (example_aggregator 8) [] PBS_TimeInterval Agg_Empty"

section \<open>From the client to the Aggregators\<close>


lemma holds_key_decrypts:
  assumes "hpke_laws R" and "holds_key R get_task receivers task_id c r"
    and "HpkeConfig_encrypt R coins (receiver_config r) info aad pt = Ok ct"
  shows "App_hpke_decrypt R get_task receivers task_id info aad ct = Ok pt"
  using assms hpke_laws.App_decrypts [OF assms(1)] unfolding holds_key_def by blast

text \<open>
  C8. A report that a client produces for a task reaches both Aggregators: each of them decrypts its
  own share of the report and is ready with exactly the input share the client made for it, the public
  share and the metadata, provided that it holds the key of the HPKE configuration the client used, the
  report's time is within the task's lifetime and the server's window, and the client sent the taskprov
  extension exactly when the task is configured by taskprov. The Helper also recovers the preparation
  share the Leader put into the request.
\<close>

theorem report_is_consumed:
  assumes "hpke_laws R" and P: "prio_messages_laws P"
    and report: "produce_report_with_extensions_for_shares P R coins pub (input, input')
      (receiver_config r, receiver_config r') time task_id report_id
      (if method_is_taskprov c then [Extension_Taskprov] else []) (version c) = Ok report"
    and keys: "holds_key R get_task receivers task_id c r" "holds_key R get_task' receivers' task_id c r'"
    and time: "time < not_after c" "fst valid \<le> time" "time \<le> snd valid"
    and frame: "encode_u32_bytes P [PingPongMessageType_as_u8 PP_Initialize] prep_share = Ok payload"
  shows "EarlyReportStateConsumed_consume P (App_hpke_decrypt R get_task receivers) valid True task_id c
      \<lparr>share_report_metadata = report_metadata report, share_public_share = public_share report,
       encrypted_input_share = fst (encrypted_input_shares report)\<rparr> None =
      Ok (Consumed_Ready \<lparr>metadata_id = report_id, metadata_time = time\<rparr> pub input None) \<and>
    EarlyReportStateConsumed_consume P (App_hpke_decrypt R get_task' receivers') valid False task_id c
      \<lparr>share_report_metadata = report_metadata report, share_public_share = public_share report,
       encrypted_input_share = snd (encrypted_input_shares report)\<rparr> (Some payload) =
      Ok (Consumed_Ready \<lparr>metadata_id = report_id, metadata_time = time\<rparr> pub input' (Some prep_share))"
proof -
  let ?exts = "if method_is_taskprov c then [Extension_Taskprov] else []"
  let ?m = "\<lparr>metadata_id = report_id, metadata_time = time\<rparr>"
  have codec: "prio_codec_laws P"
    using P by (rule prio_messages_laws.axioms(1))
  have wf: "wf_PlaintextInputShare \<lparr>extensions = ?exts, pis_payload = s\<rparr>" for s
    by (simp add: wf_PlaintextInputShare_def)
  note decoded = wire_codec.whole_dec_iff [OF prio_messages_laws.PlaintextInputShare_wire [OF P]
      prio_messages_laws.whole_PlaintextInputShare [OF P], THEN iffD2, OF conjI [OF wf]]
  from report obtain aad pt ct pt' ct' where
    aad: "report_aad P (version c) task_id ?m pub = Ok aad"
    and pt: "PlaintextInputShare_encode_with_param P (version c) \<lparr>extensions = ?exts, pis_payload = input\<rparr> [] = Ok pt"
      "PlaintextInputShare_encode_with_param P (version c) \<lparr>extensions = ?exts, pis_payload = input'\<rparr> [] = Ok pt'"
    and ct: "HpkeConfig_encrypt R (fst coins) (receiver_config r) (report_info 0) aad pt = Ok ct"
      "HpkeConfig_encrypt R (snd coins) (receiver_config r') (report_info 1) aad pt' = Ok ct'"
    and report': "report = \<lparr>report_metadata = ?m, public_share = pub, encrypted_input_shares = (ct, ct')\<rparr>"
    by (auto simp: produce_report_with_extensions_for_shares_def Let_def prio_codec_laws.get_encoded [OF codec])
  note same = report_info_receives report_aad_receives
  have peer: "decode_ping_pong_framed P payload PP_Initialize = Ok prep_share"
    using frame by (simp add: prio_codec_laws.frame_Ok_iff [OF codec])
  have "EarlyReportStateConsumed_consume P (App_hpke_decrypt R get_task receivers) valid True task_id c
      \<lparr>share_report_metadata = report_metadata report, share_public_share = public_share report,
       encrypted_input_share = fst (encrypted_input_shares report)\<rparr> None =
      Ok (Consumed_Ready ?m pub input None)"
    using time aad [unfolded same] holds_key_decrypts [OF assms(1) keys(1) ct(1) [unfolded same]] decoded [OF pt(1)]
    by (simp add: consume_Ready_iff consume_plaintext_Ready_iff report')
  moreover have "EarlyReportStateConsumed_consume P (App_hpke_decrypt R get_task' receivers') valid False task_id c
      \<lparr>share_report_metadata = report_metadata report, share_public_share = public_share report,
       encrypted_input_share = snd (encrypted_input_shares report)\<rparr> (Some payload) =
      Ok (Consumed_Ready ?m pub input' (Some prep_share))"
    using time aad [unfolded same] peer holds_key_decrypts [OF assms(1) keys(2) ct(2) [unfolded same]] decoded [OF pt(2)]
    by (simp add: consume_Ready_iff consume_plaintext_Ready_iff report')
  ultimately show ?thesis
    by (rule conjI)
qed

lemma example_holds_key: "i \<noteq> 3 \<Longrightarrow> holds_key clear_hpke example_get_task (example_receivers i) t example_task (example_receiver i)"
  unfolding holds_key_def key_matches_def
  by (simp add: example_get_task_def example_receivers_def example_receiver_def clear.check_suite_supported)
    (simp add: clear_hpke_def)

theorem report_is_consumed_witness:
  "\<exists>report payload.
     produce_report_with_extensions_for_shares be_protocol clear_hpke ([], []) [4] ([5], [6])
       (receiver_config (example_receiver 7), receiver_config (example_receiver 8)) 130 (TaskId [9])
       (ReportId [1]) [] Latest = Ok report \<and>
     encode_u32_bytes be_protocol [PingPongMessageType_as_u8 PP_Initialize] [7, 7] = Ok payload \<and>
     EarlyReportStateConsumed_consume be_protocol
       (App_hpke_decrypt clear_hpke example_get_task (example_receivers 8)) (0, 600) False (TaskId [9]) example_task
       \<lparr>share_report_metadata = report_metadata report, share_public_share = public_share report,
        encrypted_input_share = snd (encrypted_input_shares report)\<rparr> (Some payload) =
       Ok (Consumed_Ready \<lparr>metadata_id = ReportId [1], metadata_time = 130\<rparr> [4] [6] (Some [7, 7]))"
proof -
  have "is_ok (produce_report_with_extensions_for_shares be_protocol clear_hpke ([], []) [4] ([5], [6])
    (receiver_config (example_receiver 7), receiver_config (example_receiver 8)) 130 (TaskId [9])
    (ReportId [1]) [] Latest)"
    by code_simp
  then obtain report where report: "produce_report_with_extensions_for_shares be_protocol clear_hpke ([], []) [4] ([5], [6])
    (receiver_config (example_receiver 7), receiver_config (example_receiver 8)) 130 (TaskId [9])
    (ReportId [1]) (if method_is_taskprov example_task then [Extension_Taskprov] else []) (version example_task) = Ok report"
    by (auto simp: is_ok_iff method_is_taskprov_def example_task_def)
  have "is_ok (encode_u32_bytes be_protocol [PingPongMessageType_as_u8 PP_Initialize] [7, 7])"
    by code_simp
  then obtain payload where payload: "encode_u32_bytes be_protocol [PingPongMessageType_as_u8 PP_Initialize] [7, 7] = Ok payload"
    by (auto simp: is_ok_iff)
  from report_is_consumed [OF clear.hpke_laws_axioms bep.prio_messages_laws_axioms report
      example_holds_key example_holds_key _ _ _ payload, where valid = "(0, 600)"] report payload
  show ?thesis
    by (auto simp: example_task_def method_is_taskprov_def)
qed

text \<open>
  C9. A report share is ready for preparation exactly when its time is before the expiration of the task
  and within the server's window, the share decrypts under the identity of the Aggregator and the
  report's identifier, time and public share, the plaintext decodes, the extensions are the taskprov
  extension alone for a task configured by taskprov and none for every other task, and, at the Helper,
  the Leader's message is a well-framed initialize message. In particular no report with a repeated or
  unknown extension is ever aggregated.
\<close>

theorem ready_iff_valid:
  "EarlyReportStateConsumed_consume P decrypt valid is_leader task_id c share payload =
     Ok (Consumed_Ready metadata pub input peer) \<longleftrightarrow>
   metadata = share_report_metadata share \<and> pub = share_public_share share \<and>
   metadata_time metadata < not_after c \<and> fst valid \<le> metadata_time metadata \<and>
   metadata_time metadata \<le> snd valid \<and>
   (\<exists>aad plaintext.
      input_share_aad P (version c) task_id metadata pub = Ok aad \<and>
      decrypt task_id (input_share_info is_leader) aad (encrypted_input_share share) = Ok plaintext \<and>
      get_decoded_PlaintextInputShare P (PlaintextInputShare_decode_with_param P (version c)) plaintext =
        Ok \<lparr>extensions = (if method_is_taskprov c then [Extension_Taskprov] else []), pis_payload = input\<rparr>) \<and>
   map_option (\<lambda>p. decode_ping_pong_framed P p PP_Initialize) payload = map_option Ok peer"
proof -
  have peer: "(case payload of
      None \<Rightarrow> peer = None
    | Some p \<Rightarrow> \<exists>s. decode_ping_pong_framed P p PP_Initialize = Ok s \<and> peer = Some s) \<longleftrightarrow>
    map_option (\<lambda>p. decode_ping_pong_framed P p PP_Initialize) payload = map_option Ok peer"
    by (cases payload; cases peer) auto
  have plain: "(\<exists>pis. r = Ok pis \<and> extensions pis = es \<and> input = pis_payload pis) \<longleftrightarrow>
      r = Ok \<lparr>extensions = es, pis_payload = input\<rparr>" for r :: "(PlaintextInputShare, codec_error) result" and es
    by auto
  show ?thesis
    unfolding consume_Ready_iff consume_plaintext_Ready_iff peer plain by blast
qed

section \<open>The aggregation job\<close>

lemma example_exchange_evaluates:
  "case and_then (example_report 1 130 1) (\<lambda>r. and_then (example_report 2 190 0) (\<lambda>r'. example_exchange [r, r'])) of
     Ok (leader_span, helper_span) \<Rightarrow>
       DapAggregateSpan_report_count leader_span = 2 \<and> DapAggregateSpan_report_count helper_span = 2
   | _ \<Rightarrow> False"
  by code_simp

lemma example_exchange_Ok:
  obtains r r' leader_span helper_span
  where "example_report 1 130 1 = Ok r" "example_report 2 190 0 = Ok r'"
    "example_exchange [r, r'] = Ok (leader_span, helper_span)"
    "DapAggregateSpan_report_count leader_span = 2" "DapAggregateSpan_report_count helper_span = 2"
  using example_exchange_evaluates that
  by (cases "example_report 1 130 1"; cases "example_report 2 190 0") (auto split: result.split_asm)





lemma exchange_spans:
  assumes "report_initializer (snd leader)" "report_initializer (snd helper)"
    and "agg_job_exchange P V E c task_id leader helper status sel agg_param reports = Ok (leader_span, helper_span)"
  obtains ls hs where "span_of V E c sel ls = Ok leader_span" "span_of V E c sel hs = Ok helper_span"
    "subseq (report_times ls) (map id_time reports)" "subseq (report_times hs) (map id_time reports)"
    "distinct (map (metadata_id \<circ> report_metadata) reports)"
    "subseq (filter (\<lambda>(i, t). map_of status i \<noteq> Some Status_Aggregated) (report_times ls)) (report_times hs)"
    "\<forall>(i, t) \<in> set (report_times hs). map_of status i = None"
proof -
  obtain state req rs resp where
    req: "produce_agg_job_req P V c (fst leader) (snd leader) task_id sel agg_param reports = Ok (state, req)"
    and "consume_agg_job_req P c (fst helper) (snd helper) task_id req Enabled = Ok rs"
    and "produce_agg_job_resp P V E c status (init_part_batch_sel req) rs = Ok (helper_span, resp)"
    and "consume_agg_job_resp P V E c task_id state resp = Ok leader_span"
    using assms(3) by (auto simp: agg_job_exchange_def)
  then show thesis
    using job_spans [OF assms(1,2) req] that
      report_initializer.request_reports(5) [OF assms(1) req [unfolded produce_agg_job_req_def]]
    by metis
qed

text \<open>
  C4. In an aggregation job both Aggregators add reports of the job only, each at most once. The Helper
  adds no report that it has a status for, and every report the Leader adds is added by the Helper in
  the same job unless the Helper had aggregated it before. So the Leader never counts a report that
  the Helper does not.
\<close>

theorem aggregators_agree:
  assumes "agg_job_exchange P V E c task_id (d, App_initializer V now e s) (d', App_initializer V now' e' s')
      status sel agg_param reports = Ok (leader_span, helper_span)"
  shows "\<exists>ls hs. span_of V E c sel ls = Ok leader_span \<and> span_of V E c sel hs = Ok helper_span \<and>
    distinct (map fst (report_times ls)) \<and> distinct (map fst (report_times hs)) \<and>
    set (report_times hs) \<subseteq> id_time ` set reports \<and>
    (\<forall>(i, t) \<in> set (report_times hs). map_of status i = None) \<and>
    set (report_times ls) \<subseteq> set (report_times hs) \<union> {r \<in> id_time ` set reports. map_of status (fst r) = Some Status_Aggregated}"
proof (rule exchange_spans [OF _ _ assms])
  show "report_initializer (snd (d, App_initializer V now e s))"
    "report_initializer (snd (d', App_initializer V now' e' s'))"
    by (simp_all add: app.report_initializer_axioms)
next
  fix ls hs
  assume spans: "span_of V E c sel ls = Ok leader_span" "span_of V E c sel hs = Ok helper_span"
    and sub: "subseq (report_times ls) (map id_time reports)" "subseq (report_times hs) (map id_time reports)"
    and dist: "distinct (map (metadata_id \<circ> report_metadata) reports)"
    and agree: "subseq (filter (\<lambda>(i, t). map_of status i \<noteq> Some Status_Aggregated) (report_times ls)) (report_times hs)"
    and fresh: "\<forall>(i, t) \<in> set (report_times hs). map_of status i = None"
  have ids: "map fst (map id_time reports) = map (metadata_id \<circ> report_metadata) reports"
    by (simp add: id_time_def)
  have "distinct (map fst (report_times ls))" "distinct (map fst (report_times hs))"
    using subseq_map [OF sub(1), of fst] subseq_map [OF sub(2), of fst] dist subseq_distinct unfolding ids by blast+
  moreover have "set (report_times ls) \<subseteq> id_time ` set reports" "set (report_times hs) \<subseteq> id_time ` set reports"
    using subseq_subset [OF sub(1)] subseq_subset [OF sub(2)] by auto
  moreover have "set (filter (\<lambda>(i, t). map_of status i \<noteq> Some Status_Aggregated) (report_times ls)) \<subseteq> set (report_times hs)"
    using agree by (rule subseq_subset)
  ultimately show ?thesis
    using spans fresh by (intro exI [of _ ls] exI [of _ hs]) fastforce
qed

theorem aggregators_agree_witness:
  "\<exists>r r' leader_span helper_span ls hs. example_exchange [r, r'] = Ok (leader_span, helper_span) \<and>
     span_of example_vdafs example_ext example_task PBS_TimeInterval ls = Ok leader_span \<and>
     span_of example_vdafs example_ext example_task PBS_TimeInterval hs = Ok helper_span \<and>
     length ls = 2 \<and> set (report_times ls) \<subseteq> set (report_times hs)"
proof (rule example_exchange_Ok)
  fix r r' leader_span helper_span
  assume ex: "example_exchange [r, r'] = Ok (leader_span, helper_span)"
    and n: "DapAggregateSpan_report_count leader_span = 2"
  from aggregators_agree [OF ex [unfolded example_exchange_def example_aggregator_def]] obtain ls hs where
    ls: "span_of example_vdafs example_ext example_task PBS_TimeInterval ls = Ok leader_span"
      "span_of example_vdafs example_ext example_task PBS_TimeInterval hs = Ok helper_span"
      "set (report_times ls) \<subseteq> set (report_times hs)"
    by auto
  have "length ls = 2"
    using span_of_report_count [OF ls(1)] n by simp
  with ex ls show ?thesis
    by blast
qed





section \<open>Collection\<close>

text \<open>
  C11. The Collector recovers what the Aggregators encrypted: it unshards exactly the encodings of the
  aggregate shares of Leader and Helper, in this order, when both were encrypted under its HPKE
  configuration for the same task, batch and aggregation parameter.
\<close>

theorem collector_unshards:
  assumes "hpke_laws R" and "prio_codec_laws P"
    and "HpkeReceiverConfig_gen R gen_coins i k = Ok collector"
    and leader: "produce_leader_encrypted_agg_share P R V coins (receiver_config collector) task_id sel agg_param a v = Ok ct"
    and helper: "produce_helper_encrypted_agg_share P R V coins' (receiver_config collector) task_id sel agg_param b v = Ok ct'"
  shows "\<exists>data data' bytes bytes'. agg_data a = Some data \<and> agg_data b = Some data' \<and>
    VdafAggregateShare_encode V data [] = Ok bytes \<and> VdafAggregateShare_encode V data' [] = Ok bytes' \<and>
    consume_encrypted_agg_shares P V (HpkeReceiverConfig_hpke_decrypt R collector) config task_id sel n agg_param
      [ct, ct'] v =
    map_err (\<lambda>_. Fatal ''failed to unshard agg_shares'') (vdaf_unshard V config (unat n) [bytes, bytes'])"
proof -
  have key: "key_matches R collector"
    using hpke_laws.gen_key_matches [OF assms(1,3)] .
  note decrypts = hpke_laws.decrypt_encrypt [OF assms(1) key]
  note encoded = prio_codec_laws.get_encoded [OF assms(2)]
  obtain data bytes aad where "agg_data a = Some data" "VdafAggregateShare_encode V data [] = Ok bytes"
    and aad: "agg_share_aad P task_id v agg_param sel = Ok aad"
    and ct: "HpkeConfig_encrypt R coins (receiver_config collector) (agg_share_info True) aad bytes = Ok ct"
    using leader by (auto simp: produce_leader_encrypted_agg_share_def produce_encrypted_agg_share_def encoded)
  moreover obtain data' bytes' where "agg_data b = Some data'" "VdafAggregateShare_encode V data' [] = Ok bytes'"
    and ct': "HpkeConfig_encrypt R coins' (receiver_config collector) (agg_share_info False) aad bytes' = Ok ct'"
    using helper aad by (auto simp: produce_helper_encrypted_agg_share_def produce_encrypted_agg_share_def encoded)
  ultimately show ?thesis
    using decrypts [OF ct] decrypts [OF ct']
    by (simp add: consume_encrypted_agg_shares_def HpkeReceiverConfig_hpke_decrypt_def collector_info_sends collector_aad_sends)
qed

theorem collector_unshards_witness:
  "\<exists>collector ct ct'.
     HpkeReceiverConfig_gen clear_hpke [5] 1 P256HkdfSha256 = Ok collector \<and>
     produce_leader_encrypted_agg_share be_protocol clear_hpke example_vdafs [] (receiver_config collector) (TaskId [9])
       (BS_TimeInterval \<lparr>start = 60, duration = 60\<rparr>) Agg_Empty (DapAggregateShare_default\<lparr>agg_data := Some (Field64 [3])\<rparr>)
       Latest = Ok ct \<and>
     produce_helper_encrypted_agg_share be_protocol clear_hpke example_vdafs [] (receiver_config collector) (TaskId [9])
       (BS_TimeInterval \<lparr>start = 60, duration = 60\<rparr>) Agg_Empty
       (DapAggregateShare_default\<lparr>agg_data := Some (Field64 [18446744069414584319])\<rparr>) Latest = Ok ct' \<and>
     consume_encrypted_agg_shares be_protocol example_vdafs (HpkeReceiverConfig_hpke_decrypt clear_hpke collector)
       (Prio3 Count) (TaskId [9]) (BS_TimeInterval \<lparr>start = 60, duration = 60\<rparr>) 1 Agg_Empty [ct, ct'] Latest =
       Ok (Res_U64 1)"
proof -
  let ?c = "\<lparr>receiver_config = \<lparr>hpke_id = 1, kem_id = P256HkdfSha256, kdf_id = HkdfSha256, aead_id = Aes128Gcm,
    public_key = [5]\<rparr>, private_key = [5]\<rparr>"
  let ?sel = "BS_TimeInterval \<lparr>start = 60, duration = 60\<rparr>"
  let ?a = "DapAggregateShare_default\<lparr>agg_data := Some (Field64 [3])\<rparr>"
  let ?b = "DapAggregateShare_default\<lparr>agg_data := Some (Field64 [18446744069414584319])\<rparr>"
  let ?leader = "produce_leader_encrypted_agg_share be_protocol clear_hpke example_vdafs [] (receiver_config ?c) (TaskId [9])
    ?sel Agg_Empty ?a Latest"
  let ?helper = "produce_helper_encrypted_agg_share be_protocol clear_hpke example_vdafs [] (receiver_config ?c) (TaskId [9])
    ?sel Agg_Empty ?b Latest"
  have gen: "HpkeReceiverConfig_gen clear_hpke [5] 1 P256HkdfSha256 = Ok ?c"
    by (simp add: HpkeReceiverConfig_gen_def clear_hpke_def)
  have "is_ok ?leader" "is_ok ?helper"
    by code_simp+
  then obtain ct ct' where ct: "?leader = Ok ct" "?helper = Ok ct'"
    by (auto simp: is_ok_iff)
  have enc: "VdafAggregateShare_encode example_vdafs (Field64 [3]) [] = Ok [0, 0, 0, 0, 0, 0, 0, 3]"
    "VdafAggregateShare_encode example_vdafs (Field64 [18446744069414584319]) [] = Ok [255, 255, 255, 254, 255, 255, 255, 255]"
    by code_simp+
  have "vdaf_unshard example_vdafs (Prio3 Count) (unat (1 :: u64))
      [[0, 0, 0, 0, 0, 0, 0, 3], [255, 255, 255, 254, 255, 255, 255, 255]] = Ok (Res_U64 1)"
    by code_simp
  then show ?thesis
    using collector_unshards [OF clear.hpke_laws_axioms bep.prio_codec_laws_axioms gen ct,
        where config = "Prio3 Count" and n = 1] gen ct enc
    by auto
qed

end
