(* ===== verification/Stateful.thy ===== *)
theory Stateful
  imports Rust_Prelude
begin

text \<open>
  Fallible operations on a mutable object: the result together with the object afterwards. What was
  changed before an error or a panic stays changed.
\<close>

type_synonym ('a, 'e, 's) stateful = "'s \<Rightarrow> ('a, 'e) result \<times> 's"

definition st_return :: "'a \<Rightarrow> ('a, 'e, 's) stateful" where
  "st_return x s = (Ok x, s)"

definition st_lift :: "('a, 'e) result \<Rightarrow> ('a, 'e, 's) stateful" where
  "st_lift r s = (r, s)"

definition st_get :: "('s \<Rightarrow> 'a) \<Rightarrow> ('a, 'e, 's) stateful" where
  "st_get f s = (Ok (f s), s)"

definition st_modify :: "('s \<Rightarrow> 's) \<Rightarrow> (unit, 'e, 's) stateful" where
  "st_modify f s = (Ok (), f s)"

fun st_then :: "('a, 'e, 's) stateful \<Rightarrow> ('a \<Rightarrow> ('b, 'e, 's) stateful) \<Rightarrow> ('b, 'e, 's) stateful" where
  "st_then m f s = (case m s of
      (Ok x, s') \<Rightarrow> f x s'
    | (Err e, s') \<Rightarrow> (Err e, s')
    | (Panic, s') \<Rightarrow> (Panic, s'))"

definition st_map_err :: "('e \<Rightarrow> 'd) \<Rightarrow> ('a, 'e, 's) stateful \<Rightarrow> ('a, 'd, 's) stateful" where
  "st_map_err f m s = apfst (map_err f) (m s)"

text \<open>The result of an operation as a value, and operations one after the other.\<close>

definition st_try :: "('a, 'e, 's) stateful \<Rightarrow> (('a, 'e) result, 'd, 's) stateful" where
  "st_try m s = (case m s of (Panic, s') \<Rightarrow> (Panic, s') | (r, s') \<Rightarrow> (Ok r, s'))"

fun st_map :: "('a \<Rightarrow> ('b, 'e, 's) stateful) \<Rightarrow> 'a list \<Rightarrow> ('b list, 'e, 's) stateful" where
  "st_map f [] = st_return []"
| "st_map f (x # xs) = st_then (f x) (\<lambda>y. st_then (st_map f xs) (\<lambda>ys. st_return (y # ys)))"

fun st_any :: "('a \<Rightarrow> (bool, 'e, 's) stateful) \<Rightarrow> 'a list \<Rightarrow> (bool, 'e, 's) stateful" where
  "st_any f [] = st_return False"
| "st_any f (x # xs) = st_then (f x) (\<lambda>b. if b then st_return True else st_any f xs)"

lemma st_then_Ok_iff [simp]:
  "st_then m f s = (Ok y, s'') \<longleftrightarrow> (\<exists>x s'. m s = (Ok x, s') \<and> f x s' = (Ok y, s''))"
  by (cases "m s"; cases "fst (m s)") auto

lemma st_simps [simp]:
  "st_return x s = (r, s') \<longleftrightarrow> r = Ok x \<and> s' = s"
  "st_lift q s = (r, s') \<longleftrightarrow> r = q \<and> s' = s"
  "st_get f s = (r, s') \<longleftrightarrow> r = Ok (f s) \<and> s' = s"
  "st_modify g s = (r', s') \<longleftrightarrow> r' = Ok () \<and> s' = g s"
  by (auto simp: st_return_def st_lift_def st_get_def st_modify_def)

declare st_then.simps [simp del]

lemma st_map_err_Ok_iff [simp]: "st_map_err f m s = (Ok x, s') \<longleftrightarrow> m s = (Ok x, s')"
  by (cases "m s"; cases "fst (m s)") (auto simp: st_map_err_def)

lemma st_map_err_eval: "m s = (r, s') \<Longrightarrow> st_map_err f m s = (map_err f r, s')"
  by (simp add: st_map_err_def)

lemma st_try_Ok_iff [simp]: "st_try m s = (Ok r, s') \<longleftrightarrow> m s = (r, s') \<and> r \<noteq> Panic"
  by (auto simp: st_try_def split: prod.splits result.splits)

lemma st_try_not_Err [simp]: "st_try m s \<noteq> (Err e, s')"
  by (auto simp: st_try_def split: prod.splits result.splits)

lemma st_then_eval:
  "m s = (Ok x, s') \<Longrightarrow> st_then m f s = f x s'"
  "m s = (Err e, s') \<Longrightarrow> st_then m f s = (Err e, s')"
  "m s = (Panic, s') \<Longrightarrow> st_then m f s = (Panic, s')"
  by (simp_all add: st_then.simps)

lemma st_if_Ok_iff [result_simps]:
  "(if b then m else n) s = (Ok x, s') \<longleftrightarrow> b \<and> m s = (Ok x, s') \<or> \<not> b \<and> n s = (Ok x, s')"
  by simp

end
