(* ===== verification/Aggregate_Store.thy ===== *)
theory Aggregate_Store
  imports Stateful Aggregate_Laws
begin

text \<open>
  The durable object that stores the aggregate share of one bucket,
  crates/daphne-worker/src/durable/aggregate_store.rs, and the messages of its interface,
  crates/daphne-service-utils/src/durable_requests/bindings/aggregate_store.rs.

  The object is its storage, a map from keys to values, and the fields that cache what was read from
  it; a cache is empty when the runtime has just created the object. Reading and writing the storage
  does not fail, and a value of an unexpected type is a deserialization error. A \<open>HashSet\<close> is a list
  without repetitions. The code of the crate \<open>prio\<close> that decodes field elements and whole identifiers
  is the parameter \<open>field_ext\<close>.
\<close>

section \<open>Parameters\<close>

datatype VdafKind = Kind_Field32 | Kind_Field64 | Kind_Field128

record ('v, 'f) field_ext =
  field_decode :: "VdafKind \<Rightarrow> 'f decoder"
  AggregateShare_from_vec :: "VdafKind \<Rightarrow> 'f list \<Rightarrow> 'v"
  get_decoded_ReportId :: "ReportId decoder \<Rightarrow> bytes \<Rightarrow> (ReportId, codec_error) result"
  get_encoded_share :: "encoder \<Rightarrow> (bytes, codec_error) result"

section \<open>Constants and stored values\<close>

definition MAX_AGG_SHARE_CHUNK_KEY_COUNT :: usize where "MAX_AGG_SHARE_CHUNK_KEY_COUNT = 8"
definition DEFAULT_REPORT_ID_CHUNK_KEY_COUNT :: u8 where "DEFAULT_REPORT_ID_CHUNK_KEY_COUNT = 5"
definition MAX_CHUNK_SIZE :: usize where "MAX_CHUNK_SIZE = 128000"
definition METADATA_KEY :: string where "METADATA_KEY = ''meta''"
definition COLLECTED_KEY :: string where "COLLECTED_KEY = ''collected''"
definition KEY_COUNT_KEY :: string where "KEY_COUNT_KEY = ''report_id_chunk_key_count''"

record DapAggregateShareMetadata =
  meta_report_count :: u64
  meta_min_time :: Time
  meta_max_time :: Time
  meta_checksum :: bytes
  meta_kind :: "VdafKind option"

definition share_kind :: "'v VdafAggregateShare \<Rightarrow> VdafKind" where
  "share_kind d = (case d of Field32 _ \<Rightarrow> Kind_Field32 | Field64 _ \<Rightarrow> Kind_Field64 | Field128 _ \<Rightarrow> Kind_Field128)"

definition from_agg_share :: "'v DapAggregateShare \<Rightarrow> DapAggregateShareMetadata" where
  "from_agg_share share = \<lparr>meta_report_count = report_count share, meta_min_time = min_time share,
     meta_max_time = max_time share, meta_checksum = checksum share,
     meta_kind = map_option share_kind (agg_data share)\<rparr>"

definition into_agg_share_without_data :: "DapAggregateShareMetadata \<Rightarrow> 'v DapAggregateShare" where
  "into_agg_share_without_data m = \<lparr>report_count = meta_report_count m, min_time = meta_min_time m,
     max_time = meta_max_time m, checksum = meta_checksum m, agg_data = None\<rparr>"

definition into_agg_share_with_data ::
  "DapAggregateShareMetadata \<Rightarrow> 'v VdafAggregateShare \<Rightarrow> 'v DapAggregateShare" where
  "into_agg_share_with_data m data = (into_agg_share_without_data m)\<lparr>agg_data := Some data\<rparr>"

datatype stored =
    Stored_Meta DapAggregateShareMetadata
  | Stored_Bytes bytes
  | Stored_Bool bool
  | Stored_U8 u8

type_synonym storage = "string \<Rightarrow> stored option"

datatype worker_error = WE_BadEncoding | WE_RustError string | WE_Internal string | WE_Serde

record 'v AggregateStore =
  do_storage :: storage
  report_ids :: "ReportId list option"
  agg_share :: "'v DapAggregateShare option"
  collected :: "bool option"
  report_id_chunk_key_count :: "u8 option"

definition with_state_and_env :: "storage \<Rightarrow> 'v AggregateStore" where
  "with_state_and_env st = \<lparr>do_storage = st, report_ids = None, agg_share = None, collected = None,
     report_id_chunk_key_count = None\<rparr>"

section \<open>Chunks\<close>

definition js_map_to_chunks :: "string list \<Rightarrow> storage \<Rightarrow> (bytes list, worker_error) result" where
  "js_map_to_chunks keys map' =
     try_map (\<lambda>k. case map' k of Some (Stored_Bytes bs) \<Rightarrow> Ok bs | _ \<Rightarrow> Panic)
       (filter (\<lambda>k. map' k \<noteq> None) keys)"

definition div_ceil :: "usize \<Rightarrow> usize \<Rightarrow> usize" where
  "div_ceil lhs rhs = (let d = lhs div rhs; r = lhs mod rhs in if r > 0 \<and> rhs > 0 then d + 1 else d)"

definition number_of_chunks_needed_for :: "bytes \<Rightarrow> (u8, worker_error) result" where
  "number_of_chunks_needed_for bytes =
     (let n = div_ceil (length bytes) MAX_CHUNK_SIZE in if n < 2 ^ 8 then Ok (of_nat n) else Panic)"

text \<open>The loop over the keys; \<open>base_idx\<close> is the position in the bytes.\<close>

fun shard_bytes :: "string list \<Rightarrow> bytes \<Rightarrow> usize \<Rightarrow> storage \<Rightarrow> storage" where
  "shard_bytes [] bytes base_idx obj = obj"
| "shard_bytes (key # keys) bytes base_idx obj =
     (let stop = min (base_idx + MAX_CHUNK_SIZE) (length bytes) in
      shard_bytes keys bytes stop (obj(key \<mapsto> Stored_Bytes (take (stop - base_idx) (drop base_idx bytes)))))"

definition shard_bytes_to_object ::
  "string list \<Rightarrow> bytes \<Rightarrow> storage \<Rightarrow> (storage, worker_error) result" where
  "shard_bytes_to_object keys bytes obj =
     and_then (number_of_chunks_needed_for bytes) (\<lambda>num_chunks.
       if unat num_chunks \<le> length keys then Ok (shard_bytes (take (unat num_chunks) keys) bytes 0 obj)
       else Panic)"

section \<open>Keys\<close>

definition agg_share_shard_keys :: "string list" where
  "agg_share_shard_keys = [''chunk_v2_000'', ''chunk_v2_001'', ''chunk_v2_002'', ''chunk_v2_003'',
     ''chunk_v2_004'', ''chunk_v2_005'', ''chunk_v2_006'', ''chunk_v2_007'']"

definition digit :: "nat \<Rightarrow> char" where
  "digit d = char_of (48 + d mod 10)"

text \<open>The format \<open>{n:03}\<close> for the numbers below a thousand.\<close>

definition format_03 :: "nat \<Rightarrow> string" where
  "format_03 n = [digit (n div 100), digit (n div 10), digit n]"

definition report_ids_key :: "nat \<Rightarrow> string" where
  "report_ids_key n = ''aggregated_report_ids_'' @ format_03 n"

definition storage_get_u8 :: "storage \<Rightarrow> string \<Rightarrow> (u8 option, worker_error) result" where
  "storage_get_u8 st key = (case st key of
      None \<Rightarrow> Ok None | Some (Stored_U8 n) \<Rightarrow> Ok (Some n) | Some _ \<Rightarrow> Err WE_Serde)"

definition storage_get_bool_or_default :: "storage \<Rightarrow> string \<Rightarrow> (bool, worker_error) result" where
  "storage_get_bool_or_default st key = (case st key of
      None \<Rightarrow> Ok False | Some (Stored_Bool b) \<Rightarrow> Ok b | Some _ \<Rightarrow> Err WE_Serde)"

definition aggregated_reports_keys :: "(string list, worker_error, 'v AggregateStore) stateful" where
  "aggregated_reports_keys =
     st_then (st_get report_id_chunk_key_count) (\<lambda>cached.
     st_then
       (case cached of
          Some key_count \<Rightarrow> st_return key_count
        | None \<Rightarrow>
            st_then (st_get do_storage) (\<lambda>st.
            st_then (st_lift (storage_get_u8 st KEY_COUNT_KEY)) (\<lambda>stored.
            let key_count = (case stored of Some n \<Rightarrow> n | None \<Rightarrow> DEFAULT_REPORT_ID_CHUNK_KEY_COUNT) in
            st_then (st_modify (\<lambda>s. s\<lparr>report_id_chunk_key_count := Some key_count\<rparr>)) (\<lambda>_.
            st_return key_count))))
       (\<lambda>key_count. st_return (map report_ids_key [0..<unat key_count])))"

definition set_report_id_chunk_key_count :: "u8 \<Rightarrow> (unit, worker_error, 'v AggregateStore) stateful" where
  "set_report_id_chunk_key_count n =
     st_then (st_get report_id_chunk_key_count) (\<lambda>cached.
     if Some n = cached then st_return ()
     else st_modify (\<lambda>s. s\<lparr>do_storage := (do_storage s)(KEY_COUNT_KEY \<mapsto> Stored_U8 n),
                            report_id_chunk_key_count := Some n\<rparr>))"

section \<open>Loading\<close>

definition get_multiple :: "string list \<Rightarrow> storage \<Rightarrow> storage" where
  "get_multiple keys st = st |` set keys"

text \<open>
  The loop over the elements of a chunk. An element takes at least one byte, so as many rounds as the
  chunk has bytes are enough.
\<close>

fun decode_elems :: "nat \<Rightarrow> 'f decoder \<Rightarrow> 'f list \<Rightarrow> cursor \<Rightarrow> ('f list, worker_error) result" where
  "decode_elems fuel dec share c =
     (if position c < length (get_ref c)
      then (case fuel of
              0 \<Rightarrow> Panic
            | Suc n \<Rightarrow>
                and_then (map_err (\<lambda>_. WE_Internal ''failed to decode aggregate share'') (dec c)) (\<lambda>(x, c).
                decode_elems n dec (share @ [x]) c))
      else Ok share)"

definition from_slices :: "('v, 'f, 'z) field_ext_scheme \<Rightarrow> VdafKind \<Rightarrow> bytes list \<Rightarrow> ('v, worker_error) result" where
  "from_slices F kind chunks =
     and_then (try_fold (\<lambda>share chunk. decode_elems (length chunk) (field_decode F kind) share (cursor_new chunk))
         [] chunks) (\<lambda>share.
     Ok (AggregateShare_from_vec F kind share))"

definition kind_share :: "VdafKind \<Rightarrow> 'v \<Rightarrow> 'v VdafAggregateShare" where
  "kind_share kind v = (case kind of Kind_Field32 \<Rightarrow> Field32 v | Kind_Field64 \<Rightarrow> Field64 v | Kind_Field128 \<Rightarrow> Field128 v)"

text \<open>The aggregate share as it is in the storage.\<close>

definition load_agg_share ::
  "('v, 'f, 'z) field_ext_scheme \<Rightarrow> storage \<Rightarrow> ('v DapAggregateShare, worker_error) result" where
  "load_agg_share F st =
     (let values = get_multiple (agg_share_shard_keys @ [METADATA_KEY]) st in
      if \<forall>k \<in> set (agg_share_shard_keys @ [METADATA_KEY]). values k = None then Ok DapAggregateShare_default
      else case values METADATA_KEY of
          Some (Stored_Meta meta) \<Rightarrow>
            and_then (js_map_to_chunks agg_share_shard_keys values) (\<lambda>chunks.
              if chunks = [] then Ok (into_agg_share_without_data meta)
              else case meta_kind meta of
                  None \<Rightarrow> Panic
                | Some kind \<Rightarrow>
                    and_then (from_slices F kind chunks) (\<lambda>v.
                    Ok (into_agg_share_with_data meta (kind_share kind v))))
        | _ \<Rightarrow> Panic)"

definition get_agg_share ::
  "('v, 'f, 'z) field_ext_scheme \<Rightarrow> ('v DapAggregateShare, worker_error, 'v AggregateStore) stateful" where
  "get_agg_share F =
     st_then (st_get agg_share) (\<lambda>cached.
     st_then (st_modify (\<lambda>s. s\<lparr>agg_share := None\<rparr>)) (\<lambda>_.
     st_then
       (case cached of
          Some share \<Rightarrow> st_return share
        | None \<Rightarrow> st_then (st_get do_storage) (\<lambda>st. st_lift (load_agg_share F st))) (\<lambda>share.
     st_then (st_modify (\<lambda>s. s\<lparr>agg_share := Some share\<rparr>)) (\<lambda>_.
     st_return share))))"

text \<open>\<open>chunks_exact\<close>: the full pieces of a chunk; a shorter rest is dropped.\<close>

function chunks_exact :: "nat \<Rightarrow> bytes \<Rightarrow> bytes list" where
  "chunks_exact n bs = (if n = 0 \<or> length bs < n then [] else take n bs # chunks_exact n (drop n bs))"
  by auto
termination
  by (relation "measure (length \<circ> snd)") auto

declare chunks_exact.simps [simp del] decode_elems.simps [simp del]

definition SIZE_OF_REPORT_ID :: nat where "SIZE_OF_REPORT_ID = 16"

definition cold_load_aggregated_report_ids ::
  "('v, 'f, 'z) field_ext_scheme \<Rightarrow> (unit, worker_error, 'v AggregateStore) stateful" where
  "cold_load_aggregated_report_ids F =
     st_then aggregated_reports_keys (\<lambda>report_keys.
     st_then (st_get do_storage) (\<lambda>st.
     st_then (st_lift (js_map_to_chunks report_keys (get_multiple report_keys st))) (\<lambda>chunks.
     st_then (st_lift (map_err (\<lambda>_. WE_BadEncoding) (try_map (get_decoded_ReportId F ReportId_decode)
         (concat (map (chunks_exact SIZE_OF_REPORT_ID) chunks))))) (\<lambda>ids.
     st_modify (\<lambda>s. s\<lparr>report_ids := Some (remdups ids)\<rparr>)))))"

definition load_aggregated_report_ids ::
  "('v, 'f, 'z) field_ext_scheme \<Rightarrow> (ReportId list, worker_error, 'v AggregateStore) stateful" where
  "load_aggregated_report_ids F =
     st_then (st_get report_ids) (\<lambda>cached.
     st_then (if cached = None then cold_load_aggregated_report_ids F else st_return ()) (\<lambda>_.
     st_then (st_get report_ids) (\<lambda>ids.
     st_lift (case ids of Some ids \<Rightarrow> Ok ids | None \<Rightarrow> Panic))))"

definition is_collected :: "(bool, worker_error, 'v AggregateStore) stateful" where
  "is_collected =
     st_then (st_get collected) (\<lambda>cached.
     case cached of
       Some b \<Rightarrow> st_return b
     | None \<Rightarrow>
         st_then (st_get do_storage) (\<lambda>st.
         st_then (st_lift (storage_get_bool_or_default st COLLECTED_KEY)) (\<lambda>b.
         st_then (st_modify (\<lambda>s. s\<lparr>collected := Some b\<rparr>)) (\<lambda>_.
         st_return b))))"

section \<open>Requests\<close>

record 'v AggregateStoreMergeReq =
  contained_reports :: "ReportId list"
  agg_share_delta :: "'v DapAggregateShare"
  skip_replay_protection :: bool

datatype AggregateStoreMergeResp = Merge_Ok | Merge_ReplaysDetected "ReportId list" | Merge_AlreadyCollected

datatype 'v store_request =
  Req_GetMerged | Req_Merge "'v AggregateStoreMergeReq" | Req_Get | Req_MarkCollected | Req_CheckCollected | Req_Unknown

datatype 'v store_response =
  Resp_Ids "ReportId set" | Resp_Merge AggregateStoreMergeResp | Resp_Share "'v DapAggregateShare" | Resp_Unit | Resp_Bool bool

text \<open>
  The check for replays and the chunks of the extended set of identifiers. \<open>Some\<close> response ends the
  request; otherwise the object that is written to the storage at the end is extended.
\<close>

definition record_report_ids ::
  "('v, 'f, 'z) field_ext_scheme \<Rightarrow> 'v AggregateStoreMergeReq \<Rightarrow> storage \<Rightarrow>
   (AggregateStoreMergeResp + storage, worker_error, 'v AggregateStore) stateful" where
  "record_report_ids F req chunks_map =
     st_then (load_aggregated_report_ids F) (\<lambda>merged_report_ids.
     let repeat_ids = remdups (filter (\<lambda>i. i \<in> set merged_report_ids) (contained_reports req)) in
     if repeat_ids \<noteq> []
     then st_return (Inl (if length repeat_ids = unat (report_count (agg_share_delta req)) then Merge_Ok
                          else Merge_ReplaysDetected repeat_ids))
     else
       let merged = fold (\<lambda>i ids. if i \<in> set ids then ids else ids @ [i]) (contained_reports req) merged_report_ids in
       st_then (st_modify (\<lambda>s. s\<lparr>report_ids := Some merged\<rparr>)) (\<lambda>_.
       st_then (st_lift (map_err (\<lambda>_. WE_RustError ''failed to encode report ID'')
           (try_fold (\<lambda>bytes i. ReportId_encode i bytes) [] merged))) (\<lambda>as_bytes.
       st_then (st_lift (number_of_chunks_needed_for as_bytes)) (\<lambda>n.
       st_then (set_report_id_chunk_key_count n) (\<lambda>_.
       st_then aggregated_reports_keys (\<lambda>keys.
       st_then (st_lift (shard_bytes_to_object keys as_bytes chunks_map)) (\<lambda>chunks_map.
       st_return (Inr chunks_map))))))))"

definition merge_agg_share ::
  "('v, 'x) prio_vdafs_scheme \<Rightarrow> ('v, 'f, 'z) field_ext_scheme \<Rightarrow> 'v AggregateStoreMergeReq \<Rightarrow> storage \<Rightarrow>
   (AggregateStoreMergeResp, worker_error, 'v AggregateStore) stateful" where
  "merge_agg_share V F req chunks_map =
     st_then (get_agg_share F) (\<lambda>share.
     st_then (st_lift (map_err (\<lambda>_. WE_RustError ''internalError'')
         (DapAggregateShare_merge V share (agg_share_delta req)))) (\<lambda>share.
     st_then (st_modify (\<lambda>s. s\<lparr>agg_share := Some share\<rparr>)) (\<lambda>_.
     st_then (st_lift (case agg_data share of
           None \<Rightarrow> Ok chunks_map
         | Some data \<Rightarrow>
             and_then (map_err (\<lambda>_. WE_RustError ''failed to encode agg share'')
               (get_encoded_share F (VdafAggregateShare_encode V data))) (\<lambda>as_bytes.
             shard_bytes_to_object agg_share_shard_keys as_bytes chunks_map))) (\<lambda>chunks_map.
     let chunks_map = chunks_map(METADATA_KEY \<mapsto> Stored_Meta (from_agg_share share)) in
     st_then (st_modify (\<lambda>s. s\<lparr>do_storage := do_storage s ++ chunks_map\<rparr>)) (\<lambda>_.
     st_return Merge_Ok)))))"

definition handle_merge ::
  "('v, 'x) prio_vdafs_scheme \<Rightarrow> ('v, 'f, 'z) field_ext_scheme \<Rightarrow> 'v AggregateStoreMergeReq \<Rightarrow>
   (AggregateStoreMergeResp, worker_error, 'v AggregateStore) stateful" where
  "handle_merge V F req =
     st_then is_collected (\<lambda>is_coll.
     if is_coll then st_return Merge_AlreadyCollected
     else
       st_then (if skip_replay_protection req then st_return (Inr Map.empty) else record_report_ids F req Map.empty)
         (\<lambda>recorded.
       case recorded of
         Inl resp \<Rightarrow> st_return resp
       | Inr chunks_map \<Rightarrow> merge_agg_share V F req chunks_map))"

definition AggregateStore_handle ::
  "('v, 'x) prio_vdafs_scheme \<Rightarrow> ('v, 'f, 'z) field_ext_scheme \<Rightarrow> 'v store_request \<Rightarrow>
   ('v store_response, worker_error, 'v AggregateStore) stateful" where
  "AggregateStore_handle V F req = (case req of
      Req_GetMerged \<Rightarrow> st_then (load_aggregated_report_ids F) (\<lambda>ids. st_return (Resp_Ids (set ids)))
    | Req_Merge merge \<Rightarrow> st_then (handle_merge V F merge) (\<lambda>resp. st_return (Resp_Merge resp))
    | Req_Get \<Rightarrow> st_then (get_agg_share F) (\<lambda>share. st_return (Resp_Share share))
    | Req_MarkCollected \<Rightarrow>
        st_then (st_modify (\<lambda>s. s\<lparr>do_storage := (do_storage s)(COLLECTED_KEY \<mapsto> Stored_Bool True),
                                   collected := Some True\<rparr>)) (\<lambda>_.
        st_return Resp_Unit)
    | Req_CheckCollected \<Rightarrow> st_then is_collected (\<lambda>b. st_return (Resp_Bool b))
    | Req_Unknown \<Rightarrow> st_lift (Err (WE_RustError ''internalError'')))"

end
