(* ===== verification/Dap_Request.thy ===== *)
theory Dap_Request
  imports Stateful Codec Hpke Dap_Core
begin

text \<open>
  Requests and responses of the HTTP interface: the media types of crates/daphne/src/constants.rs, the
  request, resource, response and global configuration of crates/daphne/src/lib.rs, and the bearer
  tokens of crates/daphne/src/auth.rs. The source of bearer tokens is an argument, as it is a trait in
  the code.
\<close>

section \<open>Media types\<close>

definition MEDIA_TYPE_AGG_JOB_INIT_REQ :: string where
  "MEDIA_TYPE_AGG_JOB_INIT_REQ = ''application/dap-aggregation-job-init-req''"
definition MEDIA_TYPE_AGG_JOB_RESP :: string where
  "MEDIA_TYPE_AGG_JOB_RESP = ''application/dap-aggregation-job-resp''"
definition MEDIA_TYPE_AGG_SHARE_REQ :: string where
  "MEDIA_TYPE_AGG_SHARE_REQ = ''application/dap-aggregate-share-req''"
definition MEDIA_TYPE_AGG_SHARE :: string where
  "MEDIA_TYPE_AGG_SHARE = ''application/dap-aggregate-share''"
definition MEDIA_TYPE_COLLECTION :: string where
  "MEDIA_TYPE_COLLECTION = ''application/dap-collection''"
definition MEDIA_TYPE_COLLECT_REQ :: string where
  "MEDIA_TYPE_COLLECT_REQ = ''application/dap-collect-req''"
definition MEDIA_TYPE_HPKE_CONFIG_LIST :: string where
  "MEDIA_TYPE_HPKE_CONFIG_LIST = ''application/dap-hpke-config-list''"
definition MEDIA_TYPE_REPORT :: string where
  "MEDIA_TYPE_REPORT = ''application/dap-report''"

lemmas media_type_defs =
  MEDIA_TYPE_AGG_JOB_INIT_REQ_def MEDIA_TYPE_AGG_JOB_RESP_def MEDIA_TYPE_AGG_SHARE_REQ_def
  MEDIA_TYPE_AGG_SHARE_def MEDIA_TYPE_COLLECTION_def MEDIA_TYPE_COLLECT_REQ_def
  MEDIA_TYPE_HPKE_CONFIG_LIST_def MEDIA_TYPE_REPORT_def

datatype DapMediaType =
    MT_AggregationJobInitReq | MT_AggregationJobResp | MT_AggregateShareReq | MT_AggregateShare
  | MT_CollectReq | MT_Collection | MT_HpkeConfigList | MT_Report

datatype DapSender = Sender_Client | Sender_Collector | Sender_Helper | Sender_Leader

fun DapMediaType_sender :: "DapMediaType \<Rightarrow> DapSender" where
  "DapMediaType_sender MT_AggregationJobInitReq = Sender_Leader"
| "DapMediaType_sender MT_AggregateShareReq = Sender_Leader"
| "DapMediaType_sender MT_Collection = Sender_Leader"
| "DapMediaType_sender MT_HpkeConfigList = Sender_Leader"
| "DapMediaType_sender MT_AggregationJobResp = Sender_Helper"
| "DapMediaType_sender MT_AggregateShare = Sender_Helper"
| "DapMediaType_sender MT_Report = Sender_Client"
| "DapMediaType_sender MT_CollectReq = Sender_Collector"

definition from_str_for_version :: "DapVersion \<Rightarrow> string \<Rightarrow> DapMediaType option" where
  "from_str_for_version ver content_type =
     (let content_type = takeWhile (\<lambda>ch. ch \<noteq> CHR '';'') content_type in
      if content_type = MEDIA_TYPE_AGG_JOB_INIT_REQ then Some MT_AggregationJobInitReq
      else if content_type = MEDIA_TYPE_AGG_JOB_RESP then Some MT_AggregationJobResp
      else if content_type = MEDIA_TYPE_AGG_SHARE then Some MT_AggregateShare
      else if content_type = MEDIA_TYPE_COLLECTION then Some MT_Collection
      else if content_type = MEDIA_TYPE_HPKE_CONFIG_LIST then Some MT_HpkeConfigList
      else if content_type = MEDIA_TYPE_AGG_SHARE_REQ then Some MT_AggregateShareReq
      else if content_type = MEDIA_TYPE_COLLECT_REQ then Some MT_CollectReq
      else if content_type = MEDIA_TYPE_REPORT then Some MT_Report
      else None)"

definition as_str_for_version :: "DapMediaType \<Rightarrow> DapVersion \<Rightarrow> string option" where
  "as_str_for_version self ver = (case self of
      MT_AggregationJobInitReq \<Rightarrow> Some MEDIA_TYPE_AGG_JOB_INIT_REQ
    | MT_AggregationJobResp \<Rightarrow> Some MEDIA_TYPE_AGG_JOB_RESP
    | MT_AggregateShareReq \<Rightarrow> Some MEDIA_TYPE_AGG_SHARE_REQ
    | MT_AggregateShare \<Rightarrow> Some MEDIA_TYPE_AGG_SHARE
    | MT_CollectReq \<Rightarrow> Some MEDIA_TYPE_COLLECT_REQ
    | MT_Collection \<Rightarrow> Some MEDIA_TYPE_COLLECTION
    | MT_HpkeConfigList \<Rightarrow> Some MEDIA_TYPE_HPKE_CONFIG_LIST
    | MT_Report \<Rightarrow> Some MEDIA_TYPE_REPORT)"

section \<open>Requests, responses and the global configuration\<close>

datatype DapResource =
    Resource_AggregationJob AggregationJobId
  | Resource_CollectionJob CollectionJobId
  | Resource_Undefined

record 'a DapRequest =
  req_version :: DapVersion
  req_media_type :: "DapMediaType option"
  req_task_id :: "TaskId option"
  req_resource :: DapResource
  req_payload :: bytes
  req_sender_auth :: "'a option"
  req_taskprov :: "string option"

definition DapRequest_task_id :: "'a DapRequest \<Rightarrow> (TaskId, DapAbort) result" where
  "DapRequest_task_id self = ok_or (req_task_id self) (BadRequest ''missing or malformed task ID'')"

definition DapRequest_collection_job_id :: "'a DapRequest \<Rightarrow> (CollectionJobId, DapAbort) result" where
  "DapRequest_collection_job_id self = (case req_resource self of
      Resource_CollectionJob collection_job_id \<Rightarrow> Ok collection_job_id
    | _ \<Rightarrow> Err (BadRequest ''missing or malformed collection job ID''))"

definition DapRequest_sender :: "'a DapRequest \<Rightarrow> DapSender option" where
  "DapRequest_sender self = map_option DapMediaType_sender (req_media_type self)"

record DapResponse =
  resp_version :: DapVersion
  resp_media_type :: DapMediaType
  resp_payload :: bytes

record DapGlobalConfig =
  max_batch_duration :: Duration
  min_batch_interval_start :: Duration
  max_batch_interval_end :: Duration
  supported_hpke_kems :: "HpkeKemId list"
  allow_taskprov :: bool
  default_num_agg_span_shards :: usize

text \<open>The key pair of the \<open>i\<close>-th configuration is generated from \<open>coins i\<close>; the identifiers wrap around.\<close>

definition gen_hpke_receiver_config_list ::
  "('c, 'z) hpke_rs_scheme \<Rightarrow> (nat \<Rightarrow> bytes) \<Rightarrow> DapGlobalConfig \<Rightarrow> u8 \<Rightarrow>
   (HpkeReceiverConfig list, DapError) result" where
  "gen_hpke_receiver_config_list R coins self first_config_id =
     (if 2 ^ 8 \<le> length (supported_hpke_kems self)
      then Err (Fatal ''maximum config list length is 256: got {}'')
      else try_map (\<lambda>(i, kem). HpkeReceiverConfig_gen R (coins i) (first_config_id + of_nat i) kem)
             (enumerate 0 (supported_hpke_kems self)))"

text \<open>The abort for an unexpected content type, crates/daphne/src/error/aborts.rs.\<close>

definition DapAbort_content_type :: "'a DapRequest \<Rightarrow> DapMediaType \<Rightarrow> (DapAbort, 'e) result" where
  "DapAbort_content_type req expected =
     (case as_str_for_version expected (req_version req) of
        None \<Rightarrow> Panic
      | Some want_content_type \<Rightarrow>
          (case req_media_type req of
             None \<Rightarrow> Ok (BadRequest ''missing content-type'')
           | Some media_type \<Rightarrow>
               (case as_str_for_version media_type (req_version req) of
                  None \<Rightarrow> Panic
                | Some got_content_type \<Rightarrow> Ok (BadRequest (''unexpected content-type: got '' @ got_content_type @
                    ''; want '' @ want_content_type)))))"

definition check_request_content_type :: "'a DapRequest \<Rightarrow> DapMediaType \<Rightarrow> (unit, DapAbort) result" where
  "check_request_content_type req expected =
     (if req_media_type req \<noteq> Some expected
      then and_then (DapAbort_content_type req expected) Err
      else Ok ())"

section \<open>Bearer tokens\<close>

type_synonym BearerToken = string

text \<open>The bytes of a string.\<close>

definition as_bytes :: "string \<Rightarrow> bytes" where
  "as_bytes s = map of_char s"

definition BearerToken_eq :: "BearerToken \<Rightarrow> BearerToken \<Rightarrow> bool" where
  "BearerToken_eq a b = constant_time_eq (as_bytes a) (as_bytes b)"

record 's BearerTokenProvider =
  get_leader_bearer_token_for :: "TaskId \<Rightarrow> DapTaskConfig \<Rightarrow> (BearerToken option, DapError, 's) stateful"
  get_collector_bearer_token_for :: "TaskId \<Rightarrow> DapTaskConfig \<Rightarrow> (BearerToken option, DapError, 's) stateful"

definition authorize_with_bearer_token ::
  "('s, 'z) BearerTokenProvider_scheme \<Rightarrow> TaskId \<Rightarrow> DapTaskConfig \<Rightarrow> DapMediaType \<Rightarrow>
   (BearerToken, DapError, 's) stateful" where
  "authorize_with_bearer_token self task_id c media_type =
     (if DapMediaType_sender media_type = Sender_Leader
      then st_then (get_leader_bearer_token_for self task_id c) (\<lambda>token.
           st_lift (ok_or token (Fatal ''attempted to authorize request with unknown task ID'')))
      else st_lift (Err (Fatal ''attempted to authorize request of type'')))"

text \<open>
  \<open>token_of\<close> is the conversion of the sender's authorization to a bearer token, which may panic. The
  result \<open>None\<close> means that the request is authorized.
\<close>

definition bearer_token_authorized ::
  "('s, 'z) BearerTokenProvider_scheme \<Rightarrow> ('a \<Rightarrow> (BearerToken, DapError) result) \<Rightarrow> DapTaskConfig \<Rightarrow>
   'a DapRequest \<Rightarrow> (string option, DapError, 's) stateful" where
  "bearer_token_authorized self token_of c req =
     (let compare = (\<lambda>got expected reason.
            st_then (st_lift (token_of got)) (\<lambda>token.
            st_return (if BearerToken_eq token expected then None else Some reason)));
          deny = st_return (Some ''Cannot resolve sender due to unexpected media type ({:?}).'');
          collector = (\<lambda>task_id.
            if DapRequest_sender req = Some Sender_Collector
            then (case req_sender_auth req of
                    None \<Rightarrow> deny
                  | Some got \<Rightarrow>
                      st_then (get_collector_bearer_token_for self task_id c) (\<lambda>expected.
                      case expected of
                        None \<Rightarrow> deny
                      | Some expected \<Rightarrow>
                          compare got expected ''The indicated bearer token is incorrect for the Collector.''))
            else deny) in
      case req_task_id req of
        None \<Rightarrow> st_return (Some ''Cannot authorize request with missing task ID.'')
      | Some task_id \<Rightarrow>
          if DapRequest_sender req = Some Sender_Leader
          then (case req_sender_auth req of
                  None \<Rightarrow> collector task_id
                | Some got \<Rightarrow>
                    st_then (get_leader_bearer_token_for self task_id c) (\<lambda>expected.
                    case expected of
                      None \<Rightarrow> collector task_id
                    | Some expected \<Rightarrow>
                        compare got expected ''The indicated bearer token is incorrect for the Leader.''))
          else collector task_id)"

section \<open>Lemmas\<close>

lemma as_bytes_inject: "as_bytes a = as_bytes b \<longleftrightarrow> a = b"
proof -
  have "(of_char ch :: nat) = unat (of_char ch :: u8)" for ch
    using nat_of_char_less_256 [of ch]
    by (simp flip: of_nat_of_char [where ?'a = "8 word"] add: unat_of_nat take_bit_eq_mod)
  then have "inj (of_char :: char \<Rightarrow> u8)"
    by (metis injI of_char_eq_iff)
  then show ?thesis
    by (simp add: as_bytes_def inj_map_eq_map)
qed

lemma BearerToken_eq_iff: "BearerToken_eq a b \<longleftrightarrow> a = b"
  by (simp add: BearerToken_eq_def constant_time_eq_iff as_bytes_inject)

end
