(* ===== verification/Taskprov.thy ===== *)
theory Taskprov
  imports Taskprov_Wire Dap_Request Aggregate_Instance
begin

text \<open>
  The taskprov extension, crates/daphne/src/taskprov.rs, and the advertisement that the Leader sends to
  the Helper (crates/daphne/src/lib.rs): a task is configured from an advertisement in a request header,
  and its identifier is the digest of the advertisement.

  The crates that the code calls are the parameter \<open>taskprov_ext\<close>: HKDF and SHA-256 of \<open>ring\<close>, base64url,
  the check for UTF-8 and the parser of URLs. A URL is its serialization.
\<close>

section \<open>Parameters\<close>

record taskprov_ext = dap_ext +
  hkdf_extract :: "bytes \<Rightarrow> bytes \<Rightarrow> bytes"
  hkdf_expand :: "bytes \<Rightarrow> bytes \<Rightarrow> nat \<Rightarrow> bytes"
  decode_base64url_vec :: "string \<Rightarrow> bytes option"
  encode_base64url :: "bytes \<Rightarrow> string"
  from_utf8 :: "bytes \<Rightarrow> string option"
  Url_parse :: "string \<Rightarrow> Url option"

section \<open>Task identifiers and verification keys\<close>

definition TASKPROV_SALT :: bytes where
  "TASKPROV_SALT =
     [0x28, 0xb9, 0xbb, 0x4f, 0x62, 0x4f, 0x67, 0x9a, 0xc1, 0x98, 0xd9, 0x68, 0xf4, 0xb0, 0x9e, 0xec,
      0x74, 0x01, 0x7a, 0x52, 0xcb, 0x4c, 0xf6, 0x39, 0xfb, 0x83, 0xe0, 0x47, 0x72, 0x3a, 0x0f, 0xfe]"

definition compute_task_id :: "'z dap_ext_scheme \<Rightarrow> bytes \<Rightarrow> TaskId" where
  "compute_task_id E serialized = TaskId (take 32 (sha256 E serialized))"

definition extract_prk_from_verify_key_init :: "'z taskprov_ext_scheme \<Rightarrow> DapVersion \<Rightarrow> bytes \<Rightarrow> bytes" where
  "extract_prk_from_verify_key_init E ver verify_key_init = hkdf_extract E TASKPROV_SALT verify_key_init"

definition expand_into_taskprov_verify_key ::
  "'z taskprov_ext_scheme \<Rightarrow> VdafConfig \<Rightarrow> bytes \<Rightarrow> TaskId \<Rightarrow> VdafVerifyKey" where
  "expand_into_taskprov_verify_key E self prk task_id = (case uninitialized_verify_key self of
      L16 _ \<Rightarrow> L16 (hkdf_expand E prk (TaskId_0 task_id) 16)
    | L32 _ \<Rightarrow> L32 (hkdf_expand E prk (TaskId_0 task_id) 32))"

definition compute_vdaf_verify_key ::
  "'z taskprov_ext_scheme \<Rightarrow> DapVersion \<Rightarrow> bytes \<Rightarrow> TaskId \<Rightarrow> VdafConfig \<Rightarrow> VdafVerifyKey" where
  "compute_vdaf_verify_key E ver verify_key_init task_id config =
     expand_into_taskprov_verify_key E config (extract_prk_from_verify_key_init E ver verify_key_init) task_id"

section \<open>From the advertisement to the task\<close>

definition malformed_task_config :: "TaskId \<Rightarrow> string \<Rightarrow> DapAbort" where
  "malformed_task_config task_id detail = InvalidTask detail task_id"

definition url_from_bytes :: "'z taskprov_ext_scheme \<Rightarrow> TaskId \<Rightarrow> bytes \<Rightarrow> (Url, DapAbort) result" where
  "url_from_bytes E task_id bytes =
     and_then (ok_or (from_utf8 E bytes)
       (malformed_task_config task_id ''Encountered error while parsing URL bytes as string: {e}'')) (\<lambda>url_string.
     ok_or (Url_parse E url_string)
       (malformed_task_config task_id ''Encountered error while parsing URL string: {e}''))"

definition DapQueryConfig_try_from_taskprov :: "TaskId \<Rightarrow> QueryConfigVar \<Rightarrow> (DapQueryConfig, DapAbort) result" where
  "DapQueryConfig_try_from_taskprov task_id var = (case var of
      QVar_FixedSize max_batch_size \<Rightarrow>
        if max_batch_size = 0 then Ok (QC_FixedSize None) else Ok (QC_FixedSize (Some (ucast max_batch_size)))
    | QVar_TimeInterval \<Rightarrow> Ok QC_TimeInterval
    | QVar_NotImplemented _ _ \<Rightarrow> Err (InvalidTask ''unimplemented query type ({typ})'' task_id))"

definition PineParam_opt_out_reason :: "PineParam \<Rightarrow> u8 \<Rightarrow> string option" where
  "PineParam_opt_out_reason self min_proofs =
     (let MAX_DIM = 300000; MAX_PROOFS = 8; MIN_WR_SUCCESSES = 30; MAX_WR_TESTS = 165 in
      if dimension self > MAX_DIM then Some ''dimension must not exceed {MAX_DIM}''
      else if num_wr_successes self < MIN_WR_SUCCESSES
      then Some ''number of wraparound test successes must be at least {MIN_WR_SUCCESSES}''
      else if num_wr_tests self > MAX_WR_TESTS
      then Some ''number of wraparound tests must not exceed {MAX_WR_TESTS}''
      else if \<not> (min_proofs \<le> num_proofs self \<and> num_proofs self \<le> MAX_PROOFS)
      then Some ''number of proofs must be in range {min_proofs}..{MAX_PROOFS} inclusive''
      else if \<not> (1 \<le> num_proofs_sq_norm_equal self \<and> num_proofs_sq_norm_equal self \<le> MAX_PROOFS)
      then Some ''number of proofs for the squared norm equality check must be in range 1..{MAX_PROOFS} inclusive''
      else None)"

text \<open>A \<open>u32\<close> always fits into a \<open>usize\<close>. The constructors of Pine are the parameter \<open>V\<close>.\<close>

definition VdafConfig_try_from_taskprov ::
  "('v, 'x) prio_vdafs_scheme \<Rightarrow> TaskId \<Rightarrow> DapVersion \<Rightarrow> VdafTypeVar \<Rightarrow> (VdafConfig, DapAbort) result" where
  "VdafConfig_try_from_taskprov V task_id ver var =
     (let PRIO3_MAX_PROOFS = 3 in
      case var of
        Var_Prio2 dim \<Rightarrow> Ok (Prio2 (unat dim))
      | Var_Prio3SumVecField64MultiproofHmacSha256Aes128 len bits chunk_length proofs \<Rightarrow>
          if \<not> (1 \<le> proofs \<and> proofs \<le> PRIO3_MAX_PROOFS)
          then Err (InvalidTask ''number of proofs must be in range 1..{PRIO3_MAX_PROOFS} inclusive'' task_id)
          else Ok (Prio3 (SumVecField64MultiproofHmacSha256Aes128 (unat bits) (unat len) (unat chunk_length) proofs))
      | Var_Pine32HmacSha256Aes128 param \<Rightarrow>
          (case Pine32_new V param of
             Panic \<Rightarrow> Panic
           | Err _ \<Rightarrow> Err (InvalidTask ''invalid parameters for Pine32: {e}'' task_id)
           | Ok _ \<Rightarrow>
               (case PineParam_opt_out_reason param 5 of
                  Some _ \<Rightarrow> Err (InvalidTask ''unsupported parameters for Pine32: {reason}'' task_id)
                | None \<Rightarrow> Ok (Pine (Pine_Field32HmacSha256Aes128 param))))
      | Var_Pine64HmacSha256Aes128 param \<Rightarrow>
          (case Pine64_new V param of
             Panic \<Rightarrow> Panic
           | Err _ \<Rightarrow> Err (InvalidTask ''invalid parameters for Pine64: {e}'' task_id)
           | Ok _ \<Rightarrow>
               (case PineParam_opt_out_reason param 2 of
                  Some _ \<Rightarrow> Err (InvalidTask ''unsupported parameters for Pine64: {reason}'' task_id)
                | None \<Rightarrow> Ok (Pine (Pine_Field64HmacSha256Aes128 param))))
      | Var_NotImplemented _ _ \<Rightarrow> Err (InvalidTask ''unimplemented VDAF type ({typ})'' task_id))"

record OptInParam =
  opt_in_not_before :: Time
  opt_in_num_agg_span_shards :: usize

record DapTaskConfigNeedsOptIn =
  needs_version :: DapVersion
  needs_leader_url :: Url
  needs_helper_url :: Url
  needs_time_precision :: Duration
  needs_min_batch_size :: u64
  needs_query :: DapQueryConfig
  needs_vdaf :: VdafConfig
  needs_vdaf_verify_key :: VdafVerifyKey
  needs_collector_hpke_config :: HpkeConfig
  needs_method :: DapTaskConfigMethod
  needs_task_expiration :: Time

definition NeedsOptIn_try_from_taskprov ::
  "('v, 'x) prio_vdafs_scheme \<Rightarrow> 'z taskprov_ext_scheme \<Rightarrow> DapVersion \<Rightarrow> TaskId \<Rightarrow> TaskConfig \<Rightarrow> bytes \<Rightarrow> HpkeConfig \<Rightarrow>
   (DapTaskConfigNeedsOptIn, DapAbort) result" where
  "NeedsOptIn_try_from_taskprov V E ver task_id msg verify_key_init collector_config =
     (if max_batch_query_count (tc_query_config msg) \<noteq> 1
      then Err (InvalidTask ''unsupported max batch query count {}'' task_id)
      else
        and_then (VdafConfig_try_from_taskprov V task_id ver (vdaf_var (tc_vdaf_config msg))) (\<lambda>vdaf.
        let verify_key = compute_vdaf_verify_key E ver verify_key_init task_id vdaf in
        and_then (url_from_bytes E task_id (url_bytes (tc_leader_url msg))) (\<lambda>leader.
        and_then (url_from_bytes E task_id (url_bytes (tc_helper_url msg))) (\<lambda>helper.
        and_then (DapQueryConfig_try_from_taskprov task_id (query_var (tc_query_config msg))) (\<lambda>query.
        Ok \<lparr>needs_version = ver, needs_leader_url = leader, needs_helper_url = helper,
            needs_time_precision = tq_time_precision (tc_query_config msg),
            needs_min_batch_size = ucast (tq_min_batch_size (tc_query_config msg)),
            needs_query = query, needs_vdaf = vdaf, needs_vdaf_verify_key = verify_key,
            needs_collector_hpke_config = collector_config,
            needs_method = Method_Taskprov (Some (task_info msg)),
            needs_task_expiration = task_expiration msg\<rparr>)))))"

definition into_opted_in :: "DapTaskConfigNeedsOptIn \<Rightarrow> OptInParam \<Rightarrow> DapTaskConfig" where
  "into_opted_in self param = \<lparr>
     version = needs_version self, leader_url = needs_leader_url self, helper_url = needs_helper_url self,
     time_precision = needs_time_precision self, min_batch_size = needs_min_batch_size self,
     query_config = needs_query self, vdaf_config = needs_vdaf self,
     not_before = opt_in_not_before param, not_after = needs_task_expiration self,
     vdaf_verify_key = needs_vdaf_verify_key self,
     collector_hpke_config = needs_collector_hpke_config self, config_method = needs_method self,
     num_agg_span_shards = opt_in_num_agg_span_shards param\<rparr>"

definition get_taskprov_task_config ::
  "'z prio_protocol_scheme \<Rightarrow> 'y taskprov_ext_scheme \<Rightarrow> 'a DapRequest \<Rightarrow> TaskId \<Rightarrow>
   (TaskConfig option, DapAbort) result" where
  "get_taskprov_task_config P E req task_id = (case req_taskprov req of
      None \<Rightarrow> Ok None
    | Some taskprov_base64url \<Rightarrow>
        and_then (ok_or (decode_base64url_vec E taskprov_base64url)
          (BadRequest ''Invalid advertisement in \"dap-taskprov\" header: base64url parsing failed'')) (\<lambda>taskprov_data.
        if compute_task_id E taskprov_data \<noteq> task_id then Err (UnrecognizedTask task_id)
        else
          and_then (map_err (\<lambda>e. from_codec_error e task_id)
            (get_decoded_TaskConfig P (TaskConfig_decode_with_param P (req_version req)) taskprov_data)) (\<lambda>msg.
          Ok (Some msg))))"

definition resolve_advertised_task_config ::
  "'w prio_protocol_scheme \<Rightarrow> ('v, 'x) prio_vdafs_scheme \<Rightarrow> 'z taskprov_ext_scheme \<Rightarrow> 'a DapRequest \<Rightarrow> bytes \<Rightarrow>
   HpkeConfig \<Rightarrow> TaskId \<Rightarrow> (DapTaskConfigNeedsOptIn option, DapAbort) result" where
  "resolve_advertised_task_config P V E req verify_key_init collector_config task_id =
     and_then (get_taskprov_task_config P E req task_id) (\<lambda>advertised.
     case advertised of
       None \<Rightarrow> Ok None
     | Some msg \<Rightarrow>
         and_then (NeedsOptIn_try_from_taskprov V E (req_version req) task_id msg verify_key_init collector_config)
           (\<lambda>c. Ok (Some c)))"

section \<open>From the task to the advertisement\<close>

text \<open>A \<open>u64\<close> or \<open>usize\<close> narrowed to 32 bits.\<close>

definition u32_try_from :: "nat \<Rightarrow> string \<Rightarrow> (u32, DapError) result" where
  "u32_try_from n err = (if n < 2 ^ 32 then Ok (of_nat n) else Err (Fatal err))"

definition QueryConfigVar_try_from :: "DapQueryConfig \<Rightarrow> (QueryConfigVar, DapError) result" where
  "QueryConfigVar_try_from config = (case config of
      QC_TimeInterval \<Rightarrow> Ok QVar_TimeInterval
    | QC_FixedSize max_batch_size \<Rightarrow>
        and_then (u32_try_from (case max_batch_size of None \<Rightarrow> 0 | Some n \<Rightarrow> unat n)
          ''task max batch size is too large for taskprov'') (\<lambda>n. Ok (QVar_FixedSize n)))"

definition VdafTypeVar_try_from :: "VdafConfig \<Rightarrow> (VdafTypeVar, DapError) result" where
  "VdafTypeVar_try_from config = (case config of
      Prio2 dim \<Rightarrow>
        and_then (u32_try_from dim ''{vdaf_config}: dimension is too large for taskprov'') (\<lambda>dim. Ok (Var_Prio2 dim))
    | Prio3 (SumVecField64MultiproofHmacSha256Aes128 bits len chunk_length proofs) \<Rightarrow>
        and_then (if bits < 2 ^ 8 then Ok (of_nat bits)
                  else Err (Fatal ''{vdaf_config}: bits is too large for taskprov'')) (\<lambda>bits.
        and_then (u32_try_from len ''{vdaf_config}: bits is too large for taskprov'') (\<lambda>len.
        and_then (u32_try_from chunk_length ''{vdaf_config}: bits is too large for taskprov'') (\<lambda>chunk_length.
        Ok (Var_Prio3SumVecField64MultiproofHmacSha256Aes128 len bits chunk_length proofs))))
    | Prio3 _ \<Rightarrow> Err (Fatal ''{vdaf_config} is not currently supported for taskprov'')
    | Pine (Pine_Field32HmacSha256Aes128 param) \<Rightarrow> Ok (Var_Pine32HmacSha256Aes128 param)
    | Pine (Pine_Field64HmacSha256Aes128 param) \<Rightarrow> Ok (Var_Pine64HmacSha256Aes128 param))"

definition TaskConfig_try_from :: "DapTaskConfig \<Rightarrow> (TaskConfig, DapError) result" where
  "TaskConfig_try_from c = (case config_method c of
      Method_Taskprov (Some info) \<Rightarrow>
        and_then (u32_try_from (unat (min_batch_size c)) ''task min batch size is too large for taskprov'') (\<lambda>min_size.
        and_then (QueryConfigVar_try_from (query_config c)) (\<lambda>query.
        and_then (VdafTypeVar_try_from (vdaf_config c)) (\<lambda>vdaf.
        Ok \<lparr>task_info = info, tc_leader_url = \<lparr>url_bytes = as_bytes (leader_url c)\<rparr>,
            tc_helper_url = \<lparr>url_bytes = as_bytes (helper_url c)\<rparr>,
            tc_query_config = \<lparr>tq_time_precision = time_precision c, max_batch_query_count = 1,
              tq_min_batch_size = min_size, query_var = query\<rparr>,
            task_expiration = not_after c,
            tc_vdaf_config = \<lparr>dp_config = Dp_None, vdaf_var = vdaf\<rparr>\<rparr>)))
    | _ \<Rightarrow> Err (Fatal ''task was not configured by taskprov''))"

definition resolve_taskprove_advertisement ::
  "'z prio_protocol_scheme \<Rightarrow> 'y taskprov_ext_scheme \<Rightarrow> DapTaskConfig \<Rightarrow> (string option, DapError) result" where
  "resolve_taskprove_advertisement P E self = (case config_method self of
      Method_Taskprov info \<Rightarrow>
        if info = None then Err (Fatal ''not enough information to resolve taskprov advertisement'')
        else
          and_then (TaskConfig_try_from self) (\<lambda>msg.
          and_then (map_err DapError_encoding
            (get_encoded P (TaskConfig_encode_with_param P (version self) msg))) (\<lambda>encoded.
          Ok (Some (encode_base64url E encoded))))
    | _ \<Rightarrow> Ok None)"

section \<open>The advertisement determines the task\<close>

text \<open>What the code relies on: base64url can be undone, and a string is its bytes.\<close>

locale taskprov_laws =
  fixes E :: "'z taskprov_ext_scheme"
  assumes base64url: "decode_base64url_vec E (encode_base64url E bs) = Some bs"
    and utf8: "from_utf8 E bs = Some str \<Longrightarrow> as_bytes str = bs"

lemma u32_try_from_unat: "u32_try_from (unat w) err = Ok w"
  using unsigned_less [of w, where ?'a = nat] by (simp add: u32_try_from_def)

lemma u32_try_from_ucast: "u32_try_from (unat (ucast w :: u64)) err = Ok w"
proof -
  have "unat (ucast w :: u64) = unat w"
    by transfer simp
  then show ?thesis
    by (simp add: u32_try_from_unat)
qed

lemma query_var_again:
  "DapQueryConfig_try_from_taskprov task_id var = Ok config \<Longrightarrow> QueryConfigVar_try_from config = Ok var"
  by (cases var) (auto simp: DapQueryConfig_try_from_taskprov_def QueryConfigVar_try_from_def u32_try_from_ucast
      u32_try_from_unat [of 0, simplified] split: if_splits)

lemma vdaf_var_again:
  "VdafConfig_try_from_taskprov V task_id ver var = Ok vdaf \<Longrightarrow> VdafTypeVar_try_from vdaf = Ok var"
  using unsigned_less [of "var_bits var", where ?'a = nat]
  by (cases var) (auto simp: VdafConfig_try_from_taskprov_def VdafTypeVar_try_from_def u32_try_from_unat
      split: if_splits result.splits option.splits)

lemma TaskConfig_again:
  assumes "NeedsOptIn_try_from_taskprov V E ver task_id msg key collector = Ok needs"
    and "as_bytes (needs_leader_url needs) = url_bytes (tc_leader_url msg)"
    and "as_bytes (needs_helper_url needs) = url_bytes (tc_helper_url msg)"
  shows "TaskConfig_try_from (into_opted_in needs param) =
    Ok (msg\<lparr>tc_vdaf_config := (tc_vdaf_config msg)\<lparr>dp_config := Dp_None\<rparr>\<rparr>)"
  using assms
  by (auto simp: NeedsOptIn_try_from_taskprov_def TaskConfig_try_from_def into_opted_in_def Let_def u32_try_from_ucast
      dest!: query_var_again vdaf_var_again split: if_splits)

context taskprov_laws
begin

lemma advertised_message:
  assumes "prio_protocol_laws P"
    and "get_taskprov_task_config P E req task_id = Ok (Some msg)"
  shows "\<exists>adv bs. req_taskprov req = Some adv \<and> decode_base64url_vec E adv = Some bs \<and> compute_task_id E bs = task_id \<and>
    wf_TaskConfig msg \<and> TaskConfig_encode_with_param P (req_version req) msg [] = Ok bs"
  using assms(2) wire_codec.whole_dec_iff [OF prio_protocol_laws.TaskConfig_wire [OF assms(1)]
      prio_protocol_laws.whole_TaskConfig [OF assms(1)]]
  by (auto simp: get_taskprov_task_config_def split: option.splits if_splits)

lemma message_advertised:
  assumes "prio_protocol_laws P" and "wf_TaskConfig msg"
    and "TaskConfig_encode_with_param P (req_version req) msg [] = Ok bs"
    and "req_taskprov req = Some adv" and "decode_base64url_vec E adv = Some bs" and "compute_task_id E bs = task_id"
  shows "get_taskprov_task_config P E req task_id = Ok (Some msg)"
  using assms(2-6) wire_codec.whole_dec_iff [OF prio_protocol_laws.TaskConfig_wire [OF assms(1)]
      prio_protocol_laws.whole_TaskConfig [OF assms(1)]]
  by (simp add: get_taskprov_task_config_def)

end

section \<open>An instance\<close>

text \<open>
  The witnesses evaluate on a digest that is the end of the message, padded to 32 bytes, on HKDF that repeats
  its inputs, and on the identity for base64url and URLs.
\<close>

definition plain_string :: "bytes \<Rightarrow> string" where
  "plain_string bs = map (\<lambda>b. char_of (unat b)) bs"

definition example_taskprov_ext :: taskprov_ext where
  "example_taskprov_ext = \<lparr>sha256 = (\<lambda>bs. take 32 (rev bs @ replicate 32 7)),
     hkdf_extract = (\<lambda>salt secret. salt @ secret),
     hkdf_expand = (\<lambda>prk info n. take n (info @ prk)),
     decode_base64url_vec = (\<lambda>s. Some (as_bytes s)), encode_base64url = plain_string,
     from_utf8 = (\<lambda>bs. Some (plain_string bs)), Url_parse = Some\<rparr>"

definition example_task_message :: "DpConfig \<Rightarrow> TaskConfig" where
  "example_task_message dp = \<lparr>task_info = [104, 105], tc_leader_url = \<lparr>url_bytes = [108]\<rparr>,
     tc_helper_url = \<lparr>url_bytes = [104, 112]\<rparr>,
     tc_query_config = \<lparr>tq_time_precision = 60, max_batch_query_count = 1, tq_min_batch_size = 10,
       query_var = QVar_FixedSize 100\<rparr>,
     task_expiration = 5000,
     tc_vdaf_config = \<lparr>dp_config = dp, vdaf_var = Var_Prio2 9\<rparr>\<rparr>"

definition example_task_request :: "DpConfig \<Rightarrow> unit DapRequest" where
  "example_task_request dp = \<lparr>req_version = Latest, req_media_type = None, req_task_id = None,
     req_resource = Resource_Undefined, req_payload = [], req_sender_auth = None,
     req_taskprov = (case TaskConfig_encode_with_param be_protocol Latest (example_task_message dp) [] of
        Ok bs \<Rightarrow> Some (plain_string bs) | _ \<Rightarrow> None)\<rparr>"

definition example_task_id :: "DpConfig \<Rightarrow> TaskId" where
  "example_task_id dp = (case TaskConfig_encode_with_param be_protocol Latest (example_task_message dp) [] of
      Ok bs \<Rightarrow> compute_task_id example_taskprov_ext bs | _ \<Rightarrow> TaskId [])"

lemma as_bytes_plain_string: "as_bytes (plain_string bs) = bs"
proof -
  have "(of_char (char_of (unat b)) :: u8) = b" for b :: u8
    using unsigned_less [of b, where ?'a = nat]
    by (simp flip: of_nat_of_char [where ?'a = "8 word"])
  then show ?thesis
    by (simp add: as_bytes_def plain_string_def comp_def)
qed

interpretation plain: taskprov_laws example_taskprov_ext
  by unfold_locales (auto simp: example_taskprov_ext_def as_bytes_plain_string)

section \<open>Properties\<close>



text \<open>
  C18. An advertisement with a differential privacy mechanism is accepted, but the Leader's own
  advertisement names none: it is a different byte string, so that the Helper refuses it as belonging to
  another task unless the digests collide.
\<close>

theorem advertisement_loses_mechanism:
  assumes "prio_protocol_laws P" and "taskprov_laws E"
    and "get_taskprov_task_config P E req task_id = Ok (Some msg)"
    and "NeedsOptIn_try_from_taskprov V E (req_version req) task_id msg key collector = Ok needs"
    and "dp_config (tc_vdaf_config msg) \<noteq> Dp_None"
    and "as_bytes (needs_leader_url needs) = url_bytes (tc_leader_url msg)"
    and "as_bytes (needs_helper_url needs) = url_bytes (tc_helper_url msg)"
    and "resolve_taskprove_advertisement P E (into_opted_in needs param) = Ok (Some adv)"
    and "req_taskprov req' = Some adv"
  shows "\<exists>bs bs'. Option.bind (req_taskprov req) (decode_base64url_vec E) = Some bs \<and> compute_task_id E bs = task_id \<and>
    decode_base64url_vec E adv = Some bs' \<and> bs' \<noteq> bs \<and>
    (compute_task_id E bs' \<noteq> task_id \<longrightarrow>
     resolve_advertised_task_config P V E req' key collector task_id = Err (UnrecognizedTask task_id))"
proof -
  have codec: "prio_codec_laws P"
    using assms(1) by (simp add: prio_protocol_laws_def prio_messages_laws_def)
  let ?msg = "msg\<lparr>tc_vdaf_config := (tc_vdaf_config msg)\<lparr>dp_config := Dp_None\<rparr>\<rparr>"
  note whole = wire_codec.whole_dec_iff [OF prio_protocol_laws.TaskConfig_wire [OF assms(1)]
      prio_protocol_laws.whole_TaskConfig [OF assms(1)], of "req_version req"]
  obtain bs where bs: "Option.bind (req_taskprov req) (decode_base64url_vec E) = Some bs" "compute_task_id E bs = task_id"
    "wf_TaskConfig msg" "TaskConfig_encode_with_param P (req_version req) msg [] = Ok bs"
    using taskprov_laws.advertised_message [OF assms(2,1,3)] by auto
  have "version (into_opted_in needs param) = req_version req"
    "config_method (into_opted_in needs param) = Method_Taskprov (Some (task_info msg))"
    using assms(4) by (auto simp: NeedsOptIn_try_from_taskprov_def into_opted_in_def Let_def split: if_splits)
  then obtain bs' where bs': "TaskConfig_encode_with_param P (req_version req) ?msg [] = Ok bs'" "adv = encode_base64url E bs'"
    using assms(8) TaskConfig_again [OF assms(4,6,7), of param]
    by (auto simp: resolve_taskprove_advertisement_def prio_codec_laws.get_encoded [OF codec])
  have wf: "wf_TaskConfig ?msg"
    using bs(3) by (simp add: wf_TaskConfig_def wf_DpConfig_def)
  have "?msg \<noteq> msg"
    using assms(5) by (metis TaskprovVdafConfig.select_convs(1) TaskConfig.select_convs(6) TaskprovVdafConfig.update_convs(1) TaskConfig.surjective TaskprovVdafConfig.surjective TaskConfig.update_convs(6))
  then have "bs' \<noteq> bs"
    using whole [of bs msg] whole [of bs' ?msg] bs(3,4) bs'(1) wf by auto
  moreover have decoded: "decode_base64url_vec E adv = Some bs'"
    using taskprov_laws.base64url [OF assms(2)] bs'(2) by simp
  ultimately show ?thesis
    using bs(1,2) assms(9)
    by (intro exI [of _ bs] exI [of _ bs'])
      (simp add: resolve_advertised_task_config_def get_taskprov_task_config_def)
qed

theorem advertisement_loses_mechanism_witness:
  "\<exists>needs adv.
     NeedsOptIn_try_from_taskprov example_vdafs example_taskprov_ext Latest (example_task_id (Dp_NotImplemented 2 [5]))
       (example_task_message (Dp_NotImplemented 2 [5])) [1] (collector_hpke_config example_task) = Ok needs \<and>
     resolve_taskprove_advertisement be_protocol example_taskprov_ext
       (into_opted_in needs \<lparr>opt_in_not_before = 3, opt_in_num_agg_span_shards = 2\<rparr>) = Ok (Some adv) \<and>
     req_taskprov (example_task_request (Dp_NotImplemented 2 [5])) \<noteq> Some adv"
proof -
  let ?dp = "Dp_NotImplemented 2 [5]"
  have "get_taskprov_task_config be_protocol example_taskprov_ext (example_task_request ?dp) (example_task_id ?dp) =
      Ok (Some (example_task_message ?dp))"
    by code_simp
  moreover have "case NeedsOptIn_try_from_taskprov example_vdafs example_taskprov_ext Latest (example_task_id ?dp)
      (example_task_message ?dp) [1] (collector_hpke_config example_task) of
      Ok needs \<Rightarrow> as_bytes (needs_leader_url needs) = [108] \<and> as_bytes (needs_helper_url needs) = [104, 112] \<and>
        is_ok (resolve_taskprove_advertisement be_protocol example_taskprov_ext
          (into_opted_in needs \<lparr>opt_in_not_before = 3, opt_in_num_agg_span_shards = 2\<rparr>))
    | _ \<Rightarrow> False"
    by code_simp
  then obtain needs where needs: "NeedsOptIn_try_from_taskprov example_vdafs example_taskprov_ext
      (req_version (example_task_request ?dp)) (example_task_id ?dp)
      (example_task_message ?dp) [1] (collector_hpke_config example_task) = Ok needs"
    "as_bytes (needs_leader_url needs) = url_bytes (tc_leader_url (example_task_message ?dp))"
    "as_bytes (needs_helper_url needs) = url_bytes (tc_helper_url (example_task_message ?dp))"
    "is_ok (resolve_taskprove_advertisement be_protocol example_taskprov_ext
          (into_opted_in needs \<lparr>opt_in_not_before = 3, opt_in_num_agg_span_shards = 2\<rparr>))"
    by (auto simp: example_task_message_def example_task_request_def split: result.splits)
  have "config_method (into_opted_in needs p) = Method_Taskprov (Some [104, 105])" for p
    using needs(1) by (auto simp: NeedsOptIn_try_from_taskprov_def into_opted_in_def Let_def example_task_message_def split: if_splits)
  then obtain adv where adv: "resolve_taskprove_advertisement be_protocol example_taskprov_ext
      (into_opted_in needs \<lparr>opt_in_not_before = 3, opt_in_num_agg_span_shards = 2\<rparr>) = Ok (Some adv)"
    using needs(4) by (auto simp: is_ok_iff resolve_taskprove_advertisement_def)
  have "dp_config (tc_vdaf_config (example_task_message ?dp)) \<noteq> Dp_None"
    by (simp add: example_task_message_def)
  from advertisement_loses_mechanism [OF bep.prio_protocol_laws_axioms plain.taskprov_laws_axioms calculation needs(1) this
      needs(2,3) adv, where req' = "(example_task_request ?dp)\<lparr>req_taskprov := Some adv\<rparr>"]
  have "req_taskprov (example_task_request ?dp) \<noteq> Some adv"
    by auto
  with needs(1) adv show ?thesis
    by (auto simp: example_task_request_def)
qed

end
