(* ===== verification/Storage_Proxy.thy ===== *)
theory Storage_Proxy
  imports Aggregate_Store Taskprov
begin

text \<open>
  The way from the server to its storage: the worker in front of the durable objects and the key-value
  namespace, crates/daphne-worker/src/storage_proxy, the wrapper of a durable object,
  crates/daphne-worker/src/durable/mod.rs, and the server's requests to durable objects,
  crates/daphne-server/src/storage_proxy_connection/mod.rs.

  The state is a \<open>world\<close>: the durable objects by name, the namespace, a clock in milliseconds, and what
  will go wrong. Every HTTP request of the server and every call of an object takes the next entry of
  its list of deliveries: the request may be lost, or it is executed and its response is lost. Every
  operation on the namespace takes the next entry of its list of failures. An empty list means that
  nothing goes wrong. An error of the object's handler is an error for the caller, as the runtime turns
  it into an exception. The values of the namespace have the type \<open>'k\<close>. The encodings of requests and
  responses between server, worker and object (capnp and JSON) are not modelled.
\<close>

section \<open>Parameters and state\<close>

record server_ext = taskprov_ext +
  hex_encode :: "bytes \<Rightarrow> string"
  url_join :: "Url \<Rightarrow> string \<Rightarrow> Url option"

datatype delivery = Delivered | Request_Lost | Response_Lost

record ('v, 'k) world =
  objects :: "string \<Rightarrow> 'v AggregateStore"
  alarms :: "string \<Rightarrow> nat option"
  gc_after_secs :: nat
  namespace :: "string \<Rightarrow> ('k \<times> Time option) option"
  trusted_token :: "BearerToken option"
  clock :: nat
  stub_faults :: "delivery list"
  kv_faults :: "bool list"
  http_faults :: "delivery list"

definition wait :: "nat \<Rightarrow> ('v, 'k, 'z) world_scheme \<Rightarrow> ('v, 'k, 'z) world_scheme" where
  "wait ms w = w\<lparr>clock := clock w + ms\<rparr>"

section \<open>Names of durable objects\<close>

function show_nat :: "nat \<Rightarrow> string" where
  "show_nat n = (if n < 10 then [digit n] else show_nat (n div 10) @ [digit n])"
  by auto
termination
  by (relation "measure id") auto

declare show_nat.simps [simp del]

definition DapBatchBucket_to_string :: "'z server_ext_scheme \<Rightarrow> DapBatchBucket \<Rightarrow> string" where
  "DapBatchBucket_to_string E bucket =
     (case bucket of
        Bucket_TimeInterval batch_window _ \<Rightarrow> ''window/'' @ show_nat (unat batch_window)
      | Bucket_FixedSize batch_id _ \<Rightarrow> ''batch/'' @ hex_encode E (BatchId_0 batch_id)) @
     (if DapBatchBucket_shard bucket > 0 then ''/shard/'' @ show_nat (DapBatchBucket_shard bucket) else [])"

definition durable_name_task :: "DapVersion \<Rightarrow> string \<Rightarrow> string" where
  "durable_name_task ver task_id_hex = DapVersion_as_ref ver @ ''/task/'' @ task_id_hex"

definition AggregateStore_name :: "'z server_ext_scheme \<Rightarrow> DapVersion \<Rightarrow> string \<Rightarrow> DapBatchBucket \<Rightarrow> string" where
  "AggregateStore_name E ver task_id_hex bucket =
     durable_name_task ver task_id_hex @ ''/'' @ DapBatchBucket_to_string E bucket"

section \<open>Calling a durable object\<close>

text \<open>Every call first moves the alarm that deletes the storage of the object.\<close>

definition should_cleanup_at :: "('v, 'k, 'z) world_scheme \<Rightarrow> nat" where
  "should_cleanup_at w = gc_after_secs w * 1000"

definition AggregateStore_fetch ::
  "('v, 'x) prio_vdafs_scheme \<Rightarrow> ('v, 'f, 'y) field_ext_scheme \<Rightarrow> string \<Rightarrow> 'v store_request \<Rightarrow>
   ('v store_response, worker_error, ('v, 'k, 'z) world_scheme) stateful" where
  "AggregateStore_fetch V F name req w =
     (let w = w\<lparr>alarms := (alarms w)(name \<mapsto> clock w + should_cleanup_at w)\<rparr>;
          (resp, obj) = AggregateStore_handle V F req (objects w name) in
      (resp, w\<lparr>objects := (objects w)(name := obj)\<rparr>))"

text \<open>The alarm deletes the storage; the fields of an object that is still in memory stay as they are.\<close>

definition AggregateStore_alarm :: "string \<Rightarrow> (unit, worker_error, ('v, 'k, 'z) world_scheme) stateful" where
  "AggregateStore_alarm name w =
     (Ok (), w\<lparr>objects := (objects w)(name := (objects w name)\<lparr>do_storage := Map.empty\<rparr>),
               alarms := (alarms w)(name := None)\<rparr>)"

fun next_delivery :: "delivery list \<Rightarrow> delivery \<times> delivery list" where
  "next_delivery [] = (Delivered, [])"
| "next_delivery (d # ds) = (d, ds)"

definition fetch_with_request ::
  "('v, 'x) prio_vdafs_scheme \<Rightarrow> ('v, 'f, 'y) field_ext_scheme \<Rightarrow> string \<Rightarrow> 'v store_request \<Rightarrow>
   ('v store_response, worker_error, ('v, 'k, 'z) world_scheme) stateful" where
  "fetch_with_request V F name req w =
     (let (d, ds) = next_delivery (stub_faults w); w = w\<lparr>stub_faults := ds\<rparr> in
      case d of
        Delivered \<Rightarrow> AggregateStore_fetch V F name req w
      | Request_Lost \<Rightarrow> (Err (WE_Internal ''Network connection lost.''), w)
      | Response_Lost \<Rightarrow>
          st_then (AggregateStore_fetch V F name req)
            (\<lambda>_. st_lift (Err (WE_Internal ''Network connection lost.''))) w)"

section \<open>Retrying\<close>

definition RETRY_DELAYS :: "nat list" where "RETRY_DELAYS = [100, 500, 1000, 3000]"

text \<open>The loop, with the delays that are left: one more attempt than delays.\<close>

fun retry_loop ::
  "(nat \<Rightarrow> ('a, 'e, ('v, 'k, 'z) world_scheme) stateful) \<Rightarrow> nat \<Rightarrow> nat list \<Rightarrow>
   ('a, 'e, ('v, 'k, 'z) world_scheme) stateful" where
  "retry_loop f attempt delays w = (case f attempt w of
      (Ok x, w') \<Rightarrow> (Ok x, w')
    | (Panic, w') \<Rightarrow> (Panic, w')
    | (Err e, w') \<Rightarrow>
        (case delays of
           [] \<Rightarrow> (Err e, w')
         | ms # delays \<Rightarrow> retry_loop f (attempt + 1) delays (wait ms w')))"

declare retry_loop.simps [simp del]

definition retry ::
  "(nat \<Rightarrow> ('a, 'e, ('v, 'k, 'z) world_scheme) stateful) \<Rightarrow> ('a, 'e, ('v, 'k, 'z) world_scheme) stateful" where
  "retry f = retry_loop f 1 RETRY_DELAYS"

text \<open>
  The handler of requests to durable objects. The \<open>retry\<close> flag of the request is not looked at: every
  request that fails is sent again.
\<close>

definition handle_do_request ::
  "('v, 'x) prio_vdafs_scheme \<Rightarrow> ('v, 'f, 'y) field_ext_scheme \<Rightarrow> string \<Rightarrow> 'v store_request \<Rightarrow>
   ('v store_response, worker_error, ('v, 'k, 'z) world_scheme) stateful" where
  "handle_do_request V F name req = retry (\<lambda>attempt. fetch_with_request V F name req)"

section \<open>Responses of the worker\<close>

datatype 'b http_response = Http_Response nat "'b option"

datatype proxy_error = PE_Serde | PE_Reqwest | PE_Http nat

definition Error_into_response ::
  "('b http_response, worker_error, 's) stateful \<Rightarrow> ('b http_response, 'e, 's) stateful" where
  "Error_into_response m s = (case m s of
      (Ok resp, s') \<Rightarrow> (Ok resp, s')
    | (Err e, s') \<Rightarrow> (Ok (Http_Response 500 None), s')
    | (Panic, s') \<Rightarrow> (Panic, s'))"

definition bearer_auth ::
  "BearerToken \<Rightarrow> ('b http_response, 'e, ('v, 'k, 'z) world_scheme) stateful \<Rightarrow>
   ('b http_response, 'e, ('v, 'k, 'z) world_scheme) stateful" where
  "bearer_auth token next w = (case trusted_token w of
      None \<Rightarrow> (Ok (Http_Response 500 None), w)
    | Some trusted \<Rightarrow>
        if \<not> constant_time_eq (as_bytes token) (as_bytes trusted) then (Ok (Http_Response 401 None), w)
        else next w)"

section \<open>Requests of the server\<close>

definition http_send ::
  "('b http_response, proxy_error, ('v, 'k, 'z) world_scheme) stateful \<Rightarrow>
   ('b http_response, proxy_error, ('v, 'k, 'z) world_scheme) stateful" where
  "http_send service w =
     (let (d, ds) = next_delivery (http_faults w); w = w\<lparr>http_faults := ds\<rparr> in
      case d of
        Delivered \<Rightarrow> service w
      | Request_Lost \<Rightarrow> (Err PE_Reqwest, w)
      | Response_Lost \<Rightarrow> st_then service (\<lambda>_. st_lift (Err PE_Reqwest)) w)"

definition is_success :: "nat \<Rightarrow> bool" where
  "is_success status \<longleftrightarrow> 200 \<le> status \<and> status < 300"

definition durable_send ::
  "('v, 'x) prio_vdafs_scheme \<Rightarrow> ('v, 'f, 'y) field_ext_scheme \<Rightarrow> BearerToken \<Rightarrow> string \<Rightarrow> 'v store_request \<Rightarrow>
   ('v store_response, proxy_error, ('v, 'k, 'z) world_scheme) stateful" where
  "durable_send V F auth_token name req =
     st_then (http_send (bearer_auth auth_token (Error_into_response
         (st_then (handle_do_request V F name req) (\<lambda>resp. st_return (Http_Response 200 (Some resp))))))) (\<lambda>resp.
     case resp of Http_Response status body \<Rightarrow>
       if is_success status then st_lift (ok_or body PE_Reqwest) else st_lift (Err (PE_Http status)))"

section \<open>The namespace\<close>

definition kv_operation :: "('a, worker_error, ('v, 'k, 'z) world_scheme) stateful \<Rightarrow>
   ('a, worker_error, ('v, 'k, 'z) world_scheme) stateful" where
  "kv_operation m w = (case kv_faults w of
      True # rest \<Rightarrow> (Err (WE_Internal ''KV error''), w\<lparr>kv_faults := rest\<rparr>)
    | False # rest \<Rightarrow> m (w\<lparr>kv_faults := rest\<rparr>)
    | [] \<Rightarrow> m w)"

definition unix_secs :: "('v, 'k, 'z) world_scheme \<Rightarrow> Time" where
  "unix_secs w = of_nat (clock w div 1000)"

text \<open>An entry is there until its expiration time.\<close>

definition kv_lookup :: "string \<Rightarrow> ('v, 'k, 'z) world_scheme \<Rightarrow> 'k option" where
  "kv_lookup key w = (case namespace w key of
      Some (value, None) \<Rightarrow> Some value
    | Some (value, Some expiration) \<Rightarrow> if unix_secs w < expiration then Some value else None
    | None \<Rightarrow> None)"

definition at_least_60s_from_now :: "('v, 'k, 'z) world_scheme \<Rightarrow> Time \<Rightarrow> Time" where
  "at_least_60s_from_now w expiration = max expiration (unix_secs w + 65)"

definition kv_get :: "string \<Rightarrow> ('k http_response, worker_error, ('v, 'k, 'z) world_scheme) stateful" where
  "kv_get key =
     st_then (retry (\<lambda>_. kv_operation (st_get (kv_lookup key)))) (\<lambda>bytes.
     case bytes of
       Some bytes \<Rightarrow> st_return (Http_Response 200 (Some bytes))
     | None \<Rightarrow> st_return (Http_Response 404 None))"

text \<open>The error of a write is logged and dropped. The expiration is fixed before the first attempt.\<close>

definition kv_put_bytes ::
  "Time option \<Rightarrow> string \<Rightarrow> 'k \<Rightarrow> ('k http_response, worker_error, ('v, 'k, 'z) world_scheme) stateful" where
  "kv_put_bytes expiration key body w =
     (let expiration = map_option (at_least_60s_from_now w) expiration in
      case retry (\<lambda>_. kv_operation (st_modify (\<lambda>w. w\<lparr>namespace := (namespace w)(key \<mapsto> (body, expiration))\<rparr>))) w of
        (Panic, w') \<Rightarrow> (Panic, w')
      | (_, w') \<Rightarrow> (Ok (Http_Response 200 None), w'))"

definition kv_put ::
  "Time option \<Rightarrow> string \<Rightarrow> 'k \<Rightarrow> ('k http_response, worker_error, ('v, 'k, 'z) world_scheme) stateful" where
  "kv_put expiration key body = kv_put_bytes expiration key body"

definition kv_put_if_not_exists ::
  "Time option \<Rightarrow> string \<Rightarrow> 'k \<Rightarrow> ('k http_response, worker_error, ('v, 'k, 'z) world_scheme) stateful" where
  "kv_put_if_not_exists expiration key body =
     st_then (retry (\<lambda>_. kv_operation (st_get (kv_lookup key)))) (\<lambda>listed.
     if listed \<noteq> None then st_return (Http_Response 409 None)
     else kv_put_bytes expiration key body)"

definition kv_delete :: "string \<Rightarrow> ('k http_response, worker_error, ('v, 'k, 'z) world_scheme) stateful" where
  "kv_delete key =
     st_then (retry (\<lambda>_. kv_operation (st_modify (\<lambda>w. w\<lparr>namespace := (namespace w)(key := None)\<rparr>)))) (\<lambda>_.
     st_return (Http_Response 200 None))"

end
