(* ===== verification/Aggregate_Store_Laws.thy ===== *)
theory Aggregate_Store_Laws
  imports Aggregate_Store
begin

text \<open>
  The aggregate store refines its contract: a set of report identifiers, an aggregate share and a flag.
  The object may lose its caches at any time; what it answers is the same, because the caches agree with
  the storage and the storage can be read back. The relation \<open>coherent\<close> links an object with the abstract
  state.
\<close>

section \<open>Specification\<close>

record 'v store_spec =
  spec_ids :: "ReportId set"
  spec_share :: "'v DapAggregateShare"
  spec_collected :: bool

definition spec_empty :: "'v store_spec" where
  "spec_empty = \<lparr>spec_ids = {}, spec_share = DapAggregateShare_default, spec_collected = False\<rparr>"

definition spec_merge ::
  "('v, 'x) prio_vdafs_scheme \<Rightarrow> 'v AggregateStoreMergeReq \<Rightarrow> 'v store_spec \<Rightarrow>
   (AggregateStoreMergeResp \<times> 'v store_spec) option" where
  "spec_merge V req a =
     (let repeats = remdups (filter (\<lambda>i. i \<in> spec_ids a) (contained_reports req)) in
      if spec_collected a then Some (Merge_AlreadyCollected, a)
      else if \<not> skip_replay_protection req \<and> repeats \<noteq> []
      then Some (if length repeats = unat (report_count (agg_share_delta req)) then Merge_Ok
                 else Merge_ReplaysDetected repeats, a)
      else case DapAggregateShare_merge V (spec_share a) (agg_share_delta req) of
          Ok share \<Rightarrow> Some (Merge_Ok, a\<lparr>spec_share := share,
            spec_ids := (if skip_replay_protection req then {} else set (contained_reports req)) \<union> spec_ids a\<rparr>)
        | _ \<Rightarrow> None)"

definition spec_handle ::
  "('v, 'x) prio_vdafs_scheme \<Rightarrow> 'v store_request \<Rightarrow> 'v store_spec \<Rightarrow> ('v store_response \<times> 'v store_spec) option" where
  "spec_handle V req a = (case req of
      Req_GetMerged \<Rightarrow> Some (Resp_Ids (spec_ids a), a)
    | Req_Merge merge \<Rightarrow> map_option (apfst Resp_Merge) (spec_merge V merge a)
    | Req_Get \<Rightarrow> Some (Resp_Share (spec_share a), a)
    | Req_MarkCollected \<Rightarrow> Some (Resp_Unit, a\<lparr>spec_collected := True\<rparr>)
    | Req_CheckCollected \<Rightarrow> Some (Resp_Bool (spec_collected a), a)
    | Req_Unknown \<Rightarrow> None)"

text \<open>Cutting a list into pieces of a given length, the last one possibly shorter.\<close>

function chunk_list :: "nat \<Rightarrow> 'a list \<Rightarrow> 'a list list" where
  "chunk_list n xs = (if n = 0 \<or> xs = [] then [] else take n xs # chunk_list n (drop n xs))"
  by auto
termination
  by (relation "measure (length \<circ> snd)") auto

declare chunk_list.simps [simp del]

text \<open>The values at a sequence of keys are the chunks, as far as they go.\<close>

definition chunks_at :: "string list \<Rightarrow> storage \<Rightarrow> bytes list \<Rightarrow> bool" where
  "chunks_at K st cs \<longleftrightarrow> length cs \<le> length K \<and>
     (\<forall>n < length K. st (K ! n) = (if n < length cs then Some (Stored_Bytes (cs ! n)) else None))"

definition report_ids_keys :: "string list" where
  "report_ids_keys = map report_ids_key [0..<256]"

definition id_bytes :: "ReportId list \<Rightarrow> bytes" where
  "id_bytes l = concat (map ReportId_0 l)"

text \<open>
  What is in the storage: the identifiers, the share and the flag. A share with data has at least one
  byte, so that its chunks tell it from a share without data.
\<close>

definition stored_key_count :: "storage \<Rightarrow> u8" where
  "stored_key_count st = (case st KEY_COUNT_KEY of Some (Stored_U8 n) \<Rightarrow> n | _ \<Rightarrow> DEFAULT_REPORT_ID_CHUNK_KEY_COUNT)"

definition ids_stored :: "storage \<Rightarrow> ReportId set \<Rightarrow> bool" where
  "ids_stored st ids \<longleftrightarrow> (\<exists>l. set l = ids \<and> distinct l \<and>
     chunks_at report_ids_keys st (chunk_list MAX_CHUNK_SIZE (id_bytes l)) \<and>
     length (chunk_list MAX_CHUNK_SIZE (id_bytes l)) \<le> unat (stored_key_count st)) \<and>
   (\<forall>x. st KEY_COUNT_KEY = Some x \<longrightarrow> (\<exists>n. x = Stored_U8 n))"

definition data_bytes :: "('v, 'x) prio_vdafs_scheme \<Rightarrow> 'v DapAggregateShare \<Rightarrow> bytes" where
  "data_bytes V share = (case agg_data share of
      None \<Rightarrow> []
    | Some d \<Rightarrow> (case VdafAggregateShare_encode V d [] of Ok b \<Rightarrow> b | _ \<Rightarrow> []))"

definition good_data ::
  "('v, 'x) prio_vdafs_scheme \<Rightarrow> ('v VdafAggregateShare \<Rightarrow> bool) \<Rightarrow> 'v DapAggregateShare \<Rightarrow> bool" where
  "good_data V good share = (case agg_data share of None \<Rightarrow> True | Some d \<Rightarrow> good d \<and> data_bytes V share \<noteq> [])"

definition share_stored ::
  "('v, 'x) prio_vdafs_scheme \<Rightarrow> ('v VdafAggregateShare \<Rightarrow> bool) \<Rightarrow> storage \<Rightarrow> 'v DapAggregateShare \<Rightarrow> bool" where
  "share_stored V good st share \<longleftrightarrow>
     chunks_at agg_share_shard_keys st (chunk_list MAX_CHUNK_SIZE (data_bytes V share)) \<and>
     good_data V good share \<and>
     (st METADATA_KEY = None \<and> share = DapAggregateShare_default \<or>
      st METADATA_KEY = Some (Stored_Meta (from_agg_share share)))"

definition coherent ::
  "('v, 'x) prio_vdafs_scheme \<Rightarrow> ('v VdafAggregateShare \<Rightarrow> bool) \<Rightarrow> 'v AggregateStore \<Rightarrow> 'v store_spec \<Rightarrow> bool" where
  "coherent V good s a \<longleftrightarrow>
     (\<forall>i \<in> spec_ids a. length (ReportId_0 i) = 16) \<and>
     ids_stored (do_storage s) (spec_ids a) \<and> share_stored V good (do_storage s) (spec_share a) \<and>
     storage_get_bool_or_default (do_storage s) COLLECTED_KEY = Ok (spec_collected a) \<and>
     (\<forall>l. report_ids s = Some l \<longrightarrow> set l = spec_ids a \<and> distinct l) \<and>
     agg_share s \<in> {None, Some (spec_share a)} \<and>
     collected s \<in> {None, Some (spec_collected a)} \<and>
     report_id_chunk_key_count s \<in> {None, Some (stored_key_count (do_storage s))}"

text \<open>The runtime drops the object and creates it anew from its storage.\<close>

definition evict :: "'v AggregateStore \<Rightarrow> 'v AggregateStore" where
  "evict s = with_state_and_env (do_storage s)"

text \<open>What fits into the keys: 255 chunks of identifiers and 8 chunks of share.\<close>

definition fits :: "('v, 'x) prio_vdafs_scheme \<Rightarrow> 'v store_spec \<Rightarrow> bool" where
  "fits V a \<longleftrightarrow> card (spec_ids a) * 16 \<le> 255 * 128000 \<and> length (data_bytes V (spec_share a)) \<le> 8 * 128000"

definition elem_size :: "VdafKind \<Rightarrow> nat" where
  "elem_size kind = (case kind of Kind_Field32 \<Rightarrow> 4 | Kind_Field64 \<Rightarrow> 8 | Kind_Field128 \<Rightarrow> 16)"

text \<open>A request as the server sends it: identifiers of 16 bytes, and no share of an empty vector.\<close>

definition wf_request ::
  "('v, 'x) prio_vdafs_scheme \<Rightarrow> ('v VdafAggregateShare \<Rightarrow> bool) \<Rightarrow> 'v store_request \<Rightarrow> bool" where
  "wf_request V good req = (case req of
      Req_Merge m \<Rightarrow> list_all (\<lambda>i. length (ReportId_0 i) = 16) (contained_reports m) \<and>
        good_data V good (agg_share_delta m)
    | _ \<Rightarrow> True)"

text \<open>
  The life of an object: requests in any order, and between them the runtime may drop the object. A run
  of the specification ends when a merge fails or the storage is full.
\<close>

datatype 'v store_event = Handle "'v store_request" | Evict

fun run_store ::
  "('v, 'x) prio_vdafs_scheme \<Rightarrow> ('v, 'f, 'z) field_ext_scheme \<Rightarrow> 'v store_event list \<Rightarrow> 'v AggregateStore \<Rightarrow>
   ('v store_response, worker_error) result list \<times> 'v AggregateStore" where
  "run_store V F [] s = ([], s)"
| "run_store V F (Evict # es) s = run_store V F es (evict s)"
| "run_store V F (Handle r # es) s =
     (let (res, s') = AggregateStore_handle V F r s; (rest, s'') = run_store V F es s' in (res # rest, s''))"

fun requests :: "'v store_event list \<Rightarrow> 'v store_request list" where
  "requests [] = []"
| "requests (Evict # es) = requests es"
| "requests (Handle r # es) = r # requests es"

fun spec_run ::
  "('v, 'x) prio_vdafs_scheme \<Rightarrow> 'v store_request list \<Rightarrow> 'v store_spec \<Rightarrow>
   ('v store_response list \<times> 'v store_spec) option" where
  "spec_run V [] a = Some ([], a)"
| "spec_run V (r # rs) a = (case spec_handle V r a of
      None \<Rightarrow> None
    | Some (resp, a') \<Rightarrow> if fits V a' then map_option (apfst (Cons resp)) (spec_run V rs a') else None)"

text \<open>
  A merge request of an aggregator: the share and the identifiers of the same reports, each once, with
  the check for replays. A merge is acknowledged when it is answered with \<open>Merge_Ok\<close>.
\<close>

definition merges_reports ::
  "('v, 'x) prio_vdafs_scheme \<Rightarrow> 'y dap_ext_scheme \<Rightarrow>
   ('v AggregateStoreMergeReq \<Rightarrow> (ReportId \<times> Time \<times> 'v VdafAggregateShare) list) \<Rightarrow> 'v store_request \<Rightarrow> bool" where
  "merges_reports V E R req = (case req of
      Req_Merge m \<Rightarrow> \<not> skip_replay_protection m \<and> share_of V E (R m) = Ok (agg_share_delta m) \<and>
        contained_reports m = map fst (R m) \<and> distinct (contained_reports m) \<and> length (R m) < 2 ^ 64
    | _ \<Rightarrow> True)"

definition acknowledged ::
  "'v store_request list \<Rightarrow> 'v store_response list \<Rightarrow> 'v AggregateStoreMergeReq set" where
  "acknowledged reqs resps = {m. (Req_Merge m, Resp_Merge Merge_Ok) \<in> set (zip reqs resps)}"

definition accounted ::
  "('v, 'x) prio_vdafs_scheme \<Rightarrow> 'y dap_ext_scheme \<Rightarrow> (ReportId \<times> Time \<times> 'v VdafAggregateShare) list \<Rightarrow>
   'v store_spec \<Rightarrow> bool" where
  "accounted V E rs a \<longleftrightarrow>
     share_of V E rs = Ok (spec_share a) \<and> distinct (map fst rs) \<and> set (map fst rs) = spec_ids a"

section \<open>Chunks\<close>

lemma chunk_list_simps [simp]: "chunk_list n [] = []" "chunk_list 0 xs = []"
  by (simp_all add: chunk_list.simps)

lemma concat_chunk_list: "n \<noteq> 0 \<Longrightarrow> concat (chunk_list n xs) = xs"
  by (induction n xs rule: chunk_list.induct) (subst chunk_list.simps, simp)

lemma length_chunk_list: "n \<noteq> 0 \<Longrightarrow> length (chunk_list n xs) = div_ceil (length xs) n"
proof (induction n xs rule: chunk_list.induct)
  case (1 n xs)
  show ?case
  proof (cases "xs = []")
    case False
    have "div_ceil (length xs) n = Suc (div_ceil (length xs - n) n)"
      using \<open>n \<noteq> 0\<close> False
      by (cases "length xs < n") (auto simp: div_ceil_def le_div_geq le_mod_geq not_less)
    with 1 False show ?thesis
      by (subst chunk_list.simps) simp
  qed (simp add: div_ceil_def)
qed

lemma chunk_list_concat:
  assumes "\<And>x. x \<in> set xs \<Longrightarrow> length (f x) = z" and "z \<noteq> 0" and "q \<noteq> 0"
  shows "chunk_list (q * z) (concat (map f xs)) = map (\<lambda>ys. concat (map f ys)) (chunk_list q xs)"
  using assms(1)
proof (induction q xs rule: chunk_list.induct)
  case (1 q xs)
  have len: "length (concat (map f ys)) = length ys * z" if "set ys \<subseteq> set xs" for ys
    using that 1(2) by (induction ys) auto
  have take: "take (n * z) (concat (map f ys)) = concat (map f (take n ys))"
    "drop (n * z) (concat (map f ys)) = concat (map f (drop n ys))" if "set ys \<subseteq> set xs" for n ys
    using that 1(2) by (induction ys arbitrary: n) (auto simp: take_Cons drop_Cons split: nat.splits)
  show ?case
  proof (cases "xs = [] \<or> q = 0")
    case False
    then have "concat (map f xs) \<noteq> []"
      using len [of xs] \<open>z \<noteq> 0\<close> by (metis length_0_conv mult_is_0 order_refl)
    with False \<open>z \<noteq> 0\<close> have "chunk_list (q * z) (concat (map f xs)) =
        concat (map f (take q xs)) # chunk_list (q * z) (concat (map f (drop q xs)))"
      using take [of xs q] by (subst chunk_list.simps) simp
    moreover have "chunk_list q xs = take q xs # chunk_list q (drop q xs)"
      using False by (subst chunk_list.simps) simp
    moreover have "chunk_list (q * z) (concat (map f (drop q xs))) =
        map (\<lambda>ys. concat (map f ys)) (chunk_list q (drop q xs))"
      using False 1(2) by (intro 1(1)) (auto dest: in_set_dropD)
    ultimately show ?thesis
      by simp
  qed auto
qed

lemma chunks_exact_concat:
  assumes "\<And>x. x \<in> set xs \<Longrightarrow> length (f x) = z" and "z \<noteq> 0"
  shows "chunks_exact z (concat (map f xs)) = map f xs"
  using assms by (induction xs) (simp_all add: chunks_exact.simps [of z])

lemma shard_bytes_upds:
  "length keys = length (chunk_list MAX_CHUNK_SIZE (drop base bytes)) \<Longrightarrow>
   shard_bytes keys bytes base obj =
   obj(keys [\<mapsto>] map Stored_Bytes (chunk_list MAX_CHUNK_SIZE (drop base bytes)))"
proof (induction keys arbitrary: base obj)
  case (Cons key keys)
  then have ne: "drop base bytes \<noteq> []"
    by (auto simp: chunk_list.simps)
  define stop where "stop = min (base + MAX_CHUNK_SIZE) (length bytes)"
  have piece: "take (stop - base) (drop base bytes) = take MAX_CHUNK_SIZE (drop base bytes)"
    using ne by (auto simp: stop_def min_def)
  have rest: "drop stop bytes = drop MAX_CHUNK_SIZE (drop base bytes)"
    by (cases "base + MAX_CHUNK_SIZE \<le> length bytes") (simp_all add: stop_def min_def add.commute)
  have chunks: "chunk_list MAX_CHUNK_SIZE (drop base bytes) =
      take MAX_CHUNK_SIZE (drop base bytes) # chunk_list MAX_CHUNK_SIZE (drop stop bytes)"
    using ne unfolding rest by (subst chunk_list.simps) (simp add: MAX_CHUNK_SIZE_def)
  have "length keys = length (chunk_list MAX_CHUNK_SIZE (drop stop bytes))"
    using Cons.prems by (simp add: chunks)
  from Cons.IH [OF this] show ?case
    unfolding shard_bytes.simps Let_def stop_def [symmetric] piece chunks list.map map_upds_Cons .
qed simp

lemma shard_bytes_to_object_Ok:
  assumes "length (chunk_list MAX_CHUNK_SIZE bytes) \<le> length keys" and "length keys < 256"
  shows "shard_bytes_to_object keys bytes obj =
    Ok (obj(take (length (chunk_list MAX_CHUNK_SIZE bytes)) keys [\<mapsto>] map Stored_Bytes (chunk_list MAX_CHUNK_SIZE bytes)))"
proof -
  let ?n = "div_ceil (length bytes) MAX_CHUNK_SIZE"
  have n: "length (chunk_list MAX_CHUNK_SIZE bytes) = ?n"
    by (rule length_chunk_list) (simp add: MAX_CHUNK_SIZE_def)
  then have "?n < 256"
    using assms by simp
  then have "unat (of_nat ?n :: u8) = ?n"
    by (simp add: unat_of_nat)
  then show ?thesis
    using assms n \<open>?n < 256\<close> shard_bytes_upds [of "take ?n keys" 0 bytes obj]
    by (simp add: shard_bytes_to_object_def number_of_chunks_needed_for_def Let_def)
qed

section \<open>Reading chunks back\<close>

lemma chunks_at_take:
  "chunks_at K st cs \<Longrightarrow> length cs \<le> n \<Longrightarrow> chunks_at (take n K) st cs"
  by (simp add: chunks_at_def)

lemma js_map_to_chunks_at:
  assumes "chunks_at K st cs" and "\<And>k. k \<in> set K \<Longrightarrow> m k = st k"
  shows "js_map_to_chunks K m = Ok cs"
proof -
  let ?n = "length cs"
  have m: "m (K ! n) = st (K ! n)" if "n < length K" for n
    using assms(2) that by simp
  have K: "filter (\<lambda>k. m k \<noteq> None) K = take ?n K"
  proof -
    have "filter (\<lambda>k. m k \<noteq> None) (take ?n K) = take ?n K" "filter (\<lambda>k. m k \<noteq> None) (drop ?n K) = []"
      using assms(1) by (auto simp: chunks_at_def m in_set_conv_nth filter_id_conv filter_empty_conv)
    then show ?thesis
      by (metis append_Nil2 append_take_drop_id filter_append)
  qed
  have "list_all2 (\<lambda>k c. m k = Some (Stored_Bytes c)) (take ?n K) cs"
    using assms(1) by (auto simp: chunks_at_def m list_all2_conv_all_nth)
  then show ?thesis
    unfolding js_map_to_chunks_def K try_map_Ok_iff by (rule list_all2_mono) simp
qed

lemma map_upds_nth:
  "distinct ks \<Longrightarrow> length ks = length vs \<Longrightarrow> n < length ks \<Longrightarrow> (m(ks [\<mapsto>] vs)) (ks ! n) = Some (vs ! n)"
proof (induction ks arbitrary: m vs n)
  case (Cons k ks)
  then show ?case
    by (cases vs; cases n) auto
qed simp

lemma chunks_at_upds:
  assumes "chunks_at K st cs" and "distinct K" and "length cs \<le> length cs'" "length cs' \<le> length K"
    and "\<And>k. k \<in> set K \<Longrightarrow> st' k = (st(take (length cs') K [\<mapsto>] map Stored_Bytes cs')) k"
  shows "chunks_at K st' cs'"
proof -
  have "(st(take (length cs') K [\<mapsto>] map Stored_Bytes cs')) (K ! n) =
      (if n < length cs' then Some (Stored_Bytes (cs' ! n)) else None)" if "n < length K" for n
  proof (cases "n < length cs'")
    case True
    then show ?thesis
      using map_upds_nth [of "take (length cs') K" "map Stored_Bytes cs'" n st] assms(2,4) by simp
  next
    case False
    have "K ! n \<notin> set (take (length cs') K)"
      using False that assms(2) by (auto simp: in_set_conv_nth nth_eq_iff_index_eq)
    with False that assms(1,3) show ?thesis
      by (simp add: chunks_at_def)
  qed
  with assms(4,5) show ?thesis
    by (simp add: chunks_at_def)
qed

lemma chunks_at_other:
  "chunks_at K st cs \<Longrightarrow> (\<And>k. k \<in> set K \<Longrightarrow> st' k = st k) \<Longrightarrow> chunks_at K st' cs"
  by (simp add: chunks_at_def)

section \<open>Keys\<close>

lemma of_char_digit: "(of_char (digit n) :: nat) = 48 + n mod 10"
proof -
  have "n mod 10 < 10"
    by simp
  then have "48 + n mod 10 < 256"
    by linarith
  then show ?thesis
    by (simp add: digit_def)
qed

lemma digit_eq_iff: "digit a = digit b \<longleftrightarrow> a mod 10 = b mod 10"
  using of_char_digit [of a] of_char_digit [of b] by (metis add_left_cancel digit_def)

lemma three_digits:
  assumes "n < 1000"
  shows "n div 100 mod 10 * 100 + n div 10 mod 10 * 10 + n mod 10 = (n :: nat)"
proof -
  have "n div 100 mod 10 = n div 100" "n div 10 div 10 = n div 100"
    using assms by (simp_all flip: div_mult2_eq)
  then show ?thesis
    using div_mult_mod_eq [of n 10] div_mult_mod_eq [of "n div 10" 10] by linarith
qed

lemma report_ids_key_inj:
  assumes "m < 1000" "n < 1000" "report_ids_key m = report_ids_key n"
  shows "m = n"
proof -
  have digits: "m div 100 mod 10 = n div 100 mod 10" "m div 10 mod 10 = n div 10 mod 10" "m mod 10 = n mod 10"
    using assms(3) by (simp_all add: report_ids_key_def format_03_def digit_eq_iff)
  from three_digits [OF assms(1), unfolded digits] three_digits [OF assms(2)] show ?thesis
    by (rule trans [OF sym])
qed

lemma distinct_report_ids_keys: "distinct report_ids_keys"
  by (auto simp: report_ids_keys_def distinct_map inj_on_def intro: report_ids_key_inj)

lemma distinct_shard_keys: "distinct agg_share_shard_keys" "length agg_share_shard_keys = 8"
  by (simp_all add: agg_share_shard_keys_def)

lemma keys_disjoint:
  "set report_ids_keys \<inter> set (agg_share_shard_keys @ [METADATA_KEY, COLLECTED_KEY, KEY_COUNT_KEY]) = {}"
  "set agg_share_shard_keys \<inter> {METADATA_KEY, COLLECTED_KEY, KEY_COUNT_KEY} = {}"
  "distinct [METADATA_KEY, COLLECTED_KEY, KEY_COUNT_KEY]"
  by (auto simp: report_ids_keys_def report_ids_key_def agg_share_shard_keys_def METADATA_KEY_def
      COLLECTED_KEY_def KEY_COUNT_KEY_def)

section \<open>Reading back\<close>

lemma id_bytes_length: "\<forall>i \<in> set l. length (ReportId_0 i) = 16 \<Longrightarrow> length (id_bytes l) = length l * 16"
  by (induction l) (auto simp: id_bytes_def)

text \<open>The elements of a share, as the crate \<open>prio\<close> encodes them, and the operations of the storage.\<close>

locale share_storage_laws =
  fixes V :: "('v, 'x) prio_vdafs_scheme"
    and F :: "('v, 'f, 'z) field_ext_scheme"
    and elem_bytes :: "VdafKind \<Rightarrow> 'f \<Rightarrow> bytes"
    and valid :: "VdafKind \<Rightarrow> 'f \<Rightarrow> bool"
    and elems :: "'v VdafAggregateShare \<Rightarrow> 'f list"
    and good :: "'v VdafAggregateShare \<Rightarrow> bool"
  assumes elem_length: "valid kind x \<Longrightarrow> length (elem_bytes kind x) = elem_size kind"
    and elem_decode: "field_decode F kind c = Ok (x, c') \<longleftrightarrow> valid kind x \<and> reads c (elem_bytes kind x) c'"
    and good_elems: "good d \<Longrightarrow> x \<in> set (elems d) \<Longrightarrow> valid (share_kind d) x"
    and encode_elems: "good d \<Longrightarrow>
      VdafAggregateShare_encode V d bs = Ok (bs @ concat (map (elem_bytes (share_kind d)) (elems d)))"
    and from_elems: "good d \<Longrightarrow> kind_share (share_kind d) (AggregateShare_from_vec F (share_kind d) (elems d)) = d"
    and merge32: "\<lbrakk>good (Field32 u); good (Field32 v); Field32_merge V u v = Ok w\<rbrakk> \<Longrightarrow>
      good (Field32 w) \<and> length (elems (Field32 w)) = length (elems (Field32 u))"
    and merge64: "\<lbrakk>good (Field64 u); good (Field64 v); Field64_merge V u v = Ok w\<rbrakk> \<Longrightarrow>
      good (Field64 w) \<and> length (elems (Field64 w)) = length (elems (Field64 u))"
    and merge128: "\<lbrakk>good (Field128 u); good (Field128 v); Field128_merge V u v = Ok w\<rbrakk> \<Longrightarrow>
      good (Field128 w) \<and> length (elems (Field128 w)) = length (elems (Field128 u))"
    and whole_id: "decodes_whole (get_decoded_ReportId F)"
    and encoded_share: "get_encoded_share F e = e []"
begin

lemma data_bytes_Some:
  "agg_data share = Some d \<Longrightarrow> good d \<Longrightarrow>
   data_bytes V share = concat (map (elem_bytes (share_kind d)) (elems d))"
  by (simp add: data_bytes_def encode_elems)

lemma data_bytes_None: "agg_data share = None \<Longrightarrow> data_bytes V share = []"
  by (simp add: data_bytes_def)

lemma decode_elems_all:
  assumes "length xs \<le> fuel" and "\<forall>x \<in> set xs. valid kind x"
  shows "decode_elems fuel (field_decode F kind) share \<lparr>get_ref = pre @ concat (map (elem_bytes kind) xs), position = length pre\<rparr> =
    Ok (share @ xs)"
  using assms
proof (induction xs arbitrary: fuel share pre)
  case Nil
  then show ?case
    by (simp add: decode_elems.simps)
next
  case (Cons x xs)
  then obtain n where fuel: "fuel = Suc n"
    by (cases fuel) auto
  let ?c = "\<lambda>p. \<lparr>get_ref = pre @ elem_bytes kind x @ concat (map (elem_bytes kind) xs), position = p\<rparr>"
  have "field_decode F kind (?c (length pre)) = Ok (x, ?c (length pre + elem_size kind))"
    using Cons.prems(2) by (simp add: elem_decode reads_def elem_length)
  moreover have "0 < elem_size kind"
    by (simp add: elem_size_def split: VdafKind.split)
  ultimately show ?case
    using Cons.IH [of n "share @ [x]" "pre @ elem_bytes kind x"] Cons.prems
    by (subst decode_elems.simps) (simp add: fuel elem_length)
qed

lemma from_slices_chunks:
  assumes "good d"
  shows "from_slices F (share_kind d) (chunk_list MAX_CHUNK_SIZE (concat (map (elem_bytes (share_kind d)) (elems d)))) =
    Ok (AggregateShare_from_vec F (share_kind d) (elems d))"
proof -
  let ?k = "share_kind d"
  define q where "q = MAX_CHUNK_SIZE div elem_size ?k"
  have q: "q \<noteq> 0" "q * elem_size ?k = MAX_CHUNK_SIZE" "elem_size ?k \<noteq> 0"
    by (simp_all add: q_def elem_size_def MAX_CHUNK_SIZE_def split: VdafKind.split)
  have chunks: "chunk_list MAX_CHUNK_SIZE (concat (map (elem_bytes ?k) (elems d))) =
      map (\<lambda>ys. concat (map (elem_bytes ?k) ys)) (chunk_list q (elems d))"
    unfolding q(2) [symmetric] by (rule chunk_list_concat) (use q good_elems [OF assms] in \<open>simp_all add: elem_length\<close>)
  have len: "\<forall>x \<in> set ys. valid ?k x \<Longrightarrow> length ys \<le> length (concat (map (elem_bytes ?k) ys))" for ys
    using q(3) by (induction ys) (auto simp: elem_length)
  have "try_fold (\<lambda>share chunk. decode_elems (length chunk) (field_decode F ?k) share (cursor_new chunk)) share
      (map (\<lambda>ys. concat (map (elem_bytes ?k) ys)) yss) = Ok (share @ concat yss)"
    if "\<forall>x \<in> set (concat yss). valid ?k x" for yss share
    using that decode_elems_all [OF len, of _ ?k _ "[]"]
    by (induction yss arbitrary: share) (simp_all add: cursor_new_def)
  from this [of "chunk_list q (elems d)" "[]"] good_elems [OF assms] show ?thesis
    by (simp only: from_slices_def chunks concat_chunk_list [OF q(1)]) simp
qed

lemma merge_length:
  assumes "merge_agg_data V (Some d) (Some d') = Ok r" and "good d" "good d'"
  shows "\<exists>d''. r = Some d'' \<and> good d'' \<and> share_kind d'' = share_kind d \<and> length (elems d'') = length (elems d)"
proof -
  have "\<exists>x y. (d, d') = (Field32 x, Field32 y) \<or> (d, d') = (Field64 x, Field64 y) \<or> (d, d') = (Field128 x, Field128 y)"
    using assms by (cases d; cases d') (auto simp: merge_agg_data_def fatal_err_def)
  then show ?thesis
    using assms
    by (auto simp: merge_agg_data_Some share_kind_def)
      ((drule (2) merge32 | drule (2) merge64 | drule (2) merge128), simp)+
qed

lemma load_agg_share_stored:
  assumes "share_stored V good st share"
  shows "load_agg_share F st = Ok share"
proof -
  let ?m = "get_multiple (agg_share_shard_keys @ [METADATA_KEY]) st"
  let ?cs = "chunk_list MAX_CHUNK_SIZE (data_bytes V share)"
  have at: "chunks_at agg_share_shard_keys st ?cs"
    and ne: "\<And>d. agg_data share = Some d \<Longrightarrow> good d \<and> data_bytes V share \<noteq> []"
    using assms by (auto simp: share_stored_def good_data_def)
  have chunks: "js_map_to_chunks agg_share_shard_keys ?m = Ok ?cs"
    by (rule js_map_to_chunks_at [OF at]) (simp add: get_multiple_def)
  consider (none) "st METADATA_KEY = None" "share = DapAggregateShare_default"
    | (meta) "st METADATA_KEY = Some (Stored_Meta (from_agg_share share))"
    using assms by (auto simp: share_stored_def)
  then show ?thesis
  proof cases
    case none
    then have "?cs = []"
      by (simp add: data_bytes_def DapAggregateShare_default_def)
    with at none have "\<forall>k \<in> set (agg_share_shard_keys @ [METADATA_KEY]). ?m k = None"
      by (auto simp: chunks_at_def in_set_conv_nth get_multiple_def)
    with none show ?thesis
      by (simp add: load_agg_share_def)
  next
    case meta
    then have m: "?m METADATA_KEY = Some (Stored_Meta (from_agg_share share))"
      by (simp add: get_multiple_def)
    have cs: "?cs = [] \<longleftrightarrow> agg_data share = None"
      using ne concat_chunk_list [of MAX_CHUNK_SIZE "data_bytes V share"]
      by (cases "agg_data share") (auto simp: data_bytes_def MAX_CHUNK_SIZE_def)
    show ?thesis
    proof (cases "agg_data share")
      case None
      then show ?thesis
        using m chunks cs
        by (cases share) (auto simp: load_agg_share_def Let_def from_agg_share_def into_agg_share_without_data_def)
    next
      case (Some d)
      with ne have "good d"
        by blast
      with Some show ?thesis
        using m chunks cs from_slices_chunks [of d] from_elems [of d]
        by (cases share) (auto simp: load_agg_share_def Let_def from_agg_share_def data_bytes_Some
            into_agg_share_without_data_def into_agg_share_with_data_def)
    qed
  qed
qed

lemma get_agg_share_stored:
  assumes "share_stored V good (do_storage s) share" and "agg_share s \<in> {None, Some share}"
  shows "get_agg_share F s = (Ok share, s\<lparr>agg_share := Some share\<rparr>)"
  using assms(2) load_agg_share_stored [OF assms(1)] by (auto simp: get_agg_share_def)

lemma is_collected_coherent:
  assumes "coherent V good s a"
  shows "is_collected s = (Ok (spec_collected a), s\<lparr>collected := Some (spec_collected a)\<rparr>)"
    and "coherent V good (s\<lparr>collected := Some (spec_collected a)\<rparr>) a"
  using assms by (cases "collected s"; auto simp: is_collected_def coherent_def split: option.split)+

lemma aggregated_reports_keys_stored:
  assumes "\<forall>x. do_storage s KEY_COUNT_KEY = Some x \<longrightarrow> (\<exists>n. x = Stored_U8 n)"
    and "report_id_chunk_key_count s \<in> {None, Some (stored_key_count (do_storage s))}"
  shows "aggregated_reports_keys s =
    (Ok (take (unat (stored_key_count (do_storage s))) report_ids_keys),
     s\<lparr>report_id_chunk_key_count := Some (stored_key_count (do_storage s))\<rparr>)"
proof -
  let ?n = "stored_key_count (do_storage s)"
  have keys: "take (unat ?n) report_ids_keys = map report_ids_key [0..<unat ?n]"
    using unsigned_less [of ?n, where ?'a = nat] by (simp add: report_ids_keys_def take_map)
  have "storage_get_u8 (do_storage s) KEY_COUNT_KEY =
      Ok (case do_storage s KEY_COUNT_KEY of Some (Stored_U8 n) \<Rightarrow> Some n | _ \<Rightarrow> None)"
    using assms(1) by (auto simp: storage_get_u8_def split: option.split)
  with assms show ?thesis
    unfolding keys
    by (auto simp: aggregated_reports_keys_def stored_key_count_def split: option.splits)
qed

lemma stored_ids_decode:
  assumes "\<forall>i \<in> set l. length (ReportId_0 i) = 16"
  shows "try_map (get_decoded_ReportId F ReportId_decode)
    (concat (map (chunks_exact SIZE_OF_REPORT_ID) (chunk_list MAX_CHUNK_SIZE (id_bytes l)))) = Ok l"
proof -
  have "chunk_list (8000 * 16) (concat (map ReportId_0 l)) = map (\<lambda>ys. concat (map ReportId_0 ys)) (chunk_list 8000 l)"
    using assms by (intro chunk_list_concat) auto
  then have chunks: "chunk_list MAX_CHUNK_SIZE (id_bytes l) = map (\<lambda>ys. concat (map ReportId_0 ys)) (chunk_list 8000 l)"
    by (simp add: MAX_CHUNK_SIZE_def id_bytes_def)
  have "chunks_exact SIZE_OF_REPORT_ID (concat (map ReportId_0 ys)) = map ReportId_0 ys" if "ys \<in> set (chunk_list 8000 l)" for ys
  proof (rule chunks_exact_concat)
    have "set ys \<subseteq> set (concat (chunk_list 8000 l))"
      using that by auto
    then show "length (ReportId_0 i) = SIZE_OF_REPORT_ID" if "i \<in> set ys" for i
      using that assms by (auto simp: concat_chunk_list SIZE_OF_REPORT_ID_def)
  qed (simp add: SIZE_OF_REPORT_ID_def)
  then have "map (chunks_exact SIZE_OF_REPORT_ID) (chunk_list MAX_CHUNK_SIZE (id_bytes l)) = map (map ReportId_0) (chunk_list 8000 l)"
    by (simp add: chunks)
  then have pieces: "concat (map (chunks_exact SIZE_OF_REPORT_ID) (chunk_list MAX_CHUNK_SIZE (id_bytes l))) = map ReportId_0 l"
    by (simp add: concat_chunk_list flip: map_concat)
  have "get_decoded_ReportId F ReportId_decode (ReportId_0 i) = Ok i" if "length (ReportId_0 i) = 16" for i
    using that by (simp add: decodes_wholeD [OF whole_id] ReportId_decode_def read_exact_def cursor_new_def)
  then show ?thesis
    using assms unfolding pieces try_map_Ok_iff by (simp add: list_all2_map1 list.rel_refl_strong)
qed

lemma load_ids_coherent:
  assumes "coherent V good s a"
  shows "\<exists>l s'. load_aggregated_report_ids F s = (Ok l, s') \<and> set l = spec_ids a \<and> distinct l \<and>
    report_ids s' = Some l \<and> do_storage s' = do_storage s \<and> agg_share s' = agg_share s \<and>
    collected s' = collected s \<and> coherent V good s' a"
proof (cases "report_ids s")
  case (Some l)
  then show ?thesis
    using assms by (intro exI [of _ l] exI [of _ s]) (auto simp: load_aggregated_report_ids_def coherent_def)
next
  case None
  let ?st = "do_storage s"
  obtain l where l: "set l = spec_ids a" "distinct l"
    and at: "chunks_at report_ids_keys ?st (chunk_list MAX_CHUNK_SIZE (id_bytes l))"
    and n: "length (chunk_list MAX_CHUNK_SIZE (id_bytes l)) \<le> unat (stored_key_count ?st)"
    using assms by (auto simp: coherent_def ids_stored_def)
  let ?keys = "take (unat (stored_key_count ?st)) report_ids_keys"
  have "js_map_to_chunks ?keys (get_multiple ?keys ?st) = Ok (chunk_list MAX_CHUNK_SIZE (id_bytes l))"
    by (rule js_map_to_chunks_at [OF chunks_at_take [OF at n]]) (simp add: get_multiple_def)
  moreover have "\<forall>i \<in> set l. length (ReportId_0 i) = 16"
    using assms l by (auto simp: coherent_def)
  moreover have "aggregated_reports_keys s = (Ok ?keys, s\<lparr>report_id_chunk_key_count := Some (stored_key_count ?st)\<rparr>)"
    using assms by (intro aggregated_reports_keys_stored) (auto simp: coherent_def ids_stored_def)
  ultimately have "load_aggregated_report_ids F s =
      (Ok l, s\<lparr>report_id_chunk_key_count := Some (stored_key_count ?st), report_ids := Some l\<rparr>)"
    using None l(2)
    by (auto simp: load_aggregated_report_ids_def cold_load_aggregated_report_ids_def stored_ids_decode
        distinct_remdups_id)
  then show ?thesis
    using assms l by (auto simp: coherent_def)
qed

section \<open>Merging\<close>

lemma encode_ids: "try_fold (\<lambda>bytes i. ReportId_encode i bytes) bs l = Ok (bs @ id_bytes l)"
  by (induction l arbitrary: bs) (simp_all add: id_bytes_def ReportId_encode_def)

lemma insert_ids:
  assumes "distinct l"
  shows "set (fold (\<lambda>i ids. if i \<in> set ids then ids else ids @ [i]) xs l) = set xs \<union> set l"
    and "distinct (fold (\<lambda>i ids. if i \<in> set ids then ids else ids @ [i]) xs l)"
  using assms by (induction xs arbitrary: l) auto

lemma chunk_count_bound: "length bs \<le> n * MAX_CHUNK_SIZE \<Longrightarrow> length (chunk_list MAX_CHUNK_SIZE bs) \<le> n"
proof -
  assume len: "length bs \<le> n * MAX_CHUNK_SIZE"
  have "div_ceil a MAX_CHUNK_SIZE \<le> n" if "a \<le> n * MAX_CHUNK_SIZE" for a
  proof (cases "a mod MAX_CHUNK_SIZE = 0")
    case True
    then show ?thesis
      using that div_le_mono [OF that, of MAX_CHUNK_SIZE] by (simp add: div_ceil_def MAX_CHUNK_SIZE_def)
  next
    case False
    then have "a < n * MAX_CHUNK_SIZE"
      using that by (metis le_neq_implies_less mod_mult_self2_is_0)
    then have "a div MAX_CHUNK_SIZE < n"
      by (simp add: less_mult_imp_div_less)
    then show ?thesis
      by (simp add: div_ceil_def Let_def)
  qed
  with len show ?thesis
    by (simp add: length_chunk_list MAX_CHUNK_SIZE_def)
qed

lemma chunk_count_mono: "length bs \<le> length cs \<Longrightarrow> length (chunk_list MAX_CHUNK_SIZE bs) \<le> length (chunk_list MAX_CHUNK_SIZE cs)"
proof -
  assume "length bs \<le> length cs"
  also have "length cs \<le> length (chunk_list MAX_CHUNK_SIZE cs) * MAX_CHUNK_SIZE"
    using div_mult_mod_eq [of "length cs" 128000] mod_less_divisor [of 128000 "length cs"]
    by (cases "length cs mod 128000 = 0") (simp_all add: length_chunk_list div_ceil_def Let_def MAX_CHUNK_SIZE_def)
  finally show ?thesis
    by (rule chunk_count_bound)
qed

text \<open>Recording the identifiers of a merge without replays, which fit into 255 chunks.\<close>

lemma record_report_ids_fresh:
  assumes co: "coherent V good s a" and fresh: "set (contained_reports req) \<inter> spec_ids a = {}"
    and ids: "\<forall>i \<in> set (contained_reports req). length (ReportId_0 i) = 16"
    and card: "card (set (contained_reports req) \<union> spec_ids a) * 16 \<le> 255 * 128000"
  shows "\<exists>l s'. record_report_ids F req Map.empty s =
      (Ok (Inr [take (length (chunk_list MAX_CHUNK_SIZE (id_bytes l))) report_ids_keys [\<mapsto>]
                map Stored_Bytes (chunk_list MAX_CHUNK_SIZE (id_bytes l))]), s') \<and>
    set l = set (contained_reports req) \<union> spec_ids a \<and> distinct l \<and> report_ids s' = Some l \<and>
    agg_share s' = agg_share s \<and> collected s' = collected s \<and>
    report_id_chunk_key_count s' = Some (of_nat (length (chunk_list MAX_CHUNK_SIZE (id_bytes l)))) \<and>
    length (chunk_list MAX_CHUNK_SIZE (id_bytes l)) < 256 \<and>
    stored_key_count (do_storage s') = of_nat (length (chunk_list MAX_CHUNK_SIZE (id_bytes l))) \<and>
    (\<forall>k. k \<noteq> KEY_COUNT_KEY \<longrightarrow> do_storage s' k = do_storage s k) \<and>
    (\<forall>x. do_storage s' KEY_COUNT_KEY = Some x \<longrightarrow> (\<exists>n. x = Stored_U8 n))"
proof -
  obtain l0 s0 where load: "load_aggregated_report_ids F s = (Ok l0, s0)" "set l0 = spec_ids a" "distinct l0"
    and s0: "report_ids s0 = Some l0" "do_storage s0 = do_storage s" "coherent V good s0 a"
      "agg_share s0 = agg_share s" "collected s0 = collected s"
    using load_ids_coherent [OF co] by blast
  let ?l = "fold (\<lambda>i ids. if i \<in> set ids then ids else ids @ [i]) (contained_reports req) l0"
  let ?cs = "chunk_list MAX_CHUNK_SIZE (id_bytes ?l)"
  let ?n = "of_nat (length ?cs) :: u8"
  have l: "set ?l = set (contained_reports req) \<union> spec_ids a" "distinct ?l"
    using insert_ids [OF load(3), of "contained_reports req"] load(2) by simp_all
  have "\<forall>i \<in> set ?l. length (ReportId_0 i) = 16"
    using co ids l(1) by (auto simp: coherent_def)
  then have "length (id_bytes ?l) \<le> 255 * MAX_CHUNK_SIZE"
    using card l by (simp add: id_bytes_length MAX_CHUNK_SIZE_def flip: distinct_card)
  then have n: "length ?cs < 256"
    using chunk_count_bound by fastforce
  then have unat: "unat ?n = length ?cs"
    by (simp add: unat_of_nat)
  have num: "number_of_chunks_needed_for (id_bytes ?l) = Ok ?n"
    using n by (simp add: number_of_chunks_needed_for_def length_chunk_list MAX_CHUNK_SIZE_def)
  define s1 where "s1 = s0\<lparr>report_ids := Some ?l\<rparr>"
  obtain s2 where s2: "set_report_id_chunk_key_count ?n s1 = (Ok (), s2)"
    "report_id_chunk_key_count s2 = Some ?n" "stored_key_count (do_storage s2) = ?n"
    "report_ids s2 = Some ?l" "agg_share s2 = agg_share s" "collected s2 = collected s"
    "\<forall>k. k \<noteq> KEY_COUNT_KEY \<longrightarrow> do_storage s2 k = do_storage s k"
    "\<forall>x. do_storage s2 KEY_COUNT_KEY = Some x \<longrightarrow> (\<exists>n. x = Stored_U8 n)"
  proof (cases "report_id_chunk_key_count s1 = Some ?n")
    case True
    then show thesis
      using s0 by (intro that [of s1]) (auto simp: s1_def set_report_id_chunk_key_count_def coherent_def ids_stored_def)
  next
    case False
    then show thesis
      using s0 that [of "s1\<lparr>do_storage := (do_storage s1)(KEY_COUNT_KEY \<mapsto> Stored_U8 ?n), report_id_chunk_key_count := Some ?n\<rparr>"]
      by (auto simp: s1_def set_report_id_chunk_key_count_def stored_key_count_def)
  qed
  have keys: "aggregated_reports_keys s2 = (Ok (take (length ?cs) report_ids_keys), s2)"
    using aggregated_reports_keys_stored [OF s2(8)] s2(2,3) unat by simp
  have shard: "shard_bytes_to_object (take (length ?cs) report_ids_keys) (id_bytes ?l) Map.empty =
      Ok [take (length ?cs) report_ids_keys [\<mapsto>] map Stored_Bytes ?cs]"
    using n shard_bytes_to_object_Ok [of "id_bytes ?l" "take (length ?cs) report_ids_keys" Map.empty]
    by (simp add: report_ids_keys_def)
  have "filter (\<lambda>i. i \<in> set l0) (contained_reports req) = []"
    using fresh load(2) by (auto simp: filter_empty_conv)
  then have "record_report_ids F req Map.empty s = (Ok (Inr [take (length ?cs) report_ids_keys [\<mapsto>] map Stored_Bytes ?cs]), s2)"
    using load(1) encode_ids [of "[]" ?l] num s2(1) keys shard
    by (auto simp: record_report_ids_def Let_def s1_def)
  then show ?thesis
    using l n s2 by blast
qed

lemma share_merge_data:
  "DapAggregateShare_merge V share delta = Ok share' \<Longrightarrow>
   merge_agg_data V (agg_data share) (agg_data delta) = Ok (agg_data share')"
  by (auto simp: DapAggregateShare_merge_def)

lemma data_bytes_length:
  assumes "agg_data share = Some d" and "good d"
  shows "length (data_bytes V share) = length (elems d) * elem_size (share_kind d)"
proof -
  have "\<forall>x \<in> set xs. valid k x \<Longrightarrow> length (concat (map (elem_bytes k) xs)) = length xs * elem_size k" for k xs
    by (induction xs) (simp_all add: elem_length)
  with assms good_elems show ?thesis
    by (simp add: data_bytes_Some)
qed

lemma merged_data_bytes:
  assumes "DapAggregateShare_merge V share delta = Ok share'"
    and "good_data V good share" "good_data V good delta"
  shows "length (data_bytes V share) \<le> length (data_bytes V share') \<and> good_data V good share'"
proof (cases "agg_data share = None \<or> agg_data delta = None")
  case True
  with share_merge_data [OF assms(1)] have "agg_data share' = (if agg_data share = None then agg_data delta else agg_data share)"
    by auto
  with True assms(2,3) show ?thesis
    by (auto simp: data_bytes_def good_data_def split: option.splits)
next
  case False
  then obtain d d' where d: "agg_data share = Some d" "agg_data delta = Some d'" "good d" "good d'"
    using assms(2,3) by (auto simp: good_data_def)
  then obtain d'' where d'': "agg_data share' = Some d''" "good d''" "share_kind d'' = share_kind d"
      "length (elems d'') = length (elems d)"
    using merge_length [of d d' "agg_data share'"] share_merge_data [OF assms(1)] by auto
  then have "length (data_bytes V share') = length (data_bytes V share)"
    using d by (simp add: data_bytes_length)
  with d d'' assms(2) show ?thesis
    by (auto simp: good_data_def)
qed

lemma merge_agg_share_stored:
  assumes st: "share_stored V good (do_storage s) share" "agg_share s \<in> {None, Some share}"
    and merge: "DapAggregateShare_merge V share (agg_share_delta req) = Ok share'"
    and wf: "good_data V good (agg_share_delta req)"
    and fit: "length (data_bytes V share') \<le> 8 * 128000"
    and obj: "\<forall>k \<in> set (agg_share_shard_keys @ [METADATA_KEY]). obj k = None"
  shows "\<exists>st'. merge_agg_share V F req obj s = (Ok Merge_Ok, s\<lparr>agg_share := Some share', do_storage := st'\<rparr>) \<and>
    share_stored V good st' share' \<and>
    (\<forall>k. k \<notin> set (agg_share_shard_keys @ [METADATA_KEY]) \<longrightarrow> st' k = (do_storage s ++ obj) k)"
proof -
  let ?K = agg_share_shard_keys and ?cs = "chunk_list MAX_CHUNK_SIZE (data_bytes V share')"
  define obj' where "obj' = (obj(take (length ?cs) ?K [\<mapsto>] map Stored_Bytes ?cs))(METADATA_KEY \<mapsto> Stored_Meta (from_agg_share share'))"
  have at: "chunks_at ?K (do_storage s) (chunk_list MAX_CHUNK_SIZE (data_bytes V share))"
    and ne: "good_data V good share"
    using st(1) by (auto simp: share_stored_def)
  note grows = conjunct1 [OF merged_data_bytes [OF merge ne wf]] conjunct2 [OF merged_data_bytes [OF merge ne wf]]
  have n: "length ?cs \<le> 8"
    using chunk_count_bound [of "data_bytes V share'" 8] fit by (simp add: MAX_CHUNK_SIZE_def)
  have "(case agg_data share' of
      None \<Rightarrow> Ok obj
    | Some data \<Rightarrow> and_then (map_err (\<lambda>_. WE_RustError ''failed to encode agg share'')
        (get_encoded_share F (VdafAggregateShare_encode V data))) (\<lambda>as_bytes.
        shard_bytes_to_object ?K as_bytes obj)) = Ok (obj(take (length ?cs) ?K [\<mapsto>] map Stored_Bytes ?cs))"
    using n shard_bytes_to_object_Ok [of "data_bytes V share'" ?K obj]
    using grows(2)
    by (auto simp: good_data_def data_bytes_Some data_bytes_None encoded_share encode_elems distinct_shard_keys split: option.split)
  then have run: "merge_agg_share V F req obj s =
      (Ok Merge_Ok, s\<lparr>agg_share := Some share', do_storage := do_storage s ++ obj'\<rparr>)"
    using get_agg_share_stored [OF st] merge by (auto simp: merge_agg_share_def Let_def obj'_def)
  have K: "METADATA_KEY \<notin> set ?K"
    using keys_disjoint(2) by auto
  have upd: "(do_storage s ++ obj') k = ((do_storage s)(take (length ?cs) ?K [\<mapsto>] map Stored_Bytes ?cs)) k"
    if "k \<in> set ?K" for k
  proof -
    have "k \<noteq> METADATA_KEY" "obj k = None"
      using that K obj by auto
    then show ?thesis
      unfolding obj'_def map_upds_def map_add_def fun_upd_def by (simp split: option.split)
  qed
  have "chunks_at ?K (do_storage s ++ obj') ?cs"
    using n grows(1) by (intro chunks_at_upds [OF at distinct_shard_keys(1)] chunk_count_mono upd) (simp_all add: distinct_shard_keys)
  then have "share_stored V good (do_storage s ++ obj') share'"
    using grows(2) by (simp add: share_stored_def obj'_def)
  moreover have "(do_storage s ++ obj') k = (do_storage s ++ obj) k" if "k \<notin> set (?K @ [METADATA_KEY])" for k
  proof -
    have "k \<notin> set (take (length ?cs) ?K)"
      using that by (auto dest: in_set_takeD)
    with that show ?thesis
      by (simp add: obj'_def map_add_def)
  qed
  ultimately show ?thesis
    using run by blast
qed

lemma ids_stored_upds:
  fixes l :: "ReportId list"
  defines "cs \<equiv> chunk_list MAX_CHUNK_SIZE (id_bytes l)"
  assumes "ids_stored st ids" "ids \<subseteq> set l" "distinct l" "\<forall>i \<in> set l. length (ReportId_0 i) = 16" "length cs < 256"
    and at: "\<And>k. k \<in> set report_ids_keys \<Longrightarrow> st' k = (st(take (length cs) report_ids_keys [\<mapsto>] map Stored_Bytes cs)) k"
    and n: "stored_key_count st' = of_nat (length cs)" "\<forall>x. st' KEY_COUNT_KEY = Some x \<longrightarrow> (\<exists>n. x = Stored_U8 n)"
  shows "ids_stored st' (set l)"
proof -
  obtain l0 where l0: "set l0 = ids" "distinct l0" "chunks_at report_ids_keys st (chunk_list MAX_CHUNK_SIZE (id_bytes l0))"
    using assms(2) by (auto simp: ids_stored_def)
  have "length l0 \<le> length l"
    using card_mono [OF _ assms(3)] l0(1,2) assms(4) by (simp flip: distinct_card)
  then have "length (id_bytes l0) \<le> length (id_bytes l)"
    using l0(1) assms(3,5) by (subst (1 2) id_bytes_length) auto
  then have "chunks_at report_ids_keys st' cs"
    unfolding cs_def using assms(6) at
    by (intro chunks_at_upds [OF l0(3) distinct_report_ids_keys] chunk_count_mono)
      (simp_all add: report_ids_keys_def cs_def)
  then show ?thesis
    using n assms(4,6) by (auto simp: ids_stored_def cs_def unat_of_nat take_bit_eq_mod)
qed

lemma record_report_ids_repeated:
  assumes co: "coherent V good s a" and "remdups (filter (\<lambda>i. i \<in> spec_ids a) (contained_reports req)) \<noteq> []"
  shows "\<exists>s'. coherent V good s' a \<and> record_report_ids F req obj s =
    (Ok (Inl (if length (remdups (filter (\<lambda>i. i \<in> spec_ids a) (contained_reports req))) =
                 unat (report_count (agg_share_delta req)) then Merge_Ok
              else Merge_ReplaysDetected (remdups (filter (\<lambda>i. i \<in> spec_ids a) (contained_reports req))))), s')"
proof -
  obtain l s' where "load_aggregated_report_ids F s = (Ok l, s')" "set l = spec_ids a" "coherent V good s' a"
    using load_ids_coherent [OF co] by blast
  with assms(2) show ?thesis
    by (intro exI [of _ s']) (simp add: record_report_ids_def Let_def)
qed

lemma coherentD:
  assumes "coherent V good s a"
  shows "\<forall>i \<in> spec_ids a. length (ReportId_0 i) = 16" "ids_stored (do_storage s) (spec_ids a)"
    "share_stored V good (do_storage s) (spec_share a)" "agg_share s \<in> {None, Some (spec_share a)}"
    "storage_get_bool_or_default (do_storage s) COLLECTED_KEY = Ok (spec_collected a)"
    "collected s \<in> {None, Some (spec_collected a)}"
    "\<forall>l. report_ids s = Some l \<longrightarrow> set l = spec_ids a \<and> distinct l"
    "report_id_chunk_key_count s \<in> {None, Some (stored_key_count (do_storage s))}"
  using assms by (simp_all add: coherent_def)

lemma share_stored_other:
  "share_stored V good st share \<Longrightarrow> (\<And>k. k \<in> set (agg_share_shard_keys @ [METADATA_KEY]) \<Longrightarrow> st' k = st k) \<Longrightarrow>
   share_stored V good st' share"
  using chunks_at_other [of agg_share_shard_keys st _ st'] by (simp add: share_stored_def)

lemma ids_stored_other:
  "ids_stored st ids \<Longrightarrow> (\<And>k. k \<in> set (report_ids_keys @ [KEY_COUNT_KEY]) \<Longrightarrow> st' k = st k) \<Longrightarrow> ids_stored st' ids"
  using chunks_at_other [of report_ids_keys st _ st'] by (simp add: ids_stored_def stored_key_count_def) blast

lemma fresh_merge_skipping:
  assumes co: "coherent V good s a" and wf: "wf_request V good (Req_Merge req)"
    and merge: "DapAggregateShare_merge V (spec_share a) (agg_share_delta req) = Ok share'"
    and fit: "length (data_bytes V share') \<le> 8 * 128000"
  shows "\<exists>s'. merge_agg_share V F req Map.empty s = (Ok Merge_Ok, s') \<and> coherent V good s' (a\<lparr>spec_share := share'\<rparr>)"
proof -
  have ne: "good_data V good (agg_share_delta req)"
    using wf by (simp add: wf_request_def)
  obtain st' where st': "merge_agg_share V F req Map.empty s =
      (Ok Merge_Ok, s\<lparr>agg_share := Some share', do_storage := st'\<rparr>)" "share_stored V good st' share'"
    and same: "\<And>k. k \<notin> set (agg_share_shard_keys @ [METADATA_KEY]) \<Longrightarrow> st' k = do_storage s k"
    using merge_agg_share_stored [OF coherentD(3,4) [OF co] merge ne fit, where obj = Map.empty] unfolding map_add_empty by blast
  have others: "st' KEY_COUNT_KEY = do_storage s KEY_COUNT_KEY" "st' COLLECTED_KEY = do_storage s COLLECTED_KEY"
    "\<And>k. k \<in> set report_ids_keys \<Longrightarrow> st' k = do_storage s k"
    using keys_disjoint by (auto intro!: same)
  have "ids_stored st' (spec_ids a)"
    using others by (intro ids_stored_other [OF coherentD(2) [OF co]]) auto
  moreover have "stored_key_count st' = stored_key_count (do_storage s)"
    using others by (simp add: stored_key_count_def)
  moreover have "storage_get_bool_or_default st' COLLECTED_KEY = Ok (spec_collected a)"
    using coherentD(5) [OF co] others(2) by (simp add: storage_get_bool_or_default_def)
  ultimately have "coherent V good (s\<lparr>agg_share := Some share', do_storage := st'\<rparr>) (a\<lparr>spec_share := share'\<rparr>)"
    using coherentD [OF co] st'(2) by (simp add: coherent_def)
  with st'(1) show ?thesis
    by blast
qed

lemma fresh_merge_recording:
  assumes co: "coherent V good s a" and wf: "wf_request V good (Req_Merge req)"
    and fresh: "set (contained_reports req) \<inter> spec_ids a = {}"
    and merge: "DapAggregateShare_merge V (spec_share a) (agg_share_delta req) = Ok share'"
    and fit: "fits V (a\<lparr>spec_share := share', spec_ids := set (contained_reports req) \<union> spec_ids a\<rparr>)"
  shows "\<exists>obj s1 s'. record_report_ids F req Map.empty s = (Ok (Inr obj), s1) \<and>
    merge_agg_share V F req obj s1 = (Ok Merge_Ok, s') \<and>
    coherent V good s' (a\<lparr>spec_share := share', spec_ids := set (contained_reports req) \<union> spec_ids a\<rparr>)"
proof -
  have ids: "\<forall>i \<in> set (contained_reports req). length (ReportId_0 i) = 16"
    "\<forall>i \<in> spec_ids a. length (ReportId_0 i) = 16"
    using wf co by (auto simp: wf_request_def list_all_iff coherent_def)
  obtain l s1 where rec: "record_report_ids F req Map.empty s =
      (Ok (Inr [take (length (chunk_list MAX_CHUNK_SIZE (id_bytes l))) report_ids_keys [\<mapsto>]
                map Stored_Bytes (chunk_list MAX_CHUNK_SIZE (id_bytes l))]), s1)"
    and l: "set l = set (contained_reports req) \<union> spec_ids a" "distinct l" "report_ids s1 = Some l"
    and s1: "agg_share s1 = agg_share s" "collected s1 = collected s"
      "report_id_chunk_key_count s1 = Some (of_nat (length (chunk_list MAX_CHUNK_SIZE (id_bytes l))))"
      "length (chunk_list MAX_CHUNK_SIZE (id_bytes l)) < 256"
      "stored_key_count (do_storage s1) = of_nat (length (chunk_list MAX_CHUNK_SIZE (id_bytes l)))"
      "\<And>k. k \<noteq> KEY_COUNT_KEY \<Longrightarrow> do_storage s1 k = do_storage s k"
      "\<forall>x. do_storage s1 KEY_COUNT_KEY = Some x \<longrightarrow> (\<exists>n. x = Stored_U8 n)"
    using record_report_ids_fresh [OF co fresh ids(1)] fit by (auto simp: fits_def)
  let ?cs = "chunk_list MAX_CHUNK_SIZE (id_bytes l)"
  let ?obj = "[take (length ?cs) report_ids_keys [\<mapsto>] map Stored_Bytes ?cs] :: storage"
  have obj: "?obj k = None" if "k \<notin> set report_ids_keys" for k
  proof -
    have "k \<notin> set (take (length ?cs) report_ids_keys)"
      using that by (auto dest: in_set_takeD)
    then show ?thesis
      by simp
  qed
  have "do_storage s1 k = do_storage s k" if "k \<in> set (agg_share_shard_keys @ [METADATA_KEY])" for k
    using that keys_disjoint(2,3) by (intro s1(6)) auto
  then have st: "share_stored V good (do_storage s1) (spec_share a)"
    by (rule share_stored_other [OF coherentD(3) [OF co]])
  have cache: "agg_share s1 \<in> {None, Some (spec_share a)}"
    using co s1(1) by (simp add: coherent_def)
  have free: "\<forall>k \<in> set (agg_share_shard_keys @ [METADATA_KEY]). ?obj k = None"
    using keys_disjoint(1) by (intro ballI obj) auto
  have ne: "good_data V good (agg_share_delta req)"
    and small: "length (data_bytes V share') \<le> 8 * 128000"
    using wf fit by (simp_all add: wf_request_def fits_def)
  obtain st' where st': "merge_agg_share V F req ?obj s1 =
      (Ok Merge_Ok, s1\<lparr>agg_share := Some share', do_storage := st'\<rparr>)" "share_stored V good st' share'"
    and same: "\<And>k. k \<notin> set (agg_share_shard_keys @ [METADATA_KEY]) \<Longrightarrow> st' k = (do_storage s1 ++ ?obj) k"
    using merge_agg_share_stored [OF st cache merge ne small free] by blast
  have others: "st' KEY_COUNT_KEY = do_storage s1 KEY_COUNT_KEY" "st' COLLECTED_KEY = do_storage s COLLECTED_KEY"
    using same [of KEY_COUNT_KEY] same [of COLLECTED_KEY] obj [of KEY_COUNT_KEY] obj [of COLLECTED_KEY]
      s1(6) [of COLLECTED_KEY] keys_disjoint by (auto simp: map_add_def)
  have at: "st' k = ((do_storage s)(take (length ?cs) report_ids_keys [\<mapsto>] map Stored_Bytes ?cs)) k"
    if "k \<in> set report_ids_keys" for k
  proof -
    have "k \<notin> set (agg_share_shard_keys @ [METADATA_KEY])" "k \<noteq> KEY_COUNT_KEY"
      using that keys_disjoint(1) by auto
    then show ?thesis
      using same [of k] s1(6) [of k] by (simp add: map_upds_def map_add_def split: option.split)
  qed
  have count: "stored_key_count st' = stored_key_count (do_storage s1)"
    using others by (simp add: stored_key_count_def)
  have "ids_stored st' (set l)"
    using ids l s1 count others(1) by (intro ids_stored_upds [OF coherentD(2) [OF co]] at) auto
  moreover have "storage_get_bool_or_default st' COLLECTED_KEY = Ok (spec_collected a)"
    using coherentD(5) [OF co] others(2) by (simp add: storage_get_bool_or_default_def)
  ultimately have "coherent V good (s1\<lparr>agg_share := Some share', do_storage := st'\<rparr>)
      (a\<lparr>spec_share := share', spec_ids := set (contained_reports req) \<union> spec_ids a\<rparr>)"
    using coherentD(6) [OF co] ids l st'(2) s1(2,3,5) count by (simp add: coherent_def ball_Un)
  with rec st'(1) show ?thesis
    by blast
qed

lemma handle_merge_refines:
  assumes co: "coherent V good s a" and wf: "wf_request V good (Req_Merge req)"
    and spec: "spec_merge V req a = Some (resp, a')" and fit: "fits V a'"
  shows "\<exists>s'. handle_merge V F req s = (Ok resp, s') \<and> coherent V good s' a'"
proof -
  let ?s = "s\<lparr>collected := Some (spec_collected a)\<rparr>"
  let ?repeats = "remdups (filter (\<lambda>i. i \<in> spec_ids a) (contained_reports req))"
  note first = is_collected_coherent [OF co]
  consider (collected) "spec_collected a"
    | (repeated) "\<not> spec_collected a" "\<not> skip_replay_protection req" "?repeats \<noteq> []"
    | (skipping) share' where "\<not> spec_collected a" "skip_replay_protection req"
        "DapAggregateShare_merge V (spec_share a) (agg_share_delta req) = Ok share'"
    | (fresh) share' where "\<not> spec_collected a" "\<not> skip_replay_protection req" "?repeats = []"
        "DapAggregateShare_merge V (spec_share a) (agg_share_delta req) = Ok share'"
    using spec by (auto simp: spec_merge_def Let_def split: if_splits result.splits)
  then show ?thesis
  proof cases
    case collected
    with spec first show ?thesis
      by (auto simp: spec_merge_def handle_merge_def Let_def)
  next
    case repeated
    then have "a' = a" "resp = (if length ?repeats = unat (report_count (agg_share_delta req)) then Merge_Ok
        else Merge_ReplaysDetected ?repeats)"
      using spec by (auto simp: spec_merge_def Let_def)
    then obtain s' where "record_report_ids F req Map.empty ?s = (Ok (Inl resp), s')" "coherent V good s' a'"
      using record_report_ids_repeated [OF first(2) repeated(3), of Map.empty] by blast
    then show ?thesis
      using first(1) repeated(1,2) by (auto simp: handle_merge_def)
  next
    case skipping
    then have a': "resp = Merge_Ok" "a' = a\<lparr>spec_share := share'\<rparr>"
      using spec by (simp_all add: spec_merge_def Let_def)
    with fit show ?thesis
      using fresh_merge_skipping [OF first(2) wf skipping(3)] first(1) skipping(1,2)
      by (auto simp: fits_def handle_merge_def)
  next
    case fresh
    then have a': "resp = Merge_Ok" "a' = a\<lparr>spec_share := share', spec_ids := set (contained_reports req) \<union> spec_ids a\<rparr>"
      using spec by (simp_all add: spec_merge_def Let_def)
    have "set (contained_reports req) \<inter> spec_ids a = {}"
      using fresh(3) by (auto simp: filter_empty_conv)
    from fresh_merge_recording [OF first(2) wf this fresh(4) fit [unfolded a']]
    obtain obj s1 s' where "record_report_ids F req Map.empty ?s = (Ok (Inr obj), s1)"
      "merge_agg_share V F req obj s1 = (Ok Merge_Ok, s')" "coherent V good s' a'"
      using a' by auto
    then show ?thesis
      using first(1) fresh(1,2) a'(1) by (intro exI [of _ s']) (simp add: handle_merge_def st_then_eval del: st_then_Ok_iff)
  qed
qed

lemma AggregateStore_handle_refines:
  assumes co: "coherent V good s a" and wf: "wf_request V good req"
    and spec: "spec_handle V req a = Some (resp, a')" and fit: "fits V a'"
  shows "\<exists>s'. AggregateStore_handle V F req s = (Ok resp, s') \<and> coherent V good s' a'"
proof (cases req)
  case Req_GetMerged
  with load_ids_coherent [OF co] spec show ?thesis
    by (auto simp: AggregateStore_handle_def spec_handle_def)
next
  case (Req_Merge m)
  then obtain r where "spec_merge V m a = Some (r, a')" "resp = Resp_Merge r"
    using spec by (auto simp: spec_handle_def)
  with handle_merge_refines [OF co wf [unfolded Req_Merge]] fit Req_Merge show ?thesis
    by (auto simp: AggregateStore_handle_def)
next
  case Req_Get
  then have "resp = Resp_Share (spec_share a)" "a' = a"
    using spec by (auto simp: spec_handle_def)
  moreover have "coherent V good (s\<lparr>agg_share := Some (spec_share a)\<rparr>) a"
    using coherentD [OF co] by (simp add: coherent_def)
  ultimately show ?thesis
    using Req_Get get_agg_share_stored [OF coherentD(3,4) [OF co]] by (simp add: AggregateStore_handle_def)
next
  case Req_MarkCollected
  let ?st = "(do_storage s)(COLLECTED_KEY \<mapsto> Stored_Bool True)"
  have "ids_stored ?st (spec_ids a)" "share_stored V good ?st (spec_share a)"
    using keys_disjoint
    by (auto intro!: ids_stored_other [OF coherentD(2) [OF co]] share_stored_other [OF coherentD(3) [OF co]])
  moreover have "stored_key_count ?st = stored_key_count (do_storage s)"
    using keys_disjoint(3) by (auto simp: stored_key_count_def)
  ultimately have "coherent V good (s\<lparr>do_storage := ?st, collected := Some True\<rparr>) (a\<lparr>spec_collected := True\<rparr>)"
    using coherentD [OF co] by (simp add: coherent_def storage_get_bool_or_default_def)
  with Req_MarkCollected spec show ?thesis
    by (simp add: AggregateStore_handle_def spec_handle_def)
next
  case Req_CheckCollected
  with is_collected_coherent [OF co] spec show ?thesis
    by (auto simp: AggregateStore_handle_def spec_handle_def)
next
  case Req_Unknown
  with spec show ?thesis
    by (simp add: spec_handle_def)
qed

lemma evict_coherent: "coherent V good s a \<Longrightarrow> coherent V good (evict s) a"
  by (simp add: coherent_def evict_def with_state_and_env_def)

lemma new_store_coherent: "coherent V good (with_state_and_env Map.empty) spec_empty"
  by (auto simp: coherent_def with_state_and_env_def spec_empty_def ids_stored_def share_stored_def data_bytes_def good_data_def
      chunks_at_def id_bytes_def storage_get_bool_or_default_def DapAggregateShare_default_def intro: exI [of _ "[]"])

lemma run_store_refines:
  "\<lbrakk>coherent V good s a; list_all (wf_request V good) (requests es); spec_run V (requests es) a = Some (resps, a')\<rbrakk> \<Longrightarrow>
   \<exists>s'. run_store V F es s = (map Ok resps, s') \<and> coherent V good s' a'"
proof (induction es arbitrary: s a resps)
  case (Cons e es)
  show ?case
  proof (cases e)
    case (Handle r)
    with Cons.prems obtain resp a1 resps' where step: "spec_handle V r a = Some (resp, a1)" "fits V a1"
      and rest: "spec_run V (requests es) a1 = Some (resps', a')" "resps = resp # resps'"
      and wf: "wf_request V good r" "list_all (wf_request V good) (requests es)"
      by (auto split: option.splits if_splits)
    obtain s1 where "AggregateStore_handle V F r s = (Ok resp, s1)" "coherent V good s1 a1"
      using AggregateStore_handle_refines [OF Cons.prems(1) wf(1) step] by blast
    moreover from Cons.IH [OF this(2) wf(2) rest(1)]
    obtain s' where "run_store V F es s1 = (map Ok resps', s')" "coherent V good s' a'"
      by blast
    ultimately show ?thesis
      using Handle rest(2) by simp
  next
    case Evict
    with Cons.prems Cons.IH [OF evict_coherent [OF Cons.prems(1)]] show ?thesis
      by simp
  qed
qed simp

text \<open>
  A merge that fails after the identifiers were recorded: nothing is stored, but the object keeps the
  identifiers in its cache, and answers the same request with \<open>Merge_Ok\<close> the second time.
\<close>

lemma failed_merge:
  assumes co: "coherent V good s a" and new: "\<not> spec_collected a" "\<not> skip_replay_protection req"
    and fresh: "set (contained_reports req) \<inter> spec_ids a = {}"
    and ids: "\<forall>i \<in> set (contained_reports req). length (ReportId_0 i) = 16"
    and card: "card (set (contained_reports req) \<union> spec_ids a) * 16 \<le> 255 * 128000"
    and err: "DapAggregateShare_merge V (spec_share a) (agg_share_delta req) = Err e"
  shows "\<exists>s'. handle_merge V F req s = (Err (WE_RustError ''internalError''), s') \<and>
    coherent V good (evict s') a \<and> collected s' = Some False \<and>
    (\<exists>l. report_ids s' = Some l \<and> set l = set (contained_reports req) \<union> spec_ids a)"
proof -
  note first = is_collected_coherent [OF co]
  from record_report_ids_fresh [OF first(2) fresh ids card]
  obtain l s1 where rec: "record_report_ids F req Map.empty (s\<lparr>collected := Some (spec_collected a)\<rparr>) =
      (Ok (Inr [take (length (chunk_list MAX_CHUNK_SIZE (id_bytes l))) report_ids_keys [\<mapsto>]
                map Stored_Bytes (chunk_list MAX_CHUNK_SIZE (id_bytes l))]), s1)"
    and l: "set l = set (contained_reports req) \<union> spec_ids a" "distinct l" "report_ids s1 = Some l"
    and s1: "agg_share s1 = agg_share s" "collected s1 = Some (spec_collected a)"
      "length (chunk_list MAX_CHUNK_SIZE (id_bytes l)) < 256"
      "stored_key_count (do_storage s1) = of_nat (length (chunk_list MAX_CHUNK_SIZE (id_bytes l)))"
      "\<And>k. k \<noteq> KEY_COUNT_KEY \<Longrightarrow> do_storage s1 k = do_storage s k"
      "\<forall>x. do_storage s1 KEY_COUNT_KEY = Some x \<longrightarrow> (\<exists>n. x = Stored_U8 n)"
    by auto
  have share: "share_stored V good (do_storage s1) (spec_share a)"
    using keys_disjoint(2,3) by (intro share_stored_other [OF coherentD(3) [OF co]] s1(5)) auto
  have "agg_share s1 \<in> {None, Some (spec_share a)}"
    using coherentD(4) [OF co] s1(1) by simp
  then have run: "handle_merge V F req s = (Err (WE_RustError ''internalError''), s1\<lparr>agg_share := Some (spec_share a)\<rparr>)"
    using first(1) new err get_agg_share_stored [OF share] rec
    by (simp add: handle_merge_def merge_agg_share_def st_then_eval del: st_then_Ok_iff)
  obtain l0 where l0: "set l0 = spec_ids a" "distinct l0"
    "chunks_at report_ids_keys (do_storage s) (chunk_list MAX_CHUNK_SIZE (id_bytes l0))"
    using coherentD(2) [OF co] by (auto simp: ids_stored_def)
  have "length l0 \<le> length l"
    using l(1,2) l0(1,2) by (metis List.finite_set card_mono distinct_card sup_ge2)
  then have "length (id_bytes l0) \<le> length (id_bytes l)"
    using l(1) l0(1) ids coherentD(1) [OF co] by (subst (1 2) id_bytes_length) auto
  then have "length (chunk_list MAX_CHUNK_SIZE (id_bytes l0)) \<le> unat (stored_key_count (do_storage s1))"
    using chunk_count_mono s1(3,4) by (simp add: unat_of_nat take_bit_eq_mod)
  moreover have "chunks_at report_ids_keys (do_storage s1) (chunk_list MAX_CHUNK_SIZE (id_bytes l0))"
    using keys_disjoint(1) by (intro chunks_at_other [OF l0(3)] s1(5)) auto
  ultimately have "ids_stored (do_storage s1) (spec_ids a)"
    using l0(1,2) s1(6) by (auto simp: ids_stored_def)
  moreover have "storage_get_bool_or_default (do_storage s1) COLLECTED_KEY = Ok (spec_collected a)"
    using coherentD(5) [OF co] s1(5) [of COLLECTED_KEY] keys_disjoint(3) by (simp add: storage_get_bool_or_default_def)
  ultimately have "coherent V good (evict (s1\<lparr>agg_share := Some (spec_share a)\<rparr>)) a"
    using coherentD(1) [OF co] share by (simp add: coherent_def evict_def with_state_and_env_def)
  with run show ?thesis
    using l(1,3) s1(2) new(1) by auto
qed

lemma merge_all_cached:
  assumes "collected s = Some False" "report_ids s = Some l" "set (contained_reports req) \<subseteq> set l"
    and "\<not> skip_replay_protection req" "contained_reports req \<noteq> []"
    and "length (remdups (contained_reports req)) = unat (report_count (agg_share_delta req))"
  shows "handle_merge V F req s = (Ok Merge_Ok, s)"
proof -
  have "filter (\<lambda>i. i \<in> set l) (contained_reports req) = contained_reports req"
    using assms(3) by (auto intro: filter_True)
  then show ?thesis
    using assms by (auto simp: handle_merge_def is_collected_def record_report_ids_def load_aggregated_report_ids_def Let_def)
qed

end

section \<open>What the specification guarantees\<close>

lemma spec_merge_collected: "spec_collected a \<Longrightarrow> spec_merge V req a = Some (Merge_AlreadyCollected, a)"
  by (simp add: spec_merge_def)

text \<open>A collected batch is final: it answers every known request and does not change.\<close>

definition collected_response :: "'v store_spec \<Rightarrow> 'v store_request \<Rightarrow> 'v store_response" where
  "collected_response a r = (case r of
      Req_GetMerged \<Rightarrow> Resp_Ids (spec_ids a)
    | Req_Merge _ \<Rightarrow> Resp_Merge Merge_AlreadyCollected
    | Req_Get \<Rightarrow> Resp_Share (spec_share a)
    | Req_CheckCollected \<Rightarrow> Resp_Bool True
    | _ \<Rightarrow> Resp_Unit)"

lemma spec_run_collected:
  assumes "spec_collected a" and "fits V a" and "Req_Unknown \<notin> set rs"
  shows "spec_run V rs a = Some (map (collected_response a) rs, a)"
  using assms(3)
proof (induction rs)
  case (Cons r rs)
  have "spec_handle V r a = Some (collected_response a r, a)"
    using assms(1) Cons.prems
    by (cases r) (auto simp: spec_handle_def spec_merge_collected collected_response_def)
  with Cons assms(2) show ?case
    by simp
qed simp

context merge_laws
begin

lemma repeats_all:
  assumes "distinct xs" and "length (remdups (filter P xs)) = length xs"
  shows "\<forall>x \<in> set xs. P x"
  using assms by (metis distinct_filter distinct_remdups_id filter_id_conv length_filter_less order_less_irrefl)

lemma spec_merge_accounted:
  assumes acc: "accounted V E rs a" and good: "merges_reports V E R (Req_Merge m)"
    and step: "spec_merge V m a = Some (resp, a')" and fit: "fits V a'"
  shows "\<exists>rs'. accounted V E rs' a' \<and>
    (if resp = Merge_Ok then set rs' \<subseteq> set rs \<union> set (R m) \<and> spec_ids a' = spec_ids a \<union> set (contained_reports m)
     else rs' = rs \<and> spec_ids a' = spec_ids a)"
proof -
  let ?repeats = "remdups (filter (\<lambda>i. i \<in> spec_ids a) (contained_reports m))"
  note good = good [unfolded merges_reports_def store_request.case]
  consider (kept) "a' = a" "resp = Merge_Ok \<longrightarrow> set (contained_reports m) \<subseteq> spec_ids a"
    | (merged) share where "resp = Merge_Ok" "?repeats = []" "a' = a\<lparr>spec_share := share, spec_ids := set (contained_reports m) \<union> spec_ids a\<rparr>"
        "DapAggregateShare_merge V (spec_share a) (agg_share_delta m) = Ok share"
  proof (cases "spec_collected a")
    case True
    then show ?thesis
      using step by (intro kept) (simp_all add: spec_merge_collected)
  next
    case open_batch: False
    show ?thesis
    proof (cases "?repeats = []")
      case True
      with step good open_batch obtain share
        where "DapAggregateShare_merge V (spec_share a) (agg_share_delta m) = Ok share" "resp = Merge_Ok"
          "a' = a\<lparr>spec_share := share, spec_ids := set (contained_reports m) \<union> spec_ids a\<rparr>"
        by (auto simp: spec_merge_def Let_def split: result.splits)
      with True show ?thesis
        by (intro merged)
    next
      case False
      then have res: "a' = a" "resp = (if length ?repeats = unat (report_count (agg_share_delta m))
          then Merge_Ok else Merge_ReplaysDetected ?repeats)"
        using step good open_batch by (auto simp: spec_merge_def Let_def)
      have "R m \<noteq> []"
        using False good by auto
      then have "unat (report_count (agg_share_delta m)) = length (contained_reports m)"
        using share_of_fields(1) good by simp
      then have "resp = Merge_Ok \<longrightarrow> (\<forall>i \<in> set (contained_reports m). i \<in> spec_ids a)"
        using res(2) repeats_all [of "contained_reports m" "\<lambda>i. i \<in> spec_ids a"] good
        by (metis AggregateStoreMergeResp.distinct(1))
      with res(1) show ?thesis
        by (intro kept) blast+
    qed
  qed
  then show ?thesis
  proof cases
    case kept
    with acc show ?thesis
      by (intro exI [of _ rs]) auto
  next
    case merged
    have dist: "distinct (map fst (rs @ R m))" "set (map fst (rs @ R m)) = spec_ids a'"
      using acc good merged(2,3) by (auto simp: accounted_def filter_empty_conv)
    have "length (rs @ R m) = card (spec_ids a')"
      using distinct_card [OF dist(1)] dist(2) by simp
    with fit have "length rs + length (R m) < 2 ^ 64"
      by (simp add: fits_def)
    then have "share_of V E (rs @ R m) = Ok share"
      using acc good merged(4) by (auto simp: share_of_append accounted_def)
    with dist merged show ?thesis
      by (intro exI [of _ "rs @ R m"]) (auto simp: accounted_def)
  qed
qed

lemma spec_run_accounted:
  "\<lbrakk>accounted V E rs a; list_all (merges_reports V E R) reqs; spec_run V reqs a = Some (resps, a')\<rbrakk> \<Longrightarrow>
   \<exists>rs'. accounted V E rs' a' \<and> set rs' \<subseteq> set rs \<union> (\<Union>m \<in> acknowledged reqs resps. set (R m)) \<and>
     spec_ids a' = spec_ids a \<union> (\<Union>m \<in> acknowledged reqs resps. set (contained_reports m))"
proof (induction reqs arbitrary: rs a resps)
  case Nil
  then show ?case
    by (auto simp: acknowledged_def)
next
  case (Cons r reqs)
  then obtain resp a1 resps' where step: "spec_handle V r a = Some (resp, a1)" "fits V a1"
    and rest: "spec_run V reqs a1 = Some (resps', a')" "resps = resp # resps'"
    by (auto split: option.splits if_splits)
  have ack: "acknowledged (r # reqs) resps =
      {m. r = Req_Merge m \<and> resp = Resp_Merge Merge_Ok} \<union> acknowledged reqs resps'"
    by (auto simp: acknowledged_def rest(2))
  obtain rs1 where rs1: "accounted V E rs1 a1"
    and new: "set rs1 \<subseteq> set rs \<union> (\<Union>m \<in> {m. r = Req_Merge m \<and> resp = Resp_Merge Merge_Ok}. set (R m))"
      "spec_ids a1 = spec_ids a \<union> (\<Union>m \<in> {m. r = Req_Merge m \<and> resp = Resp_Merge Merge_Ok}. set (contained_reports m))"
  proof (cases "\<exists>m. r = Req_Merge m")
    case True
    then obtain m where Req_Merge: "r = Req_Merge m"
      by blast
    with step obtain res where res: "spec_merge V m a = Some (res, a1)" "resp = Resp_Merge res"
      by (auto simp: spec_handle_def)
    have "merges_reports V E R (Req_Merge m)"
      using Cons.prems(2) Req_Merge by simp
    from spec_merge_accounted [OF Cons.prems(1) this res(1) step(2)]
    obtain rs' where "accounted V E rs' a1" "if res = Merge_Ok
        then set rs' \<subseteq> set rs \<union> set (R m) \<and> spec_ids a1 = spec_ids a \<union> set (contained_reports m)
        else rs' = rs \<and> spec_ids a1 = spec_ids a"
      by blast
    then show ?thesis
      by (intro that [of rs']) (auto simp: Req_Merge res(2) split: if_splits)
  next
    case False
    with step(1) have "spec_ids a1 = spec_ids a" "spec_share a1 = spec_share a"
      by (cases r; auto simp: spec_handle_def)+
    with False Cons.prems(1) show ?thesis
      by (intro that [of rs]) (simp_all add: accounted_def)
  qed
  have "list_all (merges_reports V E R) reqs"
    using Cons.prems(2) by simp
  from Cons.IH [OF rs1 this rest(1)]
  obtain rs' where rs': "accounted V E rs' a'" "set rs' \<subseteq> set rs1 \<union> (\<Union>m \<in> acknowledged reqs resps'. set (R m))"
    "spec_ids a' = spec_ids a1 \<union> (\<Union>m \<in> acknowledged reqs resps'. set (contained_reports m))"
    by blast
  show ?case
    unfolding ack UN_Un
  proof (intro exI [of _ rs'] conjI)
    show "set rs' \<subseteq> set rs \<union> ((\<Union>m \<in> {m. r = Req_Merge m \<and> resp = Resp_Merge Merge_Ok}. set (R m)) \<union>
        (\<Union>m \<in> acknowledged reqs resps'. set (R m)))"
      by (rule order_trans [OF rs'(2)]) (use Un_mono [OF new(1) order_refl] in \<open>simp only: Un_assoc\<close>)
    show "spec_ids a' = spec_ids a \<union> ((\<Union>m \<in> {m. r = Req_Merge m \<and> resp = Resp_Merge Merge_Ok}. set (contained_reports m)) \<union>
        (\<Union>m \<in> acknowledged reqs resps'. set (contained_reports m)))"
      unfolding rs'(3) new(2) by (rule Un_assoc)
  qed (rule rs'(1))
qed

end

end
