(* ===== verification/Aggregate_Store_Instance.thy ===== *)
theory Aggregate_Store_Instance
  imports Aggregate_Store_Laws Aggregate_Instance Wire_Instance
begin

text \<open>
  The properties of the aggregate store, and an instance of \<open>share_storage_laws\<close>: the vectors of field
  elements of the example, each element in network byte order. An element is below the prime of its
  field, and the decoder refuses anything else.
\<close>

section \<open>Stored vectors of field elements\<close>

definition field_prime :: "VdafKind \<Rightarrow> nat" where
  "field_prime kind = (case kind of
      Kind_Field32 \<Rightarrow> 4293918721
    | Kind_Field64 \<Rightarrow> 18446744069414584321
    | Kind_Field128 \<Rightarrow> 340282366920938462946865773367900766209)"

definition field_elem_bytes :: "VdafKind \<Rightarrow> nat \<Rightarrow> bytes" where
  "field_elem_bytes kind x = be_bytes (elem_size kind) x"

definition field_elem :: "VdafKind \<Rightarrow> nat \<Rightarrow> bool" where
  "field_elem kind x \<longleftrightarrow> x < field_prime kind"

definition example_elem_decode :: "VdafKind \<Rightarrow> nat decoder" where
  "example_elem_decode kind c =
     and_then (read_exact Io (elem_size kind) c) (\<lambda>(w, c).
       if be_value 0 w < field_prime kind then Ok (be_value 0 w, c) else Err Io)"

definition example_fields :: "(nat list, nat) field_ext" where
  "example_fields = \<lparr>field_decode = example_elem_decode, AggregateShare_from_vec = (\<lambda>_ xs. xs),
     get_decoded_ReportId = be_get_decoded, get_encoded_share = (\<lambda>e. e [])\<rparr>"

definition share_elems :: "'v VdafAggregateShare \<Rightarrow> 'v" where
  "share_elems d = (case d of Field32 v \<Rightarrow> v | Field64 v \<Rightarrow> v | Field128 v \<Rightarrow> v)"

definition field_vector :: "nat list VdafAggregateShare \<Rightarrow> bool" where
  "field_vector d \<longleftrightarrow> list_all (field_elem (share_kind d)) (share_elems d)"

section \<open>It satisfies the laws\<close>

lemma prime_fits: "field_prime kind < 256 ^ elem_size kind"
  by (cases kind) (simp_all add: field_prime_def elem_size_def)

lemma field_elem_decode:
  "example_elem_decode kind c = Ok (x, c') \<longleftrightarrow> field_elem kind x \<and> reads c (field_elem_bytes kind x) c'"
proof -
  have "field_elem kind x \<Longrightarrow> be_value 0 (field_elem_bytes kind x) = x"
    using prime_fits [of kind] by (simp add: field_elem_bytes_def be_value_be_bytes field_elem_def)
  moreover have "length w = elem_size kind \<Longrightarrow> field_elem_bytes kind (be_value 0 w) = w" for w
    by (simp add: field_elem_bytes_def be_bytes_be_value)
  moreover have "length (field_elem_bytes kind x) = elem_size kind"
    by (simp add: field_elem_bytes_def)
  ultimately show ?thesis
    by (fastforce simp: example_elem_decode_def read_exact_Ok_iff field_elem_def split: if_splits)
qed

lemma field_merge_elems:
  assumes "field_merge p u v = Ok w" and "p \<noteq> 0"
  shows "length w = length u" "list_all (\<lambda>x. x < p) w"
  using assms by (auto simp: field_merge_def list_all_iff set_zip split: if_splits)

interpretation stored: share_storage_laws example_vdafs example_fields field_elem_bytes field_elem share_elems field_vector
proof
  show "\<lbrakk>field_vector (Field32 u); field_vector (Field32 v); Field32_merge example_vdafs u v = Ok w\<rbrakk> \<Longrightarrow>
      field_vector (Field32 w) \<and> length (share_elems (Field32 w)) = length (share_elems (Field32 u))" for u v w
    using field_merge_elems [of 4293918721 u v w]
    by (simp add: example_vdafs_def field_vector_def share_elems_def share_kind_def field_elem_def field_prime_def list_all_iff)
  show "\<lbrakk>field_vector (Field64 u); field_vector (Field64 v); Field64_merge example_vdafs u v = Ok w\<rbrakk> \<Longrightarrow>
      field_vector (Field64 w) \<and> length (share_elems (Field64 w)) = length (share_elems (Field64 u))" for u v w
    using field_merge_elems [of 18446744069414584321 u v w]
    by (simp add: example_vdafs_def field_vector_def share_elems_def share_kind_def field_elem_def field_prime_def list_all_iff)
  show "\<lbrakk>field_vector (Field128 u); field_vector (Field128 v); Field128_merge example_vdafs u v = Ok w\<rbrakk> \<Longrightarrow>
      field_vector (Field128 w) \<and> length (share_elems (Field128 w)) = length (share_elems (Field128 u))" for u v w
    using field_merge_elems [of 340282366920938462946865773367900766209 u v w]
    by (simp add: example_vdafs_def field_vector_def share_elems_def share_kind_def field_elem_def field_prime_def list_all_iff)
  show "VdafAggregateShare_encode example_vdafs d bs =
      Ok (bs @ concat (map (field_elem_bytes (share_kind d)) (share_elems d)))" for d bs
    by (cases d) (simp_all add: VdafAggregateShare_encode_def example_vdafs_def share_kind_def share_elems_def
        field_elem_bytes_def elem_size_def cong: map_cong)
  show "kind_share (share_kind d) (AggregateShare_from_vec example_fields (share_kind d) (share_elems d)) = d" for d
    by (cases d) (simp_all add: kind_share_def share_kind_def share_elems_def example_fields_def)
qed (simp_all add: example_fields_def field_elem_decode be_decodes_whole field_elem_bytes_def field_vector_def list_all_iff)

section \<open>Properties of the aggregate store\<close>

text \<open>Requests of the example: jobs of reports that contribute the same element.\<close>

definition example_id :: "u8 \<Rightarrow> ReportId" where
  "example_id n = ReportId (replicate 16 n)"

definition example_contributions :: "ReportId list \<Rightarrow> (ReportId \<times> Time \<times> nat list VdafAggregateShare) list" where
  "example_contributions ids = map (\<lambda>i. (i, 130, Field64 [5])) ids"

definition example_merge :: "u8 list \<Rightarrow> nat list AggregateStoreMergeReq" where
  "example_merge ns = \<lparr>contained_reports = map example_id ns,
     agg_share_delta = (case share_of example_vdafs example_ext (example_contributions (map example_id ns)) of
        Ok share \<Rightarrow> share | _ \<Rightarrow> DapAggregateShare_default),
     skip_replay_protection = False\<rparr>"

text \<open>Two jobs, the second of which repeats a report and is sent again without it; then the batch is collected.\<close>

definition example_events :: "nat list store_event list" where
  "example_events = [Handle (Req_Merge (example_merge [1, 2])), Evict, Handle (Req_Merge (example_merge [2, 3])),
     Handle (Req_Merge (example_merge [3])), Handle Req_MarkCollected, Evict, Handle (Req_Merge (example_merge [4]))]"

definition example_responses :: "nat list store_response list" where
  "example_responses = [Resp_Merge Merge_Ok, Resp_Merge (Merge_ReplaysDetected [example_id 2]), Resp_Merge Merge_Ok,
     Resp_Unit, Resp_Merge Merge_AlreadyCollected]"

text \<open>A share of another length, which cannot be merged with those of the example.\<close>

definition example_mismatch :: "nat list AggregateStoreMergeReq" where
  "example_mismatch = \<lparr>contained_reports = [example_id 9],
     agg_share_delta = \<lparr>report_count = 1, min_time = 130, max_time = 130, checksum = replicate 32 0,
       agg_data = Some (Field64 [1, 2])\<rparr>,
     skip_replay_protection = False\<rparr>"








text \<open>
  C3. A collected batch is final. Once the flag is set, no sequence of requests and evictions changes the
  aggregate share or the identifiers: every merge is answered with \<open>Merge_AlreadyCollected\<close>, and reading
  gives what was there when the batch was collected.
\<close>

theorem store_collected_is_final:
  assumes "share_storage_laws V F elem_bytes valid elems good"
    and "coherent V good s a" and "spec_collected a" and "fits V a"
    and "list_all (wf_request V good) (requests es)" and "Req_Unknown \<notin> set (requests es)"
  shows "\<exists>s'. run_store V F es s = (map (\<lambda>r. Ok (collected_response a r)) (requests es), s') \<and> coherent V good s' a"
  using share_storage_laws.run_store_refines [OF assms(1,2,5) spec_run_collected [OF assms(3,4,6)]]
  by (simp add: comp_def)

theorem store_collected_is_final_witness:
  "\<exists>s s'. run_store example_vdafs example_fields (take 5 example_events) (with_state_and_env Map.empty) =
      (map Ok (take 4 example_responses), s) \<and>
    run_store example_vdafs example_fields [Handle (Req_Merge (example_merge [4])), Evict, Handle Req_CheckCollected] s =
      ([Ok (Resp_Merge Merge_AlreadyCollected), Ok (Resp_Bool True)], s')"
proof -
  have "\<exists>a. spec_run example_vdafs (requests (take 5 example_events)) spec_empty = Some (take 4 example_responses, a) \<and>
      spec_collected a \<and> fits example_vdafs a"
  proof -
    have "case spec_run example_vdafs (requests (take 5 example_events)) spec_empty of
        Some (resps, a) \<Rightarrow> resps = take 4 example_responses \<and> spec_collected a \<and> fits example_vdafs a | None \<Rightarrow> False"
      by code_simp
    then show ?thesis
      by (auto split: option.splits)
  qed
  then obtain a where a: "spec_run example_vdafs (requests (take 5 example_events)) spec_empty = Some (take 4 example_responses, a)"
    "spec_collected a" "fits example_vdafs a"
    by blast
  have "list_all (wf_request example_vdafs field_vector) (requests (take 5 example_events))"
    by code_simp
  from stored.run_store_refines [OF stored.new_store_coherent this a(1)]
  obtain s where s: "run_store example_vdafs example_fields (take 5 example_events) (with_state_and_env Map.empty) =
      (map Ok (take 4 example_responses), s)" "coherent example_vdafs field_vector s a"
    by blast
  let ?es = "[Handle (Req_Merge (example_merge [4])), Evict, Handle Req_CheckCollected]"
  have "list_all (wf_request example_vdafs field_vector) (requests ?es)"
    by code_simp
  moreover have "Req_Unknown \<notin> set (requests ?es)"
    by simp
  ultimately have "\<exists>s'. run_store example_vdafs example_fields ?es s =
      (map (\<lambda>r. Ok (collected_response a r)) (requests ?es), s') \<and> coherent example_vdafs field_vector s' a"
    by (rule store_collected_is_final [OF stored.share_storage_laws_axioms s(2) a(2,3)])
  with s(1) show ?thesis
    by (auto simp: collected_response_def)
qed

text \<open>
  C16. A merge that fails is acknowledged when it is sent again. The identifiers are put into the cache of
  the object before the shares are merged, so that after a failure the object takes the same request for
  a repetition and answers \<open>Merge_Ok\<close>, although nothing was added to the aggregate share; an object that
  was dropped in between reports the failure again.
\<close>

theorem store_failed_merge_retry:
  assumes "share_storage_laws V F elem_bytes valid elems good"
    and "coherent V good s a" and "\<not> spec_collected a" and "\<not> skip_replay_protection req"
    and "set (contained_reports req) \<inter> spec_ids a = {}" and "contained_reports req \<noteq> []"
    and "\<forall>i \<in> set (contained_reports req). length (ReportId_0 i) = 16"
    and "card (set (contained_reports req) \<union> spec_ids a) * 16 \<le> 255 * 128000"
    and "length (remdups (contained_reports req)) = unat (report_count (agg_share_delta req))"
    and "DapAggregateShare_merge V (spec_share a) (agg_share_delta req) = Err e"
  shows "\<exists>s'. handle_merge V F req s = (Err (WE_RustError ''internalError''), s') \<and>
    handle_merge V F req s' = (Ok Merge_Ok, s') \<and>
    fst (handle_merge V F req (evict s')) = Err (WE_RustError ''internalError'') \<and>
    coherent V good (evict s') a"
proof -
  note failed = share_storage_laws.failed_merge [OF assms(1) _ assms(3,4,5,7,8,10)]
  obtain s' l where s': "handle_merge V F req s = (Err (WE_RustError ''internalError''), s')" "coherent V good (evict s') a"
    and cache: "collected s' = Some False" "report_ids s' = Some l" "set (contained_reports req) \<subseteq> set l"
    using failed [OF assms(2)] by auto
  have "handle_merge V F req s' = (Ok Merge_Ok, s')"
    by (rule share_storage_laws.merge_all_cached [OF assms(1) cache assms(4,6,9)])
  with s' failed [OF s'(2)] show ?thesis
    by fastforce
qed

theorem store_failed_merge_retry_witness:
  "\<exists>s s'. run_store example_vdafs example_fields (take 1 example_events) (with_state_and_env Map.empty) =
      ([Ok (Resp_Merge Merge_Ok)], s) \<and>
    handle_merge example_vdafs example_fields example_mismatch s = (Err (WE_RustError ''internalError''), s') \<and>
    handle_merge example_vdafs example_fields example_mismatch s' = (Ok Merge_Ok, s')"
proof -
  have "case spec_run example_vdafs (requests (take 1 example_events)) spec_empty of
      Some (resps, a) \<Rightarrow> resps = [Resp_Merge Merge_Ok] \<and> \<not> spec_collected a \<and> spec_ids a = {example_id 1, example_id 2} \<and>
        (case DapAggregateShare_merge example_vdafs (spec_share a) (agg_share_delta example_mismatch) of
          Err e \<Rightarrow> True | _ \<Rightarrow> False)
    | None \<Rightarrow> False"
    by code_simp
  then obtain a where "case DapAggregateShare_merge example_vdafs (spec_share a) (agg_share_delta example_mismatch) of
      Err e \<Rightarrow> True | _ \<Rightarrow> False"
    and a: "spec_run example_vdafs (requests (take 1 example_events)) spec_empty = Some ([Resp_Merge Merge_Ok], a)"
    "\<not> spec_collected a" "spec_ids a = {example_id 1, example_id 2}"
    by (simp split: option.splits) blast
  then obtain e where err: "DapAggregateShare_merge example_vdafs (spec_share a) (agg_share_delta example_mismatch) = Err e"
    by (cases "DapAggregateShare_merge example_vdafs (spec_share a) (agg_share_delta example_mismatch)") simp_all
  have "list_all (wf_request example_vdafs field_vector) (requests (take 1 example_events))"
    by code_simp
  from stored.run_store_refines [OF stored.new_store_coherent this a(1)]
  obtain s where s: "run_store example_vdafs example_fields (take 1 example_events) (with_state_and_env Map.empty) =
      ([Ok (Resp_Merge Merge_Ok)], s)" "coherent example_vdafs field_vector s a"
    by auto
  have ids: "example_id 9 \<noteq> example_id 1" "example_id 9 \<noteq> example_id 2" "example_id 1 \<noteq> example_id 2"
    by (simp_all add: example_id_def)
  have "\<not> skip_replay_protection example_mismatch" "set (contained_reports example_mismatch) \<inter> spec_ids a = {}"
    "contained_reports example_mismatch \<noteq> []"
    "\<forall>i \<in> set (contained_reports example_mismatch). length (ReportId_0 i) = 16"
    "card (set (contained_reports example_mismatch) \<union> spec_ids a) * 16 \<le> 255 * 128000"
    "length (remdups (contained_reports example_mismatch)) = unat (report_count (agg_share_delta example_mismatch))"
    using ids by (simp_all add: a(3) example_mismatch_def example_id_def)
  from store_failed_merge_retry [OF stored.share_storage_laws_axioms s(2) a(2) this err] s(1) show ?thesis
    by blast
qed

end
