(* ===== verification/Storage_Proxy_Laws.thy ===== *)
theory Storage_Proxy_Laws
  imports Storage_Proxy Aggregate_Store_Instance
begin

text \<open>
  What the server may rely on when it sends a request to a durable object: with the check for replays a
  request is executed at most once, however many attempts the worker makes and whatever is lost on the
  way. The objects of a world refine a map from names to the states of the specification.
\<close>

section \<open>Worlds and their specification\<close>

definition world_coherent ::
  "('v, 'x) prio_vdafs_scheme \<Rightarrow> ('v VdafAggregateShare \<Rightarrow> bool) \<Rightarrow> ('v, 'k, 'z) world_scheme \<Rightarrow>
   (string \<Rightarrow> 'v store_spec) \<Rightarrow> bool" where
  "world_coherent V good w A \<longleftrightarrow> (\<forall>name. coherent V good (objects w name) (A name))"

text \<open>Nothing changes but the objects, their alarms, the clock and the deliveries that were used up.\<close>

definition stores_only :: "('v, 'k, 'z) world_scheme \<Rightarrow> ('v, 'k, 'z) world_scheme \<Rightarrow> bool" where
  "stores_only w w' \<longleftrightarrow> gc_after_secs w' = gc_after_secs w \<and> namespace w' = namespace w \<and>
     trusted_token w' = trusted_token w \<and> kv_faults w' = kv_faults w \<and> clock w \<le> clock w' \<and>
     world.more w' = world.more w"

text \<open>
  A request that may be sent again: a merge has the check for replays, and counts its reports, each of
  them once.
\<close>

definition resendable :: "'v store_request \<Rightarrow> bool" where
  "resendable req = (case req of
      Req_Merge m \<Rightarrow> \<not> skip_replay_protection m \<and> contained_reports m \<noteq> [] \<and>
        length (remdups (contained_reports m)) = unat (report_count (agg_share_delta m))
    | _ \<Rightarrow> True)"

text \<open>The requests of the server reach the worker, and the worker reaches the object.\<close>

definition connected :: "BearerToken \<Rightarrow> ('v, 'k, 'z) world_scheme \<Rightarrow> bool" where
  "connected auth_token w \<longleftrightarrow> trusted_token w = Some auth_token \<and> http_faults w = [] \<and> stub_faults w = []"

text \<open>
  The outcome of a request whose answer is \<open>resp\<close> and that takes the object to \<open>a'\<close>: either this answer
  and this state, or an error and the state before or after the request.
\<close>

definition sent_once ::
  "('v, 'x) prio_vdafs_scheme \<Rightarrow> ('v VdafAggregateShare \<Rightarrow> bool) \<Rightarrow> (string \<Rightarrow> 'v store_spec) \<Rightarrow> string \<Rightarrow>
   'v store_response \<times> 'v store_spec \<Rightarrow> ('v store_response, 'e) result \<Rightarrow> ('v, 'k, 'z) world_scheme \<Rightarrow> bool" where
  "sent_once V good A name = (\<lambda>(resp, a') x w'.
     x = Ok resp \<and> world_coherent V good w' (A(name := a')) \<or>
     (\<exists>e. x = Err e) \<and> (world_coherent V good w' A \<or> world_coherent V good w' (A(name := a'))))"

section \<open>Frames\<close>

lemma stores_only_refl [simp]: "stores_only w w"
  by (simp add: stores_only_def)

lemma stores_only_trans: "stores_only w w1 \<Longrightarrow> stores_only w1 w2 \<Longrightarrow> stores_only w w2"
  by (auto simp: stores_only_def)

lemma stores_only_simps [simp]:
  "stores_only w (w1\<lparr>objects := os\<rparr>) = stores_only w w1"
  "stores_only w (w1\<lparr>alarms := al\<rparr>) = stores_only w w1"
  "stores_only w (w1\<lparr>stub_faults := sf\<rparr>) = stores_only w w1"
  "stores_only w (w1\<lparr>http_faults := hf\<rparr>) = stores_only w w1"
  by (simp_all add: stores_only_def)

lemma world_coherent_same: "objects w' = objects w \<Longrightarrow> world_coherent V good w' A = world_coherent V good w A"
  by (simp add: world_coherent_def)

lemma world_coherent_update:
  "world_coherent V good w A \<Longrightarrow> coherent V good obj a \<Longrightarrow>
   world_coherent V good (w\<lparr>objects := (objects w)(name := obj)\<rparr>) (A(name := a))"
  by (simp add: world_coherent_def)

lemma spec_handle_again:
  assumes "resendable req" and "spec_handle V req a = Some (resp, a')"
  shows "spec_handle V req a' = Some (resp, a')"
proof (cases req)
  case (Req_Merge m)
  have all: "filter (\<lambda>i. i \<in> set (contained_reports m) \<or> i \<in> X) (contained_reports m) = contained_reports m" for X
    by (auto intro: filter_True)
  show ?thesis
    using assms Req_Merge all
    by (auto simp: resendable_def spec_handle_def spec_merge_def Let_def split: if_splits result.splits)
qed (use assms in \<open>auto simp: spec_handle_def\<close>)

section \<open>Sending to an object\<close>

lemma no_faults:
  "http_faults w = [] \<Longrightarrow> w\<lparr>http_faults := []\<rparr> = w" "stub_faults w = [] \<Longrightarrow> w\<lparr>stub_faults := []\<rparr> = w"
  by simp_all

lemma durable_send_delivered:
  assumes "trusted_token w = Some auth_token" and "http_faults w = []" and "handle_do_request V F name req w = (Ok resp, w')"
  shows "durable_send V F auth_token name req w = (Ok resp, w')"
  using assms
  by (simp add: durable_send_def http_send_def bearer_auth_def Error_into_response_def constant_time_eq_iff
      is_success_def st_then.simps st_return_def st_lift_def no_faults)

context share_storage_laws
begin

lemma fetch_refines:
  assumes co: "world_coherent V good w A" and wf: "wf_request V good req"
    and spec: "spec_handle V req (A name) = Some (resp, a')" and fit: "fits V a'"
  shows "\<exists>obj. AggregateStore_fetch V F name req w =
      (Ok resp, w\<lparr>alarms := (alarms w)(name \<mapsto> clock w + should_cleanup_at w), objects := (objects w)(name := obj)\<rparr>) \<and>
    coherent V good obj a'"
proof -
  have "coherent V good (objects w name) (A name)"
    using co by (simp add: world_coherent_def)
  from AggregateStore_handle_refines [OF this wf spec fit] show ?thesis
    by (auto simp: AggregateStore_fetch_def)
qed

lemma fetch_coherent:
  assumes "world_coherent V good w A" and "wf_request V good req"
    and "spec_handle V req (A name) = Some (resp, a')" and "fits V a'"
  shows "\<exists>w'. AggregateStore_fetch V F name req w = (Ok resp, w') \<and> world_coherent V good w' (A(name := a')) \<and>
    stub_faults w' = stub_faults w"
  using fetch_refines [OF assms] assms(1) by (auto simp: world_coherent_def)

lemma fetch_with_request_once:
  assumes "wf_request V good req" and "fits V a'" and "spec_handle V req a' = Some (resp, a')"
    and co: "world_coherent V good w A" and spec: "spec_handle V req (A name) = Some (resp, a')"
  shows "\<exists>x w'. fetch_with_request V F name req w = (x, w') \<and> stores_only w w' \<and>
    sent_once V good A name (resp, a') x w' \<and>
    (stub_faults w = [] \<longrightarrow> x = Ok resp) \<and> length (stub_faults w') = length (stub_faults w) - 1"
proof -
  obtain d ds where d: "next_delivery (stub_faults w) = (d, ds)" "length ds = length (stub_faults w) - 1"
    "stub_faults w = [] \<longrightarrow> d = Delivered"
    by (cases "stub_faults w") auto
  let ?w = "w\<lparr>stub_faults := ds\<rparr>"
  have co': "world_coherent V good ?w A"
    using co by (simp add: world_coherent_def)
  from fetch_refines [OF this assms(1) spec assms(2)] obtain obj where
    run: "AggregateStore_fetch V F name req ?w = (Ok resp, ?w\<lparr>alarms := (alarms w)(name \<mapsto> clock w + should_cleanup_at ?w),
      objects := (objects w)(name := obj)\<rparr>)" (is "_ = (_, ?w')") and "coherent V good obj a'"
    by auto
  then have "world_coherent V good ?w' (A(name := a'))"
    using co by (simp add: world_coherent_def)
  with run co' d show ?thesis
    by (cases d) (auto simp: fetch_with_request_def st_then_eval sent_once_def)
qed

lemma retry_loop_once:
  assumes "wf_request V good req" and "fits V a'" and "spec_handle V req a' = Some (resp, a')"
  shows "world_coherent V good w A \<Longrightarrow> spec_handle V req (A name) = Some (resp, a') \<Longrightarrow>
    \<exists>x w'. retry_loop (\<lambda>_. fetch_with_request V F name req) attempt delays w = (x, w') \<and> stores_only w w' \<and>
      sent_once V good A name (resp, a') x w' \<and>
      (length (stub_faults w) \<le> length delays \<longrightarrow> x = Ok resp)"
proof (induction delays arbitrary: w A attempt)
  case Nil
  show ?case
    using fetch_with_request_once [OF assms Nil(1) Nil(2)]
    by (subst retry_loop.simps) (auto simp: sent_once_def split: result.splits)
next
  case (Cons ms delays)
  obtain x w1 where first: "fetch_with_request V F name req w = (x, w1)" "stores_only w w1"
    "sent_once V good A name (resp, a') x w1"
    "stub_faults w = [] \<longrightarrow> x = Ok resp" "length (stub_faults w1) = length (stub_faults w) - 1"
    using fetch_with_request_once [OF assms Cons.prems] by blast
  show ?case
  proof (cases "x = Ok resp")
    case True
    with first show ?thesis
      by (subst retry_loop.simps) auto
  next
    case False
    then obtain e B where e: "x = Err e" and "world_coherent V good w1 B" and B: "B = A \<or> B = A(name := a')"
      using first(3) by (auto simp: sent_once_def)
    then have co: "world_coherent V good (wait ms w1) B"
      by (simp add: wait_def world_coherent_def)
    have "spec_handle V req (B name) = Some (resp, a')"
      using B Cons.prems(2) assms(3) by auto
    from Cons.IH [OF co this, of "attempt + 1"] obtain x' w' where
      rest: "retry_loop (\<lambda>_. fetch_with_request V F name req) (attempt + 1) delays (wait ms w1) = (x', w')"
        "stores_only (wait ms w1) w'"
        "sent_once V good B name (resp, a') x' w'"
        "length (stub_faults (wait ms w1)) \<le> length delays \<longrightarrow> x' = Ok resp"
      by blast
    have "stores_only w w'"
      using first(2) rest(2) by (auto simp: stores_only_def wait_def)
    moreover have "retry_loop (\<lambda>_. fetch_with_request V F name req) attempt (ms # delays) w = (x', w')"
      using first(1) e rest(1) by (subst retry_loop.simps) simp
    moreover have "length (stub_faults w) \<le> length (ms # delays) \<Longrightarrow> x' = Ok resp"
      using rest(4) first(4,5) False by (cases "stub_faults w") (auto simp: wait_def)
    ultimately show ?thesis
      using rest(3) B by (auto simp: sent_once_def)
  qed
qed

lemma durable_send_once:
  assumes "wf_request V good req" and "fits V a'" and "resendable req"
    and co: "world_coherent V good w A" and spec: "spec_handle V req (A name) = Some (resp, a')"
  shows "\<exists>x w'. durable_send V F auth_token name req w = (x, w') \<and> stores_only w w' \<and>
    sent_once V good A name (resp, a') x w' \<and>
    (trusted_token w = Some auth_token \<and> http_faults w = [] \<and> length (stub_faults w) \<le> 4 \<longrightarrow> x = Ok resp)"
proof -
  obtain d ds where d: "next_delivery (http_faults w) = (d, ds)" "http_faults w = [] \<longrightarrow> d = Delivered"
    by (cases "http_faults w") auto
  let ?w = "w\<lparr>http_faults := ds\<rparr>"
  have co': "world_coherent V good ?w A"
    using co by (simp add: world_coherent_def)
  from retry_loop_once [OF assms(1,2) spec_handle_again [OF assms(3) spec] co' spec, of 1 RETRY_DELAYS]
  obtain x w' where run: "handle_do_request V F name req ?w = (x, w')" "stores_only w w'"
    "sent_once V good A name (resp, a') x w'" "length (stub_faults w) \<le> 4 \<longrightarrow> x = Ok resp"
    by (auto simp: handle_do_request_def retry_def RETRY_DELAYS_def stores_only_def)
  show ?thesis
  proof (cases "trusted_token w = Some auth_token \<and> d \<noteq> Request_Lost")
    case True
    with run d show ?thesis
      by (cases d; cases x) (auto simp: durable_send_def http_send_def bearer_auth_def Error_into_response_def st_then.simps
          constant_time_eq_iff is_success_def sent_once_def st_return_def st_lift_def)
  next
    case False
    with co' d show ?thesis
      by (cases d; cases "trusted_token w") (auto simp: durable_send_def http_send_def bearer_auth_def
          Error_into_response_def st_then.simps constant_time_eq_iff as_bytes_inject is_success_def sent_once_def
          st_return_def st_lift_def)
  qed
qed

lemma durable_send_connected:
  assumes "wf_request V good req" and "fits V a'" and "connected auth_token w"
    and co: "world_coherent V good w A" and spec: "spec_handle V req (A name) = Some (resp, a')"
  shows "\<exists>obj. durable_send V F auth_token name req w =
      (Ok resp, w\<lparr>alarms := (alarms w)(name \<mapsto> clock w + should_cleanup_at w), objects := (objects w)(name := obj)\<rparr>) \<and>
    coherent V good obj a'"
proof -
  from fetch_refines [OF co assms(1) spec assms(2)] obtain obj where
    "AggregateStore_fetch V F name req w = (Ok resp, w\<lparr>alarms := (alarms w)(name \<mapsto> clock w + should_cleanup_at w),
      objects := (objects w)(name := obj)\<rparr>)" and co: "coherent V good obj a'"
    by blast
  then have "handle_do_request V F name req w = (Ok resp, w\<lparr>alarms := (alarms w)(name \<mapsto> clock w + should_cleanup_at w),
      objects := (objects w)(name := obj)\<rparr>)"
    using assms(3) by (simp add: handle_do_request_def retry_def retry_loop.simps fetch_with_request_def connected_def no_faults)
  from durable_send_delivered [OF _ _ this, of auth_token] assms(3) co show ?thesis
    by (auto simp: connected_def)
qed

lemma durable_send_unprotected:
  assumes "\<not> spec_collected (A name)" and "skip_replay_protection m" and "wf_request V good (Req_Merge m)"
    and "DapAggregateShare_merge V (spec_share (A name)) (agg_share_delta m) = Ok share1"
    and "DapAggregateShare_merge V share1 (agg_share_delta m) = Ok share2"
    and "fits V ((A name)\<lparr>spec_share := share1\<rparr>)" and "fits V ((A name)\<lparr>spec_share := share2\<rparr>)"
    and co: "world_coherent V good w A"
    and "trusted_token w = Some auth_token" "http_faults w = []" "stub_faults w = [Response_Lost]"
  shows "\<exists>w'. durable_send V F auth_token name (Req_Merge m) w = (Ok (Resp_Merge Merge_Ok), w') \<and>
    world_coherent V good w' (A(name := (A name)\<lparr>spec_share := share2\<rparr>))"
proof -
  let ?a = "(A name)\<lparr>spec_share := share1\<rparr>" and ?w = "w\<lparr>stub_faults := []\<rparr>"
  have spec: "spec_handle V (Req_Merge m) (A name) = Some (Resp_Merge Merge_Ok, ?a)"
    "spec_handle V (Req_Merge m) ?a = Some (Resp_Merge Merge_Ok, (A name)\<lparr>spec_share := share2\<rparr>)"
    using assms(1,2,4,5) by (simp_all add: spec_handle_def spec_merge_def Let_def)
  have "world_coherent V good ?w A"
    using co by (simp add: world_coherent_def)
  from fetch_coherent [OF this assms(3) spec(1) assms(6)] obtain w1 where
    first: "AggregateStore_fetch V F name (Req_Merge m) ?w = (Ok (Resp_Merge Merge_Ok), w1)"
    "world_coherent V good w1 (A(name := ?a))" "stub_faults w1 = []"
    by auto
  have "world_coherent V good (wait 100 w1) (A(name := ?a))"
    using first(2) by (simp add: world_coherent_def wait_def)
  from fetch_coherent [OF this assms(3), of name, simplified, OF spec(2) assms(7)] obtain w2 where
    second: "AggregateStore_fetch V F name (Req_Merge m) (wait 100 w1) = (Ok (Resp_Merge Merge_Ok), w2)"
    "world_coherent V good w2 (A(name := (A name)\<lparr>spec_share := share2\<rparr>))"
    by auto
  have "handle_do_request V F name (Req_Merge m) w = (Ok (Resp_Merge Merge_Ok), w2)"
    using first(1,3) second(1) assms(11)
    by (simp add: handle_do_request_def retry_def RETRY_DELAYS_def retry_loop.simps fetch_with_request_def
        st_then_eval st_lift_def wait_def no_faults)
  from durable_send_delivered [OF assms(9,10) this] second(2) show ?thesis
    by blast
qed

lemma durable_send_failed_merge:
  assumes "resendable (Req_Merge m)" and "\<not> spec_collected (A name)"
    and "set (contained_reports m) \<inter> spec_ids (A name) = {}"
    and "\<forall>i \<in> set (contained_reports m). length (ReportId_0 i) = 16"
    and "card (set (contained_reports m) \<union> spec_ids (A name)) * 16 \<le> 255 * 128000"
    and "DapAggregateShare_merge V (spec_share (A name)) (agg_share_delta m) = Err e"
    and co: "world_coherent V good w A" and "connected auth_token w"
  shows "\<exists>w'. durable_send V F auth_token name (Req_Merge m) w = (Ok (Resp_Merge Merge_Ok), w') \<and>
    coherent V good (evict (objects w' name)) (A name)"
proof -
  have req: "\<not> skip_replay_protection m" "contained_reports m \<noteq> []"
    "length (remdups (contained_reports m)) = unat (report_count (agg_share_delta m))"
    using assms(1) by (simp_all add: resendable_def)
  have "coherent V good (objects w name) (A name)"
    using co by (simp add: world_coherent_def)
  from failed_merge [OF this assms(2) req(1) assms(3-6)] obtain s' l where
    s': "handle_merge V F m (objects w name) = (Err (WE_RustError ''internalError''), s')"
      "coherent V good (evict s') (A name)" "collected s' = Some False" "report_ids s' = Some l"
      "set (contained_reports m) \<subseteq> set l"
    by auto
  have again: "handle_merge V F m s' = (Ok Merge_Ok, s')"
    by (rule merge_all_cached [OF s'(3-5) req])
  obtain w' where "handle_do_request V F name (Req_Merge m) w = (Ok (Resp_Merge Merge_Ok), w')" "objects w' name = s'"
    using s'(1) again assms(8)
    by (simp add: handle_do_request_def retry_def RETRY_DELAYS_def retry_loop.simps fetch_with_request_def connected_def
        AggregateStore_fetch_def AggregateStore_handle_def st_then_eval st_return_def wait_def no_faults Let_def)
  with durable_send_delivered [of w auth_token V F name "Req_Merge m" "Resp_Merge Merge_Ok" w'] assms(8) s'(2)
  show ?thesis
    by (auto simp: connected_def)
qed

end

section \<open>Properties of the storage proxy\<close>

text \<open>A world whose objects are new.\<close>

definition example_world :: "delivery list \<Rightarrow> (nat list, unit) world" where
  "example_world faults = \<lparr>objects = (\<lambda>_. with_state_and_env Map.empty), alarms = Map.empty, gc_after_secs = 604800,
     namespace = Map.empty, trusted_token = Some ''secret'', clock = 0, stub_faults = faults, kv_faults = [],
     http_faults = []\<rparr>"

definition example_merged :: "nat list store_spec" where
  "example_merged = (case spec_handle example_vdafs (Req_Merge (example_merge [1, 2])) spec_empty of
      Some (_, a) \<Rightarrow> a | None \<Rightarrow> spec_empty)"

lemma example_world_coherent: "world_coherent example_vdafs field_vector (example_world faults) (\<lambda>_. spec_empty)"
  using stored.new_store_coherent by (simp add: world_coherent_def example_world_def)

lemma example_send:
  "wf_request example_vdafs field_vector (Req_Merge (example_merge [1, 2]))" "resendable (Req_Merge (example_merge [1, 2]))"
  "fits example_vdafs example_merged"
  "spec_handle example_vdafs (Req_Merge (example_merge [1, 2])) spec_empty = Some (Resp_Merge Merge_Ok, example_merged)"
proof -
  have "case spec_handle example_vdafs (Req_Merge (example_merge [1, 2])) spec_empty of
      Some (resp, a) \<Rightarrow> resp = Resp_Merge Merge_Ok | None \<Rightarrow> False"
    by code_simp
  then show "spec_handle example_vdafs (Req_Merge (example_merge [1, 2])) spec_empty = Some (Resp_Merge Merge_Ok, example_merged)"
    by (auto simp: example_merged_def split: option.splits)
qed code_simp+





text \<open>
  C14. Without the check for replays a lost response counts the reports twice. The worker sends every
  request again whose call fails, also those that the object marks as not to be retried; the second
  merge adds the same share once more, and the server sees a single acknowledgement.
\<close>

theorem unprotected_send_counts_twice:
  assumes "share_storage_laws V F elem_bytes valid elems good" and "world_coherent V good w A"
    and "wf_request V good (Req_Merge m)" and "skip_replay_protection m" and "\<not> spec_collected (A name)"
    and "DapAggregateShare_merge V (spec_share (A name)) (agg_share_delta m) = Ok share1"
    and "DapAggregateShare_merge V share1 (agg_share_delta m) = Ok share2"
    and "fits V ((A name)\<lparr>spec_share := share1\<rparr>)" and "fits V ((A name)\<lparr>spec_share := share2\<rparr>)"
    and "trusted_token w = Some auth_token" and "http_faults w = []" and "stub_faults w = [Response_Lost]"
  shows "\<exists>w'. durable_send V F auth_token name (Req_Merge m) w = (Ok (Resp_Merge Merge_Ok), w') \<and>
    world_coherent V good w' (A(name := (A name)\<lparr>spec_share := share2\<rparr>))"
  by (rule share_storage_laws.durable_send_unprotected [OF assms(1,5,4,3,6-9,2,10-12)])

theorem unprotected_send_counts_twice_witness:
  "\<exists>w' share. durable_send example_vdafs example_fields ''secret'' ''v09/task/00/window/120''
      (Req_Merge (example_merge [1]\<lparr>skip_replay_protection := True\<rparr>)) (example_world [Response_Lost]) =
      (Ok (Resp_Merge Merge_Ok), w') \<and>
    coherent example_vdafs field_vector (objects w' ''v09/task/00/window/120'') (spec_empty\<lparr>spec_share := share\<rparr>) \<and>
    report_count share = 2"
proof -
  let ?m = "example_merge [1]\<lparr>skip_replay_protection := True\<rparr>"
  have "case DapAggregateShare_merge example_vdafs (spec_share spec_empty) (agg_share_delta ?m) of
      Ok share1 \<Rightarrow> fits example_vdafs (spec_empty\<lparr>spec_share := share1\<rparr>) \<and>
        (case DapAggregateShare_merge example_vdafs share1 (agg_share_delta ?m) of
           Ok share2 \<Rightarrow> fits example_vdafs (spec_empty\<lparr>spec_share := share2\<rparr>) \<and> report_count share2 = 2
         | _ \<Rightarrow> False)
    | _ \<Rightarrow> False"
    by code_simp
  then obtain share1 share2 where shares:
    "DapAggregateShare_merge example_vdafs (spec_share spec_empty) (agg_share_delta ?m) = Ok share1"
    "DapAggregateShare_merge example_vdafs share1 (agg_share_delta ?m) = Ok share2"
    "fits example_vdafs (spec_empty\<lparr>spec_share := share1\<rparr>)" "fits example_vdafs (spec_empty\<lparr>spec_share := share2\<rparr>)"
    "report_count share2 = 2"
    by (auto split: result.splits)
  have "wf_request example_vdafs field_vector (Req_Merge ?m)" "skip_replay_protection ?m"
    "\<not> spec_collected (spec_empty :: nat list store_spec)"
    by code_simp+
  moreover have "trusted_token (example_world [Response_Lost]) = Some ''secret''"
    "http_faults (example_world [Response_Lost]) = []" "stub_faults (example_world [Response_Lost]) = [Response_Lost]"
    by (simp_all add: example_world_def)
  ultimately obtain w' where "durable_send example_vdafs example_fields ''secret'' ''v09/task/00/window/120''
      (Req_Merge ?m) (example_world [Response_Lost]) = (Ok (Resp_Merge Merge_Ok), w')"
    "world_coherent example_vdafs field_vector w'
      ((\<lambda>_. spec_empty)(''v09/task/00/window/120'' := spec_empty\<lparr>spec_share := share2\<rparr>))"
    using unprotected_send_counts_twice [OF stored.share_storage_laws_axioms example_world_coherent _ _ _ shares(1-4)]
    by blast
  with shares(5) show ?thesis
    unfolding world_coherent_def by (metis fun_upd_same)
qed

text \<open>
  C15. A merge that fails is acknowledged without any fault of the network: the first attempt of the worker
  fails after the object has put the identifiers into its cache, and the second one takes them for a
  repetition. The server gets \<open>Merge_Ok\<close>, and nothing was stored.
\<close>

theorem failed_merge_is_acknowledged:
  assumes "share_storage_laws V F elem_bytes valid elems good" and "world_coherent V good w A"
    and "connected auth_token w" and "resendable (Req_Merge m)" and "\<not> spec_collected (A name)"
    and "set (contained_reports m) \<inter> spec_ids (A name) = {}"
    and "\<forall>i \<in> set (contained_reports m). length (ReportId_0 i) = 16"
    and "card (set (contained_reports m) \<union> spec_ids (A name)) * 16 \<le> 255 * 128000"
    and "DapAggregateShare_merge V (spec_share (A name)) (agg_share_delta m) = Err e"
  shows "\<exists>w'. durable_send V F auth_token name (Req_Merge m) w = (Ok (Resp_Merge Merge_Ok), w') \<and>
    coherent V good (evict (objects w' name)) (A name)"
  by (rule share_storage_laws.durable_send_failed_merge [OF assms(1,4-9,2,3)])

theorem failed_merge_is_acknowledged_witness:
  "\<exists>w w'. durable_send example_vdafs example_fields ''secret'' ''v09/task/00/window/120''
      (Req_Merge (example_merge [1, 2])) (example_world []) = (Ok (Resp_Merge Merge_Ok), w) \<and>
    durable_send example_vdafs example_fields ''secret'' ''v09/task/00/window/120'' (Req_Merge example_mismatch) w =
      (Ok (Resp_Merge Merge_Ok), w') \<and>
    coherent example_vdafs field_vector (evict (objects w' ''v09/task/00/window/120'')) example_merged"
proof -
  let ?name = "''v09/task/00/window/120''"
  have "connected ''secret'' (example_world [])"
    by (simp add: connected_def example_world_def)
  from stored.durable_send_connected [OF example_send(1,3) this example_world_coherent example_send(4)]
  obtain w where w: "durable_send example_vdafs example_fields ''secret'' ?name (Req_Merge (example_merge [1, 2])) (example_world []) =
      (Ok (Resp_Merge Merge_Ok), w)" "world_coherent example_vdafs field_vector w ((\<lambda>_. spec_empty)(?name := example_merged))"
      "connected ''secret'' w"
    using example_world_coherent [of "[]"] by (force simp: world_coherent_def example_world_def connected_def)
  have "\<not> spec_collected example_merged \<and> spec_ids example_merged = {example_id 1, example_id 2} \<and>
      (case DapAggregateShare_merge example_vdafs (spec_share example_merged) (agg_share_delta example_mismatch) of
        Err e \<Rightarrow> True | _ \<Rightarrow> False)"
    by code_simp
  then obtain e where a: "\<not> spec_collected example_merged" "spec_ids example_merged = {example_id 1, example_id 2}"
    "DapAggregateShare_merge example_vdafs (spec_share example_merged) (agg_share_delta example_mismatch) = Err e"
    by (auto split: result.splits)
  have ids: "example_id 9 \<noteq> example_id 1" "example_id 9 \<noteq> example_id 2" "example_id 1 \<noteq> example_id 2"
    by (simp_all add: example_id_def)
  have "resendable (Req_Merge example_mismatch)" "set (contained_reports example_mismatch) \<inter> spec_ids example_merged = {}"
    "\<forall>i \<in> set (contained_reports example_mismatch). length (ReportId_0 i) = 16"
    "card (set (contained_reports example_mismatch) \<union> spec_ids example_merged) * 16 \<le> 255 * 128000"
    using ids by (simp_all add: a(2) resendable_def example_mismatch_def example_id_def)
  with failed_merge_is_acknowledged [OF stored.share_storage_laws_axioms w(2,3), where name = ?name and m = example_mismatch]
    a(1,3) w(1) show ?thesis
    by auto
qed

end
