(* ===== verification/Kv.thy ===== *)
theory Kv
  imports Storage_Proxy
begin

text \<open>
  The server's access to the key-value namespace through a cache,
  crates/daphne-server/src/storage_proxy_connection/kv. A value has the type that its prefix says; the
  cache and the namespace hold values of any of these types, and reading one of another type fails. The
  lines of the cache are taken for five minutes.
\<close>

section \<open>Prefixes\<close>

datatype kv_any =
    Any_TaskConfig DapTaskConfig
  | Any_OptInParam OptInParam
  | Any_HpkeReceivers "HpkeReceiverConfig list"
  | Any_BearerToken BearerToken
  | Any_bool bool
  | Any_usize usize

record 'a KvPrefix =
  PREFIX :: string
  downcast :: "kv_any \<Rightarrow> 'a option"
  upcast :: "'a \<Rightarrow> kv_any"

datatype GlobalOverrides = SkipReplayProtection | DefaultNumAggSpanShards

definition GlobalOverrides_to_string :: "GlobalOverrides \<Rightarrow> string" where
  "GlobalOverrides_to_string self = (case self of
      SkipReplayProtection \<Rightarrow> ''skip_replay_protection''
    | DefaultNumAggSpanShards \<Rightarrow> ''default_num_agg_span_shards'')"

definition prefix_GlobalConfigOverride :: "(kv_any \<Rightarrow> 'a option) \<Rightarrow> ('a \<Rightarrow> kv_any) \<Rightarrow> 'a KvPrefix" where
  "prefix_GlobalConfigOverride down up = \<lparr>PREFIX = ''global_config/override'', downcast = down, upcast = up\<rparr>"

definition override_bool :: "bool KvPrefix" where
  "override_bool = prefix_GlobalConfigOverride (\<lambda>v. case v of Any_bool b \<Rightarrow> Some b | _ \<Rightarrow> None) Any_bool"

definition override_usize :: "usize KvPrefix" where
  "override_usize = prefix_GlobalConfigOverride (\<lambda>v. case v of Any_usize n \<Rightarrow> Some n | _ \<Rightarrow> None) Any_usize"

definition prefix_TaskConfig :: "DapTaskConfig KvPrefix" where
  "prefix_TaskConfig = \<lparr>PREFIX = ''config/task'',
     downcast = (\<lambda>v. case v of Any_TaskConfig c \<Rightarrow> Some c | _ \<Rightarrow> None), upcast = Any_TaskConfig\<rparr>"

definition prefix_TaskprovOptInParam :: "OptInParam KvPrefix" where
  "prefix_TaskprovOptInParam = \<lparr>PREFIX = ''taskprov/opt_in_param'',
     downcast = (\<lambda>v. case v of Any_OptInParam p \<Rightarrow> Some p | _ \<Rightarrow> None), upcast = Any_OptInParam\<rparr>"

definition prefix_HpkeReceiverConfigSet :: "HpkeReceiverConfig list KvPrefix" where
  "prefix_HpkeReceiverConfigSet = \<lparr>PREFIX = ''hpke_receiver_config_set'',
     downcast = (\<lambda>v. case v of Any_HpkeReceivers rs \<Rightarrow> Some rs | _ \<Rightarrow> None), upcast = Any_HpkeReceivers\<rparr>"

definition prefix_LeaderBearerToken :: "BearerToken KvPrefix" where
  "prefix_LeaderBearerToken = \<lparr>PREFIX = ''bearer_token/leader/task'',
     downcast = (\<lambda>v. case v of Any_BearerToken t \<Rightarrow> Some t | _ \<Rightarrow> None), upcast = Any_BearerToken\<rparr>"

definition prefix_CollectorBearerToken :: "BearerToken KvPrefix" where
  "prefix_CollectorBearerToken = \<lparr>PREFIX = ''bearer_token/collector/task'',
     downcast = (\<lambda>v. case v of Any_BearerToken t \<Rightarrow> Some t | _ \<Rightarrow> None), upcast = Any_BearerToken\<rparr>"

lemmas prefix_defs =
  prefix_GlobalConfigOverride_def override_bool_def override_usize_def prefix_TaskConfig_def prefix_TaskprovOptInParam_def
  prefix_HpkeReceiverConfigSet_def prefix_LeaderBearerToken_def prefix_CollectorBearerToken_def

section \<open>The cache\<close>

definition CACHE_VALUE_LIFETIME :: nat where "CACHE_VALUE_LIFETIME = 60 * 5 * 1000"

record CacheLine =
  ts :: nat
  line_entry :: "kv_any option"

type_synonym Cache = "string \<Rightarrow> (string \<Rightarrow> CacheLine option) option"

datatype 'a CacheResult = Hit "'a option" | Miss | MismatchedType

definition cache_result :: "('a, 'z) KvPrefix_scheme \<Rightarrow> kv_any option \<Rightarrow> 'a CacheResult" where
  "cache_result P ent = (case ent of
      None \<Rightarrow> Hit None
    | Some v \<Rightarrow> (case downcast P v of Some x \<Rightarrow> Hit (Some x) | None \<Rightarrow> MismatchedType))"

text \<open>\<open>now\<close> is the moment of the call.\<close>

definition Cache_get :: "('a, 'z) KvPrefix_scheme \<Rightarrow> nat \<Rightarrow> string \<Rightarrow> Cache \<Rightarrow> 'a CacheResult" where
  "Cache_get P now key kv = (case kv (PREFIX P) of
      Some lines \<Rightarrow>
        (case lines key of
           Some line \<Rightarrow> if now - ts line < CACHE_VALUE_LIFETIME then cache_result P (line_entry line) else Miss
         | None \<Rightarrow> Miss)
    | None \<Rightarrow> Miss)"

definition Cache_put :: "('a, 'z) KvPrefix_scheme \<Rightarrow> nat \<Rightarrow> string \<Rightarrow> 'a option \<Rightarrow> Cache \<Rightarrow> Cache" where
  "Cache_put P now key ent kv =
     (let lines = (case kv (PREFIX P) of Some lines \<Rightarrow> lines | None \<Rightarrow> Map.empty) in
      kv(PREFIX P \<mapsto> lines(key \<mapsto> \<lparr>ts = now, line_entry = map_option (upcast P) ent\<rparr>)))"

definition Cache_delete :: "('a, 'z) KvPrefix_scheme \<Rightarrow> string \<Rightarrow> Cache \<Rightarrow> 'a CacheResult \<times> Cache" where
  "Cache_delete P key kv = (case kv (PREFIX P) of
      Some lines \<Rightarrow>
        (case lines key of
           Some line \<Rightarrow> (cache_result P (line_entry line), kv(PREFIX P \<mapsto> lines(key := None)))
         | None \<Rightarrow> (Miss, kv))
    | None \<Rightarrow> (Miss, kv))"

section \<open>Reading and writing\<close>

record 'v kv_client = "('v, kv_any) world" +
  auth_token :: BearerToken
  cache :: Cache

definition KV_PATH_PREFIX :: string where "KV_PATH_PREFIX = ''/v1/kv''"

definition to_key :: "('a, 'z) KvPrefix_scheme \<Rightarrow> string \<Rightarrow> string" where
  "to_key P key = KV_PATH_PREFIX @ ''/'' @ PREFIX P @ ''/'' @ key"

text \<open>The part of the path behind the prefix is the key in the namespace.\<close>

definition kv_path :: "string \<Rightarrow> string" where
  "kv_path path = drop (length KV_PATH_PREFIX + 1) path"

definition kv_request ::
  "(kv_any http_response, worker_error, ('v, 'z) kv_client_scheme) stateful \<Rightarrow>
   (kv_any http_response, proxy_error, ('v, 'z) kv_client_scheme) stateful" where
  "kv_request service = st_then (st_get auth_token) (\<lambda>token. http_send (bearer_auth token (Error_into_response service)))"

definition cache_value ::
  "('a, 'y) KvPrefix_scheme \<Rightarrow> string \<Rightarrow> 'a option \<Rightarrow> (unit, 'e, ('v, 'z) kv_client_scheme) stateful" where
  "cache_value P key ent = st_modify (\<lambda>s. s\<lparr>cache := Cache_put P (clock s) key ent (cache s)\<rparr>)"

definition error_for_status :: "'b http_response \<Rightarrow> ('b option, proxy_error) result" where
  "error_for_status resp = (case resp of Http_Response status body \<Rightarrow> if 400 \<le> status then Err PE_Reqwest else Ok body)"

record KvGetOptions =
  cache_not_found :: bool

definition KvGetOptions_default :: KvGetOptions where
  "KvGetOptions_default = \<lparr>cache_not_found = False\<rparr>"

definition get_impl ::
  "('a, 'y) KvPrefix_scheme \<Rightarrow> string \<Rightarrow> KvGetOptions \<Rightarrow> ('a \<Rightarrow> 'r) \<Rightarrow>
   ('r option, proxy_error, ('v, 'z) kv_client_scheme) stateful" where
  "get_impl P key opt mapper =
     (let key = to_key P key in
      st_then (st_get (\<lambda>s. Cache_get P (clock s) key (cache s))) (\<lambda>cached.
      case cached of
        Hit t \<Rightarrow> st_return (map_option mapper t)
      | _ \<Rightarrow>
          st_then (kv_request (kv_get (kv_path key))) (\<lambda>resp.
          case resp of Http_Response status _ \<Rightarrow>
            if status = 404
            then st_then (if cache_not_found opt then cache_value P key None else st_return ()) (\<lambda>_. st_return None)
            else
              st_then (st_lift (error_for_status resp)) (\<lambda>body.
              st_then (st_lift (ok_or (Option.bind body (downcast P)) PE_Reqwest)) (\<lambda>t.
              st_then (cache_value P key (Some t)) (\<lambda>_.
              st_return (Some (mapper t)))))))) "

definition get_mapped ::
  "('a, 'y) KvPrefix_scheme \<Rightarrow> string \<Rightarrow> KvGetOptions \<Rightarrow> ('a \<Rightarrow> 'r option) \<Rightarrow>
   ('r option, proxy_error, ('v, 'z) kv_client_scheme) stateful" where
  "get_mapped P key opt mapper =
     st_then (get_impl P key opt mapper) (\<lambda>r. st_return (Option.bind r id))"

definition Kv_get ::
  "('a, 'y) KvPrefix_scheme \<Rightarrow> string \<Rightarrow> KvGetOptions \<Rightarrow> ('a option, proxy_error, ('v, 'z) kv_client_scheme) stateful" where
  "Kv_get P key opt = get_mapped P key opt Some"

text \<open>A clone of the value is the value.\<close>

definition get_cloned ::
  "('a, 'y) KvPrefix_scheme \<Rightarrow> string \<Rightarrow> KvGetOptions \<Rightarrow> ('a option, proxy_error, ('v, 'z) kv_client_scheme) stateful" where
  "get_cloned P key opt = Kv_get P key opt"

definition peek ::
  "('a, 'y) KvPrefix_scheme \<Rightarrow> string \<Rightarrow> KvGetOptions \<Rightarrow> ('a \<Rightarrow> 'r) \<Rightarrow>
   ('r option, proxy_error, ('v, 'z) kv_client_scheme) stateful" where
  "peek P key opt peeker = get_impl P key opt peeker"

definition put_internal ::
  "('a, 'y) KvPrefix_scheme \<Rightarrow> string \<Rightarrow> 'a \<Rightarrow> Time option \<Rightarrow> (unit, proxy_error, ('v, 'z) kv_client_scheme) stateful" where
  "put_internal P key value expiration =
     (let key = to_key P key in
      st_then (kv_request (kv_put expiration (kv_path key) (upcast P value))) (\<lambda>resp.
      st_then (st_lift (error_for_status resp)) (\<lambda>_.
      cache_value P key (Some value))))"

definition put_with_expiration ::
  "('a, 'y) KvPrefix_scheme \<Rightarrow> string \<Rightarrow> 'a \<Rightarrow> Time \<Rightarrow> (unit, proxy_error, ('v, 'z) kv_client_scheme) stateful" where
  "put_with_expiration P key value expiration = put_internal P key value (Some expiration)"

definition Kv_put ::
  "('a, 'y) KvPrefix_scheme \<Rightarrow> string \<Rightarrow> 'a \<Rightarrow> (unit, proxy_error, ('v, 'z) kv_client_scheme) stateful" where
  "Kv_put P key value = put_internal P key value None"

text \<open>\<open>Some\<close> value is the value that was not stored because the key exists.\<close>

definition put_if_not_exists_internal ::
  "('a, 'y) KvPrefix_scheme \<Rightarrow> string \<Rightarrow> 'a \<Rightarrow> Time option \<Rightarrow> ('a option, proxy_error, ('v, 'z) kv_client_scheme) stateful" where
  "put_if_not_exists_internal P key value expiration =
     (let key = to_key P key in
      st_then (kv_request (kv_put_if_not_exists expiration (kv_path key) (upcast P value))) (\<lambda>resp.
      case resp of Http_Response status _ \<Rightarrow>
        if status = 409 then st_return (Some value)
        else
          st_then (st_lift (error_for_status resp)) (\<lambda>_.
          st_then (cache_value P key (Some value)) (\<lambda>_.
          st_return None))))"

definition put_if_not_exists_with_expiration ::
  "('a, 'y) KvPrefix_scheme \<Rightarrow> string \<Rightarrow> 'a \<Rightarrow> Time \<Rightarrow> ('a option, proxy_error, ('v, 'z) kv_client_scheme) stateful" where
  "put_if_not_exists_with_expiration P key value expiration = put_if_not_exists_internal P key value (Some expiration)"

definition put_if_not_exists ::
  "('a, 'y) KvPrefix_scheme \<Rightarrow> string \<Rightarrow> 'a \<Rightarrow> ('a option, proxy_error, ('v, 'z) kv_client_scheme) stateful" where
  "put_if_not_exists P key value = put_if_not_exists_internal P key value None"

definition only_cache_put ::
  "('a, 'y) KvPrefix_scheme \<Rightarrow> string \<Rightarrow> 'a \<Rightarrow> (unit, 'e, ('v, 'z) kv_client_scheme) stateful" where
  "only_cache_put P key value = cache_value P (to_key P key) (Some value)"

end
