(* ===== verification/Roles.thy ===== *)
theory Roles
  imports Taskprov Protocol_Aggregator
begin

text \<open>
  The trait that a server implements to be an Aggregator, crates/daphne/src/roles/aggregator.rs, and what
  the handlers of both roles share, crates/daphne/src/roles/mod.rs. The trait is a record of operations
  on the server's state \<open>'s\<close>; \<open>'a\<close> is the type of the sender's authorization. Decrypting and initializing
  reports read the state and leave it as it is. Metrics and the audit log are not modelled.
\<close>

section \<open>The trait\<close>

datatype MergeAggShareError =
    AlreadyCollected
  | ReplaysDetected "ReportId list"
  | MergeOther DapError

record ('a, 'v, 's) DapAggregator =
  unauthorized_reason :: "DapTaskConfig \<Rightarrow> 'a DapRequest \<Rightarrow> (string option, DapError, 's) stateful"
  get_global_config :: "(DapGlobalConfig, DapError, 's) stateful"
  taskprov_vdaf_verify_key_init :: "'s \<Rightarrow> bytes option"
  taskprov_collector_hpke_config :: "'s \<Rightarrow> HpkeConfig option"
  taskprov_opt_in :: "TaskId \<Rightarrow> DapTaskConfigNeedsOptIn \<Rightarrow> DapGlobalConfig \<Rightarrow> (DapTaskConfig, DapError, 's) stateful"
  taskprov_put :: "'a DapRequest \<Rightarrow> DapTaskConfig \<Rightarrow> (unit, DapError, 's) stateful"
  get_task_config_for :: "TaskId \<Rightarrow> (DapTaskConfig option, DapError, 's) stateful"
  get_current_time :: "'s \<Rightarrow> Time"
  is_batch_overlapping :: "TaskId \<Rightarrow> BatchSelector \<Rightarrow> (bool, DapError, 's) stateful"
  batch_exists :: "TaskId \<Rightarrow> BatchId \<Rightarrow> (bool, DapError, 's) stateful"
  try_put_agg_share_span :: "TaskId \<Rightarrow> DapTaskConfig \<Rightarrow> 'v DapAggregateShare DapAggregateSpan \<Rightarrow>
    ((unit, MergeAggShareError) result DapAggregateSpan, DapError, 's) stateful"
  agg_get_agg_share :: "TaskId \<Rightarrow> BatchSelector \<Rightarrow> ('v DapAggregateShare, DapError, 's) stateful"
  mark_collected :: "TaskId \<Rightarrow> BatchSelector \<Rightarrow> (unit, DapError, 's) stateful"
  get_hpke_config_for :: "DapVersion \<Rightarrow> TaskId option \<Rightarrow> (HpkeConfig, DapError, 's) stateful"
  can_hpke_decrypt :: "TaskId \<Rightarrow> u8 \<Rightarrow> (bool, DapError, 's) stateful"
  agg_decrypter :: "'s \<Rightarrow> decrypter"
  agg_initializer :: "'s \<Rightarrow> 'v initializer"

text \<open>An abort as an error.\<close>

definition st_abort :: "('a, DapAbort) result \<Rightarrow> ('a, DapError, 's) stateful" where
  "st_abort r = st_lift (map_err Abort r)"

text \<open>The configuration of the task of a request, or the abort for an unknown task.\<close>

definition task_config_of ::
  "('a, 'v, 's, 'z) DapAggregator_scheme \<Rightarrow> TaskId \<Rightarrow> (DapTaskConfig, DapError, 's) stateful" where
  "task_config_of agg task_id =
     st_then (get_task_config_for agg task_id) (\<lambda>c. st_lift (ok_or c (Abort (UnrecognizedTask task_id))))"

definition check_authorized ::
  "('a, 'v, 's, 'z) DapAggregator_scheme \<Rightarrow> DapTaskConfig \<Rightarrow> TaskId \<Rightarrow> 'a DapRequest \<Rightarrow> (unit, DapError, 's) stateful" where
  "check_authorized agg c task_id req =
     st_then (unauthorized_reason agg c req) (\<lambda>reason.
     case reason of
       Some reason \<Rightarrow> st_lift (Err (Abort (UnauthorizedRequest reason task_id)))
     | None \<Rightarrow> st_return ())"

section \<open>Checking a batch\<close>

definition abs_diff :: "u64 \<Rightarrow> u64 \<Rightarrow> u64" where
  "abs_diff a b = (if b \<le> a then a - b else b - a)"

definition check_batch_interval ::
  "DapTaskConfig \<Rightarrow> TaskId \<Rightarrow> Interval \<Rightarrow> Time \<Rightarrow> DapGlobalConfig \<Rightarrow> (unit, DapError) result" where
  "check_batch_interval c task_id batch_interval now global_config =
     (if time_precision c = 0 then Panic
      else if start batch_interval mod time_precision c \<noteq> 0 \<or> duration batch_interval mod time_precision c \<noteq> 0 \<or>
         duration batch_interval < time_precision c
      then Err (Abort (BatchInvalid ''The queried batch interval ({batch_interval:?}) is too small or its boundaries are misaligned. The time precision for this task is {}s.'' task_id))
      else if duration batch_interval > max_batch_duration global_config
      then Err (Abort (BadRequest ''batch interval too large''))
      else if abs_diff now (start batch_interval) > min_batch_interval_start global_config
      then Err (Abort (BadRequest ''batch interval too far into past''))
      else if abs_diff now (Interval_end batch_interval) > max_batch_interval_end global_config
      then Err (Abort (BadRequest ''batch interval too far into future''))
      else Ok ())"

definition check_batch ::
  "('a, 'v, 's, 'z) DapAggregator_scheme \<Rightarrow> DapTaskConfig \<Rightarrow> TaskId \<Rightarrow> Query \<Rightarrow> bytes \<Rightarrow> Time \<Rightarrow> DapGlobalConfig \<Rightarrow>
   (unit, DapError, 's) stateful" where
  "check_batch agg c task_id q agg_param now global_config =
     (if \<not> is_valid_agg_param (vdaf_config c) agg_param
      then st_lift (Err (Abort (Abort_InvalidMessage ''invalid aggregation parameter'' task_id)))
      else
        st_then (case (query_config c, q) of
            (QC_TimeInterval, Query_TimeInterval batch_interval) \<Rightarrow>
              st_lift (check_batch_interval c task_id batch_interval now global_config)
          | (QC_FixedSize _, Query_FixedSizeCurrentBatch) \<Rightarrow> st_return ()
          | (QC_FixedSize _, Query_FixedSizeByBatchId batch_id) \<Rightarrow>
              st_then (batch_exists agg task_id batch_id) (\<lambda>found.
              if \<not> found then st_lift (Err (Abort (BatchInvalid ''The queried batch ({}) does not exist.'' task_id)))
              else st_return ())
          | _ \<Rightarrow> st_lift (Err (Abort (query_mismatch task_id)))) (\<lambda>_.
        case into_batch_sel q of
          None \<Rightarrow> st_return ()
        | Some sel \<Rightarrow>
            st_then (is_batch_overlapping agg task_id sel) (\<lambda>overlaps.
            if overlaps then st_lift (Err (Abort (batch_overlap task_id))) else st_return ())))"

section \<open>Taskprov\<close>

definition resolve_taskprov ::
  "'w prio_protocol_scheme \<Rightarrow> ('v, 'x) prio_vdafs_scheme \<Rightarrow> 'y taskprov_ext_scheme \<Rightarrow>
   ('a, 'v, 's, 'z) DapAggregator_scheme \<Rightarrow> TaskId \<Rightarrow> 'a DapRequest \<Rightarrow> DapGlobalConfig \<Rightarrow> (unit, DapError, 's) stateful" where
  "resolve_taskprov P V E agg task_id req global_config =
     st_then (get_task_config_for agg task_id) (\<lambda>configured.
     if configured \<noteq> None then st_return ()
     else
       st_then (st_get (taskprov_vdaf_verify_key_init agg)) (\<lambda>verify_key_init.
       st_then (st_get (taskprov_collector_hpke_config agg)) (\<lambda>collector_config.
       case (verify_key_init, collector_config) of
         (Some verify_key_init, Some collector_config) \<Rightarrow>
           st_then (st_abort (resolve_advertised_task_config P V E req verify_key_init collector_config task_id)) (\<lambda>advertised.
           case advertised of
             None \<Rightarrow> st_return ()
           | Some needs_opt_in \<Rightarrow>
               st_then (taskprov_opt_in agg task_id needs_opt_in global_config) (\<lambda>c.
               taskprov_put agg req c))
       | _ \<Rightarrow> st_return ())))"

section \<open>HPKE configurations\<close>

definition handle_hpke_config_req ::
  "'w prio_messages_scheme \<Rightarrow> ('a, 'v, 's, 'z) DapAggregator_scheme \<Rightarrow> 'a DapRequest \<Rightarrow> TaskId option \<Rightarrow>
   (DapResponse, DapError, 's) stateful" where
  "handle_hpke_config_req P agg req task_id =
     st_then (get_hpke_config_for agg (req_version req) task_id) (\<lambda>hpke_config.
     st_then (case task_id of
         None \<Rightarrow> st_return ()
       | Some task_id \<Rightarrow>
           st_then (task_config_of agg task_id) (\<lambda>c.
           if version c \<noteq> req_version req then st_lift (Err (Abort (version_mismatch (req_version req) (version c))))
           else st_return ())) (\<lambda>_.
     st_then (st_lift (map_err DapError_encoding
         (get_encoded P (HpkeConfigList_encode P \<lparr>hpke_configs = [hpke_config]\<rparr>)))) (\<lambda>payload.
     st_return \<lparr>resp_version = req_version req, resp_media_type = MT_HpkeConfigList, resp_payload = payload\<rparr>)))"

end
