(* ===== verification/Helper.thy ===== *)
theory Helper
  imports Roles
begin

text \<open>
  The Helper's handlers, crates/daphne/src/roles/helper.rs: the aggregation job with its attempts to
  store the aggregate span, and the aggregate share. The server is a \<open>DapAggregator\<close>.
\<close>

section \<open>Storing the aggregate span\<close>

definition RETRY_COUNT :: nat where "RETRY_COUNT = 3"

text \<open>
  The loop over the answers of the buckets: the statuses of the reports, newest first, and whether the
  job has to be processed again.
\<close>

fun note_put_results ::
  "(unit, MergeAggShareError) result DapAggregateSpan \<Rightarrow> (ReportId \<times> ReportProcessedStatus) list \<Rightarrow> bool \<Rightarrow>
   ((ReportId \<times> ReportProcessedStatus) list \<times> bool, DapError) result" where
  "note_put_results [] report_status restart = Ok (report_status, restart)"
| "note_put_results ((bucket, answer, reports) # rest) report_status restart = (case answer of
      Ok _ \<Rightarrow>
        note_put_results rest (map (\<lambda>(i, _). (i, Status_Aggregated)) reports @ report_status) restart
    | Err (ReplaysDetected replays) \<Rightarrow>
        note_put_results rest (map (\<lambda>i. (i, Status_Rejected ReportReplayed)) replays @ report_status) True
    | Err AlreadyCollected \<Rightarrow>
        note_put_results rest (map (\<lambda>(i, _). (i, Status_Rejected BatchCollected)) reports @ report_status) True
    | Err (MergeOther e) \<Rightarrow> Err e
    | Panic \<Rightarrow> Panic)"

text \<open>The rounds that are left, and the statuses known so far.\<close>

fun finish_rounds ::
  "nat \<Rightarrow> (ReportId \<times> ReportProcessedStatus) list \<Rightarrow> 'w prio_codec_scheme \<Rightarrow> ('v, 'x) prio_vdafs_scheme \<Rightarrow> 'y dap_ext_scheme \<Rightarrow>
   ('a, 'v, 's, 'z) DapAggregator_scheme \<Rightarrow> TaskId \<Rightarrow> DapTaskConfig \<Rightarrow> PartialBatchSelector \<Rightarrow>
   'v EarlyReportStateInitialized list \<Rightarrow> (AggregationJobResp, DapError, 's) stateful" where
  "finish_rounds 0 report_status P V E helper task_id c sel initialized_reports =
     st_lift (Err (Abort (BadRequest ''aggregation job contained too many replays'')))"
| "finish_rounds (Suc n) report_status P V E helper task_id c sel initialized_reports =
     st_then (st_lift (produce_agg_job_resp P V E c report_status sel initialized_reports)) (\<lambda>(agg_span, agg_job_resp).
     st_then (try_put_agg_share_span helper task_id c agg_span) (\<lambda>put_shares_result.
     st_then (st_lift (note_put_results put_shares_result report_status False)) (\<lambda>(report_status, restart).
     if restart then finish_rounds n report_status P V E helper task_id c sel initialized_reports
     else st_return agg_job_resp)))"

definition finish_agg_job_and_aggregate ::
  "'w prio_codec_scheme \<Rightarrow> ('v, 'x) prio_vdafs_scheme \<Rightarrow> 'y dap_ext_scheme \<Rightarrow>
   ('a, 'v, 's, 'z) DapAggregator_scheme \<Rightarrow> TaskId \<Rightarrow> DapTaskConfig \<Rightarrow> PartialBatchSelector \<Rightarrow>
   'v EarlyReportStateInitialized list \<Rightarrow> (AggregationJobResp, DapError, 's) stateful" where
  "finish_agg_job_and_aggregate = finish_rounds RETRY_COUNT []"

section \<open>Aggregation jobs\<close>

definition check_part_batch ::
  "TaskId \<Rightarrow> DapTaskConfig \<Rightarrow> PartialBatchSelector \<Rightarrow> bytes \<Rightarrow> (unit, DapAbort) result" where
  "check_part_batch task_id c sel agg_param =
     (if \<not> is_valid_part_batch_sel (query_config c) sel then Err (query_mismatch task_id)
      else if \<not> is_valid_agg_param (vdaf_config c) agg_param
      then Err (Abort_InvalidMessage ''invalid aggregation parameter'' task_id)
      else Ok ())"

definition handle_agg_job_init_req ::
  "'w prio_protocol_scheme \<Rightarrow> ('v, 'x) prio_vdafs_scheme \<Rightarrow> 'y taskprov_ext_scheme \<Rightarrow>
   ('a, 'v, 's, 'z) DapAggregator_scheme \<Rightarrow> 'a DapRequest \<Rightarrow> ReplayProtection \<Rightarrow> (DapResponse, DapError, 's) stateful" where
  "handle_agg_job_init_req P V E helper req replay_protection =
     st_then (get_global_config helper) (\<lambda>global_config.
     st_then (st_abort (DapRequest_task_id req)) (\<lambda>task_id.
     st_then (st_abort (map_err (\<lambda>e. from_codec_error e task_id) (get_decoded_AggregationJobInitReq P
         (AggregationJobInitReq_decode_with_param P (req_version req)) (req_payload req)))) (\<lambda>agg_job_init_req.
     st_then (if allow_taskprov global_config then resolve_taskprov P V E helper task_id req global_config
         else st_return ()) (\<lambda>_.
     st_then (task_config_of helper task_id) (\<lambda>c.
     st_then (check_authorized helper c task_id req) (\<lambda>_.
     st_then (case req_resource req of
         Resource_AggregationJob _ \<Rightarrow> st_return ()
       | _ \<Rightarrow> st_lift (Err (Abort (BadRequest ''missing aggregation job ID'')))) (\<lambda>_.
     if version c \<noteq> req_version req then st_lift (Err (Abort (version_mismatch (req_version req) (version c))))
     else
       st_then (st_abort (check_part_batch task_id c (init_part_batch_sel agg_job_init_req)
           (init_agg_param agg_job_init_req))) (\<lambda>_.
       st_then (st_get (\<lambda>s. (agg_decrypter helper s, agg_initializer helper s))) (\<lambda>(decrypt, init).
       st_then (st_lift (consume_agg_job_req P c decrypt init task_id agg_job_init_req replay_protection)) (\<lambda>initialized_reports.
       st_then (finish_agg_job_and_aggregate P V E helper task_id c (init_part_batch_sel agg_job_init_req)
           initialized_reports) (\<lambda>agg_job_resp.
       st_then (st_lift (map_err DapError_encoding (get_encoded P (AggregationJobResp_encode P agg_job_resp)))) (\<lambda>payload.
       st_return \<lparr>resp_version = req_version req, resp_media_type = MT_AggregationJobResp, resp_payload = payload\<rparr>))))))))))))"

definition handle_agg_job_req ::
  "'w prio_protocol_scheme \<Rightarrow> ('v, 'x) prio_vdafs_scheme \<Rightarrow> 'y taskprov_ext_scheme \<Rightarrow>
   ('a, 'v, 's, 'z) DapAggregator_scheme \<Rightarrow> 'a DapRequest \<Rightarrow> ReplayProtection \<Rightarrow> (DapResponse, DapError, 's) stateful" where
  "handle_agg_job_req P V E helper req replay_protection = (case req_media_type req of
      Some MT_AggregationJobInitReq \<Rightarrow> handle_agg_job_init_req P V E helper req replay_protection
    | _ \<Rightarrow> st_lift (Err (Abort (BadRequest ''unexpected media type''))))"

section \<open>Aggregate shares\<close>

text \<open>The share of the Helper has to be that of the same reports as the Leader's, and of enough of them.\<close>

definition check_agg_share ::
  "DapTaskConfig \<Rightarrow> TaskId \<Rightarrow> AggregateShareReq \<Rightarrow> 'v DapAggregateShare \<Rightarrow> (unit, DapError) result" where
  "check_agg_share c task_id agg_share_req share =
     (if agg_share_report_count agg_share_req \<noteq> report_count share \<or>
         \<not> constant_time_eq (agg_share_checksum agg_share_req) (checksum share)
      then Err (Abort (BatchMismatch ''Either the report count or checksum does not match: the Leader computed {} and {}; the Helper computed {} and {}.'' task_id))
      else if is_report_count_compatible c task_id (report_count share) \<noteq> Ok True
      then Err (Abort (InvalidBatchSize ''Report count ({}) is less than minimum ({})'' task_id))
      else Ok ())"

text \<open>\<open>coins\<close> is the randomness of the encryption.\<close>

definition handle_agg_share_req ::
  "'w prio_protocol_scheme \<Rightarrow> ('c, 'u) hpke_rs_scheme \<Rightarrow> ('v, 'x) prio_vdafs_scheme \<Rightarrow> 'y taskprov_ext_scheme \<Rightarrow> bytes \<Rightarrow>
   ('a, 'v, 's, 'z) DapAggregator_scheme \<Rightarrow> 'a DapRequest \<Rightarrow> (DapResponse, DapError, 's) stateful" where
  "handle_agg_share_req P R V E coins helper req =
     st_then (get_global_config helper) (\<lambda>global_config.
     st_then (st_get (get_current_time helper)) (\<lambda>now.
     st_then (st_abort (DapRequest_task_id req)) (\<lambda>task_id.
     st_then (st_abort (check_request_content_type req MT_AggregateShareReq)) (\<lambda>_.
     st_then (if allow_taskprov global_config then resolve_taskprov P V E helper task_id req global_config
         else st_return ()) (\<lambda>_.
     st_then (task_config_of helper task_id) (\<lambda>c.
     st_then (check_authorized helper c task_id req) (\<lambda>_.
     if version c \<noteq> req_version req then st_lift (Err (Abort (version_mismatch (req_version req) (version c))))
     else
       st_then (st_abort (map_err (\<lambda>e. from_codec_error e task_id) (get_decoded_AggregateShareReq P
           (AggregateShareReq_decode_with_param P (req_version req)) (req_payload req)))) (\<lambda>agg_share_req.
       st_then (st_abort (map_err (\<lambda>e. from_codec_error e task_id) (get_decoded_DapAggregationParam P
           (DapAggregationParam_decode_with_param (vdaf_config c)) (agg_share_agg_param agg_share_req)))) (\<lambda>agg_param.
       st_then (check_batch helper c task_id (Query_from (batch_sel agg_share_req)) (agg_share_agg_param agg_share_req)
           now global_config) (\<lambda>_.
       st_then (agg_get_agg_share helper task_id (batch_sel agg_share_req)) (\<lambda>agg_share.
       st_then (st_lift (check_agg_share c task_id agg_share_req agg_share)) (\<lambda>_.
       st_then (mark_collected helper task_id (batch_sel agg_share_req)) (\<lambda>_.
       st_then (st_lift (produce_helper_encrypted_agg_share P R V coins (collector_hpke_config c) task_id
           (batch_sel agg_share_req) agg_param agg_share (version c))) (\<lambda>encrypted.
       st_then (st_lift (map_err DapError_encoding (get_encoded P
           (AggregateShare_encode P \<lparr>encrypted_agg_share = encrypted\<rparr>)))) (\<lambda>payload.
       st_return \<lparr>resp_version = req_version req, resp_media_type = MT_AggregateShare, resp_payload = payload\<rparr>)))))))))))))))"

end
