(* ===== verification/In_Memory_Leader.thy ===== *)
theory In_Memory_Leader
  imports Storage_Proxy "HOL-Library.Multiset"
begin

text \<open>
  The state of the Leader between requests, crates/daphne/src/roles/leader/in_memory_leader.rs: reports
  that wait for a collection job, the collection jobs, the batches that are being filled, and the queue
  of work. Hash maps are association lists. Random batch identifiers and the joining of URLs are
  arguments.
\<close>

section \<open>State\<close>

datatype WorkItem =
    WI_AggregationJob TaskId PartialBatchSelector DapAggregationParam "Report list"
  | WI_CollectionJob TaskId CollectionJobId BatchSelector DapAggregationParam

fun WorkItem_task_id :: "WorkItem \<Rightarrow> TaskId" where
  "WorkItem_task_id (WI_AggregationJob task_id _ _ _) = task_id"
| "WorkItem_task_id (WI_CollectionJob task_id _ _ _) = task_id"

record MockLeaderMemoryPerTask =
  pending_reports :: "(DapBatchBucket \<times> Report list) list"
  coll_jobs :: "(CollectionJobId \<times> DapCollectionJob) list"
  batch_queue :: "(BatchId \<times> u64) list"

definition MockLeaderMemoryPerTask_default :: MockLeaderMemoryPerTask where
  "MockLeaderMemoryPerTask_default = \<lparr>pending_reports = [], coll_jobs = [], batch_queue = []\<rparr>"

record InMemoryLeaderState =
  work_queue :: "WorkItem list"
  per_task :: "(TaskId \<times> MockLeaderMemoryPerTask) list"

definition InMemoryLeaderState_default :: InMemoryLeaderState where
  "InMemoryLeaderState_default = \<lparr>work_queue = [], per_task = []\<rparr>"

definition delete_all :: "InMemoryLeaderState \<Rightarrow> InMemoryLeaderState" where
  "delete_all self = self\<lparr>work_queue := [], per_task := []\<rparr>"

definition task_memory :: "TaskId \<Rightarrow> InMemoryLeaderState \<Rightarrow> MockLeaderMemoryPerTask" where
  "task_memory task_id self = entry task_id MockLeaderMemoryPerTask_default (per_task self)"

definition set_task_memory :: "TaskId \<Rightarrow> MockLeaderMemoryPerTask \<Rightarrow> InMemoryLeaderState \<Rightarrow> InMemoryLeaderState" where
  "set_task_memory task_id m self = self\<lparr>per_task := AList.update task_id m (per_task self)\<rparr>"

section \<open>Uploading\<close>

text \<open>The first batch of the queue that is not full, with one report more; \<open>None\<close> when all are full.\<close>

fun first_unsaturated :: "u64 \<Rightarrow> (BatchId \<times> u64) list \<Rightarrow> (BatchId \<times> (BatchId \<times> u64) list) option" where
  "first_unsaturated min_size [] = None"
| "first_unsaturated min_size ((batch_id, n) # rest) =
     (if n < min_size then Some (batch_id, (batch_id, n + 1) # rest)
      else map_option (\<lambda>(i, rest). (i, (batch_id, n) # rest)) (first_unsaturated min_size rest))"

definition assign_report_to_bucket ::
  "'z dap_ext_scheme \<Rightarrow> BatchId \<Rightarrow> DapTaskConfig \<Rightarrow> Report \<Rightarrow> MockLeaderMemoryPerTask \<Rightarrow>
   (DapBatchBucket, DapError) result \<times> MockLeaderMemoryPerTask" where
  "assign_report_to_bucket E rng c report self =
     (let shard = ReportId_shard E (metadata_id (report_metadata report)) 1 in
      case query_config c of
        QC_FixedSize _ \<Rightarrow>
          (case first_unsaturated (min_batch_size c) (batch_queue self) of
             Some (batch_id, queue) \<Rightarrow> (Ok (Bucket_FixedSize batch_id shard), self\<lparr>batch_queue := queue\<rparr>)
           | None \<Rightarrow> (Ok (Bucket_FixedSize rng shard), self\<lparr>batch_queue := batch_queue self @ [(rng, 1)]\<rparr>))
      | QC_TimeInterval \<Rightarrow>
          (and_then (quantized_time_lower_bound c (metadata_time (report_metadata report)))
             (\<lambda>window. Ok (Bucket_TimeInterval window shard)), self))"

definition leader_put_report ::
  "'z dap_ext_scheme \<Rightarrow> BatchId \<Rightarrow> TaskId \<Rightarrow> DapTaskConfig \<Rightarrow> Report \<Rightarrow> (unit, DapError, InMemoryLeaderState) stateful" where
  "leader_put_report E rng task_id c report self =
     (case assign_report_to_bucket E rng c report (task_memory task_id self) of
        (Ok bucket, m) \<Rightarrow>
          (Ok (), set_task_memory task_id (m\<lparr>pending_reports :=
             AList.update bucket (entry bucket [] (pending_reports m) @ [report]) (pending_reports m)\<rparr>) self)
      | (Err e, m) \<Rightarrow> (Err e, set_task_memory task_id m self)
      | (Panic, m) \<Rightarrow> (Panic, set_task_memory task_id m self))"

definition leader_current_batch :: "TaskId \<Rightarrow> DapTaskConfig \<Rightarrow> (BatchId, DapError, InMemoryLeaderState) stateful" where
  "leader_current_batch task_id c self =
     (case query_config c of
        QC_FixedSize _ \<Rightarrow>
          (case map_of (per_task self) task_id of
             None \<Rightarrow> Err (Abort (UnrecognizedTask task_id))
           | Some m \<Rightarrow>
               (case batch_queue m of
                  [] \<Rightarrow> Err (Abort (BadRequest ''empty batch queue''))
                | (batch_id, _) # _ \<Rightarrow> Ok batch_id))
      | _ \<Rightarrow> Err (Abort (BadRequest ''tried to get current batch from non fixed-size task'')), self)"

section \<open>Work\<close>

definition leader_enqueue_work :: "WorkItem list \<Rightarrow> (unit, DapError, InMemoryLeaderState) stateful" where
  "leader_enqueue_work work_items self = (Ok (), self\<lparr>work_queue := work_queue self @ work_items\<rparr>)"

definition leader_dequeue_work :: "usize \<Rightarrow> (WorkItem list, DapError, InMemoryLeaderState) stateful" where
  "leader_dequeue_work num_items self =
     (let n = min (length (work_queue self)) num_items in
      (Ok (take n (work_queue self)), self\<lparr>work_queue := drop n (work_queue self)\<rparr>))"

section \<open>Collection jobs\<close>

text \<open>One bucket of a collection job: its reports become an aggregation job, its batch leaves the queue.\<close>

definition queue_bucket ::
  "TaskId \<Rightarrow> BatchSelector \<Rightarrow> DapAggregationParam \<Rightarrow> DapBatchBucket \<Rightarrow>
   WorkItem list \<times> MockLeaderMemoryPerTask \<Rightarrow> WorkItem list \<times> MockLeaderMemoryPerTask" where
  "queue_bucket task_id sel agg_param bucket = (\<lambda>(queue, m).
     let (queue, m) = (case map_of (pending_reports m) bucket of
            Some reports \<Rightarrow>
              (queue @ [WI_AggregationJob task_id (PartialBatchSelector_from sel) agg_param reports],
               m\<lparr>pending_reports := AList.delete bucket (pending_reports m)\<rparr>)
          | None \<Rightarrow> (queue, m)) in
     (queue, case bucket of
         Bucket_FixedSize batch_id _ \<Rightarrow> m\<lparr>batch_queue := filter (\<lambda>(i, _). batch_id \<noteq> i) (batch_queue m)\<rparr>
       | _ \<Rightarrow> m))"

definition leader_init_collect_job ::
  "'z server_ext_scheme \<Rightarrow> TaskId \<Rightarrow> DapTaskConfig \<Rightarrow> CollectionJobId \<Rightarrow> BatchSelector \<Rightarrow> DapAggregationParam \<Rightarrow>
   (Url, DapError, InMemoryLeaderState) stateful" where
  "leader_init_collect_job E task_id c coll_job_id sel agg_param self =
     (let m = task_memory task_id self; self = set_task_memory task_id m self in
      case url_join E (leader_url c) (''collect/task/'' @ encode_base64url E (TaskId_0 task_id) @ ''/req/'' @
          encode_base64url E (CollectionJobId_0 coll_job_id)) of
        None \<Rightarrow> (Err (Fatal ''failed to calculate coll_job_uri''), self)
      | Some uri \<Rightarrow>
          if map_of (coll_jobs m) coll_job_id \<noteq> None
          then (Err (Abort (BadRequest ''tried to overwrite collection job {}'')), self)
          else
            let m = m\<lparr>coll_jobs := AList.update coll_job_id Pending (coll_jobs m)\<rparr>;
                self = set_task_memory task_id m self in
            case batch_span_for_sel c sel of
              Err e \<Rightarrow> (Err e, self)
            | Panic \<Rightarrow> (Panic, self)
            | Ok span \<Rightarrow>
                let (queue, m) = fold (queue_bucket task_id sel agg_param) span (work_queue self, m) in
                (Ok uri, set_task_memory task_id m
                   (self\<lparr>work_queue := queue @ [WI_CollectionJob task_id coll_job_id sel agg_param]\<rparr>)))"

definition leader_poll_collect_job ::
  "TaskId \<Rightarrow> CollectionJobId \<Rightarrow> (DapCollectionJob, DapError, InMemoryLeaderState) stateful" where
  "leader_poll_collect_job task_id coll_job_id self =
     (case map_of (per_task self) task_id of
        Some m \<Rightarrow> Ok (entry coll_job_id Unknown (coll_jobs m))
      | None \<Rightarrow> Err (Abort (UnrecognizedTask task_id)), self)"

definition leader_finish_collect_job ::
  "TaskId \<Rightarrow> CollectionJobId \<Rightarrow> Collection \<Rightarrow> (unit, DapError, InMemoryLeaderState) stateful" where
  "leader_finish_collect_job task_id coll_job_id collection self =
     (case map_of (per_task self) task_id of
        None \<Rightarrow> (Err (Fatal ''collect job not found for task_id''), self)
      | Some m \<Rightarrow>
          (case map_of (coll_jobs m) coll_job_id of
             None \<Rightarrow> (Err (Fatal ''collect job not found for collect_id''), self)
           | Some Pending \<Rightarrow>
               (Ok (), set_task_memory task_id
                  (m\<lparr>coll_jobs := AList.update coll_job_id (Done collection) (coll_jobs m)\<rparr>) self)
           | Some (Done _) \<Rightarrow> (Err (Fatal ''tried to overwrite completed collection job''), self)
           | Some Unknown \<Rightarrow> (Err (Fatal ''tried to overwrite collection job in unkonwn state''), self)))"

end
