(* ===== verification/App.thy ===== *)
theory App
  imports Kv Helper In_Memory_Leader
begin

text \<open>
  The server, crates/daphne-server/src/lib.rs and src/roles: its configuration and authorization
  (crates/daphne-service-utils), and its implementation of \<open>DapAggregator\<close> on the storage proxy. Requests
  to several durable objects are sent one after the other; the code sends them concurrently, and each
  goes to another object. The decryption of a report reads the task and the receivers through the cache and
  does not note in the cache what it read, unlike the code.
\<close>

section \<open>Configuration\<close>

datatype DapRole = Role_Leader | Role_Helper

definition is_leader :: "DapRole \<Rightarrow> bool" where "is_leader self \<longleftrightarrow> self = Role_Leader"

record TlsClientAuth =
  verified :: string

record DaphneAuth =
  bearer_token :: "BearerToken option"
  cf_tls_client_auth :: "TlsClientAuth option"

definition DaphneAuth_as_ref :: "DaphneAuth \<Rightarrow> (BearerToken, 'e) result" where
  "DaphneAuth_as_ref self = (case bearer_token self of Some token \<Rightarrow> Ok token | None \<Rightarrow> Panic)"

record DaphneWorkerAuthMethod =
  method_bearer_token :: "BearerToken option"

record TaskprovConfig =
  hpke_collector_config :: HpkeConfig
  vdaf_verify_key_init :: bytes
  leader_auth :: DaphneWorkerAuthMethod
  collector_auth :: "DaphneWorkerAuthMethod option"

record DaphneServiceConfig =
  role :: DapRole
  global :: DapGlobalConfig
  taskprov :: "TaskprovConfig option"
  default_version :: DapVersion
  report_storage_epoch_duration :: Duration
  report_storage_max_future_time_skew :: Duration

record 'v App = "'v kv_client" +
  service_config :: DaphneServiceConfig
  test_leader_state :: InMemoryLeaderState

text \<open>The identifier of a task in a key is in hexadecimal.\<close>

definition task_key :: "'z server_ext_scheme \<Rightarrow> TaskId \<Rightarrow> string" where
  "task_key E task_id = hex_encode E (TaskId_0 task_id)"

definition fetch_replay_protection_override :: "(ReplayProtection, 'e, ('v, 'z) kv_client_scheme) stateful" where
  "fetch_replay_protection_override =
     st_then (st_try (get_cloned override_bool (GlobalOverrides_to_string SkipReplayProtection) \<lparr>cache_not_found = True\<rparr>))
       (\<lambda>fetched. st_return (case fetched of Ok (Some True) \<Rightarrow> InsecureDisabled | _ \<Rightarrow> Enabled))"

section \<open>Tasks\<close>

definition App_get_task_config_for ::
  "'y server_ext_scheme \<Rightarrow> TaskId \<Rightarrow> (DapTaskConfig option, DapError, ('v, 'z) kv_client_scheme) stateful" where
  "App_get_task_config_for E task_id =
     st_map_err (\<lambda>_. Fatal ''failed to get a task config from kv: {task_id}'')
       (get_cloned prefix_TaskConfig (task_key E task_id) KvGetOptions_default)"

definition App_task_config ::
  "'y server_ext_scheme \<Rightarrow> TaskId \<Rightarrow> (DapTaskConfig, DapError, ('v, 'z) kv_client_scheme) stateful" where
  "App_task_config E task_id =
     st_then (App_get_task_config_for E task_id) (\<lambda>c. st_lift (ok_or c (Abort (UnrecognizedTask task_id))))"

definition App_get_global_config :: "(DapGlobalConfig, DapError, ('v, 'z) App_scheme) stateful" where
  "App_get_global_config =
     st_then (st_get (global \<circ> service_config)) (\<lambda>config.
     st_then (st_map_err (\<lambda>_. Fatal ''failed to get global override for the default_num_agg_span_shards'')
       (get_cloned override_usize (GlobalOverrides_to_string DefaultNumAggSpanShards) \<lparr>cache_not_found = True\<rparr>)) (\<lambda>override.
     st_return (case override of None \<Rightarrow> config | Some n \<Rightarrow> config\<lparr>default_num_agg_span_shards := n\<rparr>)))"

definition App_taskprov_vdaf_verify_key_init :: "('v, 'z) App_scheme \<Rightarrow> bytes option" where
  "App_taskprov_vdaf_verify_key_init s = map_option vdaf_verify_key_init (taskprov (service_config s))"

definition App_taskprov_collector_hpke_config :: "('v, 'z) App_scheme \<Rightarrow> HpkeConfig option" where
  "App_taskprov_collector_hpke_config s = map_option hpke_collector_config (taskprov (service_config s))"

definition App_taskprov_opt_in ::
  "'y server_ext_scheme \<Rightarrow> TaskId \<Rightarrow> DapTaskConfigNeedsOptIn \<Rightarrow> DapGlobalConfig \<Rightarrow>
   (DapTaskConfig, DapError, ('v, 'z) App_scheme) stateful" where
  "App_taskprov_opt_in E task_id needs global_config =
     st_then (st_map_err (\<lambda>_. Fatal ''failed to get TaskprovOptInParam from kv'')
       (get_cloned prefix_TaskprovOptInParam (task_key E task_id) KvGetOptions_default)) (\<lambda>stored.
     case stored of
       Some param \<Rightarrow> st_return (into_opted_in needs param)
     | None \<Rightarrow>
         st_then (st_get unix_secs) (\<lambda>now.
         let param = \<lparr>opt_in_not_before = now, opt_in_num_agg_span_shards = default_num_agg_span_shards global_config\<rparr>;
             c = into_opted_in needs param in
         st_then (st_try (put_with_expiration prefix_TaskprovOptInParam (task_key E task_id) param (not_after c))) (\<lambda>_.
         st_return c)))"

definition App_taskprov_put ::
  "'y server_ext_scheme \<Rightarrow> 'a DapRequest \<Rightarrow> DapTaskConfig \<Rightarrow> (unit, DapError, ('v, 'z) App_scheme) stateful" where
  "App_taskprov_put E req c =
     st_then (st_abort (DapRequest_task_id req)) (\<lambda>task_id.
     st_then (st_get (role \<circ> service_config)) (\<lambda>r.
     if is_leader r \<or> req_taskprov req = None
     then st_map_err (\<lambda>_. Fatal ''failed to put the a task config in kv'')
            (put_with_expiration prefix_TaskConfig (task_key E task_id) c (not_after c))
     else only_cache_put prefix_TaskConfig (task_key E task_id) c))"

section \<open>Aggregate shares\<close>

definition store_send ::
  "('v, 'x) prio_vdafs_scheme \<Rightarrow> ('v, 'f, 'u) field_ext_scheme \<Rightarrow> 'y server_ext_scheme \<Rightarrow> TaskId \<Rightarrow> DapVersion \<Rightarrow>
   'v store_request \<Rightarrow> DapBatchBucket \<Rightarrow> ('v store_response, proxy_error, ('v, 'z) kv_client_scheme) stateful" where
  "store_send V F E task_id ver req bucket =
     st_then (st_get auth_token) (\<lambda>token.
     durable_send V F token (AggregateStore_name E ver (task_key E task_id) bucket) req)"

definition merge_bucket ::
  "('v, 'x) prio_vdafs_scheme \<Rightarrow> ('v, 'f, 'u) field_ext_scheme \<Rightarrow> 'y server_ext_scheme \<Rightarrow> TaskId \<Rightarrow> DapTaskConfig \<Rightarrow>
   ReplayProtection \<Rightarrow> DapBatchBucket \<times> 'v DapAggregateShare \<times> (ReportId \<times> Time) list \<Rightarrow>
   (DapBatchBucket \<times> (unit, MergeAggShareError) result \<times> (ReportId \<times> Time) list, DapError, ('v, 'z) kv_client_scheme) stateful" where
  "merge_bucket V F E task_id c replay_protection = (\<lambda>(bucket, share, report_metadatas).
     st_then (st_try (store_send V F E task_id (version c) (Req_Merge \<lparr>contained_reports = map fst report_metadatas,
         agg_share_delta = share, skip_replay_protection = \<not> ReplayProtection_enabled replay_protection\<rparr>) bucket)) (\<lambda>answer.
     st_return (bucket, (case answer of
         Ok (Resp_Merge Merge_Ok) \<Rightarrow> Ok ()
       | Ok (Resp_Merge Merge_AlreadyCollected) \<Rightarrow> Err AlreadyCollected
       | Ok (Resp_Merge (Merge_ReplaysDetected replays)) \<Rightarrow> Err (ReplaysDetected replays)
       | _ \<Rightarrow> Err (MergeOther (Fatal ''failed to merge aggregate share''))), report_metadatas)))"

definition App_try_put_agg_share_span ::
  "('v, 'x) prio_vdafs_scheme \<Rightarrow> ('v, 'f, 'u) field_ext_scheme \<Rightarrow> 'y server_ext_scheme \<Rightarrow> TaskId \<Rightarrow> DapTaskConfig \<Rightarrow>
   'v DapAggregateShare DapAggregateSpan \<Rightarrow>
   ((unit, MergeAggShareError) result DapAggregateSpan, DapError, ('v, 'z) kv_client_scheme) stateful" where
  "App_try_put_agg_share_span V F E task_id c span =
     st_then fetch_replay_protection_override (\<lambda>replay_protection.
     st_map (merge_bucket V F E task_id c replay_protection) span)"

text \<open>A response of another type than the request asks for is a JSON error.\<close>

definition share_response :: "'v store_response \<Rightarrow> ('v DapAggregateShare, proxy_error) result" where
  "share_response resp = (case resp of Resp_Share share \<Rightarrow> Ok share | _ \<Rightarrow> Err PE_Reqwest)"

definition bool_response :: "'v store_response \<Rightarrow> (bool, proxy_error) result" where
  "bool_response resp = (case resp of Resp_Bool b \<Rightarrow> Ok b | _ \<Rightarrow> Err PE_Reqwest)"

definition unit_response :: "'v store_response \<Rightarrow> (unit, proxy_error) result" where
  "unit_response resp = (case resp of Resp_Unit \<Rightarrow> Ok () | _ \<Rightarrow> Err PE_Reqwest)"

definition App_get_agg_share ::
  "('v, 'x) prio_vdafs_scheme \<Rightarrow> ('v, 'f, 'u) field_ext_scheme \<Rightarrow> 'y server_ext_scheme \<Rightarrow> TaskId \<Rightarrow> BatchSelector \<Rightarrow>
   ('v DapAggregateShare, DapError, ('v, 'z) kv_client_scheme) stateful" where
  "App_get_agg_share V F E task_id sel =
     st_then (App_task_config E task_id) (\<lambda>c.
     st_then (st_lift (batch_span_for_sel c sel)) (\<lambda>span.
     st_then (st_map_err (\<lambda>_. Fatal ''failed to get agg shares from durable objects'')
       (st_map (\<lambda>bucket. st_then (store_send V F E task_id (version c) Req_Get bucket) (\<lambda>resp. st_lift (share_response resp)))
          span)) (\<lambda>shares.
     st_lift (try_fold (DapAggregateShare_merge V) DapAggregateShare_default shares))))"

definition App_mark_collected ::
  "('v, 'x) prio_vdafs_scheme \<Rightarrow> ('v, 'f, 'u) field_ext_scheme \<Rightarrow> 'y server_ext_scheme \<Rightarrow> TaskId \<Rightarrow> BatchSelector \<Rightarrow>
   (unit, DapError, ('v, 'z) kv_client_scheme) stateful" where
  "App_mark_collected V F E task_id sel =
     st_then (App_task_config E task_id) (\<lambda>c.
     st_then (st_lift (batch_span_for_sel c sel)) (\<lambda>span.
     st_then (st_map_err (\<lambda>_. Fatal ''failed to mark agg shares as collected'')
       (st_map (\<lambda>bucket. st_then (store_send V F E task_id (version c) Req_MarkCollected bucket) (\<lambda>resp.
          st_lift (unit_response resp))) span)) (\<lambda>_.
     st_return ())))"

definition App_is_batch_overlapping ::
  "('v, 'x) prio_vdafs_scheme \<Rightarrow> ('v, 'f, 'u) field_ext_scheme \<Rightarrow> 'y server_ext_scheme \<Rightarrow> TaskId \<Rightarrow> BatchSelector \<Rightarrow>
   (bool, DapError, ('v, 'z) kv_client_scheme) stateful" where
  "App_is_batch_overlapping V F E task_id sel =
     st_then (App_task_config E task_id) (\<lambda>c.
     st_then (st_lift (batch_span_for_sel c sel)) (\<lambda>span.
     st_map_err (\<lambda>_. Fatal ''failed to check if agg shares are collected'')
       (st_any (\<lambda>bucket. st_then (store_send V F E task_id (version c) Req_CheckCollected bucket) (\<lambda>resp.
          st_lift (bool_response resp))) span)))"

text \<open>The answers from left to right: an error counts unless an earlier answer was positive.\<close>

fun any_exists :: "(bool, DapError) result list \<Rightarrow> (bool, DapError) result" where
  "any_exists [] = Ok False"
| "any_exists [a] = a"
| "any_exists (a # b # rest) = any_exists (and_then a (\<lambda>a. if a then Ok True else b) # rest)"

definition App_batch_exists ::
  "('v, 'x) prio_vdafs_scheme \<Rightarrow> ('v, 'f, 'u) field_ext_scheme \<Rightarrow> 'y server_ext_scheme \<Rightarrow> TaskId \<Rightarrow> BatchId \<Rightarrow>
   (bool, DapError, ('v, 'z) kv_client_scheme) stateful" where
  "App_batch_exists V F E task_id batch_id =
     st_then (App_task_config E task_id) (\<lambda>c.
     st_then (st_lift (batch_span_for_sel c (BS_FixedSizeByBatchId batch_id))) (\<lambda>span.
     st_then (st_map (\<lambda>bucket. st_try (st_map_err (\<lambda>_. Fatal ''failed to get an agg share'')
         (st_then (store_send V F E task_id (version c) Req_Get bucket) (\<lambda>resp.
          st_then (st_lift (share_response resp)) (\<lambda>share. st_return (\<not> DapAggregateShare_empty share)))))) span) (\<lambda>answers.
     st_lift (any_exists answers))))"

section \<open>Authorization\<close>

definition App_get_leader_bearer_token_for ::
  "'y server_ext_scheme \<Rightarrow> TaskId \<Rightarrow> DapTaskConfig \<Rightarrow> (BearerToken option, DapError, ('v, 'z) App_scheme) stateful" where
  "App_get_leader_bearer_token_for E task_id c =
     st_then (st_get service_config) (\<lambda>config.
     let from_kv = st_map_err (\<lambda>_. Fatal ''failed to get the leader bearer token'')
           (get_cloned prefix_LeaderBearerToken (task_key E task_id) KvGetOptions_default) in
     if allow_taskprov (global config) \<and> method_is_taskprov c
     then (case Option.bind (taskprov config) (\<lambda>t. method_bearer_token (leader_auth t)) of
             Some token \<Rightarrow> st_return (Some token)
           | None \<Rightarrow> from_kv)
     else from_kv)"

text \<open>A taskprov configuration without a method for the Collector makes the server panic.\<close>

definition App_get_collector_bearer_token_for ::
  "'y server_ext_scheme \<Rightarrow> TaskId \<Rightarrow> DapTaskConfig \<Rightarrow> (BearerToken option, DapError, ('v, 'z) App_scheme) stateful" where
  "App_get_collector_bearer_token_for E task_id c =
     st_then (st_get service_config) (\<lambda>config.
     let from_kv = st_map_err (\<lambda>_. Fatal ''failed to get the collector bearer token'')
           (get_cloned prefix_CollectorBearerToken (task_key E task_id) KvGetOptions_default) in
     if allow_taskprov (global config) \<and> method_is_taskprov c
     then (case taskprov config of
             None \<Rightarrow> from_kv
           | Some t \<Rightarrow>
               (case collector_auth t of
                  None \<Rightarrow> st_lift Panic
                | Some auth \<Rightarrow>
                    (case method_bearer_token auth of Some token \<Rightarrow> st_return (Some token) | None \<Rightarrow> from_kv)))
     else from_kv)"

definition App_bearer_tokens :: "'y server_ext_scheme \<Rightarrow> ('v, 'z) App_scheme BearerTokenProvider" where
  "App_bearer_tokens E = \<lparr>get_leader_bearer_token_for = App_get_leader_bearer_token_for E,
     get_collector_bearer_token_for = App_get_collector_bearer_token_for E\<rparr>"

definition App_unauthorized_reason ::
  "'y server_ext_scheme \<Rightarrow> DapTaskConfig \<Rightarrow> DaphneAuth DapRequest \<Rightarrow> (string option, DapError, ('v, 'z) App_scheme) stateful" where
  "App_unauthorized_reason E c req = (case req_sender_auth req of
      None \<Rightarrow> st_return (Some ''Missing authorization.'')
    | Some sender_auth \<Rightarrow>
        st_then (if bearer_token sender_auth \<noteq> None
            then bearer_token_authorized (App_bearer_tokens E) DaphneAuth_as_ref c req
            else st_return None) (\<lambda>reason.
        case reason of
          Some reason \<Rightarrow> st_return (Some reason)
        | None \<Rightarrow>
            (case cf_tls_client_auth sender_auth of
               Some tls \<Rightarrow>
                 st_then (st_get (taskprov \<circ> service_config)) (\<lambda>taskprov_config.
                 st_return
                   (if taskprov_config = None
                    then Some ''TLS client authentication is currently only supported with Taskprov.''
                    else if verified tls \<noteq> ''SUCCESS'' then Some ''Invalid TLS certificate ({}).''
                    else None))
             | None \<Rightarrow>
                 st_return (if bearer_token sender_auth \<noteq> None then None
                            else Some ''No suitable authorization method was found.''))))"

section \<open>The implementation of the trait\<close>

definition App_get_hpke_config_for ::
  "DapVersion \<Rightarrow> TaskId option \<Rightarrow> (HpkeConfig, DapError, ('v, 'z) kv_client_scheme) stateful" where
  "App_get_hpke_config_for ver task_id =
     st_then (st_map_err (\<lambda>_. Fatal ''failed to get the hpke config'')
       (get_mapped prefix_HpkeReceiverConfigSet (DapVersion_as_ref ver) KvGetOptions_default
          (\<lambda>config_list. case config_list of [] \<Rightarrow> None | receiver # _ \<Rightarrow> Some (receiver_config receiver)))) (\<lambda>config.
     st_lift (ok_or config (Fatal ''there are no hpke configs in kv!!'')))"

definition App_can_hpke_decrypt ::
  "'y server_ext_scheme \<Rightarrow> TaskId \<Rightarrow> u8 \<Rightarrow> (bool, DapError, ('v, 'z) kv_client_scheme) stateful" where
  "App_can_hpke_decrypt E task_id i =
     st_then (App_task_config E task_id) (\<lambda>c.
     st_then (st_map_err (\<lambda>_. Fatal ''failed to get at the hpke config'')
       (peek prefix_HpkeReceiverConfigSet (DapVersion_as_ref (version c)) KvGetOptions_default
          (\<lambda>config_list. list_ex (\<lambda>r. hpke_id (receiver_config r) = i) config_list))) (\<lambda>found.
     st_return (case found of None \<Rightarrow> False | Some b \<Rightarrow> b)))"

definition App_receivers :: "('v, 'z) kv_client_scheme \<Rightarrow> receiver_lookup" where
  "App_receivers s ver =
     map_err (\<lambda>_. ()) (fst (get_cloned prefix_HpkeReceiverConfigSet (DapVersion_as_ref ver) KvGetOptions_default s))"

definition App_tasks :: "'y server_ext_scheme \<Rightarrow> ('v, 'z) kv_client_scheme \<Rightarrow> task_lookup" where
  "App_tasks E s task_id = fst (App_get_task_config_for E task_id s)"

definition App_aggregator ::
  "('c, 'w) hpke_rs_scheme \<Rightarrow> ('v, 'x) prio_vdafs_scheme \<Rightarrow> ('v, 'f, 'u) field_ext_scheme \<Rightarrow> 'y server_ext_scheme \<Rightarrow>
   (DaphneAuth, 'v, ('v, 'z) App_scheme) DapAggregator" where
  "App_aggregator R V F E = \<lparr>
     unauthorized_reason = App_unauthorized_reason E,
     get_global_config = App_get_global_config,
     taskprov_vdaf_verify_key_init = App_taskprov_vdaf_verify_key_init,
     taskprov_collector_hpke_config = App_taskprov_collector_hpke_config,
     taskprov_opt_in = App_taskprov_opt_in E,
     taskprov_put = App_taskprov_put E,
     get_task_config_for = App_get_task_config_for E,
     get_current_time = unix_secs,
     is_batch_overlapping = App_is_batch_overlapping V F E,
     batch_exists = App_batch_exists V F E,
     try_put_agg_share_span = App_try_put_agg_share_span V F E,
     agg_get_agg_share = App_get_agg_share V F E,
     mark_collected = App_mark_collected V F E,
     get_hpke_config_for = App_get_hpke_config_for,
     can_hpke_decrypt = App_can_hpke_decrypt E,
     agg_decrypter = (\<lambda>s. App_hpke_decrypt R (App_tasks E s) (App_receivers s)),
     agg_initializer = (\<lambda>s. App_initializer V (unix_secs s) (report_storage_epoch_duration (service_config s))
       (report_storage_max_future_time_skew (service_config s)))\<rparr>"

end
