(* ===== verification/Leader.thy ===== *)
theory Leader
  imports Roles In_Memory_Leader
begin

text \<open>
  The Leader's handlers and its work loop, crates/daphne/src/roles/leader/mod.rs. The server is a
  \<open>DapLeader\<close>: a \<open>DapAggregator\<close> that also keeps reports and jobs and sends requests to the Helper. The
  random identifier of an aggregation job comes from the operation \<open>rng\<close>, the randomness of an encryption
  from \<open>coins\<close>. Jobs that the code runs concurrently run one after the other, in the order in which they
  were queued; the tasks whose jobs are left at the end are taken in the order of their first job, where the
  code iterates over a hash map. A report carries a pair of encrypted input shares, as the array of the source
  does, so the check of the length of that array has no branch here.
\<close>

section \<open>The trait\<close>

record ('a, 'v, 's) DapLeader = "('a, 'v, 's) DapAggregator" +
  authorize :: "TaskId \<Rightarrow> DapTaskConfig \<Rightarrow> DapMediaType \<Rightarrow> bytes \<Rightarrow> ('a, DapError, 's) stateful"
  put_report :: "Report \<Rightarrow> TaskId \<Rightarrow> (unit, DapError, 's) stateful"
  current_batch :: "TaskId \<Rightarrow> (BatchId, DapError, 's) stateful"
  init_collect_job :: "TaskId \<Rightarrow> CollectionJobId \<Rightarrow> BatchSelector \<Rightarrow> DapAggregationParam \<Rightarrow> (Url, DapError, 's) stateful"
  poll_collect_job :: "TaskId \<Rightarrow> CollectionJobId \<Rightarrow> (DapCollectionJob, DapError, 's) stateful"
  dequeue_work :: "usize \<Rightarrow> (WorkItem list, DapError, 's) stateful"
  enqueue_work :: "WorkItem list \<Rightarrow> (unit, DapError, 's) stateful"
  finish_collect_job :: "TaskId \<Rightarrow> CollectionJobId \<Rightarrow> Collection \<Rightarrow> (unit, DapError, 's) stateful"
  send_http_post :: "'a DapRequest \<Rightarrow> Url \<Rightarrow> (DapResponse, DapError, 's) stateful"
  send_http_put :: "'a DapRequest \<Rightarrow> Url \<Rightarrow> (DapResponse, DapError, 's) stateful"

section \<open>Requests to the Helper\<close>

datatype LeaderHttpRequestMethod = Method_Post | Method_Put

record LeaderHttpRequestOptions =
  opt_path :: string
  req_media :: DapMediaType
  resp_media :: DapMediaType
  opt_resource :: DapResource
  req_data :: bytes
  opt_method :: LeaderHttpRequestMethod
  opt_taskprov :: "string option"

definition check_response_content_type :: "DapResponse \<Rightarrow> DapMediaType \<Rightarrow> (unit, DapError) result" where
  "check_response_content_type resp expected =
     (if resp_media_type resp \<noteq> expected then Err (Fatal ''response from peer has unexpected content-type'') else Ok ())"

definition leader_send_http_request ::
  "'y server_ext_scheme \<Rightarrow> ('a, 'v, 's, 'z) DapLeader_scheme \<Rightarrow> TaskId \<Rightarrow> DapTaskConfig \<Rightarrow> LeaderHttpRequestOptions \<Rightarrow>
   (DapResponse, DapError, 's) stateful" where
  "leader_send_http_request E role task_id c opts =
     st_then (st_lift (ok_or (url_join E (helper_url c) (opt_path opts)) (Fatal ''failed to helper url {:?} with {path:?}''))) (\<lambda>url.
     st_then (authorize role task_id c (req_media opts) (req_data opts)) (\<lambda>sender_auth.
     let req = \<lparr>req_version = version c, req_media_type = Some (req_media opts), req_task_id = Some task_id,
           req_resource = opt_resource opts, req_payload = req_data opts, req_sender_auth = Some sender_auth,
           req_taskprov = opt_taskprov opts\<rparr> in
     st_then (case opt_method opts of
         Method_Put \<Rightarrow> send_http_put role req url
       | Method_Post \<Rightarrow> send_http_post role req url) (\<lambda>resp.
     st_then (st_lift (check_response_content_type resp (resp_media opts))) (\<lambda>_.
     st_return resp))))"

section \<open>Uploads and collection requests\<close>

text \<open>The difference of the start of the task and its time precision wraps in the release profile.\<close>

definition check_report_time :: "DapTaskConfig \<Rightarrow> Report \<Rightarrow> (unit, DapAbort) result" where
  "check_report_time c report =
     (let t = metadata_time (report_metadata report) in
      if t \<ge> not_after c then Err (ReportTooLate (metadata_id (report_metadata report)))
      else if t < not_before c - time_precision c
      then Err (ReportRejected ''The timestamp preceeds the start of the task's validity window'')
      else Ok ())"

definition handle_upload_req ::
  "'w prio_protocol_scheme \<Rightarrow> ('v, 'x) prio_vdafs_scheme \<Rightarrow> 'y taskprov_ext_scheme \<Rightarrow>
   ('a, 'v, 's, 'z) DapLeader_scheme \<Rightarrow> 'a DapRequest \<Rightarrow> (unit, DapError, 's) stateful" where
  "handle_upload_req P V E leader req =
     st_then (get_global_config leader) (\<lambda>global_config.
     st_then (st_abort (DapRequest_task_id req)) (\<lambda>task_id.
     st_then (st_abort (check_request_content_type req MT_Report)) (\<lambda>_.
     st_then (st_abort (map_err (\<lambda>e. from_codec_error e task_id) (get_decoded_Report P
         (Report_decode_with_param P (req_version req)) (req_payload req)))) (\<lambda>report.
     st_then (if allow_taskprov global_config then resolve_taskprov P V E leader task_id req global_config
         else st_return ()) (\<lambda>_.
     st_then (task_config_of leader task_id) (\<lambda>c.
     if version c \<noteq> req_version req then st_lift (Err (Abort (version_mismatch (req_version req) (version c))))
     else
       st_then (can_hpke_decrypt leader task_id (config_id (fst (encrypted_input_shares report)))) (\<lambda>can_decrypt.
       if \<not> can_decrypt
       then st_lift (Err (Abort (ReportRejected ''No current HPKE configuration matches the indicated ID.'')))
       else
         st_then (st_abort (check_report_time c report)) (\<lambda>_.
         put_report leader report task_id))))))))"

definition handle_coll_job_req ::
  "'w prio_protocol_scheme \<Rightarrow> ('v, 'x) prio_vdafs_scheme \<Rightarrow> 'y taskprov_ext_scheme \<Rightarrow>
   ('a, 'v, 's, 'z) DapLeader_scheme \<Rightarrow> 'a DapRequest \<Rightarrow> (Url, DapError, 's) stateful" where
  "handle_coll_job_req P V E leader req =
     st_then (get_global_config leader) (\<lambda>global_config.
     st_then (st_get (get_current_time leader)) (\<lambda>now.
     st_then (st_abort (DapRequest_task_id req)) (\<lambda>task_id.
     st_then (st_abort (check_request_content_type req MT_CollectReq)) (\<lambda>_.
     st_then (if allow_taskprov global_config then resolve_taskprov P V E leader task_id req global_config
         else st_return ()) (\<lambda>_.
     st_then (task_config_of leader task_id) (\<lambda>c.
     st_then (check_authorized leader c task_id req) (\<lambda>_.
     st_then (st_abort (map_err (\<lambda>e. from_codec_error e task_id) (get_decoded_CollectionReq P
         (CollectionReq_decode_with_param P (req_version req)) (req_payload req)))) (\<lambda>coll_job_req.
     st_then (st_abort (map_err (\<lambda>e. from_codec_error e task_id) (get_decoded_DapAggregationParam P
         (DapAggregationParam_decode_with_param (vdaf_config c)) (req_agg_param coll_job_req)))) (\<lambda>agg_param.
     if version c \<noteq> req_version req then st_lift (Err (Abort (version_mismatch (req_version req) (version c))))
     else
       st_then (check_batch leader c task_id (query coll_job_req) (req_agg_param coll_job_req) now global_config) (\<lambda>_.
       case req_resource req of
         Resource_CollectionJob coll_job_id \<Rightarrow>
           st_then (case query coll_job_req of
               Query_TimeInterval batch_interval \<Rightarrow> st_return (BS_TimeInterval batch_interval)
             | Query_FixedSizeByBatchId batch_id \<Rightarrow> st_return (BS_FixedSizeByBatchId batch_id)
             | Query_FixedSizeCurrentBatch \<Rightarrow>
                 st_then (current_batch leader task_id) (\<lambda>batch_id. st_return (BS_FixedSizeByBatchId batch_id))) (\<lambda>sel.
           init_collect_job leader task_id coll_job_id sel agg_param)
       | _ \<Rightarrow> st_lift (Err (Abort (BadRequest ''missing collection ID'')))))))))))))"

section \<open>Jobs\<close>

text \<open>The answers of the buckets: the numbers of replayed reports and of collected buckets are logged.\<close>

definition count_put_results :: "(unit, MergeAggShareError) result DapAggregateSpan \<Rightarrow> (nat \<times> nat, DapError) result" where
  "count_put_results put_results =
     try_fold (\<lambda>(replayed, collected) (_, answer, _). case answer of
         Ok _ \<Rightarrow> Ok (replayed, collected)
       | Err AlreadyCollected \<Rightarrow> Ok (replayed, collected + 1)
       | Err (ReplaysDetected replays) \<Rightarrow> Ok (replayed + length replays, collected)
       | Err (MergeOther e) \<Rightarrow> Err e
       | Panic \<Rightarrow> Panic) (0, 0) put_results"

definition run_agg_job ::
  "'w prio_protocol_scheme \<Rightarrow> ('v, 'x) prio_vdafs_scheme \<Rightarrow> 'y server_ext_scheme \<Rightarrow>
   (AggregationJobId, DapError, 's) stateful \<Rightarrow> ('a, 'v, 's, 'z) DapLeader_scheme \<Rightarrow> TaskId \<Rightarrow> DapTaskConfig \<Rightarrow>
   PartialBatchSelector \<Rightarrow> DapAggregationParam \<Rightarrow> Report list \<Rightarrow> (u64, DapError, 's) stateful" where
  "run_agg_job P V E rng leader task_id c sel agg_param reports =
     st_then (st_lift (resolve_taskprove_advertisement P E c)) (\<lambda>advertisement.
     st_then rng (\<lambda>agg_job_id.
     st_then (st_get (\<lambda>s. (agg_decrypter leader s, agg_initializer leader s))) (\<lambda>(decrypt, init).
     st_then (st_lift (produce_agg_job_req P V c decrypt init task_id sel agg_param reports)) (\<lambda>(agg_job_state, agg_job_init_req).
     if DapAggregationJobState_report_count agg_job_state = 0 then st_return 0
     else
       st_then (st_lift (map_err DapError_encoding (get_encoded P
           (AggregationJobInitReq_encode_with_param P (version c) agg_job_init_req)))) (\<lambda>data.
       st_then (leader_send_http_request E leader task_id c
           \<lparr>opt_path = ''tasks/'' @ encode_base64url E (TaskId_0 task_id) @ ''/aggregation_jobs/'' @
              encode_base64url E (AggregationJobId_0 agg_job_id),
            req_media = MT_AggregationJobInitReq, resp_media = MT_AggregationJobResp,
            opt_resource = Resource_AggregationJob agg_job_id, req_data = data, opt_method = Method_Put,
            opt_taskprov = advertisement\<rparr>) (\<lambda>resp.
       st_then (st_abort (map_err (\<lambda>e. from_codec_error e task_id) (get_decoded_AggregationJobResp P
           (AggregationJobResp_decode P) (resp_payload resp)))) (\<lambda>agg_job_resp.
       st_then (st_lift (consume_agg_job_resp P V E c task_id agg_job_state agg_job_resp)) (\<lambda>agg_span.
       let out_shares_count = of_nat (DapAggregateSpan_report_count agg_span) in
       if out_shares_count = 0 then st_return 0
       else
         st_then (try_put_agg_share_span leader task_id c agg_span) (\<lambda>put_results.
         st_then (st_lift (count_put_results put_results)) (\<lambda>_.
         st_return out_shares_count))))))))))"

text \<open>The interval of a collection: the quantized times of the first and last report.\<close>

definition collection_interval :: "DapTaskConfig \<Rightarrow> 'v DapAggregateShare \<Rightarrow> (Interval, DapError) result" where
  "collection_interval c share =
     and_then (quantized_time_lower_bound c (min_time share)) (\<lambda>low.
     and_then (quantized_time_upper_bound c (max_time share)) (\<lambda>high.
     Ok \<lparr>start = low, duration = (if high > low then high - low else time_precision c)\<rparr>))"

definition run_coll_job ::
  "'w prio_protocol_scheme \<Rightarrow> ('c, 'u) hpke_rs_scheme \<Rightarrow> ('v, 'x) prio_vdafs_scheme \<Rightarrow> 'y server_ext_scheme \<Rightarrow> bytes \<Rightarrow>
   ('a, 'v, 's, 'z) DapLeader_scheme \<Rightarrow> TaskId \<Rightarrow> DapTaskConfig \<Rightarrow> CollectionJobId \<Rightarrow> BatchSelector \<Rightarrow> DapAggregationParam \<Rightarrow>
   (u64, DapError, 's) stateful" where
  "run_coll_job P R V E coins leader task_id c coll_job_id sel agg_param =
     st_then (agg_get_agg_share leader task_id sel) (\<lambda>leader_agg_share.
     st_then (st_lift (resolve_taskprove_advertisement P E c)) (\<lambda>advertisement.
     st_then (st_abort (is_report_count_compatible c task_id (report_count leader_agg_share))) (\<lambda>ready.
     if \<not> ready then st_return 0
     else
       st_then (st_lift (produce_leader_encrypted_agg_share P R V coins (collector_hpke_config c) task_id sel agg_param
           leader_agg_share (version c))) (\<lambda>leader_enc_agg_share.
       st_then (st_lift (map_err (\<lambda>_. Fatal ''failed to decode agg param'')
           (get_encoded P (DapAggregationParam_encode agg_param)))) (\<lambda>param.
       st_then (st_lift (map_err DapError_encoding (get_encoded P (AggregateShareReq_encode_with_param P (version c)
           \<lparr>batch_sel = sel, agg_share_agg_param = param, agg_share_report_count = report_count leader_agg_share,
            agg_share_checksum = checksum leader_agg_share\<rparr>)))) (\<lambda>data.
       st_then (leader_send_http_request E leader task_id c
           \<lparr>opt_path = ''tasks/'' @ encode_base64url E (TaskId_0 task_id) @ ''/aggregate_shares'',
            req_media = MT_AggregateShareReq, resp_media = MT_AggregateShare, opt_resource = Resource_Undefined,
            req_data = data, opt_method = Method_Post, opt_taskprov = advertisement\<rparr>) (\<lambda>resp.
       st_then (st_abort (map_err (\<lambda>e. from_codec_error e task_id) (get_decoded_AggregateShare P
           (AggregateShare_decode P) (resp_payload resp)))) (\<lambda>agg_share_resp.
       st_then (st_lift (collection_interval c leader_agg_share)) (\<lambda>interval.
       st_then (finish_collect_job leader task_id coll_job_id
           \<lparr>coll_part_batch_sel = PartialBatchSelector_from sel, coll_report_count = report_count leader_agg_share,
            coll_interval = interval,
            encrypted_agg_shares = (leader_enc_agg_share, encrypted_agg_share agg_share_resp)\<rparr>) (\<lambda>_.
       st_then (mark_collected leader task_id sel) (\<lambda>_.
       st_return (report_count leader_agg_share))))))))))))"

section \<open>The work loop\<close>

record DapLeaderProcessTelemetry =
  reports_collected :: u64
  reports_aggregated :: u64
  reports_processed :: u64

type_synonym agg_job = "PartialBatchSelector \<times> DapAggregationParam \<times> Report list"

text \<open>An aggregation job of the queue, started when a collection job of its task or the end of the loop waits for it.\<close>

definition run_agg_work ::
  "'w prio_protocol_scheme \<Rightarrow> ('v, 'x) prio_vdafs_scheme \<Rightarrow> 'y server_ext_scheme \<Rightarrow>
   (AggregationJobId, DapError, 's) stateful \<Rightarrow> ('a, 'v, 's, 'z) DapLeader_scheme \<Rightarrow> TaskId \<Rightarrow> agg_job \<Rightarrow>
   (u64, DapError, 's) stateful" where
  "run_agg_work P V E rng leader task_id = (\<lambda>(sel, agg_param, reports).
     st_then (task_config_of leader task_id) (\<lambda>c.
     if reports = [] then st_return 0 else run_agg_job P V E rng leader task_id c sel agg_param reports))"

definition join_agg_jobs ::
  "'w prio_protocol_scheme \<Rightarrow> ('v, 'x) prio_vdafs_scheme \<Rightarrow> 'y server_ext_scheme \<Rightarrow>
   (AggregationJobId, DapError, 's) stateful \<Rightarrow> ('a, 'v, 's, 'z) DapLeader_scheme \<Rightarrow> TaskId \<Rightarrow> agg_job list \<Rightarrow>
   DapLeaderProcessTelemetry \<Rightarrow> (DapLeaderProcessTelemetry, DapError, 's) stateful" where
  "join_agg_jobs P V E rng leader task_id jobs telem =
     st_then (st_map (run_agg_work P V E rng leader task_id) jobs) (\<lambda>counts.
     st_return (telem\<lparr>reports_aggregated := reports_aggregated telem + sum_list counts\<rparr>))"

fun process_items ::
  "'w prio_protocol_scheme \<Rightarrow> ('c, 'u) hpke_rs_scheme \<Rightarrow> ('v, 'x) prio_vdafs_scheme \<Rightarrow> 'y server_ext_scheme \<Rightarrow>
   (AggregationJobId, DapError, 's) stateful \<Rightarrow> bytes \<Rightarrow> ('a, 'v, 's, 'z) DapLeader_scheme \<Rightarrow> WorkItem list \<Rightarrow>
   (TaskId \<times> agg_job list) list \<Rightarrow> WorkItem list \<Rightarrow> DapLeaderProcessTelemetry \<Rightarrow>
   ((TaskId \<times> agg_job list) list \<times> WorkItem list \<times> DapLeaderProcessTelemetry, DapError, 's) stateful" where
  "process_items P R V E rng coins leader [] agg_jobs pending_coll_jobs telem =
     st_return (agg_jobs, pending_coll_jobs, telem)"
| "process_items P R V E rng coins leader (WI_AggregationJob task_id sel agg_param reports # items) agg_jobs pending_coll_jobs telem =
     process_items P R V E rng coins leader items
       (AList.update task_id (entry task_id [] agg_jobs @ [(sel, agg_param, reports)]) agg_jobs) pending_coll_jobs
       (telem\<lparr>reports_processed := reports_processed telem + of_nat (length reports)\<rparr>)"
| "process_items P R V E rng coins leader (WI_CollectionJob task_id coll_job_id sel agg_param # items) agg_jobs pending_coll_jobs telem =
     st_then (join_agg_jobs P V E rng leader task_id (entry task_id [] agg_jobs) telem) (\<lambda>telem.
     let agg_jobs = (if map_of agg_jobs task_id = None then agg_jobs else AList.update task_id [] agg_jobs) in
     st_then (task_config_of leader task_id) (\<lambda>c.
     st_then (run_coll_job P R V E coins leader task_id c coll_job_id sel agg_param) (\<lambda>n.
     if n > 0
     then process_items P R V E rng coins leader items agg_jobs pending_coll_jobs
            (telem\<lparr>reports_collected := reports_collected telem + n\<rparr>)
     else process_items P R V E rng coins leader items agg_jobs
            (pending_coll_jobs @ [WI_CollectionJob task_id coll_job_id sel agg_param]) telem)))"

fun join_remaining ::
  "'w prio_protocol_scheme \<Rightarrow> ('v, 'x) prio_vdafs_scheme \<Rightarrow> 'y server_ext_scheme \<Rightarrow>
   (AggregationJobId, DapError, 's) stateful \<Rightarrow> ('a, 'v, 's, 'z) DapLeader_scheme \<Rightarrow> (TaskId \<times> agg_job list) list \<Rightarrow>
   DapLeaderProcessTelemetry \<Rightarrow> (DapLeaderProcessTelemetry, DapError, 's) stateful" where
  "join_remaining P V E rng leader [] telem = st_return telem"
| "join_remaining P V E rng leader ((task_id, jobs) # rest) telem =
     st_then (join_agg_jobs P V E rng leader task_id jobs telem) (join_remaining P V E rng leader rest)"

definition process ::
  "'w prio_protocol_scheme \<Rightarrow> ('c, 'u) hpke_rs_scheme \<Rightarrow> ('v, 'x) prio_vdafs_scheme \<Rightarrow> 'y server_ext_scheme \<Rightarrow>
   (AggregationJobId, DapError, 's) stateful \<Rightarrow> bytes \<Rightarrow> ('a, 'v, 's, 'z) DapLeader_scheme \<Rightarrow> usize \<Rightarrow>
   (DapLeaderProcessTelemetry, DapError, 's) stateful" where
  "process P R V E rng coins leader num_items =
     st_then (dequeue_work leader num_items) (\<lambda>items.
     st_then (process_items P R V E rng coins leader items [] []
         \<lparr>reports_collected = 0, reports_aggregated = 0, reports_processed = 0\<rparr>) (\<lambda>(agg_jobs, pending_coll_jobs, telem).
     st_then (join_remaining P V E rng leader agg_jobs telem) (\<lambda>telem.
     st_then (enqueue_work leader pending_coll_jobs) (\<lambda>_.
     st_return telem))))"

end
