(* ===== verification/Server_Leader.thy ===== *)
theory Server_Leader
  imports App Leader
begin

text \<open>
  The server as a Leader, crates/daphne-server/src/roles/leader.rs: reports and jobs are kept in the
  Leader's state in memory, and requests go to the Helper over HTTP. The HTTP client and the rules for
  header values are parameters. \<open>rng\<close> gives the identifier of a new batch.
\<close>

section \<open>Parameters\<close>

record peer_request =
  peer_method :: LeaderHttpRequestMethod
  peer_url :: Url
  peer_content_type :: string
  peer_auth_token :: "string option"
  peer_taskprov :: "string option"
  peer_body :: bytes

text \<open>
  A response has its content types, \<open>None\<close> for one that is not visible ASCII, and its body, \<open>None\<close> when
  reading it fails.
\<close>

record peer_response =
  peer_status :: nat
  peer_content_types :: "string option list"
  peer_payload :: "bytes option"

record 's peer_ext =
  header_value_ok :: "string \<Rightarrow> bool"
  peer_send :: "peer_request \<Rightarrow> (peer_response, unit, 's) stateful"

section \<open>Requests to the Helper\<close>

definition App_authorize ::
  "'y server_ext_scheme \<Rightarrow> TaskId \<Rightarrow> DapTaskConfig \<Rightarrow> DapMediaType \<Rightarrow> bytes \<Rightarrow> (DaphneAuth, DapError, ('v, 'z) App_scheme) stateful" where
  "App_authorize E task_id c media_type payload =
     st_then (authorize_with_bearer_token (App_bearer_tokens E) task_id c media_type) (\<lambda>token.
     st_return \<lparr>bearer_token = Some token, cf_tls_client_auth = None\<rparr>)"

definition header_value :: "('s, 'x) peer_ext_scheme \<Rightarrow> string \<Rightarrow> string \<Rightarrow> (string, DapError) result" where
  "header_value H msg v = (if header_value_ok H v then Ok v else Err (Fatal msg))"

definition optional_header :: "('s, 'x) peer_ext_scheme \<Rightarrow> string \<Rightarrow> string option \<Rightarrow> (string option, DapError) result" where
  "optional_header H msg v = (case v of
      None \<Rightarrow> Ok None
    | Some v \<Rightarrow> and_then (header_value H msg v) (\<lambda>v. Ok (Some v)))"

text \<open>The first content type that names a media type.\<close>

definition response_media_type :: "DapVersion \<Rightarrow> peer_response \<Rightarrow> DapMediaType option" where
  "response_media_type ver resp =
     (case List.map_filter (\<lambda>h. Option.bind h (from_str_for_version ver)) (peer_content_types resp) of
        [] \<Rightarrow> None
      | media_type # _ \<Rightarrow> Some media_type)"

definition read_peer_response :: "DapVersion \<Rightarrow> peer_response \<Rightarrow> (DapResponse, DapError) result" where
  "read_peer_response ver resp =
     (if 200 \<le> peer_status resp \<and> peer_status resp < 300
      then
        and_then (ok_or (response_media_type ver resp) (Fatal ''peer response is missing media type'')) (\<lambda>media_type.
        and_then (ok_or (peer_payload resp) (Fatal ''failed to read body of helper response'')) (\<lambda>payload.
        Ok \<lparr>resp_version = ver, resp_media_type = media_type, resp_payload = payload\<rparr>))
      else if peer_status resp = 400 \<and>
        (case peer_content_types resp of [] \<Rightarrow> False | h # _ \<Rightarrow> h = Some ''application/problem+json'') \<and>
        peer_payload resp = None
      then Err (Fatal ''failed to read body of helper error response'')
      else Err (Fatal ''request aborted by peer''))"

definition App_send_http ::
  "('s, 'x) peer_ext_scheme \<Rightarrow> DaphneAuth DapRequest \<Rightarrow> LeaderHttpRequestMethod \<Rightarrow> Url \<Rightarrow> (DapResponse, DapError, 's) stateful" where
  "App_send_http H req method url =
     st_then (st_lift (ok_or (Option.bind (req_media_type req) (\<lambda>mt. as_str_for_version mt (req_version req)))
         (Fatal ''failed to construct content-type''))) (\<lambda>content_type.
     st_then (st_lift (header_value H ''failed to construct content-type header'' content_type)) (\<lambda>content_type.
     st_then (st_lift (optional_header H ''failed to construct {} header''
         (Option.bind (req_sender_auth req) bearer_token))) (\<lambda>token.
     st_then (st_lift (optional_header H ''failed to construct dap-taskprov header'' (req_taskprov req))) (\<lambda>advertisement.
     st_then (st_map_err (\<lambda>_. Fatal ''failed to send request to the helper'') (peer_send H
         \<lparr>peer_method = method, peer_url = url, peer_content_type = content_type, peer_auth_token = token,
          peer_taskprov = advertisement, peer_body = req_payload req\<rparr>)) (\<lambda>resp.
     st_lift (read_peer_response (req_version req) resp))))))"

section \<open>The state in memory\<close>

definition with_leader_state ::
  "('a, DapError, InMemoryLeaderState) stateful \<Rightarrow> ('a, DapError, ('v, 'z) App_scheme) stateful" where
  "with_leader_state m s = (case m (test_leader_state s) of (r, l) \<Rightarrow> (r, s\<lparr>test_leader_state := l\<rparr>))"

definition App_put_report ::
  "'y server_ext_scheme \<Rightarrow> (('v, 'z) App_scheme \<Rightarrow> BatchId) \<Rightarrow> Report \<Rightarrow> TaskId \<Rightarrow> (unit, DapError, ('v, 'z) App_scheme) stateful" where
  "App_put_report E rng report task_id =
     st_then (App_task_config E task_id) (\<lambda>c.
     st_then (st_get rng) (\<lambda>batch_id.
     with_leader_state (leader_put_report E batch_id task_id c report)))"

definition App_current_batch :: "'y server_ext_scheme \<Rightarrow> TaskId \<Rightarrow> (BatchId, DapError, ('v, 'z) App_scheme) stateful" where
  "App_current_batch E task_id =
     st_then (App_task_config E task_id) (\<lambda>c. with_leader_state (leader_current_batch task_id c))"

definition App_init_collect_job ::
  "'y server_ext_scheme \<Rightarrow> TaskId \<Rightarrow> CollectionJobId \<Rightarrow> BatchSelector \<Rightarrow> DapAggregationParam \<Rightarrow>
   (Url, DapError, ('v, 'z) App_scheme) stateful" where
  "App_init_collect_job E task_id coll_job_id sel agg_param =
     st_then (App_task_config E task_id) (\<lambda>c.
     with_leader_state (leader_init_collect_job E task_id c coll_job_id sel agg_param))"

definition App_poll_collect_job ::
  "TaskId \<Rightarrow> CollectionJobId \<Rightarrow> (DapCollectionJob, DapError, ('v, 'z) App_scheme) stateful" where
  "App_poll_collect_job task_id coll_job_id = with_leader_state (leader_poll_collect_job task_id coll_job_id)"

definition App_finish_collect_job ::
  "TaskId \<Rightarrow> CollectionJobId \<Rightarrow> Collection \<Rightarrow> (unit, DapError, ('v, 'z) App_scheme) stateful" where
  "App_finish_collect_job task_id coll_job_id collection =
     with_leader_state (leader_finish_collect_job task_id coll_job_id collection)"

definition App_dequeue_work :: "usize \<Rightarrow> (WorkItem list, DapError, ('v, 'z) App_scheme) stateful" where
  "App_dequeue_work num_items = with_leader_state (leader_dequeue_work num_items)"

definition App_enqueue_work :: "WorkItem list \<Rightarrow> (unit, DapError, ('v, 'z) App_scheme) stateful" where
  "App_enqueue_work items = with_leader_state (leader_enqueue_work items)"

definition App_leader ::
  "('c, 'w) hpke_rs_scheme \<Rightarrow> ('v, 'x) prio_vdafs_scheme \<Rightarrow> ('v, 'f, 'u) field_ext_scheme \<Rightarrow> 'y server_ext_scheme \<Rightarrow>
   (('v, 'z) App_scheme, 'q) peer_ext_scheme \<Rightarrow> (('v, 'z) App_scheme \<Rightarrow> BatchId) \<Rightarrow>
   (DaphneAuth, 'v, ('v, 'z) App_scheme) DapLeader" where
  "App_leader R V F E H rng = DapAggregator.extend (App_aggregator R V F E) (DapLeader.fields
     (App_authorize E)
     (App_put_report E rng)
     (App_current_batch E)
     (App_init_collect_job E)
     App_poll_collect_job
     App_dequeue_work
     App_enqueue_work
     App_finish_collect_job
     (\<lambda>req. App_send_http H req Method_Post)
     (\<lambda>req. App_send_http H req Method_Put))"

end
