(* ===== verification/Router.thy ===== *)
theory Router
  imports Server_Leader
begin

text \<open>
  The HTTP interface of the server, crates/daphne-server/src/router: the routes of both roles, the
  extraction of a DAP request from an HTTP request, and the responses. The matching of a path against
  the routes, the query string and the ECDSA signature are those of the crates axum and p256: a path is
  the list of its segments, and \<open>sign\<close> gives the DER encoding of a signature. Counting requests in metrics
  is left out.
\<close>

section \<open>Requests\<close>

datatype http_method = GET | POST | PUT

text \<open>A header is \<open>Some None\<close> when it is present and not visible ASCII; the body is \<open>None\<close> when reading it fails.\<close>

record http_request =
  http_method :: http_method
  http_path :: "string list"
  http_query_task_id :: "string option"
  http_content_type :: "string option option"
  http_auth_token :: "string option option"
  http_client_cert :: "string option option"
  http_taskprov :: "string option option"
  http_body :: "bytes option"

record PathParams =
  pp_version :: string
  pp_task_id :: "string option"
  pp_agg_job_id :: "string option"
  pp_collect_job_id :: "string option"

definition decode_base64url :: "'z taskprov_ext_scheme \<Rightarrow> nat \<Rightarrow> string \<Rightarrow> bytes option" where
  "decode_base64url E out_len input =
     Option.bind (decode_base64url_vec E input) (\<lambda>vec. if length vec \<noteq> out_len then None else Some vec)"

text \<open>An identifier that is absent is \<open>None\<close>; one that is present has to decode.\<close>

definition base64url_option ::
  "'z taskprov_ext_scheme \<Rightarrow> nat \<Rightarrow> (bytes \<Rightarrow> 'i) \<Rightarrow> string option \<Rightarrow> ('i option, nat \<times> string) result" where
  "base64url_option E out_len mk opt = (case opt of
      None \<Rightarrow> Ok None
    | Some s \<Rightarrow>
        (case decode_base64url E out_len s of
           None \<Rightarrow> Err (400, ''invalid'')
         | Some b \<Rightarrow> Ok (Some (mk b))))"

definition extract_header_as_string :: "string option option \<Rightarrow> string option" where
  "extract_header_as_string header = Option.bind header id"

definition request_media_type :: "DapVersion \<Rightarrow> string option option \<Rightarrow> (DapMediaType option, nat \<times> string) result" where
  "request_media_type ver header = (case header of
      None \<Rightarrow> Ok None
    | Some None \<Rightarrow> Err (400, ''header value contains non ascii or invisible characters'')
    | Some (Some content_type) \<Rightarrow>
        (case from_str_for_version ver content_type of
           None \<Rightarrow> Err (400, ''invalid media type'')
         | Some mt \<Rightarrow> Ok (Some mt)))"

definition request_resource :: "DapMediaType option \<Rightarrow> AggregationJobId option \<Rightarrow> CollectionJobId option \<Rightarrow> DapResource" where
  "request_resource media_type agg_job_id collect_job_id = (case media_type of
      Some MT_AggregationJobInitReq \<Rightarrow>
        (case agg_job_id of Some i \<Rightarrow> Resource_AggregationJob i | None \<Rightarrow> Resource_Undefined)
    | Some MT_CollectReq \<Rightarrow>
        (case collect_job_id of Some i \<Rightarrow> Resource_CollectionJob i | None \<Rightarrow> Resource_Undefined)
    | _ \<Rightarrow> Resource_Undefined)"

text \<open>The rejection of a request is its status code with a message.\<close>

definition from_request ::
  "'z taskprov_ext_scheme \<Rightarrow> PathParams \<Rightarrow> http_request \<Rightarrow> (DaphneAuth DapRequest, nat \<times> string) result" where
  "from_request E params req =
     and_then (map_err (\<lambda>_. (400, ''unknown variant'')) (DapVersion_from_str (pp_version params))) (\<lambda>ver.
     and_then (base64url_option E 32 TaskId (pp_task_id params)) (\<lambda>task_id.
     and_then (base64url_option E 16 AggregationJobId (pp_agg_job_id params)) (\<lambda>agg_job_id.
     and_then (base64url_option E 16 CollectionJobId (pp_collect_job_id params)) (\<lambda>collect_job_id.
     let sender_auth = \<lparr>bearer_token = extract_header_as_string (http_auth_token req),
           cf_tls_client_auth = map_option (\<lambda>v. \<lparr>verified = v\<rparr>) (extract_header_as_string (http_client_cert req))\<rparr> in
     and_then (request_media_type ver (http_content_type req)) (\<lambda>media_type.
     and_then (ok_or (http_body req) (500, ''failed to get payload'')) (\<lambda>payload.
     Ok \<lparr>req_version = ver, req_media_type = media_type, req_task_id = task_id,
         req_resource = request_resource media_type agg_job_id collect_job_id, req_payload = payload,
         req_sender_auth = Some sender_auth, req_taskprov = extract_header_as_string (http_taskprov req)\<rparr>))))))"

section \<open>Responses\<close>

datatype axum_body =
    Body_Empty
  | Body_Bytes bytes
  | Body_Text string
  | Body_Url Url
  | Body_Problem ProblemDetails

record axum_response =
  ar_status :: nat
  ar_content_type :: "string option"
  ar_signature :: "string option"
  ar_body :: axum_body

definition status_response :: "nat \<Rightarrow> axum_response" where
  "status_response status = \<lparr>ar_status = status, ar_content_type = None, ar_signature = None, ar_body = Body_Empty\<rparr>"

text \<open>The conversion of a transition failure to an abort does not panic.\<close>

definition new_error :: "'y server_ext_scheme \<Rightarrow> DapError \<Rightarrow> axum_response" where
  "new_error E err =
     (let answer = (\<lambda>status details. \<lparr>ar_status = status, ar_content_type = Some ''application/problem+json'',
            ar_signature = None, ar_body = Body_Problem details\<rparr>);
          fatal = (\<lambda>e. answer 500 (DapError_into_problem_details (hex_encode E) (Fatal e)));
          abort = (\<lambda>a. answer 400 (DapAbort_into_problem_details (hex_encode E) a)) in
      case err of
        TransitionError failure \<Rightarrow> (case report_rejected failure of Ok a \<Rightarrow> abort a | Err e \<Rightarrow> fatal e | Panic \<Rightarrow> fatal [])
      | Fatal e \<Rightarrow> fatal e
      | Abort a \<Rightarrow> abort a)"

definition new_success_with_code ::
  "'y server_ext_scheme \<Rightarrow> ('s, 'x) peer_ext_scheme \<Rightarrow> DapResponse \<Rightarrow> nat \<Rightarrow> axum_response" where
  "new_success_with_code E H response status_code =
     (case as_str_for_version (resp_media_type response) (resp_version response) of
        None \<Rightarrow> new_error E (Fatal ''invalid content-type for DAP version'')
      | Some media_type \<Rightarrow>
          if \<not> header_value_ok H media_type
          then new_error E (Fatal ''content-type contained invalid bytes {media_type:?}'')
          else \<lparr>ar_status = status_code, ar_content_type = Some media_type, ar_signature = None,
                ar_body = Body_Bytes (resp_payload response)\<rparr>)"

definition new_success :: "'y server_ext_scheme \<Rightarrow> ('s, 'x) peer_ext_scheme \<Rightarrow> DapResponse \<Rightarrow> axum_response" where
  "new_success E H response = new_success_with_code E H response 200"

text \<open>A panic of the handler is passed on.\<close>

definition from_result_with_success_code ::
  "'y server_ext_scheme \<Rightarrow> ('s, 'x) peer_ext_scheme \<Rightarrow> (DapResponse, DapError) result \<Rightarrow> nat \<Rightarrow> (axum_response, 'e) result" where
  "from_result_with_success_code E H r status_code = (case r of
      Ok response \<Rightarrow> Ok (new_success_with_code E H response status_code)
    | Err e \<Rightarrow> Ok (new_error E e)
    | Panic \<Rightarrow> Panic)"

definition from_result ::
  "'y server_ext_scheme \<Rightarrow> ('s, 'x) peer_ext_scheme \<Rightarrow> (DapResponse, DapError) result \<Rightarrow> (axum_response, 'e) result" where
  "from_result E H r = from_result_with_success_code E H r 200"

section \<open>Handlers\<close>

text \<open>The operation of the role, and the response for its result.\<close>

definition st_respond ::
  "('a, DapError, 's) stateful \<Rightarrow> (('a, DapError) result \<Rightarrow> (axum_response, 'e) result) \<Rightarrow> (axum_response, 'e, 's) stateful" where
  "st_respond m f s = apfst f (m s)"

definition sign_dap_response :: "'y server_ext_scheme \<Rightarrow> (bytes \<Rightarrow> bytes) \<Rightarrow> DapResponse \<Rightarrow> (string, DapError) result" where
  "sign_dap_response E sign resp = (case resp_media_type resp of
      MT_HpkeConfigList \<Rightarrow> Ok (encode_base64url E (sign (resp_payload resp)))
    | _ \<Rightarrow> Err (Fatal ''tried to sign invalid response''))"

definition route_hpke_config ::
  "'w prio_messages_scheme \<Rightarrow> 'y server_ext_scheme \<Rightarrow> ('s, 'x) peer_ext_scheme \<Rightarrow> (bytes \<Rightarrow> bytes) option \<Rightarrow>
   ('a, 'v, 's, 'z) DapAggregator_scheme \<Rightarrow> TaskId option \<Rightarrow> 'a DapRequest \<Rightarrow> (axum_response, 'e, 's) stateful" where
  "route_hpke_config P E H signing_key app task_id req =
     st_respond (handle_hpke_config_req P app req task_id) (\<lambda>r. case r of
         Ok resp \<Rightarrow>
           (case map_option (\<lambda>sign. sign_dap_response E sign resp) signing_key of
              None \<Rightarrow> Ok (new_success E H resp)
            | Some (Ok encoded) \<Rightarrow> Ok ((new_success E H resp)\<lparr>ar_signature := Some encoded\<rparr>)
            | Some (Err e) \<Rightarrow> Ok (new_error E e)
            | Some Panic \<Rightarrow> Panic)
       | Err e \<Rightarrow> Ok (new_error E e)
       | Panic \<Rightarrow> Panic)"

definition route_agg_job ::
  "'w prio_protocol_scheme \<Rightarrow> ('v, 'x) prio_vdafs_scheme \<Rightarrow> 'y server_ext_scheme \<Rightarrow> ('s, 'q) peer_ext_scheme \<Rightarrow>
   ('a, 'v, ('v, 'u) kv_client_scheme, 'z) DapAggregator_scheme \<Rightarrow> 'a DapRequest \<Rightarrow>
   (axum_response, 'e, ('v, 'u) kv_client_scheme) stateful" where
  "route_agg_job P V E H app req = (case req_media_type req of
      Some MT_AggregationJobInitReq \<Rightarrow>
        st_then fetch_replay_protection_override (\<lambda>replay_protection.
        st_respond (handle_agg_job_init_req P V E app req replay_protection)
          (\<lambda>resp. from_result_with_success_code E H resp 201))
    | _ \<Rightarrow> st_return (new_error E (Abort (BadRequest ''unexpected media type: {m:?}''))))"

definition route_agg_share ::
  "'w prio_protocol_scheme \<Rightarrow> ('c, 'u) hpke_rs_scheme \<Rightarrow> ('v, 'x) prio_vdafs_scheme \<Rightarrow> 'y server_ext_scheme \<Rightarrow>
   ('s, 'q) peer_ext_scheme \<Rightarrow> bytes \<Rightarrow> ('a, 'v, 's, 'z) DapAggregator_scheme \<Rightarrow> 'a DapRequest \<Rightarrow>
   (axum_response, 'e, 's) stateful" where
  "route_agg_share P R V E H coins app req =
     st_respond (handle_agg_share_req P R V E coins app req) (from_result E H)"

definition route_upload ::
  "'w prio_protocol_scheme \<Rightarrow> ('v, 'x) prio_vdafs_scheme \<Rightarrow> 'y server_ext_scheme \<Rightarrow>
   ('a, 'v, 's, 'z) DapLeader_scheme \<Rightarrow> 'a DapRequest \<Rightarrow> (axum_response, 'e, 's) stateful" where
  "route_upload P V E app req =
     st_respond (handle_upload_req P V E app req) (\<lambda>r. case r of
         Ok _ \<Rightarrow> Ok (status_response 200)
       | Err e \<Rightarrow> Ok (new_error E e)
       | Panic \<Rightarrow> Panic)"

definition get_collect_uri ::
  "'w prio_protocol_scheme \<Rightarrow> ('v, 'x) prio_vdafs_scheme \<Rightarrow> 'y server_ext_scheme \<Rightarrow>
   ('a, 'v, 's, 'z) DapLeader_scheme \<Rightarrow> 'a DapRequest \<Rightarrow> (axum_response, 'e, 's) stateful" where
  "get_collect_uri P V E app req =
     st_respond (handle_coll_job_req P V E app req) (\<lambda>r. case r of
         Ok uri \<Rightarrow> Ok \<lparr>ar_status = 201, ar_content_type = Some ''application/json'', ar_signature = None,
           ar_body = Body_Url uri\<rparr>
       | Err e \<Rightarrow> Ok (new_error E e)
       | Panic \<Rightarrow> Panic)"

definition route_collect ::
  "'w prio_messages_scheme \<Rightarrow> 'y server_ext_scheme \<Rightarrow> ('s, 'q) peer_ext_scheme \<Rightarrow>
   ('a, 'v, 's, 'z) DapLeader_scheme \<Rightarrow> 'a DapRequest \<Rightarrow> (axum_response, 'e, 's) stateful" where
  "route_collect P E H app req =
     st_respond
       (st_then (st_abort (DapRequest_task_id req)) (\<lambda>task_id.
        st_then (st_abort (DapRequest_collection_job_id req)) (\<lambda>collect_id.
        poll_collect_job app task_id collect_id)))
       (\<lambda>r. case r of
         Ok (Done collect_resp) \<Rightarrow>
           (case get_encoded P (Collection_encode_with_param P (req_version req) collect_resp) of
              Ok payload \<Rightarrow> Ok (new_success E H
                \<lparr>resp_version = req_version req, resp_media_type = MT_Collection, resp_payload = payload\<rparr>)
            | Err e \<Rightarrow> Ok (new_error E (DapError_encoding e))
            | Panic \<Rightarrow> Panic)
       | Ok Pending \<Rightarrow> Ok (status_response 202)
       | Ok Unknown \<Rightarrow> Ok (new_error E (Abort (BadRequest ''unknown collection job id'')))
       | Err e \<Rightarrow> Ok (new_error E e)
       | Panic \<Rightarrow> Panic)"

section \<open>Routes\<close>

datatype Handler = H_hpke_config | H_agg_job | H_agg_share | H_collect | H_upload | H_get_collect_uri

fun add_aggregator_routes :: "string list \<Rightarrow> (http_method \<times> Handler \<times> PathParams) option" where
  "add_aggregator_routes [ver, s] =
     (if s = ''hpke_config''
      then Some (GET, H_hpke_config, \<lparr>pp_version = ver, pp_task_id = None, pp_agg_job_id = None, pp_collect_job_id = None\<rparr>)
      else None)"
| "add_aggregator_routes _ = None"

fun add_helper_routes :: "string list \<Rightarrow> (http_method \<times> Handler \<times> PathParams) option" where
  "add_helper_routes [ver, a, task_id, b, agg_job_id] =
     (if a = ''tasks'' \<and> b = ''aggregation_jobs''
      then Some (PUT, H_agg_job, \<lparr>pp_version = ver, pp_task_id = Some task_id, pp_agg_job_id = Some agg_job_id,
        pp_collect_job_id = None\<rparr>)
      else None)"
| "add_helper_routes [ver, a, task_id, b] =
     (if a = ''tasks'' \<and> b = ''aggregate_shares''
      then Some (POST, H_agg_share, \<lparr>pp_version = ver, pp_task_id = Some task_id, pp_agg_job_id = None,
        pp_collect_job_id = None\<rparr>)
      else None)"
| "add_helper_routes _ = None"

fun add_leader_routes :: "string list \<Rightarrow> (http_method \<times> Handler \<times> PathParams) option" where
  "add_leader_routes [ver, a, b, task_id, d, collect_job_id] =
     (if a = ''collect'' \<and> b = ''task'' \<and> d = ''req''
      then Some (POST, H_collect, \<lparr>pp_version = ver, pp_task_id = Some task_id, pp_agg_job_id = None,
        pp_collect_job_id = Some collect_job_id\<rparr>)
      else None)"
| "add_leader_routes [ver, a, task_id, b] =
     (if a = ''tasks'' \<and> b = ''reports''
      then Some (PUT, H_upload, \<lparr>pp_version = ver, pp_task_id = Some task_id, pp_agg_job_id = None,
        pp_collect_job_id = None\<rparr>)
      else None)"
| "add_leader_routes [ver, a, task_id, b, collect_job_id] =
     (if a = ''tasks'' \<and> b = ''collection_jobs''
      then Some (PUT, H_get_collect_uri, \<lparr>pp_version = ver, pp_task_id = Some task_id, pp_agg_job_id = None,
        pp_collect_job_id = Some collect_job_id\<rparr>)
      else None)"
| "add_leader_routes _ = None"

definition routes :: "DapRole \<Rightarrow> string list \<Rightarrow> (http_method \<times> Handler \<times> PathParams) option" where
  "routes r path = (case add_aggregator_routes path of
      Some route \<Rightarrow> Some route
    | None \<Rightarrow> (case r of Role_Leader \<Rightarrow> add_leader_routes path | Role_Helper \<Rightarrow> add_helper_routes path))"

definition rejection :: "nat \<times> string \<Rightarrow> axum_response" where
  "rejection e = \<lparr>ar_status = fst e, ar_content_type = Some ''text/plain; charset=utf-8'', ar_signature = None,
     ar_body = Body_Text (snd e)\<rparr>"

definition serve_request ::
  "'w prio_protocol_scheme \<Rightarrow> ('c, 'u) hpke_rs_scheme \<Rightarrow> ('v, 'x) prio_vdafs_scheme \<Rightarrow> ('v, 'f, 'k) field_ext_scheme \<Rightarrow>
   'y server_ext_scheme \<Rightarrow> (('v, 'z) App_scheme, 'q) peer_ext_scheme \<Rightarrow> (('v, 'z) App_scheme \<Rightarrow> BatchId) \<Rightarrow> bytes \<Rightarrow>
   (bytes \<Rightarrow> bytes) option \<Rightarrow> Handler \<Rightarrow> TaskId option \<Rightarrow> DaphneAuth DapRequest \<Rightarrow>
   (axum_response, 'e, ('v, 'z) App_scheme) stateful" where
  "serve_request P R V F E H rng coins signing_key handler task_id req =
     (let app = App_aggregator R V F E; leader = App_leader R V F E H rng in
      case handler of
        H_hpke_config \<Rightarrow> route_hpke_config P E H signing_key app task_id req
      | H_agg_job \<Rightarrow> route_agg_job P V E H app req
      | H_agg_share \<Rightarrow> route_agg_share P R V E H coins app req
      | H_collect \<Rightarrow> route_collect P E H leader req
      | H_upload \<Rightarrow> route_upload P V E leader req
      | H_get_collect_uri \<Rightarrow> get_collect_uri P V E leader req)"

text \<open>The query string is read by the route of the HPKE configuration only, before the request.\<close>

definition router_new ::
  "'w prio_protocol_scheme \<Rightarrow> ('c, 'u) hpke_rs_scheme \<Rightarrow> ('v, 'x) prio_vdafs_scheme \<Rightarrow> ('v, 'f, 'k) field_ext_scheme \<Rightarrow>
   'y server_ext_scheme \<Rightarrow> (('v, 'z) App_scheme, 'q) peer_ext_scheme \<Rightarrow> (('v, 'z) App_scheme \<Rightarrow> BatchId) \<Rightarrow> bytes \<Rightarrow>
   (bytes \<Rightarrow> bytes) option \<Rightarrow> DapRole \<Rightarrow> http_request \<Rightarrow> (axum_response, 'e, ('v, 'z) App_scheme) stateful" where
  "router_new P R V F E H rng coins signing_key r http =
     (case routes r (http_path http) of
        None \<Rightarrow> st_return (status_response 404)
      | Some (method, handler, params) \<Rightarrow>
          if http_method http \<noteq> method then st_return (status_response 405)
          else
            (case (if handler = H_hpke_config then base64url_option E 32 TaskId (http_query_task_id http) else Ok None) of
               Err e \<Rightarrow> st_return (rejection e)
             | Panic \<Rightarrow> st_lift Panic
             | Ok task_id \<Rightarrow>
                 (case from_request E params http of
                    Err e \<Rightarrow> st_return (rejection e)
                  | Panic \<Rightarrow> st_lift Panic
                  | Ok req \<Rightarrow> serve_request P R V F E H rng coins signing_key handler task_id req)))"

end
