(* ===== verification/Store_Names.thy ===== *)
theory Store_Names
  imports Storage_Proxy Aggregate_Store_Laws
begin

text \<open>
  The names of durable objects: buckets of a task have different names, so that a request reaches the
  aggregate store of its own bucket. What this relies on of the crate hex is the locale \<open>hex_laws\<close>.
\<close>

section \<open>Decimal numbers\<close>

lemma digit_not_slash: "digit n \<noteq> CHR ''/''"
proof
  assume "digit n = CHR ''/''"
  then have "(of_char (digit n) :: nat) = of_char CHR ''/''"
    by simp
  then show False
    by (simp add: of_char_digit)
qed

lemma show_nat_not_slash: "CHR ''/'' \<notin> set (show_nat n)"
  by (induction n rule: show_nat.induct) (subst show_nat.simps, auto simp: digit_not_slash [symmetric])

lemma show_nat_snoc: "\<exists>ds. show_nat n = ds @ [digit n] \<and> (ds = [] \<longleftrightarrow> n < 10) \<and> (\<not> n < 10 \<longrightarrow> ds = show_nat (n div 10))"
proof (cases "n < 10")
  case False
  have "show_nat k \<noteq> []" for k
    by (subst show_nat.simps) simp
  with False show ?thesis
    by (subst show_nat.simps) simp
qed (subst show_nat.simps, simp)

lemma show_nat_inject: "show_nat a = show_nat b \<longleftrightarrow> a = b"
proof
  show "show_nat a = show_nat b \<Longrightarrow> a = b"
  proof (induction a arbitrary: b rule: less_induct)
    case (less a)
    obtain ds es where ds: "show_nat a = ds @ [digit a]" "ds = [] \<longleftrightarrow> a < 10" "\<not> a < 10 \<longrightarrow> ds = show_nat (a div 10)"
      and es: "show_nat b = es @ [digit b]" "es = [] \<longleftrightarrow> b < 10" "\<not> b < 10 \<longrightarrow> es = show_nat (b div 10)"
      using show_nat_snoc [of a] show_nat_snoc [of b] by blast
    then have same: "ds = es" "a mod 10 = b mod 10"
      using less.prems by (simp_all add: digit_eq_iff)
    have "a div 10 = b div 10"
    proof (cases "a < 10")
      case False
      then have "show_nat (a div 10) = show_nat (b div 10)"
        using ds es same(1) by auto
      moreover have "a div 10 < a"
        using False by simp
      ultimately show ?thesis
        using less.IH by blast
    qed (use ds es same in auto)
    with same(2) show ?case
      by (metis div_mult_mod_eq)
  qed
qed simp

section \<open>Names of buckets\<close>

definition shard_suffix :: "nat \<Rightarrow> string" where
  "shard_suffix shard = (if shard > 0 then ''/shard/'' @ show_nat shard else [])"

lemma shard_suffix_inject: "shard_suffix a = shard_suffix b \<Longrightarrow> a = b"
  by (auto simp: shard_suffix_def show_nat_inject split: if_splits)

lemma shard_suffix_slash: "shard_suffix a = [] \<or> hd (shard_suffix a) = CHR ''/''"
  by (simp add: shard_suffix_def)

lemma bucket_name:
  "DapBatchBucket_to_string E (Bucket_TimeInterval w i) = ''window/'' @ show_nat (unat w) @ shard_suffix i"
  "DapBatchBucket_to_string E (Bucket_FixedSize b i) = ''batch/'' @ hex_encode E (BatchId_0 b) @ shard_suffix i"
  by (cases "i = 0"; simp add: DapBatchBucket_to_string_def DapBatchBucket_shard_def shard_suffix_def)
    (cases "i = 0"; simp add: DapBatchBucket_to_string_def DapBatchBucket_shard_def shard_suffix_def)

lemma takeWhile_slash:
  assumes "CHR ''/'' \<notin> set xs" and "s = [] \<or> hd s = CHR ''/''"
  shows "takeWhile (\<lambda>ch. ch \<noteq> CHR ''/'') (xs @ s) = xs"
  using assms by (induction xs) (cases s; auto)+

lemma split_at_slash:
  assumes "xs @ s = ys @ t" and "CHR ''/'' \<notin> set xs" and "CHR ''/'' \<notin> set ys"
    and "s = [] \<or> hd s = CHR ''/''" and "t = [] \<or> hd t = CHR ''/''"
  shows "xs = ys \<and> s = t"
  using takeWhile_slash [OF assms(2,4)] takeWhile_slash [OF assms(3,5)] assms(1) by simp

locale hex_laws =
  fixes E :: "'z server_ext_scheme"
  assumes hex_inject: "hex_encode E a = hex_encode E b \<longleftrightarrow> a = b"
    and hex_not_slash: "CHR ''/'' \<notin> set (hex_encode E a)"
begin

lemma bucket_name_inject:
  assumes "DapBatchBucket_to_string E a = DapBatchBucket_to_string E b"
  shows "a = b"
proof (cases a; cases b)
  fix w i v j
  assume a: "a = Bucket_TimeInterval w i" and b: "b = Bucket_TimeInterval v j"
  with assms have "show_nat (unat w) @ shard_suffix i = show_nat (unat v) @ shard_suffix j"
    by (simp add: bucket_name)
  from split_at_slash [OF this show_nat_not_slash show_nat_not_slash shard_suffix_slash shard_suffix_slash] a b
  show "a = b"
    by (auto simp: show_nat_inject word_unat_eq_iff dest: shard_suffix_inject)
next
  fix w i v j
  assume a: "a = Bucket_FixedSize w i" and b: "b = Bucket_FixedSize v j"
  with assms have "hex_encode E (BatchId_0 w) @ shard_suffix i = hex_encode E (BatchId_0 v) @ shard_suffix j"
    by (simp add: bucket_name)
  from split_at_slash [OF this hex_not_slash hex_not_slash shard_suffix_slash shard_suffix_slash] a b
  show "a = b"
    by (auto simp: hex_inject BatchId.expand dest: shard_suffix_inject)
qed (use assms in \<open>simp_all add: bucket_name\<close>)

lemma store_name_inject: "AggregateStore_name E ver task a = AggregateStore_name E ver task b \<longleftrightarrow> a = b"
  using bucket_name_inject by (auto simp: AggregateStore_name_def)

end

section \<open>An instance\<close>

definition hex_digit :: "nat \<Rightarrow> char" where
  "hex_digit n = (if n < 10 then char_of (48 + n) else char_of (87 + n))"

definition hex_string :: "bytes \<Rightarrow> string" where
  "hex_string bs = concat (map (\<lambda>b. [hex_digit (unat b div 16), hex_digit (unat b mod 16)]) bs)"

definition example_server_ext :: server_ext where
  "example_server_ext = taskprov_ext.extend example_taskprov_ext (server_ext.fields hex_string (\<lambda>url path. Some (url @ path)))"

lemma of_char_hex_digit: "n < 16 \<Longrightarrow> (of_char (hex_digit n) :: nat) = (if n < 10 then 48 + n else 87 + n)"
  by (simp add: hex_digit_def)

lemma hex_digit_inject:
  assumes "a < 16" and "b < 16"
  shows "hex_digit a = hex_digit b \<longleftrightarrow> a = b"
proof
  assume "hex_digit a = hex_digit b"
  then have "(if a < 10 then 48 + a else 87 + a) = (if b < 10 then 48 + b else 87 + b)"
    unfolding of_char_hex_digit [OF assms(1), symmetric] of_char_hex_digit [OF assms(2), symmetric] by (rule arg_cong)
  with assms show "a = b"
    by (simp split: if_splits)
qed simp

lemma nibbles: "unat y div 16 < 16" "unat y mod 16 < 16" for y :: u8
  using unsigned_less [of y, where ?'a = nat] by simp_all

lemma hex_string_simps [simp]:
  "hex_string [] = []" "hex_string (y # bs) = hex_digit (unat y div 16) # hex_digit (unat y mod 16) # hex_string bs"
  by (simp_all add: hex_string_def)

lemma hex_string_inject: "hex_string a = hex_string b \<longleftrightarrow> a = b"
proof
  show "hex_string a = hex_string b \<Longrightarrow> a = b"
  proof (induction a arbitrary: b)
    case Nil
    then show ?case
      by (cases b) simp_all
  next
    case (Cons x a)
    from Cons.prems obtain y b' where b: "b = y # b'"
      by (cases b) auto
    with Cons.prems have "unat x div 16 = unat y div 16" "unat x mod 16 = unat y mod 16" "hex_string a = hex_string b'"
      by (simp_all add: hex_digit_inject nibbles)
    moreover from this have "unat x = unat y"
      by (metis div_mult_mod_eq)
    ultimately show ?case
      using Cons.IH b by (simp add: word_unat_eq_iff)
  qed
qed simp

lemma hex_digit_not_slash: "n < 16 \<Longrightarrow> hex_digit n \<noteq> CHR ''/''"
proof
  assume "n < 16" and "hex_digit n = CHR ''/''"
  then have "(of_char CHR ''/'' :: nat) = (if n < 10 then 48 + n else 87 + n)"
    using of_char_hex_digit [of n] by simp
  then show False
    by (simp split: if_splits)
qed

lemma hex_string_not_slash: "CHR ''/'' \<notin> set (hex_string bs)"
  by (induction bs) (simp_all add: hex_digit_not_slash [OF nibbles(1), THEN not_sym] hex_digit_not_slash [OF nibbles(2), THEN not_sym])

lemma example_hex: "hex_encode example_server_ext = hex_string"
  by (simp add: example_server_ext_def taskprov_ext.defs server_ext.defs example_taskprov_ext_def)

interpretation plain_hex: hex_laws example_server_ext
  by unfold_locales (simp_all add: example_hex hex_string_inject hex_string_not_slash)

end
