(* ===== verification/In_Memory_Leader_Laws.thy ===== *)
theory In_Memory_Leader_Laws
  imports In_Memory_Leader Store_Names
begin

text \<open>
  What the Leader may rely on of its state in memory, over all sequences of operations: no report is lost
  or handed out twice, the queue of batches describes the reports that wait, and a completed collection
  job stays as it is. The operations are the steps of a transition system.
\<close>

section \<open>Reports of a state\<close>

fun item_reports :: "WorkItem \<Rightarrow> Report multiset" where
  "item_reports (WI_AggregationJob _ _ _ reports) = mset reports"
| "item_reports (WI_CollectionJob _ _ _ _) = {#}"

definition items_reports :: "WorkItem list \<Rightarrow> Report multiset" where
  "items_reports items = sum_list (map item_reports items)"

definition memory_reports :: "MockLeaderMemoryPerTask \<Rightarrow> Report multiset" where
  "memory_reports m = sum_list (map (mset \<circ> snd) (pending_reports m))"

definition waiting_reports :: "InMemoryLeaderState \<Rightarrow> Report multiset" where
  "waiting_reports s = sum_list (map (memory_reports \<circ> snd) (per_task s))"

text \<open>Hash maps have each key once.\<close>

definition memory_keys :: "MockLeaderMemoryPerTask \<Rightarrow> bool" where
  "memory_keys m \<longleftrightarrow> distinct (map fst (pending_reports m))"

definition state_keys :: "InMemoryLeaderState \<Rightarrow> bool" where
  "state_keys s \<longleftrightarrow> distinct (map fst (per_task s)) \<and> (\<forall>(t, m) \<in> set (per_task s). memory_keys m)"

text \<open>
  The queue of batches of a task: with fixed-size queries a batch is in the queue exactly when reports
  wait for it, with their number; a batch takes no more reports than the minimum batch size, at least
  one, and only the last batch of the queue has less. With time intervals the queue is empty.
\<close>

definition batches_ok :: "DapTaskConfig \<Rightarrow> MockLeaderMemoryPerTask \<Rightarrow> bool" where
  "batches_ok c m \<longleftrightarrow> (case query_config c of
      QC_TimeInterval \<Rightarrow> batch_queue m = []
    | QC_FixedSize _ \<Rightarrow>
        distinct (map fst (batch_queue m)) \<and>
        (\<forall>b. map_of (batch_queue m) b =
          map_option (of_nat \<circ> length) (map_of (pending_reports m) (Bucket_FixedSize b 0))) \<and>
        (\<forall>(b, n) \<in> set (batch_queue m). 1 \<le> n \<and> (n \<le> min_batch_size c \<or> n = 1)) \<and>
        (\<forall>(b, n) \<in> set (butlast (batch_queue m)). min_batch_size c \<le> n))"

section \<open>Steps\<close>

text \<open>
  \<open>cfg\<close> has the configuration of each task. A step has the reports that come in and the reports that
  are handed out. The identifier of a new batch is not one of the queue.
\<close>

inductive leader_step ::
  "'z server_ext_scheme \<Rightarrow> (TaskId \<Rightarrow> DapTaskConfig) \<Rightarrow> InMemoryLeaderState \<Rightarrow> Report multiset \<Rightarrow> Report multiset \<Rightarrow>
   InMemoryLeaderState \<Rightarrow> bool" for E :: "'z server_ext_scheme" and cfg where
  step_put: "leader_put_report E rng t (cfg t) report s = (Ok (), s') \<Longrightarrow> rng \<notin> fst ` set (batch_queue (task_memory t s)) \<Longrightarrow>
    leader_step E cfg s {#report#} {#} s'"
| step_put_panic: "leader_put_report E rng t (cfg t) report s = (Panic, s') \<Longrightarrow> leader_step E cfg s {#} {#} s'"
| step_current: "leader_current_batch t (cfg t) s = (x, s') \<Longrightarrow> leader_step E cfg s {#} {#} s'"
| step_init: "leader_init_collect_job E t (cfg t) coll_job_id sel agg_param s = (x, s') \<Longrightarrow> leader_step E cfg s {#} {#} s'"
| step_enqueue: "leader_enqueue_work items s = (x, s') \<Longrightarrow> leader_step E cfg s (items_reports items) {#} s'"
| step_dequeue: "leader_dequeue_work num_items s = (Ok items, s') \<Longrightarrow> leader_step E cfg s {#} (items_reports items) s'"
| step_poll: "leader_poll_collect_job t coll_job_id s = (x, s') \<Longrightarrow> leader_step E cfg s {#} {#} s'"
| step_finish: "leader_finish_collect_job t coll_job_id collection s = (x, s') \<Longrightarrow> leader_step E cfg s {#} {#} s'"

inductive leader_run ::
  "'z server_ext_scheme \<Rightarrow> (TaskId \<Rightarrow> DapTaskConfig) \<Rightarrow> InMemoryLeaderState \<Rightarrow> Report multiset \<Rightarrow> Report multiset \<Rightarrow>
   InMemoryLeaderState \<Rightarrow> bool" for E :: "'z server_ext_scheme" and cfg where
  run_refl: "leader_run E cfg s {#} {#} s"
| run_step: "leader_run E cfg s i out s' \<Longrightarrow> leader_step E cfg s' i' out' s'' \<Longrightarrow> leader_run E cfg s (i + i') (out + out') s''"

section \<open>Association lists\<close>

lemma sum_update:
  fixes g :: "'v \<Rightarrow> 'm multiset"
  assumes "distinct (map fst al)"
  shows "sum_list (map (g \<circ> snd) (AList.update k v al)) + (case map_of al k of None \<Rightarrow> {#} | Some v0 \<Rightarrow> g v0) =
    sum_list (map (g \<circ> snd) al) + g v"
  using assms
proof (induction al)
  case (Cons p al)
  then show ?case
    by (cases p) (auto simp: ac_simps split: option.splits)
qed simp

lemma sum_delete:
  fixes g :: "'v \<Rightarrow> 'm multiset"
  assumes "distinct (map fst al)"
  shows "sum_list (map (g \<circ> snd) (AList.delete k al)) + (case map_of al k of None \<Rightarrow> {#} | Some v0 \<Rightarrow> g v0) =
    sum_list (map (g \<circ> snd) al)"
  using assms
proof (induction al)
  case (Cons p al)
  then show ?case
    by (cases p) (auto simp: ac_simps split: option.splits)
qed simp

lemma in_set_update: "p \<in> set (AList.update k v al) \<Longrightarrow> p = (k, v) \<or> p \<in> set al"
  by (induction al) (auto split: if_splits)

lemma butlast_filter: "set (butlast (filter P xs)) \<subseteq> set (butlast xs)"
proof (cases xs rule: rev_cases)
  case (snoc ys y)
  then show ?thesis
    by (cases "P y") (auto simp: butlast_append dest: in_set_butlastD)
qed simp


lemma task_memory_set [simp]:
  "task_memory t (set_task_memory t' m s) = (if t = t' then m else task_memory t s)"
  by (simp add: task_memory_def set_task_memory_def entry_def update_conv')

lemma set_task_memory_simps [simp]:
  "work_queue (set_task_memory t m s) = work_queue s"
  "set_task_memory t m (s\<lparr>work_queue := q\<rparr>) = (set_task_memory t m s)\<lparr>work_queue := q\<rparr>"
  "task_memory t (s\<lparr>work_queue := q\<rparr>) = task_memory t s"
  "waiting_reports (s\<lparr>work_queue := q\<rparr>) = waiting_reports s"
  "state_keys (s\<lparr>work_queue := q\<rparr>) = state_keys s"
  by (simp_all add: set_task_memory_def task_memory_def waiting_reports_def state_keys_def)

lemma memory_default [simp]: "memory_reports MockLeaderMemoryPerTask_default = {#}" "memory_keys MockLeaderMemoryPerTask_default"
  by (simp_all add: memory_reports_def memory_keys_def MockLeaderMemoryPerTask_default_def)

lemma task_memory_keys: "state_keys s \<Longrightarrow> memory_keys (task_memory t s)"
  by (auto simp: task_memory_def entry_def state_keys_def split: option.splits dest!: map_of_SomeD)

lemma set_memory_keys: "state_keys s \<Longrightarrow> memory_keys m \<Longrightarrow> state_keys (set_task_memory t m s)"
  by (auto simp: state_keys_def set_task_memory_def distinct_update dest: in_set_update)

lemma set_memory_waiting:
  assumes "state_keys s"
  shows "waiting_reports (set_task_memory t m s) + memory_reports (task_memory t s) = waiting_reports s + memory_reports m"
  using sum_update [of "per_task s" memory_reports t m] assms
  by (cases "map_of (per_task s) t")
    (simp_all add: waiting_reports_def set_task_memory_def state_keys_def task_memory_def entry_def)

section \<open>Conservation of reports\<close>

lemma items_reports_simps [simp]:
  "items_reports [] = {#}" "items_reports (xs @ ys) = items_reports xs + items_reports ys"
  "items_reports (x # xs) = item_reports x + items_reports xs"
  by (simp_all add: items_reports_def)

lemma assign_keeps:
  assumes "assign_report_to_bucket E rng c report m = (x, m')"
  shows "pending_reports m' = pending_reports m" "coll_jobs m' = coll_jobs m"
  using assms by (auto simp: assign_report_to_bucket_def Let_def split: DapQueryConfig.splits option.splits)

lemma add_pending:
  assumes "memory_keys m"
  shows "memory_reports (m\<lparr>pending_reports := AList.update b (entry b [] (pending_reports m) @ [report]) (pending_reports m)\<rparr>) =
      add_mset report (memory_reports m)"
    and "memory_keys (m\<lparr>pending_reports := AList.update b v (pending_reports m)\<rparr>)"
  using sum_update [of "pending_reports m" mset b "entry b [] (pending_reports m) @ [report]"] assms
  by (cases "map_of (pending_reports m) b"; simp add: memory_reports_def memory_keys_def entry_def distinct_update)+

lemma set_memory_same: "memory_reports m = memory_reports (task_memory t s) \<Longrightarrow> state_keys s \<Longrightarrow>
    waiting_reports (set_task_memory t m s) = waiting_reports s"
  using set_memory_waiting [of s t m] by simp

lemma set_memory_add: "memory_reports m = add_mset report (memory_reports (task_memory t s)) \<Longrightarrow> state_keys s \<Longrightarrow>
    waiting_reports (set_task_memory t m s) = add_mset report (waiting_reports s)"
  using set_memory_waiting [of s t m] by simp

lemma put_report_keeps:
  assumes "state_keys s" and "leader_put_report E rng t c report s = (x, s')"
  shows "state_keys s' \<and> work_queue s' = work_queue s \<and>
    waiting_reports s' = waiting_reports s + (if x = Ok () then {#report#} else {#})"
proof -
  obtain y m where m: "assign_report_to_bucket E rng c report (task_memory t s) = (y, m)"
    by fastforce
  have keys: "memory_keys m" and same: "memory_reports m = memory_reports (task_memory t s)"
    using assign_keeps(1) [OF m] task_memory_keys [OF assms(1), of t] by (simp_all add: memory_keys_def memory_reports_def)
  show ?thesis
    using assms m keys same
    by (cases y) (auto simp: leader_put_report_def set_memory_keys add_pending set_memory_same set_memory_add)
qed

lemma queue_bucket_keeps:
  assumes "memory_keys m" and "queue_bucket t sel p b (q, m) = (q', m')"
  shows "memory_keys m' \<and> coll_jobs m' = coll_jobs m \<and>
    items_reports q' + memory_reports m' = items_reports q + memory_reports m"
  using sum_delete [of "pending_reports m" mset b] assms
  by (auto simp: queue_bucket_def Let_def memory_keys_def memory_reports_def distinct_delete ac_simps
      split: option.splits DapBatchBucket.splits)

lemma queue_buckets_keep:
  assumes "memory_keys m" and "fold (queue_bucket t sel p) bs (q, m) = (q', m')"
  shows "memory_keys m' \<and> coll_jobs m' = coll_jobs m \<and>
    items_reports q' + memory_reports m' = items_reports q + memory_reports m"
  using assms
proof (induction bs arbitrary: q m)
  case (Cons b bs)
  obtain q1 m1 where "queue_bucket t sel p b (q, m) = (q1, m1)"
    by fastforce
  with Cons queue_bucket_keeps [OF Cons.prems(1) this] show ?case
    by auto
qed simp

lemma multiset_transfer:
  fixes q w :: "'m multiset"
  assumes "q' + m' = q + m" and "w' + m = w + m'"
  shows "q' + w' = q + w"
proof (rule multiset_eqI)
  fix x
  show "count (q' + w') x = count (q + w) x"
    using arg_cong [OF assms(1), of "\<lambda>m. count m x"] arg_cong [OF assms(2), of "\<lambda>m. count m x"] by simp
qed

lemma set_task_memory_twice [simp]: "set_task_memory t m' (set_task_memory t m s) = set_task_memory t m' s"
  by (simp add: set_task_memory_def)

lemma init_collect_job_cases:
  assumes "leader_init_collect_job E t c coll_job_id sel p s = (x, s')"
  obtains m where "s' = set_task_memory t m s"
      "m = task_memory t s \<or>
       m = task_memory t s\<lparr>coll_jobs := AList.update coll_job_id Pending (coll_jobs (task_memory t s))\<rparr> \<and>
       map_of (coll_jobs (task_memory t s)) coll_job_id = None"
    | span q m where "batch_span_for_sel c sel = Ok span" "map_of (coll_jobs (task_memory t s)) coll_job_id = None"
      "fold (queue_bucket t sel p) span (work_queue s, task_memory t s\<lparr>coll_jobs :=
         AList.update coll_job_id Pending (coll_jobs (task_memory t s))\<rparr>) = (q, m)"
      "s' = (set_task_memory t m s)\<lparr>work_queue := q @ [WI_CollectionJob t coll_job_id sel p]\<rparr>"
  using assms that
  by (auto simp: leader_init_collect_job_def Let_def split: option.splits if_splits result.splits prod.splits)

lemma init_collect_job_keeps:
  assumes "state_keys s" and "leader_init_collect_job E t c coll_job_id sel p s = (x, s')"
  shows "state_keys s' \<and> items_reports (work_queue s') + waiting_reports s' = items_reports (work_queue s) + waiting_reports s"
proof -
  let ?m = "task_memory t s"
  let ?pend = "?m\<lparr>coll_jobs := AList.update coll_job_id Pending (coll_jobs ?m)\<rparr>"
  have keys: "memory_keys ?m"
    using task_memory_keys [OF assms(1)] .
  then have pend: "memory_keys ?pend" "memory_reports ?pend = memory_reports ?m"
    by (simp_all add: memory_keys_def memory_reports_def)
  from assms(2) show ?thesis
  proof (cases rule: init_collect_job_cases)
    case (1 m)
    then have "memory_keys m" "memory_reports m = memory_reports ?m"
      using keys pend by auto
    with 1(1) assms(1) show ?thesis
      by (simp add: set_memory_keys set_memory_same)
  next
    case (2 span q m)
    have "memory_keys m" and moved: "items_reports q + memory_reports m = items_reports (work_queue s) + memory_reports ?m"
      using queue_buckets_keep [OF pend(1) 2(3)] pend(2) by simp_all
    then have "state_keys (set_task_memory t m s)"
      using set_memory_keys [OF assms(1)] by blast
    moreover have "items_reports q + waiting_reports (set_task_memory t m s) = items_reports (work_queue s) + waiting_reports s"
      by (rule multiset_transfer [OF moved set_memory_waiting [OF assms(1)]])
    ultimately show ?thesis
      using 2(4) by simp
  qed
qed

lemma finish_collect_job_keeps:
  assumes "state_keys s" and "leader_finish_collect_job t coll_job_id collection s = (x, s')"
  shows "state_keys s' \<and> work_queue s' = work_queue s \<and> waiting_reports s' = waiting_reports s"
proof (cases "s' = s")
  case False
  let ?m = "task_memory t s"
  from False assms(2) have s': "s' = set_task_memory t (?m\<lparr>coll_jobs := AList.update coll_job_id (Done collection) (coll_jobs ?m)\<rparr>) s"
    by (auto simp: leader_finish_collect_job_def task_memory_def entry_def split: option.splits DapCollectionJob.splits)
  have "memory_keys (?m\<lparr>coll_jobs := js\<rparr>)" "memory_reports (?m\<lparr>coll_jobs := js\<rparr>) = memory_reports ?m" for js
    using task_memory_keys [OF assms(1), of t] by (simp_all add: memory_keys_def memory_reports_def)
  with s' assms(1) show ?thesis
    by (simp add: set_memory_keys set_memory_same)
qed (use assms in simp)

lemma step_keeps_reports:
  assumes "leader_step E cfg s i out s'" and "state_keys s"
  shows "state_keys s' \<and>
    items_reports (work_queue s') + waiting_reports s' + out = items_reports (work_queue s) + waiting_reports s + i"
  using assms
proof cases
  case (step_dequeue num_items items)
  have "items_reports (take n q) + items_reports (drop n q) = items_reports q" for n q
    by (metis append_take_drop_id items_reports_simps(2))
  with step_dequeue assms(2) show ?thesis
    by (auto simp: leader_dequeue_work_def Let_def ac_simps)
qed (use assms(2) in \<open>auto simp: leader_enqueue_work_def leader_current_batch_def leader_poll_collect_job_def ac_simps
      dest: put_report_keeps init_collect_job_keeps finish_collect_job_keeps\<close>)

lemma run_keeps_reports:
  assumes "leader_run E cfg s i out s'" and "state_keys s"
  shows "state_keys s' \<and>
    items_reports (work_queue s') + waiting_reports s' + out = items_reports (work_queue s) + waiting_reports s + i"
  using assms
proof induction
  case (run_step s i out s' i' out' s'')
  from step_keeps_reports [OF run_step(2)] run_step show ?case
    by (metis (no_types, lifting) add.assoc add.commute)
qed simp

section \<open>Batches\<close>

definition all_batches_ok :: "(TaskId \<Rightarrow> DapTaskConfig) \<Rightarrow> InMemoryLeaderState \<Rightarrow> bool" where
  "all_batches_ok cfg s \<longleftrightarrow> (\<forall>t. batches_ok (cfg t) (task_memory t s))"

lemma first_unsaturated_None: "first_unsaturated k q = None \<Longrightarrow> \<forall>(b, n) \<in> set q. k \<le> n"
  by (induction k q rule: first_unsaturated.induct) (auto split: if_splits)

lemma first_unsaturated_Some:
  assumes "first_unsaturated k q = Some (b, q')"
  shows "\<exists>xs n ys. q = xs @ (b, n) # ys \<and> q' = xs @ (b, n + 1) # ys \<and> n < k"
  using assms
proof (induction k q arbitrary: q' rule: first_unsaturated.induct)
  case (2 k b' n rest)
  show ?case
  proof (cases "n < k")
    case True
    with 2 show ?thesis
      by (intro exI [of _ "[]"]) auto
  next
    case False
    with 2(2) obtain q1 where q1: "first_unsaturated k rest = Some (b, q1)" "q' = (b', n) # q1"
      by auto
    from 2(1) [OF False q1(1)] q1(2) show ?thesis
      by (metis append_Cons)
  qed
qed simp

text \<open>Only the last batch of the queue is not full, so it is the one that takes the report.\<close>

lemma first_unsaturated_last:
  assumes "first_unsaturated k q = Some (b, q')" and full: "\<forall>(b, n) \<in> set (butlast q). k \<le> n"
  shows "\<exists>xs n. q = xs @ [(b, n)] \<and> q' = xs @ [(b, n + 1)] \<and> n < k"
proof -
  obtain xs n ys where split: "q = xs @ (b, n) # ys" "q' = xs @ (b, n + 1) # ys" "n < k"
    using first_unsaturated_Some [OF assms(1)] by blast
  have "ys = []"
  proof (rule ccontr)
    assume "ys \<noteq> []"
    then have "(b, n) \<in> set (butlast q)"
      by (simp add: split(1) butlast_append)
    with full split(3) show False
      by auto
  qed
  with split show ?thesis
    by blast
qed

lemma batches_okD:
  assumes "batches_ok c m" and "query_config c = QC_FixedSize x"
  shows "distinct (map fst (batch_queue m))"
    and "map_of (batch_queue m) b = map_option (of_nat \<circ> length) (map_of (pending_reports m) (Bucket_FixedSize b 0))"
    and "\<forall>(b, n) \<in> set (batch_queue m). 1 \<le> n \<and> (n \<le> min_batch_size c \<or> n = 1)"
    and "\<forall>(b, n) \<in> set (butlast (batch_queue m)). min_batch_size c \<le> n"
  using assms by (auto simp: batches_ok_def)

lemma map_of_snoc: "k \<notin> fst ` set al \<Longrightarrow> map_of (al @ [(k, v)]) = (map_of al)(k \<mapsto> v)"
  by (induction al) auto

lemma assign_to_batch:
  assumes ok: "batches_ok c m" and fixed: "query_config c = QC_FixedSize x"
    and assign: "assign_report_to_bucket E rng c report m = (Ok bucket, m')" and fresh: "rng \<notin> fst ` set (batch_queue m)"
  shows "batches_ok c (m'\<lparr>pending_reports :=
    AList.update bucket (entry bucket [] (pending_reports m') @ [report]) (pending_reports m')\<rparr>)"
proof (cases "first_unsaturated (min_batch_size c) (batch_queue m)")
  case None
  with assign fixed have m': "bucket = Bucket_FixedSize rng 0" "m' = m\<lparr>batch_queue := batch_queue m @ [(rng, 1)]\<rparr>"
    by (auto simp: assign_report_to_bucket_def ReportId_shard_def)
  have new: "map_of (batch_queue m) rng = None"
    using fresh by (simp add: map_of_eq_None_iff)
  with ok fixed have "map_of (pending_reports m) (Bucket_FixedSize rng 0) = None"
    by (auto simp: batches_ok_def)
  with ok fixed m' new fresh first_unsaturated_None [OF None] show ?thesis
    by (auto simp: batches_ok_def entry_def update_conv' map_add_def image_iff split: option.splits)
next
  case (Some r)
  then obtain b q' where r: "first_unsaturated (min_batch_size c) (batch_queue m) = Some (b, q')"
    by (cases r) auto
  obtain xs n where q: "batch_queue m = xs @ [(b, n)]" "q' = xs @ [(b, n + 1)]" "n < min_batch_size c"
    using first_unsaturated_last [OF r] ok fixed by (auto simp: batches_ok_def)
  from r assign fixed have m': "bucket = Bucket_FixedSize b 0" "m' = m\<lparr>batch_queue := q'\<rparr>"
    by (auto simp: assign_report_to_bucket_def ReportId_shard_def)
  have "Suc (unat n) < 2 ^ 64"
    using q(3) unsigned_less [of "min_batch_size c", where ?'a = nat] by (simp add: word_less_nat_alt)
  then have le: "n + 1 \<le> min_batch_size c" "1 \<le> n + 1"
    using q(3) by (simp_all add: word_less_nat_alt word_le_nat_alt unat_word_ariths)
  have "map_of (batch_queue m) b = Some n"
    using batches_okD(1) [OF ok fixed] q(1) by (intro map_of_is_SomeI) auto
  with batches_okD(2) [OF ok fixed, of b] obtain reports where
    "map_of (pending_reports m) (Bucket_FixedSize b 0) = Some reports" "n = of_nat (length reports)"
    by (cases "map_of (pending_reports m) (Bucket_FixedSize b 0)") auto
  then have entry: "entry bucket [] (pending_reports m') = reports" "n + 1 = of_nat (length (reports @ [report]))"
    by (simp_all add: m' entry_def)
  have new: "b \<notin> fst ` set xs"
    using batches_okD(1) [OF ok fixed] by (simp add: q(1))
  have "map_of q' = (map_of (batch_queue m))(b \<mapsto> n + 1)"
    unfolding q(1,2) map_of_snoc [OF new] by simp
  then have "map_of q' b' = map_option (of_nat \<circ> length)
      (map_of (AList.update bucket (reports @ [report]) (pending_reports m)) (Bucket_FixedSize b' 0))" for b'
    using batches_okD(2) [OF ok fixed, of b'] entry(2) by (simp add: m'(1) update_conv')
  moreover have "distinct (map fst q')"
    using batches_okD(1) [OF ok fixed] by (simp add: q)
  moreover have "\<forall>(b, n) \<in> set q'. 1 \<le> n \<and> (n \<le> min_batch_size c \<or> n = 1)"
    using batches_okD(3) [OF ok fixed] le by (simp add: q)
  moreover have "\<forall>(b, n) \<in> set (butlast q'). min_batch_size c \<le> n"
    using batches_okD(4) [OF ok fixed] by (simp add: q)
  ultimately show ?thesis
    by (simp add: batches_ok_def fixed entry(1)) (simp add: m')
qed

lemma assign_to_window:
  assumes "query_config c = QC_TimeInterval" and "assign_report_to_bucket E rng c report m = (x, m')"
  shows "m' = m"
  using assms by (simp add: assign_report_to_bucket_def Let_def)

lemma put_report_batches:
  assumes "batches_ok c (task_memory t s)" and "leader_put_report E rng t c report s = (Ok (), s')"
    and "rng \<notin> fst ` set (batch_queue (task_memory t s))"
  shows "batches_ok c (task_memory t s') \<and> (\<forall>t'. t' \<noteq> t \<longrightarrow> task_memory t' s' = task_memory t' s)"
proof -
  obtain bucket m where m: "assign_report_to_bucket E rng c report (task_memory t s) = (Ok bucket, m)"
    "s' = set_task_memory t (m\<lparr>pending_reports :=
       AList.update bucket (entry bucket [] (pending_reports m) @ [report]) (pending_reports m)\<rparr>) s"
    using assms(2) by (auto simp: leader_put_report_def split: prod.splits result.splits)
  show ?thesis
  proof (cases "query_config c")
    case QC_TimeInterval
    with assms(1) m assign_to_window [OF QC_TimeInterval m(1)] show ?thesis
      by (simp add: batches_ok_def)
  next
    case (QC_FixedSize x)
    with assign_to_batch [OF assms(1) QC_FixedSize m(1) assms(3)] m(2) show ?thesis
      by simp
  qed
qed

text \<open>The buckets of a collection job take the reports that wait for them, and their batches leave the queue.\<close>

definition batches_of :: "DapBatchBucket list \<Rightarrow> BatchId set" where
  "batches_of bs = {b. \<exists>shard. Bucket_FixedSize b shard \<in> set bs}"

lemma queue_bucket_result:
  assumes "queue_bucket t sel p b (q, m) = (q', m')"
  shows "map_of (pending_reports m') = (map_of (pending_reports m)) |` (- {b}) \<and>
    batch_queue m' = filter (\<lambda>(i, n). i \<notin> batches_of [b]) (batch_queue m)"
  using assms
  by (cases "map_of (pending_reports m) b"; cases b)
    (auto simp: queue_bucket_def batches_of_def delete_conv' restrict_map_def fun_eq_iff split_def intro!: filter_cong)

lemma queue_buckets_result:
  assumes "fold (queue_bucket t sel p) bs (q, m) = (q', m')"
  shows "map_of (pending_reports m') = (map_of (pending_reports m)) |` (- set bs) \<and>
    batch_queue m' = filter (\<lambda>(i, n). i \<notin> batches_of bs) (batch_queue m)"
  using assms
proof (induction bs arbitrary: q m)
  case Nil
  then show ?case
    by (auto simp: batches_of_def restrict_map_def)
next
  case (Cons b bs)
  obtain q1 m1 where first: "queue_bucket t sel p b (q, m) = (q1, m1)"
    by fastforce
  with Cons.prems have "fold (queue_bucket t sel p) bs (q1, m1) = (q', m')"
    by simp
  from Cons.IH [OF this] queue_bucket_result [OF first] show ?case
    by (auto simp: restrict_map_def batches_of_def fun_eq_iff split_def intro!: filter_cong)
qed

lemma span_has_first_shard:
  assumes "batch_span_for_sel c sel = Ok span" and "Bucket_FixedSize b shard \<in> set span"
  shows "Bucket_FixedSize b 0 \<in> set span"
  using assms by (auto simp: batch_span_for_sel_def Let_def split: if_splits BatchSelector.splits)

lemma filter_map_of: "map_of (filter (\<lambda>(k, v). P k) al) k = (if P k then map_of al k else None)"
  by (induction al) auto

lemma collected_batches:
  assumes ok: "batches_ok c m" and span: "batch_span_for_sel c sel = Ok span"
    and fold: "fold (queue_bucket t sel p) span (q, m) = (q', m')"
  shows "batches_ok c m'"
proof (cases "query_config c")
  case QC_TimeInterval
  with ok queue_buckets_result [OF fold] show ?thesis
    by (simp add: batches_ok_def)
next
  case (QC_FixedSize x)
  have result: "map_of (pending_reports m') = (map_of (pending_reports m)) |` (- set span)"
    "batch_queue m' = filter (\<lambda>(i, n). i \<notin> batches_of span) (batch_queue m)"
    using queue_buckets_result [OF fold] by simp_all
  have "Bucket_FixedSize b 0 \<in> set span \<longleftrightarrow> b \<in> batches_of span" for b
    using span_has_first_shard [OF span] by (auto simp: batches_of_def)
  moreover have "distinct (map fst (batch_queue m'))"
    using ok QC_FixedSize by (simp add: result(2) batches_ok_def distinct_map_filter)
  moreover have "set (butlast (batch_queue m')) \<subseteq> set (butlast (batch_queue m))"
    unfolding result(2) by (rule butlast_filter)
  ultimately show ?thesis
    using ok QC_FixedSize by (auto simp: batches_ok_def result filter_map_of restrict_map_def)
qed

lemma batches_ok_coll_jobs [simp]: "batches_ok c (m\<lparr>coll_jobs := js\<rparr>) = batches_ok c m"
  by (simp add: batches_ok_def cong: DapQueryConfig.case_cong)

lemma init_collect_job_batches:
  assumes "batches_ok c (task_memory t s)" and "leader_init_collect_job E t c coll_job_id sel p s = (x, s')"
  shows "batches_ok c (task_memory t s') \<and> (\<forall>t'. t' \<noteq> t \<longrightarrow> task_memory t' s' = task_memory t' s)"
  using assms(2)
proof (cases rule: init_collect_job_cases)
  case (1 m)
  with assms(1) show ?thesis
    by auto
next
  case (2 span q m)
  with collected_batches [OF _ 2(1,3)] assms(1) show ?thesis
    by simp
qed

lemma finish_collect_job_memory:
  assumes "leader_finish_collect_job t coll_job_id collection s = (x, s')"
  shows "s' = s \<or> map_of (coll_jobs (task_memory t s)) coll_job_id = Some Pending \<and> s' = set_task_memory t
    (task_memory t s\<lparr>coll_jobs := AList.update coll_job_id (Done collection) (coll_jobs (task_memory t s))\<rparr>) s"
  using assms
  by (auto simp: leader_finish_collect_job_def task_memory_def entry_def split: option.splits DapCollectionJob.splits)

lemma put_report_panics:
  assumes "leader_put_report E rng t c report s = (Panic, s')"
  shows "s' = set_task_memory t (task_memory t s) s"
  using assms
  by (auto simp: leader_put_report_def assign_report_to_bucket_def Let_def
      split: prod.splits result.splits DapQueryConfig.splits option.splits)

lemma step_batches:
  assumes "leader_step E cfg s i out s'" and "all_batches_ok cfg s"
  shows "all_batches_ok cfg s'"
  using assms
proof cases
  case (step_put rng t report)
  with put_report_batches [OF _ step_put(3,4)] assms(2) show ?thesis
    unfolding all_batches_ok_def by metis
next
  case (step_init t coll_job_id sel agg_param x)
  with init_collect_job_batches [OF _ step_init(3)] assms(2) show ?thesis
    unfolding all_batches_ok_def by metis
next
  case (step_finish t coll_job_id collection x)
  from finish_collect_job_memory [OF step_finish(3)] assms(2) show ?thesis
    by (auto simp: all_batches_ok_def)
next
  case (step_put_panic rng t report)
  from put_report_panics [OF step_put_panic(3)] assms(2) show ?thesis
    by (auto simp: all_batches_ok_def)
qed (use assms(2) in \<open>auto simp: all_batches_ok_def leader_enqueue_work_def leader_dequeue_work_def Let_def
      leader_current_batch_def leader_poll_collect_job_def\<close>)

lemma run_batches: "leader_run E cfg s i out s' \<Longrightarrow> all_batches_ok cfg s \<Longrightarrow> all_batches_ok cfg s'"
  by (induction rule: leader_run.induct) (auto intro: step_batches)

section \<open>Collection jobs\<close>

lemma map_of_task_memory: "map_of (per_task s) t = Some m \<Longrightarrow> task_memory t s = m"
  by (simp add: task_memory_def entry_def)

lemma poll_done_iff:
  "leader_poll_collect_job t coll_job_id s = (Ok (Done collection), s') \<longleftrightarrow>
   s' = s \<and> map_of (coll_jobs (task_memory t s)) coll_job_id = Some (Done collection)"
  by (auto simp: leader_poll_collect_job_def task_memory_def entry_def MockLeaderMemoryPerTask_default_def split: option.splits)

lemma put_report_coll_jobs:
  assumes "leader_put_report E rng t c report s = (x, s')"
  shows "coll_jobs (task_memory t' s') = coll_jobs (task_memory t' s)"
proof -
  obtain y m where m: "assign_report_to_bucket E rng c report (task_memory t s) = (y, m)"
    by fastforce
  with assms assign_keeps(2) [OF m] show ?thesis
    by (cases y) (auto simp: leader_put_report_def)
qed

lemma queue_buckets_coll_jobs: "fold (queue_bucket t sel p) bs (q, m) = (q', m') \<Longrightarrow> coll_jobs m' = coll_jobs m"
proof (induction bs arbitrary: q m)
  case (Cons b bs)
  obtain q1 m1 where "queue_bucket t sel p b (q, m) = (q1, m1)"
    by fastforce
  with Cons show ?case
    by (auto simp: queue_bucket_def Let_def split: option.splits DapBatchBucket.splits)
qed simp

lemma init_collect_job_done:
  assumes "leader_init_collect_job E t c j sel p s = (x, s')"
    and "map_of (coll_jobs (task_memory t' s)) j' = Some (Done collection)"
  shows "map_of (coll_jobs (task_memory t' s')) j' = Some (Done collection)"
  using assms(1)
proof (cases rule: init_collect_job_cases)
  case (1 m)
  with assms(2) show ?thesis
    by (auto simp: update_conv')
next
  case (2 span q m)
  with queue_buckets_coll_jobs [OF 2(3)] assms(2) show ?thesis
    by (auto simp: update_conv')
qed

lemma step_done:
  assumes "leader_step E cfg s i out s'" and "map_of (coll_jobs (task_memory t s)) j = Some (Done collection)"
  shows "map_of (coll_jobs (task_memory t s')) j = Some (Done collection)"
  using assms
proof cases
  case (step_finish t' j' collection' x)
  from finish_collect_job_memory [OF step_finish(3)] assms(2) show ?thesis
    by (auto simp: update_conv')
qed (use assms(2) in \<open>auto simp: leader_enqueue_work_def leader_dequeue_work_def Let_def put_report_coll_jobs
      leader_current_batch_def leader_poll_collect_job_def dest: init_collect_job_done\<close>)

lemma run_done:
  "leader_run E cfg s i out s' \<Longrightarrow> map_of (coll_jobs (task_memory t s)) j = Some (Done collection) \<Longrightarrow>
   map_of (coll_jobs (task_memory t s')) j = Some (Done collection)"
  by (induction rule: leader_run.induct) (auto intro: step_done)

text \<open>The aggregation jobs of a collection job: one for every bucket of its batch for which reports wait.\<close>

definition bucket_jobs ::
  "TaskId \<Rightarrow> BatchSelector \<Rightarrow> DapAggregationParam \<Rightarrow> (DapBatchBucket \<rightharpoonup> Report list) \<Rightarrow> DapBatchBucket list \<Rightarrow> WorkItem list" where
  "bucket_jobs t sel p waiting span =
     concat (map (\<lambda>b. case waiting b of
         None \<Rightarrow> []
       | Some reports \<Rightarrow> [WI_AggregationJob t (PartialBatchSelector_from sel) p reports]) span)"

lemma queue_buckets_jobs:
  assumes "fold (queue_bucket t sel p) bs (q, m) = (q', m')" and "distinct bs"
  shows "q' = q @ bucket_jobs t sel p (map_of (pending_reports m)) bs"
  using assms
proof (induction bs arbitrary: q m)
  case Nil
  then show ?case
    by (simp add: bucket_jobs_def)
next
  case (Cons b bs)
  obtain q1 m1 where first: "queue_bucket t sel p b (q, m) = (q1, m1)"
    by fastforce
  have "bucket_jobs t sel p (map_of (pending_reports m1)) bs = bucket_jobs t sel p (map_of (pending_reports m)) bs"
    using queue_bucket_result [OF first] Cons.prems(2)
    by (auto simp: bucket_jobs_def restrict_map_def intro!: arg_cong [where f = concat] map_cong)
  with Cons.IH [of q1 m1] Cons.prems first show ?case
    by (cases "map_of (pending_reports m) b")
      (auto simp: bucket_jobs_def queue_bucket_def Let_def split: DapBatchBucket.splits)
qed

lemma distinct_batch_span: "batch_span_for_sel c sel = Ok span \<Longrightarrow> distinct span"
  by (auto simp: batch_span_for_sel_def Let_def distinct_map inj_on_def split: if_splits BatchSelector.splits)

section \<open>Properties of the state in memory\<close>

definition example_fixed_task :: DapTaskConfig where
  "example_fixed_task = example_task\<lparr>min_batch_size := 2, query_config := QC_FixedSize None\<rparr>"

definition example_report :: "u8 \<Rightarrow> Report" where
  "example_report n = \<lparr>report_metadata = \<lparr>metadata_id = ReportId (replicate 16 n), metadata_time = 120\<rparr>, public_share = [],
     encrypted_input_shares = (\<lparr>config_id = 1, ct_enc = [], ct_payload = []\<rparr>, \<lparr>config_id = 1, ct_enc = [], ct_payload = []\<rparr>)\<rparr>"

abbreviation (input) example_put :: "u8 \<Rightarrow> u8 \<Rightarrow> (unit, DapError, InMemoryLeaderState) stateful" where
  "example_put n b \<equiv> leader_put_report example_server_ext (BatchId [b]) (TaskId []) example_fixed_task (example_report n)"

abbreviation (input) example_collect :: "(Url, DapError, InMemoryLeaderState) stateful" where
  "example_collect \<equiv> leader_init_collect_job example_server_ext (TaskId []) example_fixed_task (CollectionJobId [9])
     (BS_FixedSizeByBatchId (BatchId [1])) Agg_Empty"

text \<open>Three reports, of which the first two fill a batch, and a collection job for that batch.\<close>

definition example_uploaded :: "nat \<Rightarrow> InMemoryLeaderState" where
  "example_uploaded n = fold (\<lambda>(r, b) s. snd (example_put r b s)) (take n [(1, 1), (2, 2), (3, 2)]) InMemoryLeaderState_default"

definition example_collecting :: InMemoryLeaderState where
  "example_collecting = snd (example_collect (example_uploaded 3))"

definition example_dequeued :: InMemoryLeaderState where
  "example_dequeued = snd (leader_dequeue_work 1 example_collecting)"

definition example_collection :: Collection where
  "example_collection = \<lparr>coll_part_batch_sel = PBS_FixedSizeByBatchId (BatchId [1]), coll_report_count = 2,
     coll_interval = \<lparr>start = 120, duration = 60\<rparr>,
     encrypted_agg_shares = encrypted_input_shares (example_report 1)\<rparr>"

definition example_done :: InMemoryLeaderState where
  "example_done = snd (leader_finish_collect_job (TaskId []) (CollectionJobId [9]) example_collection example_dequeued)"

definition example_emptied :: InMemoryLeaderState where
  "example_emptied = snd (leader_dequeue_work 5 example_done)"

lemma example_steps:
  "example_put 1 1 InMemoryLeaderState_default = (Ok (), example_uploaded 1)"
  "example_put 2 2 (example_uploaded 1) = (Ok (), example_uploaded 2)"
  "example_put 3 2 (example_uploaded 2) = (Ok (), example_uploaded 3)"
  "BatchId [1] \<notin> fst ` set (batch_queue (task_memory (TaskId []) InMemoryLeaderState_default))"
  "BatchId [2] \<notin> fst ` set (batch_queue (task_memory (TaskId []) (example_uploaded 1)))"
  "BatchId [2] \<notin> fst ` set (batch_queue (task_memory (TaskId []) (example_uploaded 2)))"
  "example_collect (example_uploaded 3) =
     (Ok (''https://leader/collect/task//req/'' @ plain_string [9]), example_collecting)"
  "leader_dequeue_work 1 example_collecting =
     (Ok [WI_AggregationJob (TaskId []) (PBS_FixedSizeByBatchId (BatchId [1])) Agg_Empty [example_report 1, example_report 2]], example_dequeued)"
  by code_simp+

lemma example_leader_run:
  "leader_run example_server_ext (\<lambda>_. example_fixed_task) InMemoryLeaderState_default
     {#example_report 1, example_report 2, example_report 3#} {#example_report 1, example_report 2#} example_dequeued"
proof -
  let ?run = "leader_run example_server_ext (\<lambda>_. example_fixed_task) InMemoryLeaderState_default"
  have "?run {#} {#} InMemoryLeaderState_default"
    by (rule run_refl)
  from run_step [OF this step_put [OF example_steps(1,4)]]
  have "?run {#example_report 1#} {#} (example_uploaded 1)"
    by simp
  from run_step [OF this step_put [OF example_steps(2,5)]]
  have "?run {#example_report 1, example_report 2#} {#} (example_uploaded 2)"
    by (simp add: add_mset_commute)
  from run_step [OF this step_put [OF example_steps(3,6)]]
  have "?run {#example_report 1, example_report 2, example_report 3#} {#} (example_uploaded 3)"
    by (simp add: add_mset_commute)
  from run_step [OF this step_init [OF example_steps(7)]]
  have "?run {#example_report 1, example_report 2, example_report 3#} {#} example_collecting"
    by simp
  from run_step [OF this step_dequeue [OF example_steps(8)]]
  show ?thesis
    by (simp add: add_mset_commute)
qed

lemma default_state [simp]:
  "state_keys InMemoryLeaderState_default" "waiting_reports InMemoryLeaderState_default = {#}"
  "work_queue InMemoryLeaderState_default = []" "all_batches_ok cfg InMemoryLeaderState_default"
  by (simp_all add: state_keys_def waiting_reports_def InMemoryLeaderState_default_def all_batches_ok_def task_memory_def
      entry_def batches_ok_def MockLeaderMemoryPerTask_default_def split: DapQueryConfig.split)

text \<open>
  C0. No report is lost and none is handed out twice: after any sequence of operations, the reports that
  came in are those that wait for a collection job, those in the work queue and those handed out for
  aggregation, each as often as it came in.
\<close>

theorem leader_keeps_reports:
  assumes "leader_run E cfg InMemoryLeaderState_default i out s"
  shows "i = items_reports (work_queue s) + waiting_reports s + out"
  using run_keeps_reports [OF assms] by simp

theorem leader_keeps_reports_witness:
  "{#example_report 1, example_report 2, example_report 3#} =
   items_reports (work_queue example_dequeued) + waiting_reports example_dequeued + {#example_report 1, example_report 2#}"
  by (rule leader_keeps_reports [OF example_leader_run])

text \<open>
  C0. The state stays well formed: every key of a map occurs once, and in a task with fixed-size queries a
  batch is in the queue exactly when reports wait for it, with their number as its count, at most the
  minimum batch size, and full unless it is the last one.
\<close>

theorem leader_state_wf:
  assumes "leader_run E cfg InMemoryLeaderState_default i out s"
  shows "state_keys s \<and> (\<forall>t. batches_ok (cfg t) (task_memory t s))"
  using run_keeps_reports [OF assms] run_batches [OF assms default_state(4)] by (simp add: all_batches_ok_def)

theorem leader_state_wf_witness:
  "state_keys example_dequeued \<and> (\<forall>t. batches_ok example_fixed_task (task_memory t example_dequeued))"
  using leader_state_wf [OF example_leader_run] by simp

text \<open>
  C0. A new collection job takes exactly the reports that wait for its batch: behind the work that was
  queued before come one aggregation job for every bucket for which reports wait, with all of them, and
  then the collection job. Reports of other buckets wait on.
\<close>

theorem collection_takes_waiting_reports:
  assumes "leader_init_collect_job E t c coll_job_id sel p s = (Ok uri, s')"
  shows "\<exists>span. batch_span_for_sel c sel = Ok span \<and>
    work_queue s' = work_queue s @ bucket_jobs t sel p (map_of (pending_reports (task_memory t s))) span @
      [WI_CollectionJob t coll_job_id sel p] \<and>
    map_of (pending_reports (task_memory t s')) = (map_of (pending_reports (task_memory t s))) |` (- set span) \<and>
    leader_poll_collect_job t coll_job_id s' = (Ok Pending, s')"
proof -
  let ?pend = "task_memory t s\<lparr>coll_jobs := AList.update coll_job_id Pending (coll_jobs (task_memory t s))\<rparr>"
  obtain span q m where span: "batch_span_for_sel c sel = Ok span"
    and fold: "fold (queue_bucket t sel p) span (work_queue s, ?pend) = (q, m)"
    and s': "s' = (set_task_memory t m s)\<lparr>work_queue := q @ [WI_CollectionJob t coll_job_id sel p]\<rparr>"
    using assms by (auto simp: leader_init_collect_job_def Let_def split: option.splits if_splits result.splits prod.splits)
  have "map_of (coll_jobs m) coll_job_id = Some Pending"
    using queue_buckets_coll_jobs [OF fold] by (simp add: update_conv')
  moreover have "map_of (per_task s') t = Some m"
    by (simp add: s' set_task_memory_def update_conv')
  ultimately have "leader_poll_collect_job t coll_job_id s' = (Ok Pending, s')"
    by (simp add: leader_poll_collect_job_def entry_def)
  with span s' queue_buckets_jobs [OF fold distinct_batch_span [OF span]] queue_buckets_result [OF fold] show ?thesis
    by simp
qed

theorem collection_takes_waiting_reports_witness:
  "\<exists>span. batch_span_for_sel example_fixed_task (BS_FixedSizeByBatchId (BatchId [1])) = Ok span \<and>
    work_queue example_collecting = work_queue (example_uploaded 3) @
      bucket_jobs (TaskId []) (BS_FixedSizeByBatchId (BatchId [1])) Agg_Empty
        (map_of (pending_reports (task_memory (TaskId []) (example_uploaded 3)))) span @
      [WI_CollectionJob (TaskId []) (CollectionJobId [9]) (BS_FixedSizeByBatchId (BatchId [1])) Agg_Empty]"
  using collection_takes_waiting_reports [OF example_steps(7)] by blast

text \<open>
  C0. A collection is final: once polling a collection job gives a collection, it gives the same one after
  any further operations, and the job can be neither finished with another collection nor started again.
\<close>

theorem collection_is_final:
  assumes "leader_run E cfg s i out s'" and "leader_poll_collect_job t coll_job_id s = (Ok (Done collection), s)"
  shows "leader_poll_collect_job t coll_job_id s' = (Ok (Done collection), s') \<and>
    (\<forall>collection'. \<exists>e. leader_finish_collect_job t coll_job_id collection' s' = (Err e, s')) \<and>
    (\<forall>c sel p. \<exists>e. fst (leader_init_collect_job E t c coll_job_id sel p s') = Err e)"
proof -
  have "map_of (coll_jobs (task_memory t s')) coll_job_id = Some (Done collection)"
    using run_done [OF assms(1)] assms(2) by (simp add: poll_done_iff)
  moreover from this obtain m where "map_of (per_task s') t = Some m" "task_memory t s' = m"
    by (auto simp: task_memory_def entry_def MockLeaderMemoryPerTask_default_def split: option.splits)
  ultimately show ?thesis
    by (auto simp: leader_poll_collect_job_def entry_def leader_finish_collect_job_def leader_init_collect_job_def Let_def
        split: option.splits)
qed

theorem collection_is_final_witness:
  "leader_poll_collect_job (TaskId []) (CollectionJobId [9]) example_emptied = (Ok (Done example_collection), example_emptied)"
proof -
  have finished: "leader_poll_collect_job (TaskId []) (CollectionJobId [9]) example_done = (Ok (Done example_collection), example_done)"
    by code_simp
  have "leader_dequeue_work 5 example_done = (Ok [WI_CollectionJob (TaskId []) (CollectionJobId [9])
      (BS_FixedSizeByBatchId (BatchId [1])) Agg_Empty], example_emptied)"
    by code_simp
  from run_step [OF run_refl step_dequeue [OF this]]
  have "leader_run example_server_ext (\<lambda>_. example_fixed_task) example_done {#} {#} example_emptied"
    by simp
  from collection_is_final [OF this finished] show ?thesis
    by (rule conjunct1)
qed

end
