(* ===== verification/Kv_Laws.thy ===== *)
theory Kv_Laws
  imports Kv Store_Names Storage_Proxy_Laws
begin

text \<open>
  Reading through the cache when the server reaches the worker and the namespace: a read gives the value
  that the cache has, or else the one of the namespace, and what it adds to the cache does not change
  what is read afterwards.
\<close>

section \<open>Frames\<close>

text \<open>Everything of a server's state but the objects and their alarms, and the same without the cache.\<close>

definition server_rest :: "('v, 'z) kv_client_scheme \<Rightarrow> _" where
  "server_rest s = (gc_after_secs s, namespace s, trusted_token s, clock s, stub_faults s, kv_faults s, http_faults s,
     auth_token s, kv_client.more s)"

definition server_frame :: "('v, 'z) kv_client_scheme \<Rightarrow> _" where
  "server_frame s = (cache s, server_rest s)"

text \<open>The server has the right token, and nothing is lost.\<close>

definition online :: "('v, 'z) kv_client_scheme \<Rightarrow> bool" where
  "online s \<longleftrightarrow> connected (auth_token s) s \<and> kv_faults s = []"

lemma online_rest: "server_rest s' = server_rest s \<Longrightarrow> online s' = online s"
  by (simp add: online_def connected_def server_rest_def)

lemma server_frame_rest: "server_frame s' = server_frame s \<Longrightarrow> server_rest s' = server_rest s \<and> cache s' = cache s"
  by (simp add: server_frame_def)

lemma server_rest_simps [simp]:
  "server_rest (s\<lparr>cache := ch\<rparr>) = server_rest s"
  "server_rest (s\<lparr>objects := os\<rparr>) = server_rest s"
  "server_rest (s\<lparr>alarms := al\<rparr>) = server_rest s"
  by (simp_all add: server_rest_def)

section \<open>Values\<close>

definition prefix_ok :: "('a, 'y) KvPrefix_scheme \<Rightarrow> bool" where
  "prefix_ok P \<longleftrightarrow> (\<forall>t. downcast P (upcast P t) = Some t)"

lemma prefixes_ok [simp]:
  "prefix_ok override_bool" "prefix_ok override_usize" "prefix_ok prefix_TaskConfig" "prefix_ok prefix_TaskprovOptInParam"
  "prefix_ok prefix_HpkeReceiverConfigSet" "prefix_ok prefix_LeaderBearerToken" "prefix_ok prefix_CollectorBearerToken"
  by (simp_all add: prefix_ok_def prefix_defs)

text \<open>What a read of the server gives.\<close>

definition kv_value :: "('a, 'y) KvPrefix_scheme \<Rightarrow> string \<Rightarrow> ('v, 'z) kv_client_scheme \<Rightarrow> ('a option, proxy_error) result" where
  "kv_value P key s = (case Cache_get P (clock s) (to_key P key) (cache s) of
      Hit t \<Rightarrow> Ok t
    | _ \<Rightarrow>
        (case kv_lookup (kv_path (to_key P key)) s of
           None \<Rightarrow> Ok None
         | Some v \<Rightarrow> (case downcast P v of None \<Rightarrow> Err PE_Reqwest | Some t \<Rightarrow> Ok (Some t))))"

text \<open>The state after a read: the value may be in the cache now.\<close>

definition after_read :: "('a, 'y) KvPrefix_scheme \<Rightarrow> string \<Rightarrow> ('v, 'z) kv_client_scheme \<Rightarrow> ('v, 'z) kv_client_scheme \<Rightarrow> bool" where
  "after_read P key s s' \<longleftrightarrow> s' = s \<or>
     (\<exists>v. kv_value P key s = Ok v \<and> s' = s\<lparr>cache := Cache_put P (clock s) (to_key P key) v (cache s)\<rparr>)"

lemma kv_request_get:
  assumes "online s"
  shows "kv_request (kv_get key) s = (Ok (case kv_lookup key s of
      Some v \<Rightarrow> Http_Response 200 (Some v) | None \<Rightarrow> Http_Response 404 None), s)"
  using assms
  by (simp add: kv_request_def kv_get_def http_send_def bearer_auth_def Error_into_response_def retry_def retry_loop.simps
      kv_operation_def online_def connected_def constant_time_eq_iff st_then.simps st_get_def st_return_def no_faults
      split: option.split)

lemma get_impl_value:
  assumes "online s"
  shows "\<exists>s'. get_impl P key opt f s = (and_then (kv_value P key s) (\<lambda>t. Ok (map_option f t)), s') \<and> after_read P key s s'"
  using kv_request_get [OF assms, of "kv_path (to_key P key)"]
  by (auto simp: get_impl_def Let_def st_then.simps st_get_def st_return_def st_lift_def kv_value_def after_read_def
      error_for_status_def cache_value_def st_modify_def split: CacheResult.splits option.splits)

lemma Cache_get_put:
  "Cache_get Q now k (Cache_put P now k' v ch) =
     (if PREFIX Q = PREFIX P \<and> k = k' then cache_result Q (map_option (upcast P) v) else Cache_get Q now k ch)"
  by (auto simp: Cache_get_def Cache_put_def Let_def CACHE_VALUE_LIFETIME_def split: option.splits)

lemma kv_value_after_same:
  assumes "prefix_ok P" and "after_read P key s s'"
  shows "kv_value P key s' = kv_value P key s"
  using assms
  by (auto simp: after_read_def kv_value_def [of P key "s\<lparr>cache := ch\<rparr>" for ch] Cache_get_put cache_result_def prefix_ok_def
      split: option.splits)

lemma kv_lookup_rest:
  assumes "server_rest s' = server_rest s"
  shows "kv_lookup key s' = kv_lookup key s"
proof -
  have "unix_secs s' = unix_secs s" "namespace s' = namespace s"
    using assms by (simp_all add: server_rest_def unix_secs_def)
  then show ?thesis
    by (simp add: kv_lookup_def split: option.split prod.split)
qed

lemma kv_lookup_cache [simp]: "kv_lookup key (s\<lparr>cache := ch\<rparr>) = kv_lookup key s"
  by (rule kv_lookup_rest) simp

lemma kv_value_after_other:
  assumes "to_key Q key' \<noteq> to_key P key" and "after_read P key s s'"
  shows "kv_value Q key' s' = kv_value Q key' s"
  using assms by (auto simp: after_read_def kv_value_def [of Q] Cache_get_put split: CacheResult.split)

lemma after_read_frame:
  assumes "after_read P key s s'"
  shows "server_rest s' = server_rest s" "objects s' = objects s" "alarms s' = alarms s"
  using assms by (auto simp: after_read_def)

lemma kv_value_frame:
  assumes "server_frame s' = server_frame s"
  shows "kv_value P key s' = kv_value P key s"
proof -
  have "cache s' = cache s" "clock s' = clock s" and rest: "server_rest s' = server_rest s"
    using assms by (simp_all add: server_frame_def server_rest_def)
  then show ?thesis
    by (simp add: kv_value_def kv_lookup_rest [OF rest] split: CacheResult.split)
qed

lemma get_cloned_value:
  assumes "online s"
  shows "\<exists>s'. get_cloned P key opt s = (kv_value P key s, s') \<and> after_read P key s s'"
proof -
  obtain s' where "get_impl P key opt Some s = (and_then (kv_value P key s) (\<lambda>t. Ok (map_option Some t)), s')"
    "after_read P key s s'"
    using get_impl_value [OF assms, of P key opt Some] by auto
  then show ?thesis
    by (cases "kv_value P key s"; cases "case kv_value P key s of Ok t \<Rightarrow> t | _ \<Rightarrow> None")
      (auto simp: get_cloned_def Kv_get_def get_mapped_def st_then.simps st_return_def)
qed

section \<open>Writing\<close>

lemma get_cloned_hit:
  assumes "Cache_get P (clock s) (to_key P key) (cache s) = Hit t"
  shows "get_cloned P key opt s = (Ok t, s)"
  using assms
  by (cases t) (simp_all add: get_cloned_def Kv_get_def get_mapped_def get_impl_def Let_def st_then.simps st_get_def st_return_def)

lemma Cache_get_later:
  assumes "d < CACHE_VALUE_LIFETIME"
  shows "Cache_get P (now + d) key (Cache_put P now key v ch) = cache_result P (map_option (upcast P) v)"
  using assms by (simp add: Cache_get_def Cache_put_def Let_def)

lemma put_internal_Ok:
  assumes "put_internal P key v expiration s = (Ok (), s')"
  shows "\<exists>s1. s' = s1\<lparr>cache := Cache_put P (clock s1) (to_key P key) (Some v) (cache s1)\<rparr>"
  using assms by (auto simp: put_internal_def Let_def cache_value_def)

lemma kv_put_lost:
  assumes "kv_faults w = [True, True, True, True, True] @ faults"
  shows "\<exists>w'. kv_put expiration key body w = (Ok (Http_Response 200 None), w') \<and> namespace w' = namespace w \<and>
    world.more w' = world.more w \<and> kv_faults w' = faults"
  using assms
  by (simp add: kv_put_def kv_put_bytes_def retry_def RETRY_DELAYS_def retry_loop.simps kv_operation_def wait_def Let_def)

definition example_client :: "bool list \<Rightarrow> nat list kv_client" where
  "example_client faults = \<lparr>objects = (\<lambda>_. with_state_and_env Map.empty), alarms = Map.empty, gc_after_secs = 604800,
     namespace = Map.empty, trusted_token = Some ''secret'', clock = 0, stub_faults = [], kv_faults = faults,
     http_faults = [], auth_token = ''secret'', cache = Map.empty\<rparr>"

text \<open>
  C0. The server reads what it wrote: when a write is acknowledged, a read of the same key in the
  following five minutes gives the written value, whatever is lost in between.
\<close>

theorem written_value_is_read:
  assumes "prefix_ok P" and "put_internal P key v expiration s = (Ok (), s')" and "d < CACHE_VALUE_LIFETIME"
    and "clock s'' = clock s' + d" and "cache s'' = cache s'"
  shows "get_cloned P key opt s'' = (Ok (Some v), s'')"
proof (rule get_cloned_hit)
  show "Cache_get P (clock s'') (to_key P key) (cache s'') = Hit (Some v)"
    using put_internal_Ok [OF assms(2)] assms(1,4,5)
    by (auto simp: Cache_get_later [OF assms(3)] cache_result_def prefix_ok_def)
qed

theorem written_value_is_read_witness:
  "\<exists>s. put_internal override_usize ''k'' 7 None (example_client [True, False]) = (Ok (), s) \<and>
    get_cloned override_usize ''k'' KvGetOptions_default (s\<lparr>clock := clock s + 299999\<rparr>) = (Ok (Some 7), s\<lparr>clock := clock s + 299999\<rparr>)"
proof -
  have "fst (put_internal override_usize ''k'' 7 None (example_client [True, False])) = Ok ()"
    by code_simp
  then obtain s where s: "put_internal override_usize ''k'' 7 None (example_client [True, False]) = (Ok (), s)"
    by (metis prod.collapse)
  have "299999 < CACHE_VALUE_LIFETIME"
    by (simp add: CACHE_VALUE_LIFETIME_def)
  from written_value_is_read [OF prefixes_ok(2) s this, of "s\<lparr>clock := clock s + 299999\<rparr>"] s show ?thesis
    by auto
qed

text \<open>
  C0. A write that never reaches the namespace is acknowledged: when all five attempts of the worker fail,
  the server gets a success and reads the value from its cache, while the namespace is unchanged and other
  servers do not see it.
\<close>

theorem lost_write_is_acknowledged:
  assumes "connected (auth_token s) s" and "kv_faults s = [True, True, True, True, True] @ faults" and "prefix_ok P"
  shows "\<exists>s'. put_internal P key v expiration s = (Ok (), s') \<and> namespace s' = namespace s \<and>
    get_cloned P key opt s' = (Ok (Some v), s')"
proof -
  obtain w' where w': "kv_put expiration (kv_path (to_key P key)) (upcast P v) s = (Ok (Http_Response 200 None), w')"
    "namespace w' = namespace s"
    using kv_put_lost [OF assms(2)] by blast
  then have put: "put_internal P key v expiration s =
      (Ok (), w'\<lparr>cache := Cache_put P (clock w') (to_key P key) (Some v) (cache w')\<rparr>)" (is "_ = (_, ?s')")
    using assms(1)
    by (simp add: put_internal_def kv_request_def http_send_def bearer_auth_def Error_into_response_def connected_def
        constant_time_eq_iff st_then.simps st_get_def st_modify_def st_lift_def error_for_status_def cache_value_def no_faults Let_def)
  have "get_cloned P key opt ?s' = (Ok (Some v), ?s')"
    using assms(3) by (intro get_cloned_hit) (simp add: Cache_get_put cache_result_def prefix_ok_def)
  with put w'(2) show ?thesis
    by auto
qed

theorem lost_write_is_acknowledged_witness:
  "\<exists>s'. put_internal override_usize ''k'' 7 None (example_client [True, True, True, True, True]) = (Ok (), s') \<and>
    namespace s' = Map.empty \<and> get_cloned override_usize ''k'' KvGetOptions_default s' = (Ok (Some 7), s')"
proof -
  let ?s = "example_client [True, True, True, True, True]"
  have "connected (auth_token ?s) ?s" "kv_faults ?s = [True, True, True, True, True] @ []" "namespace ?s = Map.empty"
    by (simp_all add: connected_def example_client_def)
  from lost_write_is_acknowledged [OF this(1,2) prefixes_ok(2), of "''k''" 7 None KvGetOptions_default] this(3)
  show ?thesis
    by simp
qed

end
