(* ===== verification/Span_Store.thy ===== *)
theory Span_Store
  imports Roles Aggregate_Store_Laws
begin

text \<open>
  The contract between the Helper and the stores of its buckets: an attempt to store a span is answered
  bucket by bucket as the specification of the aggregate store answers a merge.
\<close>

section \<open>Spans and their answers\<close>

fun merge_answer :: "AggregateStoreMergeResp \<Rightarrow> (unit, MergeAggShareError) result" where
  "merge_answer Merge_Ok = Ok ()"
| "merge_answer Merge_AlreadyCollected = Err AlreadyCollected"
| "merge_answer (Merge_ReplaysDetected replays) = Err (ReplaysDetected replays)"

definition span_request :: "'v DapAggregateShare \<Rightarrow> (ReportId \<times> Time) list \<Rightarrow> 'v AggregateStoreMergeReq" where
  "span_request share reports =
     \<lparr>contained_reports = map fst reports, agg_share_delta = share, skip_replay_protection = False\<rparr>"

text \<open>A bucket of a span that its store can take.\<close>

definition room ::
  "('v, 'x) prio_vdafs_scheme \<Rightarrow> ('v VdafAggregateShare \<Rightarrow> bool) \<Rightarrow> (DapBatchBucket \<Rightarrow> 'v store_spec) \<Rightarrow>
   DapBatchBucket \<times> 'v DapAggregateShare \<times> (ReportId \<times> Time) list \<Rightarrow> bool" where
  "room V good A = (\<lambda>(b, share, reports). wf_request V good (Req_Merge (span_request share reports)) \<and>
     (\<exists>resp a. spec_merge V (span_request share reports) (A b) = Some (resp, a) \<and> fits V a))"

text \<open>The answers to a span, and the states afterwards.\<close>

definition span_answers ::
  "('v, 'x) prio_vdafs_scheme \<Rightarrow> (DapBatchBucket \<Rightarrow> 'v store_spec) \<Rightarrow> 'v DapAggregateShare DapAggregateSpan \<Rightarrow>
   (unit, MergeAggShareError) result DapAggregateSpan \<Rightarrow> (DapBatchBucket \<Rightarrow> 'v store_spec) \<Rightarrow> bool" where
  "span_answers V A span results A' \<longleftrightarrow>
     list_all2 (\<lambda>(b, share, reports) (b', answer, reports'). b' = b \<and> reports' = reports \<and>
       (\<exists>resp. spec_merge V (span_request share reports) (A b) = Some (resp, A' b) \<and> answer = merge_answer resp)) span results \<and>
     (\<forall>b. b \<notin> fst ` set span \<longrightarrow> A' b = A b)"

lemma span_answers_Cons:
  assumes "b \<notin> fst ` set span" and "span_answers V (A(b := a)) span results A'"
    and "spec_merge V (span_request share reports) (A b) = Some (resp, a)" and "e = (b, share, reports)"
  shows "span_answers V A (e # span) ((b, merge_answer resp, reports) # results) A'"
proof -
  have "A' b = a" and other: "\<forall>b'. b' \<notin> fst ` set span \<longrightarrow> A' b' = (A(b := a)) b'"
    using assms(1,2) by (auto simp: span_answers_def)
  have "list_all2 (\<lambda>(b, share, reports) (b', answer, reports'). b' = b \<and> reports' = reports \<and>
      (\<exists>resp. spec_merge V (span_request share reports) (A b) = Some (resp, A' b) \<and> answer = merge_answer resp)) span results"
  proof (rule list.rel_mono_strong)
    show "list_all2 (\<lambda>(b', share, reports) (b'', answer, reports'). b'' = b' \<and> reports' = reports \<and>
      (\<exists>resp. spec_merge V (span_request share reports) ((A(b := a)) b') = Some (resp, A' b') \<and> answer = merge_answer resp)) span results"
      using assms(2) by (simp add: span_answers_def)
  next
    fix x y
    assume "x \<in> set span" and "(case x of (b', share, reports) \<Rightarrow> \<lambda>(b'', answer, reports'). b'' = b' \<and> reports' = reports \<and>
      (\<exists>resp. spec_merge V (span_request share reports) ((A(b := a)) b') = Some (resp, A' b') \<and> answer = merge_answer resp)) y"
    moreover from this(1) assms(1) have "fst x \<noteq> b"
      by auto
    ultimately show "(case x of (b, share, reports) \<Rightarrow> \<lambda>(b', answer, reports'). b' = b \<and> reports' = reports \<and>
      (\<exists>resp. spec_merge V (span_request share reports) (A b) = Some (resp, A' b) \<and> answer = merge_answer resp)) y"
      by (auto split: prod.splits)
  qed
  with \<open>A' b = a\<close> other assms(3,4) show ?thesis
    by (auto simp: span_answers_def)
qed

section \<open>The contract\<close>

locale span_store =
  fixes V :: "('v, 'x) prio_vdafs_scheme"
    and good :: "'v VdafAggregateShare \<Rightarrow> bool"
    and put :: "'v DapAggregateShare DapAggregateSpan \<Rightarrow> ((unit, MergeAggShareError) result DapAggregateSpan, DapError, 's) stateful"
    and view :: "'s \<Rightarrow> (DapBatchBucket \<Rightarrow> 'v store_spec) \<Rightarrow> bool"
  assumes put_answers:
    "view s A \<Longrightarrow> \<forall>e \<in> set span. room V good A e \<Longrightarrow> distinct (map fst span) \<Longrightarrow>
     \<exists>results s' A'. put span s = (Ok results, s') \<and> span_answers V A span results A' \<and> view s' A'"

end
