(* ===== verification/App_Laws.thy ===== *)
theory App_Laws
  imports App Kv_Laws Span_Store
begin

text \<open>
  The server's aggregate stores while it reaches them: the operations of \<open>DapAggregator\<close> on the stores of a
  task are those of the specification, bucket by bucket.
\<close>

section \<open>The stores of a task\<close>

definition bucket_name_of :: "'y server_ext_scheme \<Rightarrow> TaskId \<Rightarrow> DapTaskConfig \<Rightarrow> DapBatchBucket \<Rightarrow> string" where
  "bucket_name_of E task_id c = AggregateStore_name E (version c) (task_key E task_id)"

text \<open>The stores of the buckets of a task are in the states \<open>A\<close> of the specification.\<close>

definition task_stores ::
  "('v, 'x) prio_vdafs_scheme \<Rightarrow> ('v VdafAggregateShare \<Rightarrow> bool) \<Rightarrow> 'y server_ext_scheme \<Rightarrow> TaskId \<Rightarrow> DapTaskConfig \<Rightarrow>
   ('v, 'k, 'z) world_scheme \<Rightarrow> (DapBatchBucket \<Rightarrow> 'v store_spec) \<Rightarrow> bool" where
  "task_stores V good E task_id c s A \<longleftrightarrow>
     (\<exists>B. world_coherent V good s B \<and> (\<forall>b. B (bucket_name_of E task_id c b) = A b))"

section \<open>Requests\<close>

context share_storage_laws
begin

lemma store_send_online:
  assumes "hex_laws E" and "online s" and stores: "task_stores V good E task_id c s A"
    and "wf_request V good req" and spec: "spec_handle V req (A b) = Some (resp, a)" and "fits V a"
  shows "\<exists>s'. store_send V F E task_id (version c) req b s = (Ok resp, s') \<and> server_frame s' = server_frame s \<and>
    task_stores V good E task_id c s' (A(b := a))"
proof -
  let ?name = "bucket_name_of E task_id c"
  obtain B where B: "world_coherent V good s B" "\<And>b. B (?name b) = A b"
    using stores by (auto simp: task_stores_def)
  have "spec_handle V req (B (?name b)) = Some (resp, a)"
    using spec by (simp add: B(2))
  from durable_send_connected [OF assms(4,6) _ B(1) this, of "auth_token s"] assms(2) obtain obj where
    run: "durable_send V F (auth_token s) (?name b) req s = (Ok resp,
      s\<lparr>alarms := (alarms s)(?name b \<mapsto> clock s + should_cleanup_at s), objects := (objects s)(?name b := obj)\<rparr>)" (is "_ = (_, ?s')")
    and obj: "coherent V good obj a"
    by (auto simp: online_def)
  have "world_coherent V good ?s' (B(?name b := a))"
    using B(1) obj by (simp add: world_coherent_def)
  moreover have "?name b' = ?name b \<longleftrightarrow> b' = b" for b'
    by (simp add: bucket_name_of_def hex_laws.store_name_inject [OF assms(1)])
  then have "(B(?name b := a)) (?name b') = (A(b := a)) b'" for b'
    using B(2) by simp
  ultimately have "task_stores V good E task_id c ?s' (A(b := a))"
    unfolding task_stores_def by blast
  with run show ?thesis
    by (intro exI [of _ ?s']) (simp add: store_send_def st_then.simps st_get_def bucket_name_of_def server_frame_def)
qed

lemma merge_bucket_online:
  assumes "hex_laws E" and "online s" and "task_stores V good E task_id c s A" and "room V good A (b, share, reports)"
  shows "\<exists>resp a s'. merge_bucket V F E task_id c Enabled (b, share, reports) s = (Ok (b, merge_answer resp, reports), s') \<and>
    spec_merge V (span_request share reports) (A b) = Some (resp, a) \<and> server_frame s' = server_frame s \<and>
    task_stores V good E task_id c s' (A(b := a))"
proof -
  obtain resp a where spec: "spec_merge V (span_request share reports) (A b) = Some (resp, a)" "fits V a"
    and wf: "wf_request V good (Req_Merge (span_request share reports))"
    using assms(4) by (auto simp: room_def)
  then have "spec_handle V (Req_Merge (span_request share reports)) (A b) = Some (Resp_Merge resp, a)"
    by (simp add: spec_handle_def)
  from store_send_online [OF assms(1-3) wf this spec(2)] obtain s' where
    "store_send V F E task_id (version c) (Req_Merge (span_request share reports)) b s = (Ok (Resp_Merge resp), s')"
    "server_frame s' = server_frame s" "task_stores V good E task_id c s' (A(b := a))"
    by blast
  with spec(1) show ?thesis
    by (cases resp) (auto simp: merge_bucket_def span_request_def st_then.simps st_try_def st_return_def
        ReplayProtection_enabled_def)
qed

lemma server_frame_online: "server_frame s' = server_frame s \<Longrightarrow> online s' = online s"
  by (rule online_rest) (simp add: server_frame_def)

lemma merge_buckets_online:
  assumes "hex_laws E" and "online s" and "task_stores V good E task_id c s A" and "\<forall>e \<in> set span. room V good A e"
    and "distinct (map fst span)"
  shows "\<exists>results s' A'. st_map (merge_bucket V F E task_id c Enabled) span s = (Ok results, s') \<and>
    span_answers V A span results A' \<and> server_frame s' = server_frame s \<and> task_stores V good E task_id c s' A'"
  using assms(2-)
proof (induction span arbitrary: s A)
  case Nil
  then show ?case
    by (auto simp: span_answers_def st_return_def)
next
  case (Cons e span)
  obtain b share reports where e: "e = (b, share, reports)"
    by (cases e)
  obtain resp a s1 where first: "merge_bucket V F E task_id c Enabled e s = (Ok (b, merge_answer resp, reports), s1)"
    "spec_merge V (span_request share reports) (A b) = Some (resp, a)" "server_frame s1 = server_frame s"
    "task_stores V good E task_id c s1 (A(b := a))"
    using merge_bucket_online [OF assms(1) Cons.prems(1,2)] Cons.prems(3) e by fastforce
  have "\<forall>e' \<in> set span. room V good (A(b := a)) e'"
    using Cons.prems(3,4) e by (force simp: room_def)
  moreover have "online s1" "distinct (map fst span)"
    using Cons.prems(1,4) server_frame_online [OF first(3)] by simp_all
  ultimately obtain results s' A' where
    rest: "st_map (merge_bucket V F E task_id c Enabled) span s1 = (Ok results, s')"
      "span_answers V (A(b := a)) span results A'" "server_frame s' = server_frame s1"
      "task_stores V good E task_id c s' A'"
    using Cons.IH [OF _ first(4)] by blast
  have "b \<notin> fst ` set span"
    using Cons.prems(4) e by auto
  then have "span_answers V A (e # span) ((b, merge_answer resp, reports) # results) A'"
    using rest(2) first(2) e by (rule span_answers_Cons)
  with first rest show ?case
    by (intro exI [of _ "(b, merge_answer resp, reports) # results"] exI [of _ s'] exI [of _ A'])
      (simp add: st_then.simps st_return_def)
qed

end

end
