(* ===== verification/Spec2Isabelle.thy ===== *)
theory Spec2Isabelle
  imports Wire_Instance Aggregate_Instance Hpke Protocol_Instance Storage_Proxy_Laws Router
    In_Memory_Leader_Laws App_Laws
begin

text \<open>
  A verification development for Daphne, an implementation of the Distributed Aggregation Protocol
  (DAP) in Rust.
\<close>

end
